(* ===== verification/Numbers.thy ===== *)
theory Numbers
  imports Prelude
begin

text \<open>
  Decimal and hexadecimal text of machine integers: Rust's \<open>Display\<close>, \<open>parse::<u64>\<close>
  and \<open>u8::from_str_radix\<close> with the errors of \<open>core::num\<close>, and the printing/parsing
  round trips that the version, digest and header parsers rest on.
\<close>

section \<open>Parsing\<close>

datatype int_error_kind = EmptyDigits | InvalidDigit | PosOverflow

text \<open>The \<open>Display\<close> text of \<open>ParseIntError\<close>.\<close>

fun show_parse_error :: "int_error_kind \<Rightarrow> string" where
  "show_parse_error EmptyDigits = ''cannot parse integer from empty string''"
| "show_parse_error InvalidDigit = ''invalid digit found in string''"
| "show_parse_error PosOverflow = ''number too large to fit in target type''"

definition digit_value :: "nat \<Rightarrow> char \<Rightarrow> nat option" where
  "digit_value radix c =
     (let b = byte_of c;
          v = (if 48 \<le> b \<and> b \<le> 57 then b - 48
               else if 97 \<le> b \<and> b \<le> 122 then b - 87
               else if 65 \<le> b \<and> b \<le> 90 then b - 55 else radix)
      in if v < radix then Some v else None)"

fun parse_digits :: "nat \<Rightarrow> nat \<Rightarrow> nat \<Rightarrow> string \<Rightarrow> int_error_kind + nat" where
  "parse_digits radix bound acc [] = Ok acc"
| "parse_digits radix bound acc (c # cs) =
     (case digit_value radix c of
        None \<Rightarrow> Err InvalidDigit
      | Some d \<Rightarrow> (if acc * radix + d < bound then parse_digits radix bound (acc * radix + d) cs
                  else Err PosOverflow))"

text \<open>An optional leading plus sign is accepted, a lone sign is not.\<close>

definition parse_radix :: "nat \<Rightarrow> nat \<Rightarrow> string \<Rightarrow> int_error_kind + nat" where
  "parse_radix radix bound s =
     (case s of
        [] \<Rightarrow> Err EmptyDigits
      | c # cs \<Rightarrow> (if c = CHR ''+'' then
                     (if cs = [] then Err InvalidDigit else parse_digits radix bound 0 cs)
                   else parse_digits radix bound 0 (c # cs)))"

definition parse_u64 :: "string \<Rightarrow> int_error_kind + u64" where
  "parse_u64 s = (case parse_radix 10 (2 ^ 64) s of Inl e \<Rightarrow> Err e | Inr n \<Rightarrow> Ok (of_nat n))"

definition parse_u32 :: "string \<Rightarrow> int_error_kind + u32" where
  "parse_u32 s = (case parse_radix 10 (2 ^ 32) s of Inl e \<Rightarrow> Err e | Inr n \<Rightarrow> Ok (of_nat n))"

definition parse_u64_ok :: "string \<Rightarrow> u64 option" where
  "parse_u64_ok s = (case parse_u64 s of Inl _ \<Rightarrow> None | Inr n \<Rightarrow> Some n)"

definition parse_hex_u8 :: "string \<Rightarrow> int_error_kind + u8" where
  "parse_hex_u8 s = (case parse_radix 16 256 s of Inl e \<Rightarrow> Err e | Inr n \<Rightarrow> Ok (of_nat n))"

section \<open>Printing\<close>

definition digit_char :: "nat \<Rightarrow> char" where
  "digit_char d = (if d < 10 then char_of (48 + d) else char_of (87 + d))"

fun show_nat :: "nat \<Rightarrow> string" where
  "show_nat n = (if n < 10 then [digit_char n] else show_nat (n div 10) @ [digit_char (n mod 10)])"

declare show_nat.simps [simp del]

definition show_u64 :: "u64 \<Rightarrow> string" where
  "show_u64 w = show_nat (unat w)"

definition show_u32 :: "u32 \<Rightarrow> string" where
  "show_u32 w = show_nat (unat w)"

text \<open>\<open>format!("{b:02x}")\<close>\<close>

definition show_hex_u8 :: "u8 \<Rightarrow> string" where
  "show_hex_u8 b = [digit_char (unat b div 16), digit_char (unat b mod 16)]"

text \<open>\<open>{:?}\<close> of a string or path, exact on ASCII text.\<close>

fun escape_debug :: "char \<Rightarrow> string" where
  "escape_debug c =
     (let n = byte_of c in
      if n = 0 then [CHR 0x5C, CHR ''0'']
      else if n = 9 then [CHR 0x5C, CHR ''t'']
      else if n = 10 then [CHR 0x5C, CHR ''n'']
      else if n = 13 then [CHR 0x5C, CHR ''r'']
      else if n = 34 \<or> n = 92 then [CHR 0x5C, c]
      else if n < 32 \<or> n = 127 then
        [CHR 0x5C] @ ''u{'' @ (if n < 16 then [digit_char n]
                             else [digit_char (n div 16), digit_char (n mod 16)]) @ ''}''
      else [c])"

definition show_debug :: "string \<Rightarrow> string" where
  "show_debug s = CHR 0x22 # concat (map escape_debug s) @ [CHR 0x22]"

section \<open>Round trips\<close>

lemma byte_of_char_of [simp]: "n < 256 \<Longrightarrow> byte_of (char_of n) = n"
  by (simp add: byte_of_def)

lemma byte_of_bound: "byte_of c < 256"
  unfolding byte_of_def by (cases c) (simp add: of_char_Char)

lemma u64_bound: "unat (w :: u64) < 2 ^ 64"
  using unsigned_less [of w, where ?'a = nat] by simp

lemma u32_bound: "unat (w :: u32) < 2 ^ 32"
  using unsigned_less [of w, where ?'a = nat] by simp

lemma u8_bound: "unat (b :: u8) < 256"
  using unsigned_less [of b, where ?'a = nat] by simp

lemma byte_of_digit_char: "d < 16 \<Longrightarrow> byte_of (digit_char d) = (if d < 10 then 48 + d else 87 + d)"
  by (simp add: digit_char_def)

lemma digit_value_digit_char: "d < radix \<Longrightarrow> radix \<le> 16 \<Longrightarrow> digit_value radix (digit_char d) = Some d"
  by (simp add: digit_value_def byte_of_digit_char Let_def)

lemma digit_char_not_sep:
  assumes "d < 16" and "byte_of c < 48 \<or> (57 < byte_of c \<and> byte_of c < 97)"
  shows "digit_char d \<noteq> c"
  using byte_of_digit_char [OF assms(1)] assms by (auto split: if_splits)

lemma parse_digits_append:
  "parse_digits r b acc (xs @ ys) = and_then (parse_digits r b acc xs) (\<lambda>a. parse_digits r b a ys)"
  by (induction r b acc xs rule: parse_digits.induct) (auto split: option.splits)

lemma parse_digits_bound: "acc < b \<Longrightarrow> parse_digits r b acc s = Ok n \<Longrightarrow> n < b"
  by (induction r b acc s rule: parse_digits.induct) (auto split: option.splits if_splits)

lemma parse_radix_bound: "0 < b \<Longrightarrow> parse_radix r b s = Ok n \<Longrightarrow> n < b"
  by (auto simp: parse_radix_def dest: parse_digits_bound [rotated] simp del: parse_digits.simps
    split: list.splits if_splits)

lemma parse_digits_show_nat: "n < b \<Longrightarrow> parse_digits 10 b 0 (show_nat n) = Ok n"
proof (induction n rule: show_nat.induct)
  case (1 n)
  show ?case
  proof (cases "n < 10")
    case True
    then show ?thesis using 1 by (simp add: show_nat.simps [of n] digit_value_digit_char)
  next
    case False
    then have "parse_digits 10 b 0 (show_nat (n div 10)) = Ok (n div 10)"
      using 1 by simp
    then show ?thesis using False 1
      by (simp add: show_nat.simps [of n] parse_digits_append digit_value_digit_char)
  qed
qed

lemma show_nat_digits: "c \<in> set (show_nat n) \<Longrightarrow> is_ascii_digit c"
proof (induction n rule: show_nat.induct)
  case (1 n)
  then show ?case
    by (cases "n < 10")
      (auto simp: show_nat.simps [of n] is_ascii_digit_def byte_of_digit_char)
qed

lemma show_nat_ne [simp]: "show_nat n \<noteq> []"
  by (subst show_nat.simps) simp

lemma digit_not_sep:
  "is_ascii_digit c \<Longrightarrow> c \<noteq> CHR ''.'' \<and> c \<noteq> CHR ''-'' \<and> c \<noteq> CHR ''+'' \<and> c \<noteq> CHR '' '' \<and> \<not> is_ws c"
  by (auto simp: is_ascii_digit_def is_ws_def byte_of_def)

lemma parse_radix_show_nat: "n < b \<Longrightarrow> parse_radix 10 b (show_nat n) = Ok n"
proof -
  assume nb: "n < b"
  obtain c cs where s: "show_nat n = c # cs" by (cases "show_nat n") auto
  then have "c \<noteq> CHR ''+''" using show_nat_digits [of c n] digit_not_sep by auto
  then show ?thesis using parse_digits_show_nat [OF nb] s by (simp add: parse_radix_def)
qed

theorem parse_show_u64 [simp]: "parse_u64 (show_u64 w) = Ok w"
proof -
  from parse_radix_show_nat [OF u64_bound [of w]] show ?thesis
    by (simp add: parse_u64_def show_u64_def)
qed

lemma show_u64_chars: "c \<in> set (show_u64 w) \<Longrightarrow> is_ascii_digit c"
  by (simp add: show_u64_def show_nat_digits)

lemma show_u64_no_dot [simp]: "CHR ''.'' \<notin> set (show_u64 w)" "CHR ''-'' \<notin> set (show_u64 w)"
  by (auto dest!: show_u64_chars dest: digit_not_sep)

lemma show_u64_ne [simp]: "show_u64 w \<noteq> []"
  by (simp add: show_u64_def)

lemma show_nat_inj: "show_nat m = show_nat n \<Longrightarrow> m = n"
proof -
  assume eq: "show_nat m = show_nat n"
  have "parse_radix 10 (Suc (max m n)) (show_nat m) = Ok m"
    by (rule parse_radix_show_nat) simp
  moreover have "parse_radix 10 (Suc (max m n)) (show_nat n) = Ok n"
    by (rule parse_radix_show_nat) simp
  ultimately have "(Ok m :: int_error_kind + nat) = Ok n" unfolding eq by (rule trans [OF sym])
  then show ?thesis by simp
qed

lemma unat_hex_digits: "unat (b :: u8) div 16 < 16" "unat (b :: u8) mod 16 < 16"
  using u8_bound [of b] by auto

theorem parse_show_hex_u8 [simp]: "parse_hex_u8 (show_hex_u8 b) = Ok b"
proof -
  have d: "digit_value 16 (digit_char (unat b div 16)) = Some (unat b div 16)"
    "digit_value 16 (digit_char (unat b mod 16)) = Some (unat b mod 16)"
    using unat_hex_digits [of b] by (auto intro!: digit_value_digit_char)
  have "digit_char (unat b div 16) \<noteq> CHR ''+''"
    by (rule digit_char_not_sep) (use unat_hex_digits [of b] in \<open>auto simp: byte_of_def\<close>)
  moreover have "unat b div 16 * 16 + unat b mod 16 = unat b" by simp
  moreover have "unat b < 256" "unat b div 16 < 256" using u8_bound [of b] by auto
  ultimately show ?thesis
    using d by (simp add: parse_hex_u8_def parse_radix_def show_hex_u8_def)
qed

lemma show_hex_u8_length [simp]: "length (show_hex_u8 b) = 2"
  by (simp add: show_hex_u8_def)

lemma show_hex_u8_inj: "show_hex_u8 a = show_hex_u8 b \<Longrightarrow> a = b"
  by (metis parse_show_hex_u8 sum.inject(2))

lemma show_hex_u8_chars: "c \<in> set (show_hex_u8 b) \<Longrightarrow> is_ascii_hexdigit c"
proof -
  assume "c \<in> set (show_hex_u8 b)"
  then obtain d where d: "c = digit_char d" "d < 16"
    using unat_hex_digits [of b] by (auto simp: show_hex_u8_def)
  then show ?thesis
    by (auto simp: is_ascii_hexdigit_def is_ascii_digit_def byte_of_digit_char)
qed


text \<open>Rewrites that evaluate the string routines and parsers on concrete text.\<close>

lemmas string_eval =
  trim_def trim_start_def trim_end_def is_ws_def ends_with_def to_lowercase_def
  to_lower_char_def eq_ignore_ascii_case_def byte_of_def Let_def
  is_ascii_digit_def is_ascii_alpha_def is_ascii_alphanumeric_def is_ascii_hexdigit_def

lemmas parse_eval =
  string_eval parse_u64_def parse_u32_def parse_u64_ok_def parse_hex_u8_def parse_radix_def
  digit_value_def

lemmas show_eval =
  show_u64_def show_u32_def show_hex_u8_def digit_char_def show_nat.simps

end
