(* ===== verification/Orderings_Rust.thy ===== *)
theory Orderings_Rust
  imports Prelude
begin

text \<open>
  Rust's \<open>std::cmp::Ordering\<close>, the comparisons of the primitive types, and the
  interface of an \<open>Ord\<close> implementation: a comparison function that is a total
  preorder (enough for \<open>max_by\<close>) or a total order. \<open>max_by\<close> and the stable
  descending sort used by the services are proved correct once, inside the
  interface.
\<close>

datatype ordering = Less | Equal | Greater

fun reverse_ord :: "ordering \<Rightarrow> ordering" where
  "reverse_ord Less = Greater"
| "reverse_ord Equal = Equal"
| "reverse_ord Greater = Less"

text \<open>The \<open>match cmp { Equal => {} , ord => return ord }\<close> chain.\<close>

definition then_cmp :: "ordering \<Rightarrow> ordering \<Rightarrow> ordering" where
  "then_cmp a b = (if a = Equal then b else a)"

definition cmp_lin :: "'a::linorder \<Rightarrow> 'a \<Rightarrow> ordering" where
  "cmp_lin a b = (if a < b then Less else if a = b then Equal else Greater)"

text \<open>\<open>String\<close> compares bytewise, the shorter prefix first.\<close>

fun cmp_str :: "string \<Rightarrow> string \<Rightarrow> ordering" where
  "cmp_str [] [] = Equal"
| "cmp_str [] (_ # _) = Less"
| "cmp_str (_ # _) [] = Greater"
| "cmp_str (a # as) (b # bs) =
     (if byte_of a < byte_of b then Less
      else if byte_of b < byte_of a then Greater else cmp_str as bs)"

text \<open>\<open>Option\<close>: \<open>None\<close> is below every \<open>Some\<close>.\<close>

fun cmp_option :: "('a \<Rightarrow> 'a \<Rightarrow> ordering) \<Rightarrow> 'a option \<Rightarrow> 'a option \<Rightarrow> ordering" where
  "cmp_option c None None = Equal"
| "cmp_option c None (Some _) = Less"
| "cmp_option c (Some _) None = Greater"
| "cmp_option c (Some a) (Some b) = c a b"

text \<open>\<open>Iterator::max_by\<close> keeps the later of two equal elements.\<close>

fun max_by_from :: "('a \<Rightarrow> 'a \<Rightarrow> ordering) \<Rightarrow> 'a \<Rightarrow> 'a list \<Rightarrow> 'a" where
  "max_by_from c m [] = m"
| "max_by_from c m (x # xs) = max_by_from c (if c m x = Greater then m else x) xs"

fun max_by :: "('a \<Rightarrow> 'a \<Rightarrow> ordering) \<Rightarrow> 'a list \<Rightarrow> 'a option" where
  "max_by c [] = None"
| "max_by c (x # xs) = Some (max_by_from c x xs)"

text \<open>A stable sort by a comparison, as \<open>sort_by\<close>.\<close>

fun insert_by :: "('a \<Rightarrow> 'a \<Rightarrow> ordering) \<Rightarrow> 'a \<Rightarrow> 'a list \<Rightarrow> 'a list" where
  "insert_by cmp x [] = [x]"
| "insert_by cmp x (y # ys) = (if cmp x y = Greater then y # insert_by cmp x ys else x # y # ys)"

definition sort_by :: "('a \<Rightarrow> 'a \<Rightarrow> ordering) \<Rightarrow> 'a list \<Rightarrow> 'a list" where
  "sort_by cmp xs = foldr (insert_by cmp) xs []"

lemma set_insert_by [simp]: "set (insert_by cmp x xs) = insert x (set xs)"
  by (induction xs) auto

lemma set_sort_by [simp]: "set (sort_by cmp xs) = set xs"
  unfolding sort_by_def by (induction xs) auto

lemma reverse_ord_twice [simp]: "reverse_ord (reverse_ord x) = x"
  by (cases x) auto

lemma reverse_ord_eq [simp]:
  "reverse_ord x = Equal \<longleftrightarrow> x = Equal" "reverse_ord x = Less \<longleftrightarrow> x = Greater"
  "reverse_ord x = Greater \<longleftrightarrow> x = Less"
  by (cases x; auto)+

lemma then_cmp_simps [simp]:
  "then_cmp Equal b = b" "then_cmp Less b = Less" "then_cmp Greater b = Greater"
  by (simp_all add: then_cmp_def)

lemma then_cmp_reverse: "reverse_ord (then_cmp a b) = then_cmp (reverse_ord a) (reverse_ord b)"
  by (cases a) auto

section \<open>The comparison interface\<close>

locale preorder_cmp =
  fixes cmp :: "'a \<Rightarrow> 'a \<Rightarrow> ordering"
  assumes cmp_sym: "cmp y x = reverse_ord (cmp x y)"
    and cmp_trans: "cmp x y \<noteq> Greater \<Longrightarrow> cmp y z \<noteq> Greater \<Longrightarrow> cmp x z \<noteq> Greater"
begin

lemma cmp_refl [simp]: "cmp x x = Equal"
  using cmp_sym [of x x] by (cases "cmp x x") auto

lemma cmp_not_Greater_iff: "cmp x y \<noteq> Greater \<longleftrightarrow> cmp y x \<noteq> Less"
  using cmp_sym [of y x] by (cases "cmp x y") auto

lemma max_by_from_in: "max_by_from cmp m xs \<in> insert m (set xs)"
proof (induction xs arbitrary: m)
  case (Cons x xs)
  show ?case using Cons.IH [of "if cmp m x = Greater then m else x"] by (auto split: if_splits)
qed simp

lemma max_by_from_ub: "y \<in> insert m (set xs) \<Longrightarrow> cmp y (max_by_from cmp m xs) \<noteq> Greater"
proof (induction xs arbitrary: m y)
  case Nil
  then show ?case by simp
next
  case (Cons x xs)
  let ?m = "if cmp m x = Greater then m else x"
  have ub: "cmp ?m (max_by_from cmp ?m xs) \<noteq> Greater"
    by (rule Cons.IH) simp
  have le: "cmp m ?m \<noteq> Greater" "cmp x ?m \<noteq> Greater"
    using cmp_sym [of x m] by auto
  show ?case
  proof (cases "y \<in> set xs")
    case True
    then show ?thesis using Cons.IH [of y ?m] by simp
  next
    case False
    then have "cmp y ?m \<noteq> Greater" using Cons.prems le by auto
    from cmp_trans [OF this ub] show ?thesis by simp
  qed
qed

lemma max_by_Some_in: "max_by cmp xs = Some m \<Longrightarrow> m \<in> set xs"
  using max_by_from_in by (cases xs) force+

lemma max_by_ub: "max_by cmp xs = Some m \<Longrightarrow> y \<in> set xs \<Longrightarrow> cmp y m \<noteq> Greater"
  using max_by_from_ub by (cases xs) force+

lemma max_by_None [simp]: "max_by cmp xs = None \<longleftrightarrow> xs = []"
  by (cases xs) auto

lemma lift_preorder: "cmp (f y) (f x) = reverse_ord (cmp (f x) (f y))"
  by (rule cmp_sym)

end

locale total_cmp = preorder_cmp cmp for cmp :: "'a \<Rightarrow> 'a \<Rightarrow> ordering" +
  assumes cmp_eq: "cmp x y = Equal \<Longrightarrow> x = y"
begin

lemma cmp_Equal_iff [simp]: "cmp x y = Equal \<longleftrightarrow> x = y"
  using cmp_eq by auto

lemma cmp_antisym: "cmp x y \<noteq> Greater \<Longrightarrow> cmp y x \<noteq> Greater \<Longrightarrow> x = y"
  using cmp_sym [of y x] by (cases "cmp x y") auto

lemma cmp_less_trans: "cmp x y = Less \<Longrightarrow> cmp y z = Less \<Longrightarrow> cmp x z = Less"
proof -
  assume l: "cmp x y = Less" "cmp y z = Less"
  then have "cmp x z \<noteq> Greater" using cmp_trans [of x y z] by simp
  moreover have "cmp x z \<noteq> Equal" using l cmp_sym [of z y] by auto
  ultimately show ?thesis by (cases "cmp x z") auto
qed

text \<open>A total order decides the maximum of a set, whatever the list order.\<close>

lemma max_by_set_eq:
  assumes "set xs = set ys" shows "max_by cmp xs = max_by cmp ys"
proof (cases "max_by cmp xs")
  case None
  then have "ys = []" using assms by simp
  with None show ?thesis by simp
next
  case (Some m)
  then have "ys \<noteq> []" using assms max_by_Some_in by force
  then obtain n where n: "max_by cmp ys = Some n" by (cases "max_by cmp ys") auto
  have "cmp m n \<noteq> Greater" "cmp n m \<noteq> Greater"
    using Some n assms max_by_ub max_by_Some_in by blast+
  then show ?thesis using Some n cmp_antisym by auto
qed

end

text \<open>Lexicographic combination and inverse images of comparisons stay preorders.\<close>

lemma preorder_cmp_inv_image: "preorder_cmp c \<Longrightarrow> preorder_cmp (\<lambda>x y. c (f x) (f y))"
  unfolding preorder_cmp_def by blast

lemma preorder_cmp_reverse: "preorder_cmp c \<Longrightarrow> preorder_cmp (\<lambda>x y. reverse_ord (c x y))"
proof (unfold_locales, goal_cases)
  case (1 y x)
  then show ?case using preorder_cmp.cmp_sym [of c y x] by simp
next
  case (2 x y z)
  have flip: "reverse_ord (c u v) = c v u" for u v
    using preorder_cmp.cmp_sym [OF 2(1), of v u] by simp
  show ?case using 2 preorder_cmp.cmp_trans [OF 2(1), of z y x] by (simp add: flip)
qed

lemma preorder_cmp_then:
  assumes a: "preorder_cmp a" and b: "preorder_cmp b"
  shows "preorder_cmp (\<lambda>x y. then_cmp (a x y) (b x y))"
proof (unfold_locales, goal_cases)
  case (1 y x)
  show ?case
    using preorder_cmp.cmp_sym [OF a, of y x] preorder_cmp.cmp_sym [OF b, of y x]
    by (simp add: then_cmp_reverse)
next
  case (2 x y z)
  have axy: "a x y \<noteq> Greater" and ayz: "a y z \<noteq> Greater"
    using 2 by (auto simp: then_cmp_def split: if_splits)
  have axz: "a x z \<noteq> Greater" by (rule preorder_cmp.cmp_trans [OF a axy ayz])
  show ?case
  proof (cases "a x z = Equal")
    case True
    then have zx: "a z x \<noteq> Greater" using preorder_cmp.cmp_sym [OF a, of z x] by simp
    have "a y x \<noteq> Greater" "a z y \<noteq> Greater"
      using preorder_cmp.cmp_trans [OF a ayz zx] preorder_cmp.cmp_trans [OF a zx axy] by auto
    then have "a x y = Equal" "a y z = Equal"
      using axy ayz preorder_cmp.cmp_sym [OF a, of y x] preorder_cmp.cmp_sym [OF a, of z y]
      by (cases "a x y"; cases "a y z"; simp)+
    then show ?thesis using 2 True preorder_cmp.cmp_trans [OF b] by simp
  next
    case False
    then show ?thesis using axz by (simp add: then_cmp_def)
  qed
qed

section \<open>The primitive comparisons implement the interface\<close>

lemma total_cmp_lin: "total_cmp (cmp_lin :: 'a::linorder \<Rightarrow> _)"
  by unfold_locales (auto simp: cmp_lin_def split: if_splits)

interpretation u64_ord: total_cmp "cmp_lin :: u64 \<Rightarrow> u64 \<Rightarrow> ordering"
  by (rule total_cmp_lin)

interpretation nat_ord: total_cmp "cmp_lin :: nat \<Rightarrow> nat \<Rightarrow> ordering"
  by (rule total_cmp_lin)

lemma byte_of_inj: "byte_of a = byte_of b \<longleftrightarrow> a = b"
  by (simp add: byte_of_def)

lemma cmp_str_sym: "cmp_str b a = reverse_ord (cmp_str a b)"
  by (induction a b rule: cmp_str.induct) auto

lemma cmp_str_eq: "cmp_str a b = Equal \<Longrightarrow> a = b"
  by (induction a b rule: cmp_str.induct)
    (auto split: if_splits simp: byte_of_inj [symmetric])

lemma cmp_str_trans:
  "cmp_str a b \<noteq> Greater \<Longrightarrow> cmp_str b c \<noteq> Greater \<Longrightarrow> cmp_str a c \<noteq> Greater"
proof (induction a b arbitrary: c rule: cmp_str.induct)
  case 1 then show ?case by simp
next
  case (2 y ys) then show ?case by (cases c) auto
next
  case (3 x xs) then show ?case by simp
next
  case (4 x xs y ys)
  show ?case
  proof (cases c)
    case Nil
    then show ?thesis using 4 by simp
  next
    case (Cons z zs)
    have le: "byte_of x \<le> byte_of y" "byte_of y \<le> byte_of z"
      using "4.prems" Cons by (auto split: if_splits)
    have "cmp_str xs zs \<noteq> Greater" if "byte_of x = byte_of z"
    proof (rule "4.IH" [of zs])
      show "\<not> byte_of x < byte_of y" "\<not> byte_of y < byte_of x" using le that by auto
      show "cmp_str xs ys \<noteq> Greater" "cmp_str ys zs \<noteq> Greater"
        using "4.prems" le that Cons by auto
    qed
    then show ?thesis using Cons le by simp
  qed
qed

interpretation str_ord: total_cmp cmp_str
proof (unfold_locales, goal_cases)
  case (1 y x) then show ?case by (rule cmp_str_sym)
next
  case (2 x y z) then show ?case by (rule cmp_str_trans)
next
  case (3 x y) then show ?case by (rule cmp_str_eq)
qed

lemma preorder_cmp_option:
  assumes "preorder_cmp c" shows "preorder_cmp (cmp_option c)"
proof (unfold_locales, goal_cases)
  case (1 y x)
  show ?case by (cases x; cases y) (auto intro: preorder_cmp.cmp_sym [OF assms])
next
  case (2 x y z)
  then show ?case
    by (cases x; cases y; cases z) (auto intro: preorder_cmp.cmp_trans [OF assms, THEN notE])
qed

fun cmp_list :: "('a \<Rightarrow> 'a \<Rightarrow> ordering) \<Rightarrow> 'a list \<Rightarrow> 'a list \<Rightarrow> ordering" where
  "cmp_list c [] [] = Equal"
| "cmp_list c [] (_ # _) = Less"
| "cmp_list c (_ # _) [] = Greater"
| "cmp_list c (a # as) (b # bs) = then_cmp (c a b) (cmp_list c as bs)"

lemma preorder_cmp_list:
  assumes c: "preorder_cmp c" shows "preorder_cmp (cmp_list c)"
proof (unfold_locales, goal_cases)
  case (1 y x)
  show ?case
  proof (induction x arbitrary: y)
    case Nil
    then show ?case by (cases y) simp_all
  next
    case (Cons a as)
    then show ?case
      by (cases y) (simp_all add: then_cmp_reverse preorder_cmp.cmp_sym [OF c, of _ a])
  qed
next
  case (2 x y z)
  note prems = 2
  have step: "preorder_cmp (\<lambda>p q. then_cmp (c (fst p) (fst q)) (f (snd p) (snd q)))"
    if "preorder_cmp f" for f :: "'b \<Rightarrow> 'b \<Rightarrow> ordering"
    by (intro preorder_cmp_then preorder_cmp_inv_image [OF c] preorder_cmp_inv_image [OF that])
  show ?case using prems
  proof (induction x arbitrary: y z)
    case Nil
    then show ?case by (cases y; cases z) auto
  next
    case (Cons a as)
    then obtain b bs where y: "y = b # bs" by (cases y) auto
    with Cons obtain d ds where z: "z = d # ds" by (cases z) auto
    have ab: "c a b \<noteq> Greater" and bd: "c b d \<noteq> Greater"
      using Cons.prems y z by (auto simp: then_cmp_def split: if_splits)
    have ad: "c a d \<noteq> Greater" by (rule preorder_cmp.cmp_trans [OF c ab bd])
    show ?case
    proof (cases "c a d = Equal")
      case True
      then have da: "c d a \<noteq> Greater" using preorder_cmp.cmp_sym [OF c, of d a] by simp
      have "c b a \<noteq> Greater" "c d b \<noteq> Greater"
        using preorder_cmp.cmp_trans [OF c bd da] preorder_cmp.cmp_trans [OF c da ab] by auto
      then have "c a b = Equal" "c b d = Equal"
        using ab bd preorder_cmp.cmp_sym [OF c, of b a] preorder_cmp.cmp_sym [OF c, of d b]
        by (cases "c a b"; cases "c b d"; simp)+
      then show ?thesis using Cons True y z by simp
    next
      case False
      then show ?thesis using ad y z by (simp add: then_cmp_def)
    qed
  qed
qed

lemma cmp_list_Equal: "cmp_list c as bs = Equal \<longleftrightarrow> list_all2 (\<lambda>a b. c a b = Equal) as bs"
  by (induction c as bs rule: cmp_list.induct) (auto simp: then_cmp_def)

end
