(* ===== verification/Errors.thy ===== *)
theory Errors
  imports Prelude Numbers
begin

text \<open>
  The error values: \<open>mission_core::ErrorCode\<close> and \<open>Error\<close> with their IPC numbers and
  texts, and driverd's \<open>ServiceError\<close> with its mapping to them (error.rs of both
  crates). Every operation of the development returns one of these as \<open>Inl\<close>.
\<close>

section \<open>mission-core errors\<close>

datatype error_code =
    EC_PermissionDenied | EC_InvalidArgument | EC_NotFound | EC_AlreadyExists | EC_Busy
  | EC_InternalError | EC_Timeout | EC_NotSupported | EC_DiskFull | EC_NetworkRequired
  | EC_ConfigError | EC_IoError | EC_Cancelled

fun error_code_num :: "error_code \<Rightarrow> nat" where
  "error_code_num EC_PermissionDenied = 100"
| "error_code_num EC_InvalidArgument = 101"
| "error_code_num EC_NotFound = 102"
| "error_code_num EC_AlreadyExists = 103"
| "error_code_num EC_Busy = 104"
| "error_code_num EC_InternalError = 105"
| "error_code_num EC_Timeout = 106"
| "error_code_num EC_NotSupported = 107"
| "error_code_num EC_DiskFull = 108"
| "error_code_num EC_NetworkRequired = 109"
| "error_code_num EC_ConfigError = 110"
| "error_code_num EC_IoError = 111"
| "error_code_num EC_Cancelled = 112"

fun error_code_description :: "error_code \<Rightarrow> string" where
  "error_code_description EC_PermissionDenied = ''permission denied''"
| "error_code_description EC_InvalidArgument = ''invalid argument''"
| "error_code_description EC_NotFound = ''not found''"
| "error_code_description EC_AlreadyExists = ''already exists''"
| "error_code_description EC_Busy = ''busy''"
| "error_code_description EC_InternalError = ''internal error''"
| "error_code_description EC_Timeout = ''timeout''"
| "error_code_description EC_NotSupported = ''not supported''"
| "error_code_description EC_DiskFull = ''disk full''"
| "error_code_description EC_NetworkRequired = ''network required''"
| "error_code_description EC_ConfigError = ''configuration error''"
| "error_code_description EC_IoError = ''I/O error''"
| "error_code_description EC_Cancelled = ''cancelled''"

definition show_error_code :: "error_code \<Rightarrow> string" where
  "show_error_code c = error_code_description c @ '' ('' @ show_nat (error_code_num c) @ '')''"

text \<open>The source error of the chain is kept as its \<open>Display\<close> text.\<close>

record core_error =
  ce_code :: error_code
  ce_message :: string
  ce_source :: "string option"

definition core_error_new :: "error_code \<Rightarrow> string \<Rightarrow> core_error" where
  "core_error_new c m = \<lparr>ce_code = c, ce_message = m, ce_source = None\<rparr>"

definition core_error_with_source :: "error_code \<Rightarrow> string \<Rightarrow> string \<Rightarrow> core_error" where
  "core_error_with_source c m src = \<lparr>ce_code = c, ce_message = m, ce_source = Some src\<rparr>"

definition show_core_error :: "core_error \<Rightarrow> string" where
  "show_core_error e =
     error_code_description (ce_code e) @ '': '' @ ce_message e @
     (case ce_source e of None \<Rightarrow> '''' | Some src \<Rightarrow> '' ('' @ src @ '')'')"

datatype io_error_kind =
    IoNotFound | IoPermissionDenied | IoAlreadyExists | IoTimedOut | IoStorageFull
  | IoInterrupted | IoOther

text \<open>\<open>From<std::io::Error>\<close>: the kind decides the code, the text becomes the source.\<close>

definition core_error_from_io :: "io_error_kind \<Rightarrow> string \<Rightarrow> core_error" where
  "core_error_from_io k txt =
     core_error_with_source
       (case k of
          IoNotFound \<Rightarrow> EC_NotFound
        | IoPermissionDenied \<Rightarrow> EC_PermissionDenied
        | IoAlreadyExists \<Rightarrow> EC_AlreadyExists
        | IoTimedOut \<Rightarrow> EC_Timeout
        | IoStorageFull \<Rightarrow> EC_DiskFull
        | IoInterrupted \<Rightarrow> EC_Cancelled
        | IoOther \<Rightarrow> EC_IoError)
       ''I/O operation failed'' txt"

definition core_error_from_json :: "string \<Rightarrow> core_error" where
  "core_error_from_json txt =
     core_error_with_source EC_ConfigError ''JSON serialization error'' txt"

definition core_error_from_boxed :: "string \<Rightarrow> core_error" where
  "core_error_from_boxed txt =
     core_error_with_source EC_InternalError ''an unexpected error occurred'' txt"

section \<open>driverd service errors\<close>

datatype service_error =
    PermissionDenied string | InvalidArgument string | NotFound string | AlreadyExists string
  | Internal string | NotSupported string | BackendUnavailable string | Busy string
  | Conflict string | VerificationFailed string | RollbackFailed string | PackageError string
  | DownloadFailed string | SourceError string | MetadataError string | DowngradeRejected string

type_synonym 'a result = "service_error + 'a"

fun show_service_error :: "service_error \<Rightarrow> string" where
  "show_service_error (PermissionDenied m) = ''permission denied: '' @ m"
| "show_service_error (InvalidArgument m) = ''invalid argument: '' @ m"
| "show_service_error (NotFound m) = ''not found: '' @ m"
| "show_service_error (AlreadyExists m) = ''already exists: '' @ m"
| "show_service_error (Internal m) = ''internal error: '' @ m"
| "show_service_error (NotSupported m) = ''not supported: '' @ m"
| "show_service_error (BackendUnavailable m) = ''backend unavailable: '' @ m"
| "show_service_error (Busy m) = ''busy: '' @ m"
| "show_service_error (Conflict m) = ''conflict: '' @ m"
| "show_service_error (VerificationFailed m) = ''verification failed: '' @ m"
| "show_service_error (RollbackFailed m) = ''rollback failed: '' @ m"
| "show_service_error (PackageError m) = ''package error: '' @ m"
| "show_service_error (DownloadFailed m) = ''download failed: '' @ m"
| "show_service_error (SourceError m) = ''source error: '' @ m"
| "show_service_error (MetadataError m) = ''metadata error: '' @ m"
| "show_service_error (DowngradeRejected m) = ''downgrade rejected: '' @ m"

fun service_error_code :: "service_error \<Rightarrow> error_code" where
  "service_error_code (PermissionDenied _) = EC_PermissionDenied"
| "service_error_code (InvalidArgument _) = EC_InvalidArgument"
| "service_error_code (NotFound _) = EC_NotFound"
| "service_error_code (AlreadyExists _) = EC_AlreadyExists"
| "service_error_code (Internal _) = EC_InternalError"
| "service_error_code (NotSupported _) = EC_NotSupported"
| "service_error_code (BackendUnavailable _) = EC_Busy"
| "service_error_code (Busy _) = EC_Busy"
| "service_error_code (Conflict _) = EC_InvalidArgument"
| "service_error_code (VerificationFailed _) = EC_PermissionDenied"
| "service_error_code (RollbackFailed _) = EC_InternalError"
| "service_error_code (PackageError _) = EC_InvalidArgument"
| "service_error_code (DownloadFailed _) = EC_NetworkRequired"
| "service_error_code (SourceError _) = EC_InvalidArgument"
| "service_error_code (MetadataError _) = EC_InvalidArgument"
| "service_error_code (DowngradeRejected _) = EC_InvalidArgument"

definition core_error_of_service :: "service_error \<Rightarrow> core_error" where
  "core_error_of_service e = core_error_new (service_error_code e) (show_service_error e)"

definition service_error_of_core :: "core_error \<Rightarrow> service_error" where
  "service_error_of_core e = Internal (''core error: '' @ ce_message e)"

lemma error_code_num_range: "100 \<le> error_code_num c \<and> error_code_num c \<le> 112"
  by (cases c) auto

lemma error_code_num_inj: "error_code_num c = error_code_num d \<Longrightarrow> c = d"
  by (cases c; cases d) auto

lemma error_code_description_inj: "error_code_description c = error_code_description d \<Longrightarrow> c = d"
  by (cases c; cases d) auto

lemma permission_denied_code_iff:
  "service_error_code e = EC_PermissionDenied \<longleftrightarrow>
     (\<exists>m. e = PermissionDenied m \<or> e = VerificationFailed m)"
  by (cases e) auto

end
