(* ===== verification/Audit_Trail.thy ===== *)
theory Audit_Trail
  imports Errors
begin

text \<open>
  The audit trail of driverd (audit.rs): events, their severities and the backend,
  which only ever appends. A clock reading is an argument of the constructor. The
  JSON rendering is serde's and is not modelled; a backend is its list of events.
\<close>

datatype event_category =
    DriverInstall | DriverUpdate | DriverRemove | DriverVerification | HardwareDetection
  | Authorization | Configuration | System | Source | Download | Integrity

fun show_event_category :: "event_category \<Rightarrow> string" where
  "show_event_category DriverInstall = ''driver_install''"
| "show_event_category DriverUpdate = ''driver_update''"
| "show_event_category DriverRemove = ''driver_remove''"
| "show_event_category DriverVerification = ''driver_verification''"
| "show_event_category HardwareDetection = ''hardware_detection''"
| "show_event_category Authorization = ''authorization''"
| "show_event_category Configuration = ''configuration''"
| "show_event_category System = ''system''"
| "show_event_category Source = ''source''"
| "show_event_category Download = ''download''"
| "show_event_category Integrity = ''integrity''"

datatype event_severity = SevDebug | SevInfo | SevWarning | SevError | SevCritical

fun show_event_severity :: "event_severity \<Rightarrow> string" where
  "show_event_severity SevDebug = ''debug''"
| "show_event_severity SevInfo = ''info''"
| "show_event_severity SevWarning = ''warning''"
| "show_event_severity SevError = ''error''"
| "show_event_severity SevCritical = ''critical''"

text \<open>The derived \<open>Ord\<close> follows the order of the constructors.\<close>

fun severity_rank :: "event_severity \<Rightarrow> nat" where
  "severity_rank SevDebug = 0"
| "severity_rank SevInfo = 1"
| "severity_rank SevWarning = 2"
| "severity_rank SevError = 3"
| "severity_rank SevCritical = 4"

lemma severity_rank_inj: "severity_rank a = severity_rank b \<Longrightarrow> a = b"
  by (cases a; cases b) auto

instantiation event_severity :: linorder
begin
definition less_eq_event_severity where
  "(a :: event_severity) \<le> b \<longleftrightarrow> severity_rank a \<le> severity_rank b"
definition less_event_severity where
  "(a :: event_severity) < b \<longleftrightarrow> severity_rank a < severity_rank b"
instance
  by standard (auto simp: less_eq_event_severity_def less_event_severity_def severity_rank_inj)
end

record audit_event =
  ev_timestamp :: u64
  ev_category :: event_category
  ev_severity :: event_severity
  ev_action :: string
  ev_subject :: string
  ev_details :: string
  ev_correlation_id :: "string option"

definition audit_event_new ::
  "u64 \<Rightarrow> event_category \<Rightarrow> event_severity \<Rightarrow> string \<Rightarrow> string \<Rightarrow> string \<Rightarrow> audit_event" where
  "audit_event_new now cat sev act subj det =
     \<lparr>ev_timestamp = now, ev_category = cat, ev_severity = sev, ev_action = act,
      ev_subject = subj, ev_details = det, ev_correlation_id = None\<rparr>"

definition with_correlation :: "audit_event \<Rightarrow> string \<Rightarrow> audit_event" where
  "with_correlation e i = e\<lparr>ev_correlation_id := Some i\<rparr>"

type_synonym audit_log = "audit_event list"

definition record_event :: "audit_event \<Rightarrow> audit_log \<Rightarrow> audit_log" where
  "record_event e l = l @ [e]"

text \<open>The level a \<open>LoggingAuditBackend\<close> hands to the core logger.\<close>

datatype log_level = LError | LWarn | LInfo | LDebug | LTrace

fun audit_log_level :: "event_severity \<Rightarrow> log_level" where
  "audit_log_level SevCritical = LError"
| "audit_log_level SevError = LError"
| "audit_log_level SevWarning = LWarn"
| "audit_log_level SevInfo = LInfo"
| "audit_log_level SevDebug = LDebug"

section \<open>Append-only logs\<close>

definition log_extends :: "audit_log \<Rightarrow> audit_log \<Rightarrow> bool" where
  "log_extends l l' = (\<exists>evs. l' = l @ evs)"

named_theorems log_intros "facts about append-only logs"

lemma log_extends_refl [simp, log_intros]: "log_extends l l"
  by (simp add: log_extends_def)

lemma log_extends_trans: "log_extends a b \<Longrightarrow> log_extends b c \<Longrightarrow> log_extends a c"
  by (auto simp: log_extends_def)

lemma log_extends_record [simp, log_intros]: "log_extends l (record_event e l)"
  by (simp add: log_extends_def record_event_def)

lemma log_extends_record_step [log_intros]: "log_extends a b \<Longrightarrow> log_extends a (record_event e b)"
  by (auto simp: log_extends_def record_event_def)

lemma log_extends_keeps: "log_extends l l' \<Longrightarrow> set l \<subseteq> set l'"
  by (auto simp: log_extends_def)

lemma record_event_last [simp]: "last (record_event e l) = e" "record_event e l \<noteq> []"
  by (simp_all add: record_event_def)

lemma length_record_event [simp]: "length (record_event e l) = Suc (length l)"
  by (simp add: record_event_def)

lemma audit_event_new_simps [simp]:
  "ev_category (audit_event_new n c s a u d) = c" "ev_severity (audit_event_new n c s a u d) = s"
  "ev_action (audit_event_new n c s a u d) = a" "ev_subject (audit_event_new n c s a u d) = u"
  "ev_details (audit_event_new n c s a u d) = d" "ev_timestamp (audit_event_new n c s a u d) = n"
  by (simp_all add: audit_event_new_def)

text \<open>No severity is logged at a lower level than a milder one.\<close>

fun level_rank :: "log_level \<Rightarrow> nat" where
  "level_rank LError = 0" | "level_rank LWarn = 1" | "level_rank LInfo = 2"
| "level_rank LDebug = 3" | "level_rank LTrace = 4"

lemma audit_log_level_mono:
  "a \<le> b \<Longrightarrow> level_rank (audit_log_level b) \<le> level_rank (audit_log_level a)"
  by (cases a; cases b) (auto simp: less_eq_event_severity_def)

end
