(* ===== verification/Authz.thy ===== *)
theory Authz
  imports Audit_Trail
begin

text \<open>
  The authorization boundary of driverd: the actions (authz.rs), the PolKit client
  (polkit.rs) and the \<open>Authorizer\<close> that combines the read-only rule, the development
  bypass and PolKit, and denies when it cannot decide. The PolKit daemon is the
  argument \<open>conn\<close>: what it answers to a \<open>CheckAuthorization\<close> message. Whether a tokio
  runtime is present is the argument \<open>rt\<close> of the synchronous path.
\<close>

section \<open>Actions\<close>

datatype driver_action =
    ViewStatus | ListDrivers | QueryDriver | CheckCompatibility | InstallDriver
  | UpdateDriver | RemoveDriver | ConfigureSources | ScanHardware

fun action_id :: "driver_action \<Rightarrow> string" where
  "action_id ViewStatus = ''org.mission.driver.view-status''"
| "action_id ListDrivers = ''org.mission.driver.list-drivers''"
| "action_id QueryDriver = ''org.mission.driver.query-driver''"
| "action_id CheckCompatibility = ''org.mission.driver.check-compatibility''"
| "action_id InstallDriver = ''org.mission.driver.install-driver''"
| "action_id UpdateDriver = ''org.mission.driver.update-driver''"
| "action_id RemoveDriver = ''org.mission.driver.remove-driver''"
| "action_id ConfigureSources = ''org.mission.driver.configure-sources''"
| "action_id ScanHardware = ''org.mission.driver.scan-hardware''"

fun action_description :: "driver_action \<Rightarrow> string" where
  "action_description ViewStatus = ''View driver service status''"
| "action_description ListDrivers = ''List all drivers in inventory''"
| "action_description QueryDriver = ''Query detailed driver information''"
| "action_description CheckCompatibility = ''Check driver compatibility with hardware''"
| "action_description InstallDriver = ''Install a driver on the system''"
| "action_description UpdateDriver = ''Update an installed driver''"
| "action_description RemoveDriver = ''Remove a driver from the system''"
| "action_description ConfigureSources = ''Configure driver sources and repositories''"
| "action_description ScanHardware = ''Trigger hardware inventory scan''"

definition is_read_only :: "driver_action \<Rightarrow> bool" where
  "is_read_only a = (a \<in> {ViewStatus, ListDrivers, QueryDriver, CheckCompatibility})"

datatype authorization = Authorized | Denied | Indeterminate

definition is_authorized :: "authorization \<Rightarrow> bool" where
  "is_authorized a = (a = Authorized)"

section \<open>The PolKit client\<close>

text \<open>The message body: subject \<open>(sa{sv})\<close>, action, details \<open>a{ss}\<close>, flags, cancellation id.\<close>

record polkit_request =
  pr_subject_kind :: string
  pr_subject_details :: "(string \<times> string) list"
  pr_action_id :: string
  pr_details :: "(string \<times> string) list"
  pr_flags :: u32
  pr_cancellation_id :: string

datatype polkit_reply = CallFailed string | BadReply string | Reply bool bool

type_synonym polkit_conn = "polkit_request \<Rightarrow> polkit_reply"

record polkit_authorizer =
  pk_conn :: "polkit_conn option"
  pk_allow_unauthorized :: bool

definition polkit_flag_allow_user_interaction :: u32 where
  "polkit_flag_allow_user_interaction = 1"

definition polkit_request_for :: "driver_action \<Rightarrow> string \<Rightarrow> polkit_request" where
  "polkit_request_for action caller =
     \<lparr>pr_subject_kind = ''system-bus-name'', pr_subject_details = [(''name'', caller)],
      pr_action_id = action_id action, pr_details = [],
      pr_flags = polkit_flag_allow_user_interaction, pr_cancellation_id = ''''\<rparr>"

definition call_polkit_check :: "polkit_conn \<Rightarrow> driver_action \<Rightarrow> string \<Rightarrow> string + bool" where
  "call_polkit_check conn action caller =
     (case conn (polkit_request_for action caller) of
        Reply authorized _ \<Rightarrow> Ok authorized
      | BadReply e \<Rightarrow> Err (''PolKit response parse error: '' @ e)
      | CallFailed e \<Rightarrow> Err (''PolKit D-Bus call failed: '' @ e))"

definition polkit_audit_authorization ::
  "u64 \<Rightarrow> driver_action \<Rightarrow> string \<Rightarrow> authorization \<Rightarrow> audit_log \<Rightarrow> audit_log" where
  "polkit_audit_authorization now action subject res l =
     (let (sev, pre) = (case res of
            Authorized \<Rightarrow> (SevInfo, ''PolKit authorized: '')
          | Denied \<Rightarrow> (SevWarning, ''PolKit denied: '')
          | Indeterminate \<Rightarrow> (SevError, ''PolKit indeterminate: ''))
      in record_event
           (audit_event_new now Authorization sev ''polkit_authorization_check'' subject
              (pre @ action_description action @ '' for '' @ subject)) l)"

definition check_authorization ::
  "polkit_authorizer \<Rightarrow> u64 \<Rightarrow> driver_action \<Rightarrow> string \<Rightarrow> audit_log \<Rightarrow> authorization \<times> audit_log" where
  "check_authorization pk now action caller l =
     (if is_read_only action then
        (Authorized, polkit_audit_authorization now action caller Authorized l)
      else if pk_allow_unauthorized pk then
        (Authorized, polkit_audit_authorization now action caller Authorized l)
      else (case pk_conn pk of
          None \<Rightarrow> (Denied, polkit_audit_authorization now action caller Denied l)
        | Some conn \<Rightarrow>
            (case call_polkit_check conn action caller of
               Inr True \<Rightarrow> (Authorized, polkit_audit_authorization now action caller Authorized l)
             | Inr False \<Rightarrow> (Denied, polkit_audit_authorization now action caller Denied l)
             | Inl e \<Rightarrow> (Denied, polkit_audit_authorization now action caller Denied l))))"

definition check_authorization_sync ::
  "bool \<Rightarrow> polkit_authorizer \<Rightarrow> u64 \<Rightarrow> driver_action \<Rightarrow> string \<Rightarrow> audit_log
     \<Rightarrow> authorization \<times> audit_log" where
  "check_authorization_sync rt pk now action caller l =
     (if is_read_only action then
        (Authorized, polkit_audit_authorization now action caller Authorized l)
      else if pk_allow_unauthorized pk then
        (Authorized, polkit_audit_authorization now action caller Authorized l)
      else (case pk_conn pk of
          None \<Rightarrow> (Denied, polkit_audit_authorization now action caller Denied l)
        | Some conn \<Rightarrow>
            if \<not> rt then (Denied, polkit_audit_authorization now action caller Denied l)
            else
            (case call_polkit_check conn action caller of
               Inr True \<Rightarrow> (Authorized, polkit_audit_authorization now action caller Authorized l)
             | Inr False \<Rightarrow> (Denied, polkit_audit_authorization now action caller Denied l)
             | Inl e \<Rightarrow> (Denied, polkit_audit_authorization now action caller Denied l))))"

section \<open>The authorizer\<close>

record authorizer =
  az_allow_unauthorized :: bool
  az_polkit :: "polkit_authorizer option"

definition audit_authorization ::
  "u64 \<Rightarrow> driver_action \<Rightarrow> string \<Rightarrow> authorization \<Rightarrow> audit_log \<Rightarrow> audit_log" where
  "audit_authorization now action subject res l =
     (let (sev, pre) = (case res of
            Authorized \<Rightarrow> (SevInfo, ''Authorized: '')
          | Denied \<Rightarrow> (SevWarning, ''Denied: '')
          | Indeterminate \<Rightarrow> (SevError, ''Authorization indeterminate: ''))
      in record_event
           (audit_event_new now Authorization sev ''authorization_check'' subject
              (pre @ action_description action @ '' for '' @ subject)) l)"

definition authorize ::
  "bool \<Rightarrow> authorizer \<Rightarrow> u64 \<Rightarrow> driver_action \<Rightarrow> string \<Rightarrow> audit_log \<Rightarrow> authorization \<times> audit_log" where
  "authorize rt az now action subject l =
     (if is_read_only action then
        (Authorized, audit_authorization now action subject Authorized l)
      else if az_allow_unauthorized az then
        (Authorized, audit_authorization now action subject Authorized l)
      else (case az_polkit az of
          Some pk \<Rightarrow>
            (let (result, l') = check_authorization_sync rt pk now action subject l
             in (result, audit_authorization now action subject result l'))
        | None \<Rightarrow> (Denied, audit_authorization now action subject Denied l)))"

text \<open>\<open>clone_audit\<close> shares the PolKit client and keeps the bypass flag.\<close>

definition clone_audit :: "authorizer \<Rightarrow> authorizer" where
  "clone_audit az = \<lparr>az_allow_unauthorized = az_allow_unauthorized az, az_polkit = az_polkit az\<rparr>"

section \<open>The interface the execution engine relies on\<close>

text \<open>
  A decision procedure: its verdict does not depend on what is already in the log, it
  only appends authorization events, and at least one per decision.
\<close>

locale auth_decider =
  fixes auth :: "driver_action \<Rightarrow> string \<Rightarrow> audit_log \<Rightarrow> authorization \<times> audit_log"
  assumes verdict_log_free: "fst (auth a s l) = fst (auth a s l')"
    and decision_logged:
      "\<exists>evs. snd (auth a s l) = l @ evs \<and> evs \<noteq> [] \<and>
         (\<forall>e\<in>set evs. ev_category e = Authorization \<and> ev_subject e = s)"
    and read_only_allowed: "is_read_only a \<Longrightarrow> fst (auth a s l) = Authorized"
begin

definition permits :: "driver_action \<Rightarrow> string \<Rightarrow> bool" where
  "permits a s = is_authorized (fst (auth a s []))"

lemma permits_iff: "is_authorized (fst (auth a s l)) \<longleftrightarrow> permits a s"
  unfolding permits_def using verdict_log_free [of a s l "[]"] by simp

lemma permits_read_only: "is_read_only a \<Longrightarrow> permits a s"
  by (simp add: permits_def read_only_allowed is_authorized_def)

lemma auth_extends: "log_extends l (snd (auth a s l))"
  using decision_logged [of a s l] by (auto simp: log_extends_def)

lemma auth_grows: "length l < length (snd (auth a s l))"
proof -
  obtain evs where "snd (auth a s l) = l @ evs" "evs \<noteq> []"
    using decision_logged [of a s l] by blast
  then show ?thesis by simp
qed

end

lemma polkit_audit_record:
  "\<exists>e. polkit_audit_authorization n a s r l = l @ [e] \<and> ev_category e = Authorization
     \<and> ev_subject e = s"
  by (cases r) (simp_all add: polkit_audit_authorization_def record_event_def)

lemma audit_record:
  "\<exists>e. audit_authorization n a s r l = l @ [e] \<and> ev_category e = Authorization
     \<and> ev_subject e = s
     \<and> ev_severity e = (case r of Authorized \<Rightarrow> SevInfo | Denied \<Rightarrow> SevWarning
                         | Indeterminate \<Rightarrow> SevError)"
  by (cases r) (simp_all add: audit_authorization_def record_event_def)

lemma audit_severity:
  "ev_severity (last (audit_authorization n a s r l)) =
     (case r of Authorized \<Rightarrow> SevInfo | Denied \<Rightarrow> SevWarning | Indeterminate \<Rightarrow> SevError)"
  by (cases r) (simp_all add: audit_authorization_def)

lemma fst_check_authorization:
  "fst (check_authorization pk n a s l) =
     (if is_read_only a \<or> pk_allow_unauthorized pk
         \<or> (\<exists>c. pk_conn pk = Some c \<and> call_polkit_check c a s = Inr True)
      then Authorized else Denied)"
  by (auto simp: check_authorization_def split: option.splits sum.splits bool.splits)

lemma fst_check_authorization_sync:
  "fst (check_authorization_sync rt pk n a s l) =
     (if is_read_only a \<or> pk_allow_unauthorized pk
         \<or> (rt \<and> (\<exists>c. pk_conn pk = Some c \<and> call_polkit_check c a s = Inr True))
      then Authorized else Denied)"
  by (auto simp: check_authorization_sync_def split: option.splits sum.splits bool.splits)

lemma snd_check_authorization:
  "snd (check_authorization pk n a s l) =
     polkit_audit_authorization n a s (fst (check_authorization pk n a s l)) l"
  by (auto simp: check_authorization_def split: option.splits sum.splits bool.splits)

lemma snd_check_authorization_sync:
  "snd (check_authorization_sync rt pk n a s l) =
     polkit_audit_authorization n a s (fst (check_authorization_sync rt pk n a s l)) l"
  by (auto simp: check_authorization_sync_def split: option.splits sum.splits bool.splits)

lemma call_polkit_check_True:
  "call_polkit_check c a s = Inr True \<longleftrightarrow> (\<exists>ch. c (polkit_request_for a s) = Reply True ch)"
  by (auto simp: call_polkit_check_def split: polkit_reply.splits)

lemma authorize_polkit:
  assumes "\<not> is_read_only a" "\<not> az_allow_unauthorized az" "az_polkit az = Some pk"
  shows "authorize rt az n a s l =
     (fst (check_authorization_sync rt pk n a s l),
      audit_authorization n a s (fst (check_authorization_sync rt pk n a s l))
        (snd (check_authorization_sync rt pk n a s l)))"
  using assms by (simp add: authorize_def split_beta)

lemma fst_authorize:
  "fst (authorize rt az n a s l) =
     (if is_read_only a \<or> az_allow_unauthorized az
         \<or> (\<exists>pk. az_polkit az = Some pk \<and> fst (check_authorization_sync rt pk n a s l) = Authorized)
      then Authorized else Denied)"
  by (auto simp: authorize_def split_beta fst_check_authorization_sync split: option.splits)

lemma authorize_logged:
  "\<exists>evs. snd (authorize rt az n a s l) = l @ evs \<and> evs \<noteq> [] \<and>
     (\<forall>e\<in>set evs. ev_category e = Authorization \<and> ev_subject e = s)"
proof (cases "is_read_only a \<or> az_allow_unauthorized az \<or> az_polkit az = None")
  case True
  then have "\<exists>r. snd (authorize rt az n a s l) = audit_authorization n a s r l"
    by (cases "is_read_only a"; cases "az_allow_unauthorized az") (auto simp: authorize_def)
  then obtain r where "snd (authorize rt az n a s l) = audit_authorization n a s r l" ..
  then show ?thesis using audit_record [of n a s r l] by auto
next
  case False
  then obtain pk where pk: "az_polkit az = Some pk" by auto
  let ?c = "check_authorization_sync rt pk n a s l"
  obtain e1 where "snd ?c = l @ [e1]" "ev_category e1 = Authorization" "ev_subject e1 = s"
    using polkit_audit_record [of n a s "fst ?c" l] snd_check_authorization_sync [of rt pk n a s l]
    by auto
  moreover obtain e2 where "audit_authorization n a s (fst ?c) (snd ?c) = snd ?c @ [e2]"
    "ev_category e2 = Authorization" "ev_subject e2 = s"
    using audit_record [of n a s "fst ?c" "snd ?c"] by auto
  ultimately show ?thesis
    using False pk authorize_polkit [of a az pk rt n s l] by auto
qed

interpretation polkit_sync: auth_decider "check_authorization_sync rt pk n" for rt pk n
proof (unfold_locales, goal_cases)
  case (2 a s l)
  show ?case
    using polkit_audit_record [of n a s "fst (check_authorization_sync rt pk n a s l)" l]
    by (auto simp: snd_check_authorization_sync)
qed (simp_all add: fst_check_authorization_sync)

interpretation polkit_async: auth_decider "check_authorization pk n" for pk n
proof (unfold_locales, goal_cases)
  case (2 a s l)
  show ?case
    using polkit_audit_record [of n a s "fst (check_authorization pk n a s l)" l]
    by (auto simp: snd_check_authorization)
qed (simp_all add: fst_check_authorization)

interpretation driverd_auth: auth_decider "authorize rt az n" for rt az n
proof (unfold_locales, goal_cases)
  case (2 a s l)
  show ?case by (rule authorize_logged)
qed (simp_all add: fst_authorize fst_check_authorization_sync)

section \<open>Fail closed\<close>

text \<open>C1: A privileged action is authorized in exactly two cases: the development bypass is
  on, or PolKit was reachable and answered yes to the request for this very action and
  caller. A missing connection, a missing runtime, a failed call and an unreadable
  reply all deny.\<close>

theorem authorize_fail_closed:
  assumes "\<not> is_read_only a"
  shows "fst (authorize rt az now a subject l) = Authorized \<longleftrightarrow>
     az_allow_unauthorized az \<or>
     (\<exists>pk. az_polkit az = Some pk \<and>
        (pk_allow_unauthorized pk \<or>
         (rt \<and> (\<exists>c ch. pk_conn pk = Some c \<and> c (polkit_request_for a subject) = Reply True ch))))"
  using assms
  by (auto simp: fst_authorize fst_check_authorization_sync call_polkit_check_True)

definition answering_conn :: "string \<Rightarrow> polkit_conn" where
  "answering_conn who = (\<lambda>r. if pr_subject_details r = [(''name'', who)]
     then Reply True False else Reply False True)"

lemma authorize_fail_closed_witness:
  "fst (authorize True \<lparr>az_allow_unauthorized = False, az_polkit =
      Some \<lparr>pk_conn = Some (answering_conn '':1.7''), pk_allow_unauthorized = False\<rparr>\<rparr>
      5 InstallDriver '':1.7'' []) = Authorized
   \<and> fst (authorize True \<lparr>az_allow_unauthorized = False, az_polkit =
      Some \<lparr>pk_conn = Some (answering_conn '':1.7''), pk_allow_unauthorized = False\<rparr>\<rparr>
      5 InstallDriver '':1.8'' []) \<noteq> Authorized"
proof -
  have np: "\<not> is_read_only InstallDriver" by (simp add: is_read_only_def)
  show ?thesis
    unfolding authorize_fail_closed [OF np]
    by (simp add: answering_conn_def polkit_request_for_def ex_bool_eq)
qed

text \<open>Every authorization decision of the authorizer leaves the earlier audit events in
  place and appends, as its last event, one whose severity names the verdict: information
  for a grant, warning for a denial.\<close>

theorem authorize_audited:
  "\<exists>evs. snd (authorize rt az now a subject l) = l @ evs \<and> evs \<noteq> [] \<and>
     ev_subject (last evs) = subject \<and> ev_category (last evs) = Authorization \<and>
     ev_severity (last evs) =
       (if fst (authorize rt az now a subject l) = Authorized then SevInfo else SevWarning)"
proof -
  obtain evs where evs: "snd (authorize rt az now a subject l) = l @ evs" "evs \<noteq> []"
    "\<forall>e\<in>set evs. ev_category e = Authorization \<and> ev_subject e = subject"
    using driverd_auth.decision_logged [of rt az now a subject l] by blast
  let ?v = "fst (authorize rt az now a subject l)"
  have "\<exists>l'. snd (authorize rt az now a subject l) = audit_authorization now a subject ?v l'"
    by (auto simp: authorize_def split_beta split: option.splits)
  moreover have "?v = Authorized \<or> ?v = Denied" by (simp add: fst_authorize)
  ultimately have "ev_severity (last (snd (authorize rt az now a subject l))) =
      (if ?v = Authorized then SevInfo else SevWarning)"
    by (auto simp: audit_severity)
  then have "ev_severity (last evs) = (if ?v = Authorized then SevInfo else SevWarning)"
    using evs(1,2) by simp
  then show ?thesis using evs by (intro exI [of _ evs]) (simp add: last_in_set)
qed

text \<open>The synchronous path of the engine never grants what the D-Bus path would deny.\<close>

lemma sync_refines_async:
  "fst (check_authorization_sync rt pk n a s l) = Authorized \<Longrightarrow>
   fst (check_authorization pk n a s l) = Authorized"
  by (auto simp: fst_check_authorization_sync fst_check_authorization split: if_splits)

lemma authorize_never_indeterminate: "fst (authorize rt az n a s l) \<noteq> Indeterminate"
  by (simp add: fst_authorize)

lemma clone_audit_same: "authorize rt (clone_audit az) n a s l = authorize rt az n a s l"
  by (simp add: clone_audit_def authorize_def)

lemma action_id_inj: "action_id a = action_id b \<Longrightarrow> a = b"
  by (cases a; cases b) auto

end
