(* ===== verification/Float64.thy ===== *)
theory Float64
  imports Numbers
begin

text \<open>
  The IEEE 754 doubles the compatibility score is made of. A non-negative double that
  is a multiple of \<open>2 ^ -58\<close> is the natural number of those units, so comparison is
  comparison of naturals and addition is exact addition followed by rounding to 53
  significant bits, ties to even. All constants of the scoring code are such
  multiples, and sums of them only get coarser, so no underflow or overflow occurs.
\<close>

type_synonym f64 = nat

fun bit_len :: "nat \<Rightarrow> nat" where
  "bit_len n = (if n = 0 then 0 else Suc (bit_len (n div 2)))"

declare bit_len.simps [simp del]

definition f64_round :: "nat \<Rightarrow> f64" where
  "f64_round n =
     (let k = bit_len n - 53; m = 2 ^ k; q = n div m; r = n mod m
      in if m < 2 * r \<or> (2 * r = m \<and> odd q \<and> 0 < k) then (q + 1) * m else q * m)"

definition f64_add :: "f64 \<Rightarrow> f64 \<Rightarrow> f64" where
  "f64_add a b = f64_round (a + b)"

definition f64_one :: f64 where "f64_one = 288230376151711744"
definition f64_0_5 :: f64 where "f64_0_5 = 144115188075855872"
definition f64_0_2 :: f64 where "f64_0_2 = 57646075230342352"
definition f64_0_15 :: f64 where "f64_0_15 = 43234556422756760"
definition f64_0_1 :: f64 where "f64_0_1 = 28823037615171176"
definition f64_0_05 :: f64 where "f64_0_05 = 14411518807585588"
definition f64_0_025 :: f64 where "f64_0_025 = 7205759403792794"

lemmas f64_consts = f64_one_def f64_0_5_def f64_0_2_def f64_0_15_def f64_0_1_def f64_0_05_def
  f64_0_025_def

definition f64_clamp01 :: "f64 \<Rightarrow> f64" where
  "f64_clamp01 x = min x f64_one"

text \<open>\<open>{:.2}\<close>: two decimals of the exact value, ties to even.\<close>

definition show_f64_2 :: "f64 \<Rightarrow> string" where
  "show_f64_2 x =
     (let n = x * 100; q = n div f64_one; r = n mod f64_one;
          h = (if f64_one < 2 * r \<or> (2 * r = f64_one \<and> odd q) then q + 1 else q)
      in show_nat (h div 100) @ ''.'' @ [digit_char (h div 10 mod 10), digit_char (h mod 10)])"

lemma bit_len_bound: "n < 2 ^ bit_len n"
proof (induction n rule: bit_len.induct)
  case (1 n)
  then show ?case by (cases "n = 0") (auto simp: bit_len.simps [of n])
qed

lemma bit_len_le: "n < 2 ^ k \<Longrightarrow> bit_len n \<le> k"
proof (induction n arbitrary: k rule: bit_len.induct)
  case (1 n)
  show ?case
  proof (cases "n = 0")
    case False
    then obtain k' where k: "k = Suc k'" using 1 by (cases k) auto
    then have "n div 2 < 2 ^ k'" using "1.prems" by auto
    then show ?thesis using False 1 k by (simp add: bit_len.simps [of n])
  qed (simp add: bit_len.simps [of 0])
qed

text \<open>Up to 53 bits a value is represented exactly.\<close>

lemma f64_round_exact: "n < 2 ^ 53 \<Longrightarrow> f64_round n = n"
  using bit_len_le [of n 53] by (simp add: f64_round_def Let_def)

lemma f64_round_zero [simp]: "f64_round 0 = 0"
  by (rule f64_round_exact) simp

end
