(* ===== verification/Inventory.thy ===== *)
theory Inventory
  imports Errors Orderings_Rust Float64
begin

text \<open>
  The data model of driverd (inventory.rs): hardware and driver identities with their
  validation, the driver version with its parser, printer and order, kernel
  compatibility ranges, requests, results and the inventory with its lookups. The
  scanner that fills the inventory is in theory Scanner.
\<close>

section \<open>Hardware identity\<close>

record hardware_id =
  hw_modalias :: string
  hw_vendor_id :: string
  hw_device_id :: string
  hw_subsystem_vendor_id :: "string option"
  hw_subsystem_device_id :: "string option"
  hw_class_code :: "string option"
  hw_bus :: string
  hw_current_driver :: "string option"

datatype bus_type =
    Pci | Usb | Hid | Virtio | Acpi | Platform | Sdio | I2c | Spi | Thunderbolt | OtherBus string

definition recognized_buses :: "string list" where
  "recognized_buses = [''pci'', ''usb'', ''hid'', ''virtio'', ''acpi'', ''platform'', ''sdio'',
     ''i2c'', ''spi'', ''thunderbolt'']"

definition validate_bus_type :: "string \<Rightarrow> unit result" where
  "validate_bus_type bus =
     (if to_lowercase bus \<in> set recognized_buses then Ok ()
      else Err (InvalidArgument (''unrecognized bus type: '' @ bus)))"

definition hardware_id_validate :: "hardware_id \<Rightarrow> unit result" where
  "hardware_id_validate h =
     (if trim (hw_modalias h) = [] then Err (InvalidArgument ''modalias must not be empty'')
      else if trim (hw_vendor_id h) = [] then Err (InvalidArgument ''vendor_id must not be empty'')
      else if trim (hw_device_id h) = [] then Err (InvalidArgument ''device_id must not be empty'')
      else if trim (hw_bus h) = [] then Err (InvalidArgument ''bus must not be empty'')
      else and_then (validate_bus_type (hw_bus h)) (\<lambda>_. Ok ()))"

section \<open>Driver version\<close>

datatype driver_version =
  DriverVersion (dv_major: u64) (dv_minor: u64) (dv_patch: u64) (dv_pre_release: "string option")

definition driver_version_new :: "u64 \<Rightarrow> u64 \<Rightarrow> u64 \<Rightarrow> driver_version" where
  "driver_version_new a b c = DriverVersion a b c None"

definition parse_component :: "string \<Rightarrow> string \<Rightarrow> u64 result" where
  "parse_component what s =
     map_err (\<lambda>e. InvalidArgument (''invalid '' @ what @ '' version: '' @ show_parse_error e))
       (parse_u64 s)"

definition driver_version_parse :: "string \<Rightarrow> driver_version result" where
  "driver_version_parse input0 =
     (let input = trim input0 in
      if input = [] then Err (InvalidArgument ''version string must not be empty'')
      else
        (let (numeric_part, pre_release) =
               (case split_once CHR ''-'' input of
                  Some (left, pre) \<Rightarrow> (left, if pre = [] then None else Some pre)
                | None \<Rightarrow> (input, None))
         in case split_on CHR ''.'' numeric_part of
              p0 # p1 # p2 # _ \<Rightarrow>
                and_then (parse_component ''major'' p0) (\<lambda>major.
                and_then (parse_component ''minor'' p1) (\<lambda>minor.
                and_then (parse_component ''patch'' p2) (\<lambda>patch.
                  Ok (DriverVersion major minor patch pre_release))))
            | _ \<Rightarrow> Err (InvalidArgument (''version must have at least 3 components: '' @ input))))"

definition driver_version_validate :: "driver_version \<Rightarrow> unit result" where
  "driver_version_validate v =
     (case dv_pre_release v of
        Some pre \<Rightarrow>
          (if \<exists>c\<in>set pre. c = CHR ''/'' \<or> c = CHR 0x5C \<or> c = CHR '';'' \<or> c = CHR ''|''
           then Err (InvalidArgument ''pre-release contains invalid characters'') else Ok ())
      | None \<Rightarrow> Ok ())"

definition show_driver_version :: "driver_version \<Rightarrow> string" where
  "show_driver_version v =
     show_u64 (dv_major v) @ ''.'' @ show_u64 (dv_minor v) @ ''.'' @ show_u64 (dv_patch v) @
     (case dv_pre_release v of None \<Rightarrow> '''' | Some pre \<Rightarrow> ''-'' @ pre)"

text \<open>No pre-release is above every pre-release.\<close>

fun cmp_pre_release :: "string option \<Rightarrow> string option \<Rightarrow> ordering" where
  "cmp_pre_release None None = Equal"
| "cmp_pre_release None (Some _) = Greater"
| "cmp_pre_release (Some _) None = Less"
| "cmp_pre_release (Some a) (Some b) = cmp_str a b"

definition driver_version_cmp :: "driver_version \<Rightarrow> driver_version \<Rightarrow> ordering" where
  "driver_version_cmp a b =
     then_cmp (cmp_lin (dv_major a) (dv_major b))
       (then_cmp (cmp_lin (dv_minor a) (dv_minor b))
         (then_cmp (cmp_lin (dv_patch a) (dv_patch b))
           (cmp_pre_release (dv_pre_release a) (dv_pre_release b))))"

lemma preorder_cmp_pre_release: "preorder_cmp cmp_pre_release"
proof (unfold_locales, goal_cases)
  case (1 y x)
  show ?case by (cases x; cases y) (auto intro: cmp_str_sym)
next
  case (2 x y z)
  then show ?case by (cases x; cases y; cases z) (auto dest: cmp_str_trans)
qed

lemma driver_version_preorder: "preorder_cmp driver_version_cmp"
proof -
  have lin: "preorder_cmp (\<lambda>a b. cmp_lin (f a) (f b))" for f :: "driver_version \<Rightarrow> u64"
    by (rule preorder_cmp_inv_image [OF u64_ord.preorder_cmp_axioms])
  show ?thesis unfolding driver_version_cmp_def
    by (intro preorder_cmp_then lin preorder_cmp_inv_image [OF preorder_cmp_pre_release])
qed

lemma cmp_pre_release_eq: "cmp_pre_release a b = Equal \<Longrightarrow> a = b"
  by (cases a; cases b) (auto dest: cmp_str_eq)

interpretation version_ord: total_cmp driver_version_cmp
proof (intro total_cmp.intro driver_version_preorder total_cmp_axioms.intro)
  fix x y assume "driver_version_cmp x y = Equal"
  then show "x = y"
    unfolding driver_version_cmp_def
    by (cases x; cases y) (auto simp: then_cmp_def split: if_splits dest: cmp_pre_release_eq)
qed

instantiation driver_version :: linorder
begin
definition less_eq_driver_version where
  "(a :: driver_version) \<le> b \<longleftrightarrow> driver_version_cmp a b \<noteq> Greater"
definition less_driver_version where
  "(a :: driver_version) < b \<longleftrightarrow> driver_version_cmp a b = Less"
instance
proof
  fix x y z :: driver_version
  show "x < y \<longleftrightarrow> x \<le> y \<and> \<not> y \<le> x"
    using version_ord.cmp_sym [of y x]
    by (cases "driver_version_cmp x y")
      (auto simp: less_eq_driver_version_def less_driver_version_def)
  show "x \<le> x" by (simp add: less_eq_driver_version_def)
  show "x \<le> y \<Longrightarrow> y \<le> z \<Longrightarrow> x \<le> z"
    unfolding less_eq_driver_version_def by (rule version_ord.cmp_trans)
  show "x \<le> y \<Longrightarrow> y \<le> x \<Longrightarrow> x = y"
    unfolding less_eq_driver_version_def by (rule version_ord.cmp_antisym)
  show "x \<le> y \<or> y \<le> x"
    using version_ord.cmp_sym [of y x]
    by (cases "driver_version_cmp x y") (auto simp: less_eq_driver_version_def)
qed
end

section \<open>Kernel compatibility and driver identity\<close>

record kernel_compatibility =
  kc_min_version :: string
  kc_max_version :: "string option"
  kc_required_features :: "string list"

definition validate_components :: "string \<Rightarrow> string \<Rightarrow> unit result" where
  "validate_components msg v =
     for_each (\<lambda>part. if is_ok (parse_u64 part) then Ok () else Err (InvalidArgument (msg @ part)))
       (split_on CHR ''.'' v)"

definition kernel_compatibility_validate :: "kernel_compatibility \<Rightarrow> unit result" where
  "kernel_compatibility_validate k =
     (if trim (kc_min_version k) = [] then Err (InvalidArgument ''min_version must not be empty'')
      else and_then (validate_components ''invalid kernel version component: '' (kc_min_version k))
        (\<lambda>_. case kc_max_version k of
              None \<Rightarrow> Ok ()
            | Some mx \<Rightarrow> validate_components ''invalid kernel max version component: '' mx))"

datatype driver_module_type = KernelModule | Firmware | Userspace | DeviceTreeOverlay

record driver_id =
  di_name :: string
  di_provider :: string
  di_version :: driver_version
  di_arch :: string
  di_kernel_compat :: kernel_compatibility
  di_module_type :: driver_module_type

definition driver_id_validate :: "driver_id \<Rightarrow> unit result" where
  "driver_id_validate d =
     (if trim (di_name d) = [] then Err (InvalidArgument ''driver name must not be empty'')
      else if trim (di_provider d) = [] then Err (InvalidArgument ''driver provider must not be empty'')
      else if trim (di_arch d) = [] then Err (InvalidArgument ''driver arch must not be empty'')
      else and_then (driver_version_validate (di_version d))
        (\<lambda>_. kernel_compatibility_validate (di_kernel_compat d)))"

section \<open>Status, compatibility, sources, entries\<close>

datatype driver_status =
    Available | Installed | Active | Failed | PendingReboot | Removed | UpdateAvailable

definition is_operational :: "driver_status \<Rightarrow> bool" where
  "is_operational s = (s = Active \<or> s = Installed)"

definition is_error :: "driver_status \<Rightarrow> bool" where
  "is_error s = (s = Failed)"

record compatibility_info =
  ci_compatible :: bool
  ci_score :: f64
  ci_explanation :: string
  ci_issues :: "string list"
  ci_signature_verified :: "bool option"

definition compatible_info :: "string \<Rightarrow> compatibility_info" where
  "compatible_info expl = \<lparr>ci_compatible = True, ci_score = f64_one, ci_explanation = expl,
     ci_issues = [], ci_signature_verified = None\<rparr>"

definition incompatible_info :: "string \<Rightarrow> string list \<Rightarrow> compatibility_info" where
  "incompatible_info expl issues = \<lparr>ci_compatible = False, ci_score = 0, ci_explanation = expl,
     ci_issues = issues, ci_signature_verified = None\<rparr>"

definition with_signature :: "compatibility_info \<Rightarrow> bool \<Rightarrow> compatibility_info" where
  "with_signature ci verified = ci\<lparr>ci_signature_verified := Some verified\<rparr>"

datatype driver_source_type = MissionSrc | LinuxSrc | VendorSrc | CommunitySrc | LocalSrc

record driver_source =
  ds_id :: string
  ds_name :: string
  ds_source_type :: driver_source_type
  ds_available :: bool
  ds_priority :: u32

record driver_entry =
  de_id :: driver_id
  de_status :: driver_status
  de_supported_hardware :: "string list"
  de_compatibility :: "compatibility_info option"
  de_sources :: "driver_source list"
  de_metadata :: "(string \<times> string) list"
  de_description :: string
  de_package_size_bytes :: "u64 option"

record hardware_device =
  hd_hardware_id :: hardware_id
  hd_device_name :: string
  hd_vendor_name :: "string option"
  hd_bus_type :: bus_type
  hd_bound_driver :: "string option"
  hd_operational :: bool
  hd_matched_drivers :: "string list"

section \<open>Requests and results\<close>

record install_request =
  ir_driver_name :: string
  ir_provider :: string
  ir_version_constraint :: "string option"
  ir_force :: bool

definition install_request_validate :: "install_request \<Rightarrow> unit result" where
  "install_request_validate r =
     (if trim (ir_driver_name r) = [] then Err (InvalidArgument ''driver_name must not be empty'')
      else if trim (ir_provider r) = [] then Err (InvalidArgument ''provider must not be empty'')
      else Ok ())"

record remove_request =
  rr_driver_name :: string
  rr_force :: bool

definition remove_request_validate :: "remove_request \<Rightarrow> unit result" where
  "remove_request_validate r =
     (if trim (rr_driver_name r) = [] then Err (InvalidArgument ''driver_name must not be empty'')
      else Ok ())"

record update_request =
  ur_driver_name :: string
  ur_target_version :: "string option"
  ur_allow_downgrade :: bool

definition update_request_validate :: "update_request \<Rightarrow> unit result" where
  "update_request_validate r =
     (if trim (ur_driver_name r) = [] then Err (InvalidArgument ''driver_name must not be empty'')
      else Ok ())"

datatype operation_status = OpPending | OpInProgress | OpCompleted | OpFailed | OpCancelled

record operation_result =
  or_status :: operation_status
  or_message :: string
  or_error :: "string option"
  or_driver_name :: string

definition operation_success :: "string \<Rightarrow> string \<Rightarrow> operation_result" where
  "operation_success n m =
     \<lparr>or_status = OpCompleted, or_message = m, or_error = None, or_driver_name = n\<rparr>"

definition operation_failed :: "string \<Rightarrow> string \<Rightarrow> string \<Rightarrow> operation_result" where
  "operation_failed n m e =
     \<lparr>or_status = OpFailed, or_message = m, or_error = Some e, or_driver_name = n\<rparr>"

section \<open>The inventory\<close>

record driver_inventory =
  inv_drivers :: "driver_entry list"
  inv_devices :: "hardware_device list"
  inv_last_scan_timestamp :: u64

definition inventory_new :: driver_inventory where
  "inventory_new = \<lparr>inv_drivers = [], inv_devices = [], inv_last_scan_timestamp = 0\<rparr>"

definition find_driver :: "driver_inventory \<Rightarrow> string \<Rightarrow> string \<Rightarrow> driver_entry option" where
  "find_driver iv name provider =
     find (\<lambda>d. eq_ignore_ascii_case (di_name (de_id d)) name
              \<and> eq_ignore_ascii_case (di_provider (de_id d)) provider) (inv_drivers iv)"

definition find_device :: "driver_inventory \<Rightarrow> string \<Rightarrow> hardware_device option" where
  "find_device iv modalias =
     find (\<lambda>d. hw_modalias (hd_hardware_id d) = modalias) (inv_devices iv)"

definition active_driver_count :: "driver_inventory \<Rightarrow> nat" where
  "active_driver_count iv = length (filter (\<lambda>d. is_operational (de_status d)) (inv_drivers iv))"

definition failed_driver_count :: "driver_inventory \<Rightarrow> nat" where
  "failed_driver_count iv = length (filter (\<lambda>d. is_error (de_status d)) (inv_drivers iv))"

section \<open>Lookups\<close>

named_theorems inventory_dests "what a successful lookup or validation says"

lemma find_driver_Some [inventory_dests]:
  "find_driver iv n p = Some d \<Longrightarrow> d \<in> set (inv_drivers iv) \<and>
     eq_ignore_ascii_case (di_name (de_id d)) n \<and> eq_ignore_ascii_case (di_provider (de_id d)) p"
  by (auto simp: find_driver_def find_Some_iff)

lemma find_driver_None:
  "find_driver iv n p = None \<longleftrightarrow> (\<forall>d\<in>set (inv_drivers iv).
     \<not> (eq_ignore_ascii_case (di_name (de_id d)) n \<and> eq_ignore_ascii_case (di_provider (de_id d)) p))"
  by (auto simp: find_driver_def find_None_iff)

lemma find_driver_case_insensitive:
  "eq_ignore_ascii_case n n' \<Longrightarrow> eq_ignore_ascii_case p p' \<Longrightarrow>
   find_driver iv n p = find_driver iv n' p'"
  unfolding find_driver_def by (simp add: eq_ignore_ascii_case_def)

lemma length_filter_disjoint:
  "\<forall>x. \<not> (P x \<and> Q x) \<Longrightarrow> length (filter P xs) + length (filter Q xs) \<le> length xs"
  by (induction xs) auto

lemma counts_disjoint:
  "active_driver_count iv + failed_driver_count iv \<le> length (inv_drivers iv)"
  unfolding active_driver_count_def failed_driver_count_def
  by (rule length_filter_disjoint) (auto simp: is_operational_def is_error_def)

section \<open>Parsing and printing versions\<close>

definition wf_pre_release :: "driver_version \<Rightarrow> bool" where
  "wf_pre_release v =
     (case dv_pre_release v of None \<Rightarrow> True | Some p \<Rightarrow> p \<noteq> [] \<and> \<not> is_ws (last p))"

lemma trim_last: "trim s \<noteq> [] \<Longrightarrow> \<not> is_ws (last (trim s))"
proof -
  assume "trim s \<noteq> []"
  then have ne: "dropWhile is_ws (rev (trim_start s)) \<noteq> []" by (simp add: trim_def trim_end_def)
  then have "\<not> is_ws (hd (dropWhile is_ws (rev (trim_start s))))" by (rule hd_dropWhile)
  then show ?thesis using ne by (simp add: trim_def trim_end_def last_rev)
qed

lemma parse_component_show [simp]: "parse_component what (show_u64 w) = Ok w"
  by (simp add: parse_component_def)

lemma show_version_numeric:
  "split_on CHR ''.'' (show_u64 a @ ''.'' @ show_u64 b @ ''.'' @ show_u64 c) =
     [show_u64 a, show_u64 b, show_u64 c]"
  by (simp add: split_on_append split_on_none)

lemma show_version_no_dash:
  "CHR ''-'' \<notin> set (show_u64 a @ ''.'' @ show_u64 b @ ''.'' @ show_u64 c)"
  by simp

lemma show_version_trim:
  assumes "wf_pre_release v" shows "trim (show_driver_version v) = show_driver_version v"
proof (rule trim_id)
  have h: "\<not> is_ws (hd (show_u64 a))" and l: "\<not> is_ws (last (show_u64 a))" for a
    using show_u64_chars [of "hd (show_u64 a)" a] show_u64_chars [of "last (show_u64 a)" a]
      digit_not_sep by auto
  have "\<not> is_ws (hd (show_driver_version v))"
    using h by (simp add: show_driver_version_def)
  moreover have "\<not> is_ws (last (show_driver_version v))"
    using assms l
    by (cases "dv_pre_release v") (auto simp: show_driver_version_def wf_pre_release_def)
  ultimately show "show_driver_version v = [] \<or>
      \<not> is_ws (hd (show_driver_version v)) \<and> \<not> is_ws (last (show_driver_version v))" by blast
qed

lemma parse_show_version:
  assumes wf: "wf_pre_release v"
  shows "driver_version_parse (show_driver_version v) = Ok v"
proof (cases v)
  case v: (DriverVersion a b c pre)
  let ?num = "show_u64 a @ ''.'' @ show_u64 b @ ''.'' @ show_u64 c"
  have nodash: "CHR ''-'' \<notin> set ?num" by (rule show_version_no_dash)
  show ?thesis
  proof (cases pre)
    case None
    then have shown: "show_driver_version v = ?num" by (simp add: show_driver_version_def v)
    then show ?thesis
      using show_version_trim [OF wf] show_version_numeric [of a b c] shown v None
      by (simp add: driver_version_parse_def Let_def)
  next
    case (Some p)
    then have shown: "show_driver_version v = ?num @ CHR ''-'' # p"
      by (simp add: show_driver_version_def v)
    then have "split_once CHR ''-'' (show_driver_version v) = Some (?num, p)"
      using split_once_append [OF nodash] by metis
    moreover have "p \<noteq> []" using wf by (simp add: wf_pre_release_def v Some)
    ultimately show ?thesis
      using show_version_trim [OF wf] show_version_numeric [of a b c] shown v Some
      by (simp add: driver_version_parse_def Let_def)
  qed
qed

lemma parse_version_pre:
  assumes "driver_version_parse s = Ok v"
  shows "dv_pre_release v = (case split_once CHR ''-'' (trim s) of
      None \<Rightarrow> None | Some (l, r) \<Rightarrow> if r = [] then None else Some r)"
  using assms
  by (auto simp: driver_version_parse_def Let_def and_then_Ok_iff
      split: if_splits option.splits prod.splits list.splits dest: split_once_Some)

lemma parse_version_ne: "driver_version_parse s = Ok v \<Longrightarrow> trim s \<noteq> []"
  by (auto simp: driver_version_parse_def Let_def)

lemma parse_version_wf:
  assumes v: "driver_version_parse s = Ok v" shows "wf_pre_release v"
proof -
  have "r = [] \<or> \<not> is_ws (last r)" if "split_once CHR ''-'' (trim s) = Some (l, r)" for l r
    using split_once_Some [OF that] trim_last [OF parse_version_ne [OF v]] by auto
  then show ?thesis
    by (auto simp: wf_pre_release_def parse_version_pre [OF v] split: option.splits)
qed

text \<open>Printing an accepted version and parsing the text again gives the same version:
  every version the parser can return is in a normal form that \<open>Display\<close> and \<open>parse\<close>
  keep, including pre-release tags that contain dashes and components at the top of u64.\<close>

theorem version_parse_print_parse:
  assumes "driver_version_parse s = Ok v"
  shows "driver_version_parse (show_driver_version v) = Ok v"
  using parse_show_version parse_version_wf [OF assms] by blast

lemma version_parse_print_parse_witness:
  "driver_version_parse '' 1.0.18446744073709551615-rc-1 '' =
     Ok (DriverVersion 1 0 18446744073709551615 (Some ''rc-1''))
   \<and> driver_version_parse (show_driver_version
       (DriverVersion 1 0 18446744073709551615 (Some ''rc-1''))) =
     Ok (DriverVersion 1 0 18446744073709551615 (Some ''rc-1''))"
proof -
  have h: "driver_version_parse '' 1.0.18446744073709551615-rc-1 '' =
      Ok (DriverVersion 1 0 18446744073709551615 (Some ''rc-1''))"
    by (simp add: driver_version_parse_def parse_component_def parse_eval)
  show ?thesis using h version_parse_print_parse [OF h] by blast
qed

text \<open>The version order of the downgrade check is a total order in which the numbers
  decide before the pre-release tag, and a release is above each of its pre-releases.\<close>

theorem version_order:
  "((v :: driver_version) \<le> w \<or> w \<le> v) \<and> (v \<le> w \<and> w \<le> v \<longrightarrow> v = w) \<and>
   (DriverVersion a b c (Some p) < DriverVersion a b c None) \<and>
   ((a', b', c') \<noteq> (a, b, c) \<longrightarrow>
      (DriverVersion a b c x < DriverVersion a' b' c' y \<longleftrightarrow>
       a < a' \<or> (a = a' \<and> (b < b' \<or> (b = b' \<and> c < c')))))"
proof (intro conjI impI)
  show "DriverVersion a b c (Some p) < DriverVersion a b c None"
    by (simp add: less_driver_version_def driver_version_cmp_def cmp_lin_def)
  assume "(a', b', c') \<noteq> (a, b, c)"
  then show "DriverVersion a b c x < DriverVersion a' b' c' y \<longleftrightarrow>
       a < a' \<or> (a = a' \<and> (b < b' \<or> (b = b' \<and> c < c')))"
    by (auto simp: less_driver_version_def driver_version_cmp_def cmp_lin_def)
qed auto

lemma version_order_witness:
  "DriverVersion 550 120 0 (Some ''rc1'') < DriverVersion 550 121 0 None"
  using version_order [of "DriverVersion 1 0 0 None" "DriverVersion 1 0 0 None" 550 120 0 "[]"
      550 121 0 "Some ''rc1''" None] by simp

end
