(* ===== verification/Matching.thy ===== *)
theory Matching
  imports Inventory
begin

text \<open>
  Hardware matching (matching.rs): the modalias wildcard matcher, the kernel range,
  architecture and feature checks, the weighted score and the sorted list of matching
  drivers. The files \<open>SystemInfo::detect\<close> reads and the architecture it was compiled for
  are arguments; what it finds, the record \<open>system_info\<close>, is an argument of the matcher.
\<close>

section \<open>System information\<close>

record system_info =
  si_kernel_version :: string
  si_architecture :: string
  si_kernel_features :: "string list"

text \<open>The \<open>CONFIG_X=y\<close> and \<open>=m\<close> lines of a kernel configuration, in order.\<close>

definition config_line_feature :: "string \<Rightarrow> string option" where
  "config_line_feature line0 =
     (let line = trim line0 in
      if starts_with line ''CONFIG_'' then
        (case split_once CHR ''='' line of
           Some (config_name, value) \<Rightarrow>
             (if value = ''y'' \<or> value = ''m'' then Some config_name else None)
         | None \<Rightarrow> None)
      else None)"

definition features_of_config :: "string list \<Rightarrow> string list" where
  "features_of_config ls = List.map_filter config_line_feature ls"

text \<open>Decompression is not implemented and always fails.\<close>

definition decompress_gzip :: "bytes \<Rightarrow> string option" where
  "decompress_gzip data = None"

text \<open>
  The loop over the candidate files: the first one with a feature wins. \<open>read\<close> and \<open>text\<close>
  are \<open>std::fs::read\<close> and \<open>read_to_string\<close>, \<open>None\<close> when they fail.
\<close>

fun detect_features_in ::
  "(string \<Rightarrow> bytes option) \<Rightarrow> (string \<Rightarrow> string option) \<Rightarrow> string list \<Rightarrow> string list" where
  "detect_features_in read text [] = []"
| "detect_features_in read text (p # ps) =
     (let content =
        (if ends_with p ''.gz'' then
           (case read p of Some data \<Rightarrow> decompress_gzip data | None \<Rightarrow> None)
         else
           (let kernel_release =
              (case text ''/proc/sys/kernel/osrelease'' of Some s \<Rightarrow> trim s | None \<Rightarrow> '''')
            in text (p @ kernel_release)))
      in case content of
           None \<Rightarrow> detect_features_in read text ps
         | Some t \<Rightarrow>
             (let features = features_of_config (text_lines t)
              in if features \<noteq> [] then features else detect_features_in read text ps))"

definition detect_kernel_features ::
  "(string \<Rightarrow> bytes option) \<Rightarrow> (string \<Rightarrow> string option) \<Rightarrow> string list" where
  "detect_kernel_features read text =
     detect_features_in read text [''/proc/config.gz'', ''/boot/config-'']"

definition system_info_detect ::
  "(string \<Rightarrow> bytes option) \<Rightarrow> (string \<Rightarrow> string option) \<Rightarrow> string \<Rightarrow> system_info" where
  "system_info_detect read text arch =
     \<lparr>si_kernel_version =
        (case text ''/proc/sys/kernel/osrelease'' of Some s \<Rightarrow> trim s | None \<Rightarrow> ''unknown''),
      si_architecture = arch, si_kernel_features = detect_kernel_features read text\<rparr>"

text \<open>\<open>/proc/config.gz\<close> is never used: only the configuration of the running release counts.\<close>

definition boot_config :: "(string \<Rightarrow> string option) \<Rightarrow> string option" where
  "boot_config text = text (''/boot/config-'' @ (case text ''/proc/sys/kernel/osrelease'' of
     Some s \<Rightarrow> trim s | None \<Rightarrow> ''''))"

lemma detect_kernel_features_eq:
  "detect_kernel_features read text =
     (case boot_config text of None \<Rightarrow> [] | Some t \<Rightarrow> features_of_config (text_lines t))"
  by (auto simp: detect_kernel_features_def decompress_gzip_def ends_with_def Let_def boot_config_def
      split: option.split)

lemma config_name:
  assumes "CHR ''='' \<notin> set f"
  shows "starts_with (f @ ''='' @ v) ''CONFIG_'' \<longleftrightarrow> starts_with f ''CONFIG_''"
  using assms by (auto simp: starts_with_iff append_eq_append_conv2 append_eq_Cons_conv Cons_eq_append_conv)

lemma config_line_feature_Some:
  "config_line_feature l = Some f \<longleftrightarrow>
     (\<exists>v\<in>{''y'', ''m''}. trim l = f @ ''='' @ v) \<and> starts_with f ''CONFIG_'' \<and> CHR ''='' \<notin> set f"
proof
  assume "config_line_feature l = Some f"
  then obtain v where v: "split_once CHR ''='' (trim l) = Some (f, v)" "v \<in> {''y'', ''m''}"
    "starts_with (trim l) ''CONFIG_''"
    by (auto simp: config_line_feature_def Let_def split: option.splits if_splits)
  from split_once_Some [OF v(1)] have "trim l = f @ ''='' @ v" "CHR ''='' \<notin> set f" by simp_all
  with v config_name [of f v]
  show "(\<exists>v\<in>{''y'', ''m''}. trim l = f @ ''='' @ v) \<and> starts_with f ''CONFIG_'' \<and> CHR ''='' \<notin> set f"
    by auto
next
  assume "(\<exists>v\<in>{''y'', ''m''}. trim l = f @ ''='' @ v) \<and> starts_with f ''CONFIG_'' \<and> CHR ''='' \<notin> set f"
  then obtain v where v: "v \<in> {''y'', ''m''}" "trim l = f @ ''='' @ v" "starts_with f ''CONFIG_''"
    "CHR ''='' \<notin> set f" by blast
  then show "config_line_feature l = Some f"
    using config_name [of f v] by (auto simp: config_line_feature_def Let_def)
qed

text \<open>The features found are the enabled options of that file.\<close>

lemma detected_features:
  "f \<in> set (si_kernel_features (system_info_detect read text arch)) \<longleftrightarrow>
     (\<exists>t. boot_config text = Some t \<and>
       (\<exists>l\<in>set (text_lines t). \<exists>v\<in>{''y'', ''m''}. trim l = f @ ''='' @ v)) \<and>
     starts_with f ''CONFIG_'' \<and> CHR ''='' \<notin> set f"
proof -
  have "f \<in> set (features_of_config ls) \<longleftrightarrow> (\<exists>l\<in>set ls. config_line_feature l = Some f)" for ls
    by (induction ls) (auto simp: features_of_config_def List.map_filter_simps split: option.split)
  then show ?thesis
    by (cases "boot_config text")
      (auto simp: system_info_detect_def detect_kernel_features_eq config_line_feature_Some)
qed

section \<open>Modalias patterns\<close>

fun find_window :: "string \<Rightarrow> string \<Rightarrow> nat option" where
  "find_window [] needle = None"
| "find_window (c # cs) needle =
     (if starts_with (c # cs) needle then Some 0 else map_option Suc (find_window cs needle))"

definition find_subslice :: "string \<Rightarrow> string \<Rightarrow> nat option" where
  "find_subslice haystack needle = (if needle = [] then Some 0 else find_window haystack needle)"

text \<open>The loop over \<open>segments.iter().enumerate()\<close>: index, segment count, position.\<close>

fun match_segments :: "nat \<Rightarrow> nat \<Rightarrow> nat \<Rightarrow> string list \<Rightarrow> string \<Rightarrow> bool" where
  "match_segments i n pos [] modalias = True"
| "match_segments i n pos (segment # segs) modalias =
     (if segment = [] then match_segments (Suc i) n pos segs modalias
      else if i = 0 then
        (if \<not> starts_with modalias segment then False
         else match_segments (Suc i) n (length segment) segs modalias)
      else if i = n - 1 then
        (if \<not> ends_with modalias segment then False
         else if length modalias < length segment then False
         else if length modalias - length segment < pos then False
         else match_segments (Suc i) n pos segs modalias)
      else
        (case find_subslice (drop pos modalias) segment of
           Some found_pos \<Rightarrow>
             match_segments (Suc i) n (pos + (found_pos + length segment)) segs modalias
         | None \<Rightarrow> False))"

definition modalias_pattern_match :: "string \<Rightarrow> string \<Rightarrow> bool" where
  "modalias_pattern_match pattern modalias =
     (if pattern = ''*'' then True
      else
        (let segments = split_on CHR ''*'' pattern in
         if segments = [] \<or> (length segments = 1 \<and> hd segments = []) then modalias = []
         else match_segments 0 (length segments) 0 segments modalias))"

section \<open>Kernel version ranges\<close>

definition numeric_parts :: "string list \<Rightarrow> u64 list" where
  "numeric_parts ss = List.map_filter parse_u64_ok ss"

definition kernel_parts :: "string \<Rightarrow> u64 list" where
  "kernel_parts s = numeric_parts (split_pred (\<lambda>c. \<not> is_ascii_digit c) s)"

definition dotted_parts :: "string \<Rightarrow> u64 list" where
  "dotted_parts s = numeric_parts (split_on CHR ''.'' s)"

definition part_at :: "u64 list \<Rightarrow> nat \<Rightarrow> u64" where
  "part_at ps i = (if i < length ps then ps ! i else 0)"

text \<open>\<open>for (i, &min_part)\<close>: the running kernel is below the minimum.\<close>

fun below_min :: "u64 list \<Rightarrow> nat \<Rightarrow> u64 list \<Rightarrow> bool" where
  "below_min sys i [] = False"
| "below_min sys i (mn # mns) =
     (if part_at sys i < mn then True
      else if part_at sys i > mn then False
      else below_min sys (Suc i) mns)"

fun above_max :: "u64 list \<Rightarrow> nat \<Rightarrow> u64 list \<Rightarrow> bool" where
  "above_max sys i [] = False"
| "above_max sys i (mx # mxs) =
     (if part_at sys i > mx then True
      else if part_at sys i < mx then False
      else above_max sys (Suc i) mxs)"

datatype kernel_check_result = KCompatible | KIncompatible string | KUnknown

definition check_kernel_compatibility :: "system_info \<Rightarrow> driver_entry \<Rightarrow> kernel_check_result" where
  "check_kernel_compatibility system driver =
     (let compat = di_kernel_compat (de_id driver);
          sys_parts = kernel_parts (si_kernel_version system)
      in if sys_parts = [] then KUnknown
         else if below_min sys_parts 0 (dotted_parts (kc_min_version compat)) then
           KIncompatible (''Kernel '' @ si_kernel_version system @ '' is older than required minimum ''
             @ kc_min_version compat)
         else (case kc_max_version compat of
             Some max_version \<Rightarrow>
               (if above_max sys_parts 0 (dotted_parts max_version) then
                  KIncompatible (''Kernel '' @ si_kernel_version system
                    @ '' is newer than required maximum '' @ max_version)
                else KCompatible)
           | None \<Rightarrow> KCompatible))"

section \<open>Architecture, features, identifiers\<close>

definition arch_alias :: "string \<Rightarrow> string \<Rightarrow> bool" where
  "arch_alias sys drv =
     ((sys, drv) \<in> {(''x86_64'', ''amd64''), (''amd64'', ''x86_64''),
                    (''aarch64'', ''arm64''), (''arm64'', ''aarch64'')})"

definition check_architecture_match :: "system_info \<Rightarrow> driver_entry \<Rightarrow> bool" where
  "check_architecture_match system driver =
     (let sys_arch = to_lowercase (si_architecture system);
          driver_arch = to_lowercase (di_arch (de_id driver))
      in if sys_arch = driver_arch then True else arch_alias sys_arch driver_arch)"

datatype feature_check_result = AllPresent | Missing "string list" | FeaturesUnknown

definition check_kernel_features :: "system_info \<Rightarrow> driver_entry \<Rightarrow> feature_check_result" where
  "check_kernel_features system driver =
     (let required = kc_required_features (di_kernel_compat (de_id driver)) in
      if required = [] then AllPresent
      else if si_kernel_features system = [] then FeaturesUnknown
      else (let missing = filter (\<lambda>f. f \<notin> set (si_kernel_features system)) required
            in if missing = [] then AllPresent else Missing missing))"

definition check_modalias_match :: "driver_entry \<Rightarrow> hardware_device \<Rightarrow> bool" where
  "check_modalias_match driver device =
     (\<exists>pattern\<in>set (de_supported_hardware driver).
        modalias_pattern_match pattern (hw_modalias (hd_hardware_id device)))"

definition check_vendor_device_match :: "driver_entry \<Rightarrow> hardware_device \<Rightarrow> bool" where
  "check_vendor_device_match driver device =
     (let vendor = hw_vendor_id (hd_hardware_id device);
          dev = hw_device_id (hd_hardware_id device)
      in \<exists>pattern\<in>set (de_supported_hardware driver).
           (contains_str pattern (trim_start_matches vendor ''0x'')
            \<or> contains_str pattern (trim_start_matches vendor ''0X''))
         \<and> (contains_str pattern (trim_start_matches dev ''0x'')
            \<or> contains_str pattern (trim_start_matches dev ''0X'')))"

section \<open>The compatibility score\<close>

definition msg_no_modalias :: string where
  "msg_no_modalias = ''No modalias pattern matches this device''"

definition msg_no_ids :: string where
  "msg_no_ids = ''No vendor/device ID match''"

text \<open>The dash in the kernel message is the UTF-8 em dash of the source.\<close>

definition msg_kernel_unknown :: string where
  "msg_kernel_unknown = ''Kernel compatibility unknown '' @ [CHR 0xE2, CHR 0x80, CHR 0x94]
     @ '' assuming partial compatibility''"

definition score_identity :: "driver_entry \<Rightarrow> hardware_device \<Rightarrow> f64 \<times> string list" where
  "score_identity driver device =
     (let (s1, i1) = (if check_modalias_match driver device then (f64_add 0 f64_0_5, [])
                      else (0, [msg_no_modalias]))
      in if check_vendor_device_match driver device then (f64_add s1 f64_0_2, i1)
         else (s1, i1 @ [msg_no_ids]))"

definition evaluate_compatibility ::
  "system_info \<Rightarrow> driver_entry \<Rightarrow> hardware_device \<Rightarrow> compatibility_info" where
  "evaluate_compatibility system driver device =
     (let (s2, issues2) = score_identity driver device;
          name = di_name (de_id driver)
      in case check_kernel_compatibility system driver of
           KIncompatible reason \<Rightarrow>
             incompatible_info (''Kernel '' @ si_kernel_version system
               @ '' is incompatible with driver '' @ quoted name) [reason]
         | k \<Rightarrow>
             (let (s3, issues3) = (if k = KCompatible then (f64_add s2 f64_0_15, issues2)
                                   else (f64_add s2 f64_0_05, issues2 @ [msg_kernel_unknown]))
              in if \<not> check_architecture_match system driver then
                   incompatible_info
                     (''Architecture mismatch: driver requires '' @ quoted (di_arch (de_id driver)) @ '', system is '' @ quoted (si_architecture system))
                     (issues3 @ [''Driver architecture '' @ quoted (di_arch (de_id driver)) @ '' does not match system '' @ quoted (si_architecture system)])
                 else
                   (let s4 = f64_add s3 f64_0_1;
                        (score, issues) =
                          (case check_kernel_features system driver of
                             AllPresent \<Rightarrow> (f64_add s4 f64_0_05, issues3)
                           | Missing features \<Rightarrow>
                               (s4, issues3 @ [''Required kernel features not enabled: ''
                                  @ join '', '' features])
                           | FeaturesUnknown \<Rightarrow> (f64_add s4 f64_0_025, issues3));
                        compatible = (f64_0_5 \<le> score)
                    in \<lparr>ci_compatible = compatible,
                        ci_score = f64_clamp01 score,
                        ci_explanation =
                          (if compatible then
                             ''Driver '' @ quoted name @ '' is compatible with device (score: ''
                               @ show_f64_2 score @ '')''
                           else
                             ''Driver '' @ quoted name @ '' is not compatible with device (score: ''
                               @ show_f64_2 score @ ''): '' @ join ''; '' issues),
                        ci_issues = issues,
                        ci_signature_verified =
                          (case de_compatibility driver of None \<Rightarrow> None
                           | Some c \<Rightarrow> ci_signature_verified c)\<rparr>)))"

text \<open>Stable sort, highest score first.\<close>

definition find_matching_drivers ::
  "system_info \<Rightarrow> hardware_device \<Rightarrow> driver_entry list \<Rightarrow> (driver_entry \<times> compatibility_info) list"
where
  "find_matching_drivers system device drivers =
     sort_key (\<lambda>m. - int (ci_score (snd m)))
       (List.map_filter (\<lambda>driver.
          let compat = evaluate_compatibility system driver device
          in if ci_compatible compat then Some (driver, compat) else None) drivers)"

section \<open>The pattern matcher is a wildcard matcher\<close>

text \<open>Reference semantics: a star stands for any text, every other character for itself.\<close>

fun glob :: "string \<Rightarrow> string \<Rightarrow> bool" where
  "glob [] s = (s = [])"
| "glob (c # p) s =
     (if c = CHR ''*'' then (\<exists>a b. s = a @ b \<and> glob p b)
      else (case s of [] \<Rightarrow> False | d # s' \<Rightarrow> c = d \<and> glob p s'))"

text \<open>The pieces after the first, each after an arbitrary gap, the last one at the end.\<close>

fun rest_match :: "string list \<Rightarrow> string \<Rightarrow> bool" where
  "rest_match [] r = (r = [])"
| "rest_match [s] r = (\<exists>a. r = a @ s)"
| "rest_match (s # t # ss) r = (\<exists>a b. r = a @ s @ b \<and> rest_match (t # ss) b)"

lemma rest_match_Cons:
  "rest_match (s # ss) r \<longleftrightarrow>
     (\<exists>a b. r = a @ s @ b \<and> (if ss = [] then b = [] else rest_match ss b))"
  by (cases ss) auto

lemma rest_match_gap:
  assumes "ss \<noteq> []" "rest_match ss r" shows "rest_match ss (a @ r)"
proof -
  obtain s us where ss: "ss = s # us" using assms(1) by (cases ss) auto
  obtain b c where r: "r = b @ s @ c" "if us = [] then c = [] else rest_match us c"
    using assms(2) unfolding ss rest_match_Cons by blast
  from r(1) have "a @ r = (a @ b) @ s @ c" by simp
  with r(2) show ?thesis unfolding ss rest_match_Cons by blast
qed

lemma rest_match_Nil_piece:
  assumes "ss \<noteq> []" shows "rest_match ([] # ss) r = rest_match ss r"
proof -
  have "rest_match ([] # ss) r \<longleftrightarrow> (\<exists>a b. r = a @ b \<and> rest_match ss b)"
    using assms by (simp add: rest_match_Cons)
  also have "\<dots> \<longleftrightarrow> rest_match ss r"
    using rest_match_gap [OF assms] by (metis append_Nil)
  finally show ?thesis .
qed

lemma glob_split:
  "glob p m \<longleftrightarrow> (case split_on CHR ''*'' p of [] \<Rightarrow> False
     | s # ss \<Rightarrow> \<exists>r. m = s @ r \<and> rest_match ss r)"
proof (induction p arbitrary: m)
  case Nil
  then show ?case by auto
next
  case (Cons c p)
  obtain s ss where sp: "split_on CHR ''*'' p = s # ss" by (cases "split_on CHR ''*'' p") auto
  show ?case
  proof (cases "c = CHR ''*''")
    case True
    have "(\<exists>a b. m = a @ b \<and> (\<exists>r. b = s @ r \<and> rest_match ss r)) \<longleftrightarrow> rest_match (s # ss) m"
      by (cases ss) auto
    then show ?thesis using Cons.IH True by (simp add: sp)
  next
    case False
    then show ?thesis using Cons.IH by (auto simp: sp split: list.splits)
  qed
qed

lemma find_window_Some:
  "find_window h s = Some f \<Longrightarrow> f + length s \<le> length h \<and> (\<exists>b. h = take f h @ s @ b)
     \<and> (\<forall>a b. h = a @ s @ b \<longrightarrow> f \<le> length a)"
proof (induction h s arbitrary: f rule: find_window.induct)
  case (2 c cs s)
  show ?case
  proof (cases "starts_with (c # cs) s")
    case True
    then show ?thesis using 2 starts_with_length [OF True] by (auto simp: starts_with_iff)
  next
    case False
    then obtain g where g: "find_window cs s = Some g" "f = Suc g" using 2 by auto
    note ih = "2.IH" [OF False g(1)]
    have "Suc g \<le> length a" if "c # cs = a @ s @ b" for a b
      using that False ih by (cases a) (auto simp: starts_with_iff)
    then show ?thesis using ih g by auto
  qed
qed simp

lemma find_window_None: "s \<noteq> [] \<Longrightarrow> find_window h s = None \<Longrightarrow> h \<noteq> a @ s @ b"
proof (induction h s arbitrary: a rule: find_window.induct)
  case (2 c cs s)
  then show ?case
    by (cases a) (auto split: if_splits simp: starts_with_iff)
qed auto

text \<open>Taking the leftmost occurrence of a middle piece never loses a match.\<close>

lemma rest_match_greedy:
  assumes ss: "ss \<noteq> []" and s: "s \<noteq> []"
  shows "rest_match (s # ss) r \<longleftrightarrow>
    (case find_subslice r s of None \<Rightarrow> False
     | Some f \<Rightarrow> rest_match ss (drop (f + length s) r))"
proof -
  obtain t us where tus: "ss = t # us" using ss by (cases ss) auto
  have unf: "rest_match (s # ss) r \<longleftrightarrow> (\<exists>a b. r = a @ s @ b \<and> rest_match ss b)"
    by (simp add: tus)
  show ?thesis
  proof (cases "find_window r s")
    case None
    then show ?thesis using unf s find_window_None [OF s None] by (simp add: find_subslice_def)
  next
    case (Some f)
    note w = find_window_Some [OF Some]
    have eq: "r = take f r @ s @ drop (f + length s) r"
      using w by (metis append_eq_conv_conj append_take_drop_id drop_drop add.commute)
    have "rest_match ss (drop (f + length s) r)" if ab: "r = a @ s @ b" "rest_match ss b" for a b
    proof -
      have "f + length s \<le> length (a @ s)" using w ab by simp
      moreover have "r = (a @ s) @ b" using ab by simp
      ultimately have "drop (f + length s) r = drop (f + length s) (a @ s) @ b"
        by (simp only: drop_append) simp
      then show ?thesis by (simp only: rest_match_gap [OF ss ab(2)])
    qed
    moreover have "rest_match (s # ss) r" if "rest_match ss (drop (f + length s) r)"
      using unf eq that by blast
    ultimately show ?thesis using unf s Some by (auto simp: find_subslice_def)
  qed
qed

lemma find_subslice_bound: "find_subslice h s = Some f \<Longrightarrow> f + length s \<le> length h"
  using find_window_Some by (auto simp: find_subslice_def split: if_splits)

lemma ends_with_drop:
  assumes "pos \<le> length m"
  shows "(\<exists>a. drop pos m = a @ s) \<longleftrightarrow>
     ends_with m s \<and> \<not> length m < length s \<and> \<not> length m - length s < pos"
proof
  assume "\<exists>a. drop pos m = a @ s"
  then obtain a where a: "drop pos m = a @ s" by blast
  then have "\<exists>t. m = t @ s" by (metis append_assoc append_take_drop_id)
  moreover have "length m = pos + length a + length s"
    using a assms by (metis add.assoc length_append length_drop le_add_diff_inverse)
  ultimately show "ends_with m s \<and> \<not> length m < length s \<and> \<not> length m - length s < pos"
    unfolding ends_with_iff using \<open>length m = _\<close> by auto
next
  assume r: "ends_with m s \<and> \<not> length m < length s \<and> \<not> length m - length s < pos"
  then obtain t where "m = t @ s" using ends_with_iff by blast
  then have "drop pos m = drop pos t @ s" using r by simp
  then show "\<exists>a. drop pos m = a @ s" by blast
qed

lemma match_segments_rest:
  "\<lbrakk>0 < i; segs \<noteq> []; i + length segs = n; pos \<le> length m\<rbrakk> \<Longrightarrow>
   match_segments i n pos segs m \<longleftrightarrow> rest_match segs (drop pos m)"
proof (induction i n pos segs m rule: match_segments.induct)
  case (2 i n pos s segs m)
  show ?case
  proof (cases "segs = []")
    case last: True
    then have "i = n - 1" using 2 by simp
    then show ?thesis
      using last "2.prems" ends_with_drop [of pos m s] by auto
  next
    case more: False
    then have ni: "i \<noteq> n - 1" using 2 by (cases segs) auto
    show ?thesis
    proof (cases "s = []")
      case True
      then show ?thesis using 2 more by (simp add: rest_match_Nil_piece)
    next
      case False
      have "match_segments (Suc i) n (pos + (f + length s)) segs m =
          rest_match segs (drop (f + length s) (drop pos m))"
        if f: "find_subslice (drop pos m) s = Some f" for f
      proof -
        have "pos + (f + length s) \<le> length m" using find_subslice_bound [OF f] 2 by simp
        then have "match_segments (Suc i) n (pos + (f + length s)) segs m =
          rest_match segs (drop (pos + (f + length s)) m)"
          using "2.IH"(4) [OF False _ ni f] 2 more by simp
        then show ?thesis by (simp add: add.commute)
      qed
      then show ?thesis
        using False ni "2.prems"(1) rest_match_greedy [OF more False, of "drop pos m"]
        by (auto split: option.splits)
    qed
  qed
qed simp

lemma pattern_match_segments:
  assumes "p \<noteq> []" "p \<noteq> ''*''"
  shows "modalias_pattern_match p m =
     match_segments 0 (length (split_on CHR ''*'' p)) 0 (split_on CHR ''*'' p) m"
proof -
  have "\<not> (length (split_on CHR ''*'' p) = 1 \<and> hd (split_on CHR ''*'' p) = [])"
    using assms join_split_on [of "CHR ''*''" p] by (auto simp: length_Suc_conv)
  then show ?thesis using assms by (auto simp: modalias_pattern_match_def Let_def)
qed

lemma split_on_has: "d \<in> set p \<Longrightarrow> tl (split_on d p) \<noteq> []"
  by (induction p) (auto split: list.splits)

text \<open>C22: The modalias matcher implements the wildcard semantics for every pattern that has
  a star: splitting at the stars and taking the leftmost occurrence of each middle piece
  accepts exactly the texts the pattern describes.\<close>

theorem modalias_pattern_match_glob:
  assumes "CHR ''*'' \<in> set p"
  shows "modalias_pattern_match p m \<longleftrightarrow> glob p m"
proof (cases "p = ''*''")
  case True
  then show ?thesis by (simp add: modalias_pattern_match_def)
next
  case False
  obtain s ss where sp: "split_on CHR ''*'' p = s # ss" by (cases "split_on CHR ''*'' p") auto
  have ss: "ss \<noteq> []" using split_on_has [OF assms] sp by simp
  have "match_segments 1 (Suc (length ss)) pos ss m = rest_match ss (drop pos m)"
    if "pos \<le> length m" for pos
    using match_segments_rest [of 1 ss "Suc (length ss)" pos m] ss that by simp
  then have "match_segments 0 (Suc (length ss)) 0 (s # ss) m \<longleftrightarrow>
      (\<exists>r. m = s @ r \<and> rest_match ss r)"
    using starts_with_length [of m s] by (auto simp: starts_with_iff)
  moreover have "p \<noteq> []" using assms by auto
  ultimately show ?thesis
    using False sp pattern_match_segments [of p m] by (simp add: glob_split)
qed

lemma modalias_pattern_match_glob_witness:
  "modalias_pattern_match ''pci:v*d*sv*'' ''pci:v8086d15B8sv17AA'' \<and>
   glob ''pci:v*d*sv*'' ''pci:v8086d15B8sv17AA''"
proof -
  have m: "modalias_pattern_match ''pci:v*d*sv*'' ''pci:v8086d15B8sv17AA''"
    by (simp add: modalias_pattern_match_def find_subslice_def ends_with_def Let_def)
  show ?thesis
    using m modalias_pattern_match_glob [of "''pci:v*d*sv*''" "''pci:v8086d15B8sv17AA''"] by simp
qed

text \<open>A pattern without a star is not compared for equality: it matches every modalias
  that begins with it, and a question mark is an ordinary character.\<close>

theorem modalias_pattern_match_prefix:
  assumes "CHR ''*'' \<notin> set p"
  shows "modalias_pattern_match p m \<longleftrightarrow> (if p = [] then m = [] else starts_with m p)"
  using assms by (auto simp: modalias_pattern_match_def split_on_none Let_def)

lemma modalias_pattern_match_prefix_witness:
  "modalias_pattern_match ''usb:v1'' ''usb:v1D6Bp0002'' \<and>
   \<not> modalias_pattern_match ''usb:v?D6B'' ''usb:v1D6B''"
  using modalias_pattern_match_prefix [of "''usb:v1''" "''usb:v1D6Bp0002''"]
    modalias_pattern_match_prefix [of "''usb:v?D6B''" "''usb:v1D6B''"] by simp

end
