(* ===== verification/Matching_Score.thy ===== *)
theory Matching_Score
  imports Matching "HOL-Library.Multiset"
begin

text \<open>
  What the checks of theory Matching decide: kernel ranges as lexicographic
  comparisons with zero padding, the effect of the weighted double-precision score,
  and the order and contents of the list of matching drivers.
\<close>

section \<open>Kernel ranges\<close>

text \<open>Position by position up to the length of the bound, missing parts read as 0.\<close>

definition lex_below :: "u64 list \<Rightarrow> u64 list \<Rightarrow> bool" where
  "lex_below sys bound =
     (\<exists>k<length bound. (\<forall>j<k. part_at sys j = bound ! j) \<and> part_at sys k < bound ! k)"

definition lex_above :: "u64 list \<Rightarrow> u64 list \<Rightarrow> bool" where
  "lex_above sys bound =
     (\<exists>k<length bound. (\<forall>j<k. part_at sys j = bound ! j) \<and> bound ! k < part_at sys k)"

lemma ex_first_diff_Cons:
  "(\<exists>k<length (b # bs). (\<forall>j<k. f (i + j) = (b # bs) ! j) \<and> P (f (i + k)) ((b # bs) ! k)) \<longleftrightarrow>
   P (f i) b \<or> (f i = b \<and> (\<exists>k<length bs. (\<forall>j<k. f (Suc i + j) = bs ! j) \<and> P (f (Suc i + k)) (bs ! k)))"
  (is "?l \<longleftrightarrow> ?r")
proof
  assume ?l
  then obtain k where k: "k < Suc (length bs)" "\<forall>j<k. f (i + j) = (b # bs) ! j"
    "P (f (i + k)) ((b # bs) ! k)" by auto
  show ?r
  proof (cases k)
    case 0 then show ?thesis using k by simp
  next
    case (Suc m)
    have "f i = b" using k(2) Suc by fastforce
    moreover have "\<forall>j<m. f (Suc i + j) = bs ! j"
      using k(2) Suc by (metis Suc_mono add_Suc_shift add.commute nth_Cons_Suc)
    ultimately show ?thesis using k Suc by auto
  qed
next
  assume ?r
  then consider (now) "P (f i) b"
    | (later) k where "f i = b" "k < length bs" "\<forall>j<k. f (Suc i + j) = bs ! j"
        "P (f (Suc i + k)) (bs ! k)" by blast
  then show ?l
  proof cases
    case now then show ?thesis by (intro exI [of _ 0]) simp
  next
    case later
    have "f (i + j) = (b # bs) ! j" if "j < Suc k" for j
      using that later by (cases j) auto
    then show ?thesis using later by (intro exI [of _ "Suc k"]) auto
  qed
qed

lemma below_min_from:
  "below_min sys i mins \<longleftrightarrow>
     (\<exists>k<length mins. (\<forall>j<k. part_at sys (i + j) = mins ! j) \<and> part_at sys (i + k) < mins ! k)"
proof (induction mins arbitrary: i)
  case (Cons m ms)
  show ?case
    unfolding ex_first_diff_Cons [of m ms "part_at sys" i "(<)"]
    using Cons.IH [of "Suc i"] by auto
qed simp

lemma above_max_from:
  "above_max sys i maxs \<longleftrightarrow>
     (\<exists>k<length maxs. (\<forall>j<k. part_at sys (i + j) = maxs ! j) \<and> maxs ! k < part_at sys (i + k))"
proof (induction maxs arbitrary: i)
  case (Cons m ms)
  show ?case
    unfolding ex_first_diff_Cons [of m ms "part_at sys" i "\<lambda>x y. y < x"]
    using Cons.IH [of "Suc i"] by auto
qed simp

lemma below_min_lex: "below_min sys 0 mins = lex_below sys mins"
  by (simp add: below_min_from lex_below_def)

lemma above_max_lex: "above_max sys 0 maxs = lex_above sys maxs"
  by (simp add: above_max_from lex_above_def)

lemma lex_below_not_above: "lex_below sys b \<Longrightarrow> \<not> lex_above sys b"
proof
  assume "lex_below sys b" "lex_above sys b"
  then obtain k l where k: "k < length b" "\<forall>j<k. part_at sys j = b ! j" "part_at sys k < b ! k"
    and l: "l < length b" "\<forall>j<l. part_at sys j = b ! j" "b ! l < part_at sys l"
    unfolding lex_below_def lex_above_def by blast
  then show False by (cases k l rule: linorder_cases) force+
qed

lemma lex_equal_not: "(\<forall>j<length b. part_at sys j = b ! j) \<Longrightarrow> \<not> lex_below sys b \<and> \<not> lex_above sys b"
  by (auto simp: lex_below_def lex_above_def)

definition kernel_in_range :: "u64 list \<Rightarrow> kernel_compatibility \<Rightarrow> bool" where
  "kernel_in_range sys kc =
     (\<not> lex_below sys (dotted_parts (kc_min_version kc)) \<and>
      (case kc_max_version kc of None \<Rightarrow> True
       | Some mx \<Rightarrow> \<not> lex_above sys (dotted_parts mx)))"

lemma check_kernel_compatibility_cases:
  "check_kernel_compatibility system d = KUnknown \<longleftrightarrow> kernel_parts (si_kernel_version system) = []"
  "check_kernel_compatibility system d = KCompatible \<longleftrightarrow>
     kernel_parts (si_kernel_version system) \<noteq> [] \<and>
     kernel_in_range (kernel_parts (si_kernel_version system)) (di_kernel_compat (de_id d))"
  by (auto simp: check_kernel_compatibility_def kernel_in_range_def Let_def below_min_lex
      above_max_lex split: option.splits)

text \<open>C23: The kernel check rejects a driver exactly when the running kernel's numeric parts,
  compared position by position with the declared bound and padded with zeros, are
  lexicographically below the minimum or above the maximum; an unreadable kernel version
  is never a rejection.\<close>

theorem kernel_check_range:
  "(\<exists>reason. check_kernel_compatibility system d = KIncompatible reason) \<longleftrightarrow>
     kernel_parts (si_kernel_version system) \<noteq> [] \<and>
     (lex_below (kernel_parts (si_kernel_version system))
        (dotted_parts (kc_min_version (di_kernel_compat (de_id d)))) \<or>
      (\<exists>mx. kc_max_version (di_kernel_compat (de_id d)) = Some mx \<and>
        lex_above (kernel_parts (si_kernel_version system)) (dotted_parts mx)))"
  by (auto simp: check_kernel_compatibility_def Let_def below_min_lex above_max_lex
      split: option.splits)

section \<open>The score\<close>

definition hard_block :: "system_info \<Rightarrow> driver_entry \<Rightarrow> bool" where
  "hard_block system d =
     ((\<exists>reason. check_kernel_compatibility system d = KIncompatible reason)
      \<or> \<not> check_architecture_match system d)"

lemmas f64_eval = f64_add_def f64_round_def f64_consts bit_len.simps f64_clamp01_def Let_def

text \<open>The score as a function of the five verdicts.\<close>

definition score_of :: "bool \<Rightarrow> bool \<Rightarrow> bool \<Rightarrow> feature_check_result \<Rightarrow> f64" where
  "score_of modalias ids known feats =
     (let s1 = (if modalias then f64_add 0 f64_0_5 else 0);
          s2 = (if ids then f64_add s1 f64_0_2 else s1);
          s3 = (if known then f64_add s2 f64_0_15 else f64_add s2 f64_0_05);
          s4 = f64_add s3 f64_0_1
      in case feats of AllPresent \<Rightarrow> f64_add s4 f64_0_05 | Missing _ \<Rightarrow> s4
         | FeaturesUnknown \<Rightarrow> f64_add s4 f64_0_025)"

lemmas score_of_unfold = score_of_def Let_def if_True if_False feature_check_result.case

lemma score_of_range: "score_of m i k f \<le> f64_one"
  by (cases m; cases i; cases k; cases f) (simp_all only: score_of_unfold, simp_all add: f64_eval)

lemma score_of_threshold: "f64_0_5 \<le> score_of m i k f \<longleftrightarrow> m"
  by (cases m; cases i; cases k; cases f) (simp_all only: score_of_unfold, simp_all add: f64_eval)

lemma fst_score_identity:
  "fst (score_identity d dev) =
     (let s1 = (if check_modalias_match d dev then f64_add 0 f64_0_5 else 0)
      in if check_vendor_device_match d dev then f64_add s1 f64_0_2 else s1)"
  by (simp add: score_identity_def)

lemma evaluate_blocked:
  "hard_block system d \<Longrightarrow>
   \<not> ci_compatible (evaluate_compatibility system d dev) \<and>
   ci_score (evaluate_compatibility system d dev) = 0"
  by (auto simp: hard_block_def evaluate_compatibility_def split_beta Let_def incompatible_info_def
      split: kernel_check_result.splits)

lemma evaluate_unblocked:
  assumes "\<not> hard_block system d"
  shows "ci_compatible (evaluate_compatibility system d dev) = (f64_0_5 \<le>
      score_of (check_modalias_match d dev) (check_vendor_device_match d dev)
        (check_kernel_compatibility system d = KCompatible) (check_kernel_features system d))"
    and "ci_score (evaluate_compatibility system d dev) = f64_clamp01
      (score_of (check_modalias_match d dev) (check_vendor_device_match d dev)
        (check_kernel_compatibility system d = KCompatible) (check_kernel_features system d))"
  using assms
  by (auto simp: hard_block_def evaluate_compatibility_def split_beta Let_def score_of_def
      fst_score_identity split: kernel_check_result.splits feature_check_result.splits)

text \<open>C24: A driver is judged compatible with a device exactly when one of its modalias
  patterns matches and neither the kernel range nor the architecture blocks it. In
  particular matching vendor and device identifiers with every other check passed is not
  enough: the weights 0.2, 0.15, 0.1 and 0.05 add up to just below 0.5 in double
  precision. The score is always within 0 and 1.\<close>

theorem compatible_iff:
  "(ci_compatible (evaluate_compatibility system d dev) \<longleftrightarrow>
      check_modalias_match d dev \<and> \<not> hard_block system d) \<and>
   ci_score (evaluate_compatibility system d dev) \<le> f64_one"
proof (cases "hard_block system d")
  case True
  then show ?thesis using evaluate_blocked [OF True] by simp
next
  case False
  then show ?thesis
    using evaluate_unblocked [OF False, of dev] by (simp add: score_of_threshold f64_clamp01_def)
qed

lemma identifiers_only_score:
  "score_of False True True AllPresent = f64_0_5 - 16"
  by (simp only: score_of_unfold) (simp add: f64_eval)

section \<open>The list of matching drivers\<close>

lemma sort_key_desc:
  "sorted_wrt (\<lambda>a b. f b \<le> f a) (sort_key (\<lambda>x. - int (f x)) xs)"
proof -
  have "sorted (map (\<lambda>x. - int (f x)) (sort_key (\<lambda>x. - int (f x)) xs))"
    by (rule sorted_sort_key)
  then show ?thesis by (simp add: sorted_map)
qed

lemma map_filter_cond:
  "List.map_filter (\<lambda>x. let c = g x in if p c then Some (x, c) else None) xs =
     map (\<lambda>x. (x, g x)) (filter (\<lambda>x. p (g x)) xs)"
  by (induction xs) (auto simp: List.map_filter_simps Let_def)

text \<open>C25: The drivers offered for a device are exactly the compatible ones, each paired with
  its own evaluation, in order of decreasing score; drivers of equal score keep their
  inventory order.\<close>

theorem find_matching_drivers_spec:
  "set (find_matching_drivers system dev drivers) =
     {(d, evaluate_compatibility system d dev) | d. d \<in> set drivers
        \<and> ci_compatible (evaluate_compatibility system d dev)} \<and>
   sorted_wrt (\<lambda>a b. ci_score (snd b) \<le> ci_score (snd a))
     (find_matching_drivers system dev drivers) \<and>
   map fst (filter (\<lambda>m. ci_score (snd m) = s) (find_matching_drivers system dev drivers)) =
     filter (\<lambda>d. ci_compatible (evaluate_compatibility system d dev)
       \<and> ci_score (evaluate_compatibility system d dev) = s) drivers"
proof -
  let ?ev = "\<lambda>d. evaluate_compatibility system d dev"
  let ?ps = "map (\<lambda>d. (d, ?ev d)) (filter (\<lambda>d. ci_compatible (?ev d)) drivers)"
  let ?k = "\<lambda>m :: driver_entry \<times> compatibility_info. - int (ci_score (snd m))"
  have eq: "find_matching_drivers system dev drivers = sort_key ?k ?ps"
    unfolding find_matching_drivers_def
    by (rule arg_cong [where f = "sort_key ?k"]) (rule map_filter_cond)
  have stable: "filter (\<lambda>m. ci_score (snd m) = s) (sort_key ?k ?ps) =
      filter (\<lambda>m. ci_score (snd m) = s) ?ps"
    using sort_key_stable [of "?k" "- int s" ?ps] by simp
  have "map fst (filter (\<lambda>m. ci_score (snd m) = s) ?ps) =
      filter (\<lambda>d. ci_compatible (?ev d) \<and> ci_score (?ev d) = s) drivers"
    by (simp add: filter_map o_def conj_commute)
  then show ?thesis
    unfolding eq using stable sort_key_desc [of "\<lambda>m. ci_score (snd m)" ?ps] by auto
qed

end
