(* ===== verification/Conflict.thy ===== *)
theory Conflict
  imports Matching_Score
begin

text \<open>
  Conflict detection (conflict.rs): the checks that may block an installation, a
  removal or an update, and the result they are merged into.
\<close>

datatype conflict_type =
    IncompatibleKernel | UnsupportedArchitecture | ConflictingModule | DuplicateInstallation
  | MissingDependency | InvalidPackage | InvalidSignature | HardwareIncompatibility
  | ModuleInUse | UnsupportedOperation

fun conflict_description :: "conflict_type \<Rightarrow> string" where
  "conflict_description IncompatibleKernel = ''Kernel version is incompatible with this driver''"
| "conflict_description UnsupportedArchitecture =
     ''Driver does not support this system architecture''"
| "conflict_description ConflictingModule = ''A conflicting kernel module is currently loaded''"
| "conflict_description DuplicateInstallation =
     ''This driver is already installed on the system''"
| "conflict_description MissingDependency = ''A required dependency is not met''"
| "conflict_description InvalidPackage = ''The driver package is invalid or corrupted''"
| "conflict_description InvalidSignature =
     ''The driver package signature is invalid or missing''"
| "conflict_description HardwareIncompatibility = ''No compatible hardware found for this driver''"
| "conflict_description ModuleInUse =
     ''The kernel module is currently in use and cannot be removed''"
| "conflict_description UnsupportedOperation =
     ''This operation is not supported for this driver type''"

record conflict_info =
  cf_type :: conflict_type
  cf_message :: string
  cf_details :: string

definition conflict_info_new :: "conflict_type \<Rightarrow> string \<Rightarrow> string \<Rightarrow> conflict_info" where
  "conflict_info_new t m d = \<lparr>cf_type = t, cf_message = m, cf_details = d\<rparr>"

record conflict_result =
  cr_has_conflicts :: bool
  cr_conflicts :: "conflict_info list"

definition conflict_none :: conflict_result where
  "conflict_none = \<lparr>cr_has_conflicts = False, cr_conflicts = []\<rparr>"

definition conflict_single :: "conflict_info \<Rightarrow> conflict_result" where
  "conflict_single c = \<lparr>cr_has_conflicts = True, cr_conflicts = [c]\<rparr>"

definition conflict_add :: "conflict_info \<Rightarrow> conflict_result \<Rightarrow> conflict_result" where
  "conflict_add c r = r\<lparr>cr_has_conflicts := True, cr_conflicts := cr_conflicts r @ [c]\<rparr>"

definition conflict_merge :: "conflict_result \<Rightarrow> conflict_result \<Rightarrow> conflict_result" where
  "conflict_merge other r =
     (if cr_has_conflicts other
      then r\<lparr>cr_has_conflicts := True, cr_conflicts := cr_conflicts r @ cr_conflicts other\<rparr>
      else r)"

section \<open>The checks\<close>

definition check_kernel :: "system_info \<Rightarrow> driver_entry \<Rightarrow> conflict_result" where
  "check_kernel system driver =
     (let kc = di_kernel_compat (de_id driver);
          sysv = si_kernel_version system;
          sys_parts = kernel_parts sysv
      in if sys_parts = [] then conflict_none
         else if below_min sys_parts 0 (dotted_parts (kc_min_version kc)) then
           conflict_single (conflict_info_new IncompatibleKernel
             (''Kernel '' @ sysv @ '' is older than required minimum '' @ kc_min_version kc)
             (''Minimum kernel version: '' @ kc_min_version kc @ '', current: '' @ sysv))
         else (case kc_max_version kc of
             Some mx \<Rightarrow>
               (if above_max sys_parts 0 (dotted_parts mx) then
                  conflict_single (conflict_info_new IncompatibleKernel
                    (''Kernel '' @ sysv @ '' is newer than required maximum '' @ mx)
                    (''Maximum kernel version: '' @ mx @ '', current: '' @ sysv))
                else conflict_none)
           | None \<Rightarrow> conflict_none))"

definition check_architecture :: "system_info \<Rightarrow> driver_entry \<Rightarrow> conflict_result" where
  "check_architecture system driver =
     (let sys_arch = to_lowercase (si_architecture system);
          driver_arch = to_lowercase (di_arch (de_id driver));
          compatible = (sys_arch = driver_arch \<or> arch_alias sys_arch driver_arch)
      in if \<not> compatible then
           conflict_single (conflict_info_new UnsupportedArchitecture
             (''Driver architecture '' @ quoted (di_arch (de_id driver))
                @ '' does not match system '' @ quoted (si_architecture system))
             (''Required: '' @ di_arch (de_id driver) @ '', system: '' @ si_architecture system))
         else conflict_none)"

definition same_identity :: "driver_entry \<Rightarrow> driver_entry \<Rightarrow> bool" where
  "same_identity existing driver =
     (eq_ignore_ascii_case (di_name (de_id existing)) (di_name (de_id driver))
      \<and> eq_ignore_ascii_case (di_provider (de_id existing)) (di_provider (de_id driver)))"

fun check_duplicate :: "driver_entry \<Rightarrow> driver_entry list \<Rightarrow> conflict_result" where
  "check_duplicate driver [] = conflict_none"
| "check_duplicate driver (existing # rest) =
     (if same_identity existing driver
         \<and> (is_operational (de_status existing) \<or> de_status existing = Installed) then
        (if di_version (de_id existing) = di_version (de_id driver) then
           conflict_single (conflict_info_new DuplicateInstallation
             (''Driver '' @ quoted (di_provider (de_id driver) @ ''/'' @ di_name (de_id driver))
                @ '' is already installed'')
             (''Current version: '' @ show_driver_version (di_version (de_id existing))
                @ ''. Use update to upgrade.''))
         else conflict_none)
      else check_duplicate driver rest)"

definition known_conflicts :: "(string \<times> string list) list" where
  "known_conflicts = [(''nvidia'', [''nouveau'']), (''nouveau'', [''nvidia'']),
     (''iwlwifi'', [''iwlegacy''])]"

text \<open>The first loaded module in conflict, table row by table row.\<close>

definition first_conflicting :: "string \<Rightarrow> string list \<Rightarrow> string option" where
  "first_conflicting driver_name_lower loaded_modules =
     (case concat (map (\<lambda>(drv, conflicting).
          if driver_name_lower = drv
          then filter (\<lambda>loaded. to_lowercase loaded \<in> set conflicting) loaded_modules
          else []) known_conflicts) of
        [] \<Rightarrow> None
      | loaded # _ \<Rightarrow> Some loaded)"

definition check_conflicting_modules :: "driver_entry \<Rightarrow> string list \<Rightarrow> conflict_result" where
  "check_conflicting_modules driver loaded_modules =
     (if di_module_type (de_id driver) \<noteq> KernelModule then conflict_none
      else (case first_conflicting (to_lowercase (di_name (de_id driver))) loaded_modules of
          Some loaded \<Rightarrow>
            conflict_single (conflict_info_new ConflictingModule
              (''Conflicting module '' @ quoted loaded @ '' is currently loaded'')
              (''Module '' @ quoted loaded @ '' conflicts with '' @ quoted (di_name (de_id driver))
                 @ ''. Unload the conflicting module first.''))
        | None \<Rightarrow> conflict_none))"

text \<open>Every branch of the hardware check returns no conflict.\<close>

definition check_hardware :: "driver_entry \<Rightarrow> hardware_device list \<Rightarrow> conflict_result" where
  "check_hardware driver hardware =
     (if hardware = [] then conflict_none
      else if \<exists>device\<in>set hardware. \<exists>pattern\<in>set (de_supported_hardware driver).
             modalias_pattern_match pattern (hw_modalias (hd_hardware_id device))
      then conflict_none
      else conflict_none)"

definition check_module_in_use :: "driver_entry \<Rightarrow> string list \<Rightarrow> conflict_result" where
  "check_module_in_use driver loaded_modules =
     (if di_module_type (de_id driver) \<noteq> KernelModule then conflict_none
      else if to_lowercase (di_name (de_id driver)) \<in> set loaded_modules then
        conflict_single (conflict_info_new ModuleInUse
          (''Module '' @ quoted (di_name (de_id driver)) @ '' is currently loaded and may be in use'')
          ''The kernel module is currently active. Ensure no processes are using it before removal, or use force flag to override.'')
      else conflict_none)"

definition dependents_of :: "driver_entry \<Rightarrow> driver_entry list \<Rightarrow> string list" where
  "dependents_of driver inventory_drivers =
     (let driver_name = to_lowercase (di_name (de_id driver)) in
      map (\<lambda>d. di_name (de_id d))
        (filter (\<lambda>d. to_lowercase (di_name (de_id d)) \<noteq> driver_name \<and>
           (\<exists>f\<in>set (kc_required_features (di_kernel_compat (de_id d))).
              contains_str (to_lowercase f) driver_name)) inventory_drivers))"

definition check_dependents :: "driver_entry \<Rightarrow> driver_entry list \<Rightarrow> conflict_result" where
  "check_dependents driver inventory_drivers =
     (let dependents = dependents_of driver inventory_drivers in
      if dependents \<noteq> [] then
        conflict_single (conflict_info_new ConflictingModule
          (''Other drivers depend on '' @ quoted (di_name (de_id driver)) @ '': ''
             @ join '', '' dependents)
          ''Remove dependent drivers first or expect breakage.'')
      else conflict_none)"

section \<open>The entry points\<close>

definition check_install ::
  "system_info \<Rightarrow> driver_entry \<Rightarrow> driver_entry list \<Rightarrow> string list \<Rightarrow> hardware_device list
     \<Rightarrow> conflict_result" where
  "check_install system driver inventory_drivers loaded_modules hardware =
     (let r0 = conflict_none;
          r1 = conflict_merge (check_kernel system driver) r0;
          r2 = conflict_merge (check_architecture system driver) r1;
          r3 = conflict_merge (check_duplicate driver inventory_drivers) r2;
          r4 = conflict_merge (check_conflicting_modules driver loaded_modules) r3
      in conflict_merge (check_hardware driver hardware) r4)"

definition check_remove ::
  "driver_entry \<Rightarrow> string list \<Rightarrow> driver_entry list \<Rightarrow> conflict_result" where
  "check_remove driver loaded_modules inventory_drivers =
     (let r0 = conflict_none;
          r1 = (if is_operational (de_status driver)
                then conflict_merge (check_module_in_use driver loaded_modules) r0 else r0)
      in conflict_merge (check_dependents driver inventory_drivers) r1)"

definition check_update ::
  "system_info \<Rightarrow> driver_entry \<Rightarrow> driver_entry \<Rightarrow> driver_entry list \<Rightarrow> string list
     \<Rightarrow> hardware_device list \<Rightarrow> conflict_result" where
  "check_update system current_driver new_driver inventory_drivers loaded_modules hardware =
     (let r = conflict_merge
                (check_install system new_driver inventory_drivers loaded_modules hardware)
                conflict_none
      in if di_version (de_id new_driver) \<le> di_version (de_id current_driver) then
           conflict_add (conflict_info_new InvalidPackage ''Cannot downgrade driver''
             (''Current version '' @ show_driver_version (di_version (de_id current_driver))
               @ '' is newer than or equal to target version ''
               @ show_driver_version (di_version (de_id new_driver)))) r
         else r)"

section \<open>Results agree with their lists\<close>

text \<open>The flag of a result says whether its list is empty; every operation keeps that.\<close>

definition wf_conflict_result :: "conflict_result \<Rightarrow> bool" where
  "wf_conflict_result r = (cr_has_conflicts r \<longleftrightarrow> cr_conflicts r \<noteq> [])"

named_theorems conflict_wf "well-formed conflict results"

lemma conflict_none_simps [simp]:
  "cr_has_conflicts conflict_none = False" "cr_conflicts conflict_none = []"
  by (simp_all add: conflict_none_def)

lemma conflict_single_simps [simp]:
  "cr_has_conflicts (conflict_single c) = True" "cr_conflicts (conflict_single c) = [c]"
  by (simp_all add: conflict_single_def)

lemma wf_conflict_none [conflict_wf]: "wf_conflict_result conflict_none"
  by (simp add: wf_conflict_result_def)

lemma wf_conflict_single [conflict_wf]: "wf_conflict_result (conflict_single c)"
  by (simp add: wf_conflict_result_def)

lemma wf_conflict_add [conflict_wf]: "wf_conflict_result (conflict_add c r)"
  by (simp add: wf_conflict_result_def conflict_add_def)

lemma wf_conflict_merge [conflict_wf]:
  "wf_conflict_result o' \<Longrightarrow> wf_conflict_result r \<Longrightarrow> wf_conflict_result (conflict_merge o' r)"
  by (auto simp: wf_conflict_result_def conflict_merge_def)

lemma has_conflicts_merge [simp]:
  "cr_has_conflicts (conflict_merge o' r) = (cr_has_conflicts o' \<or> cr_has_conflicts r)"
  by (auto simp: conflict_merge_def)

lemma conflicts_merge:
  "wf_conflict_result o' \<Longrightarrow> cr_conflicts (conflict_merge o' r) = cr_conflicts r @ cr_conflicts o'"
  by (auto simp: conflict_merge_def wf_conflict_result_def)

lemma wf_checks [conflict_wf]:
  "wf_conflict_result (check_kernel system d)" "wf_conflict_result (check_architecture system d)"
  "wf_conflict_result (check_conflicting_modules d ms)" "wf_conflict_result (check_hardware d hw)"
  "wf_conflict_result (check_module_in_use d ms)" "wf_conflict_result (check_dependents d ds)"
  by (auto simp: check_kernel_def check_architecture_def check_conflicting_modules_def
      check_hardware_def check_module_in_use_def check_dependents_def Let_def
      intro: conflict_wf split: option.splits)

lemma wf_check_duplicate [conflict_wf]: "wf_conflict_result (check_duplicate d ds)"
  by (induction ds) (auto intro: conflict_wf)

section \<open>What each check decides\<close>

lemma check_kernel_iff:
  "cr_has_conflicts (check_kernel system d) \<longleftrightarrow>
     (\<exists>reason. check_kernel_compatibility system d = KIncompatible reason)"
  by (auto simp: check_kernel_def check_kernel_compatibility_def Let_def split: option.splits)

lemma check_architecture_iff:
  "cr_has_conflicts (check_architecture system d) \<longleftrightarrow> \<not> check_architecture_match system d"
  by (auto simp: check_architecture_def check_architecture_match_def Let_def)

lemma check_hardware_never [simp]: "check_hardware d hw = conflict_none"
  by (simp add: check_hardware_def)

lemma hd_option_None: "(case xs of [] \<Rightarrow> None | x # _ \<Rightarrow> Some x) = None \<longleftrightarrow> xs = []"
  by (cases xs) auto

lemma table_rows_Nil:
  "concat (map (\<lambda>(d, c). if n = d then filter (P c) ms else []) t) = [] \<longleftrightarrow>
     \<not> (\<exists>row\<in>set t. n = fst row \<and> (\<exists>m\<in>set ms. P (snd row) m))"
  by (induction t) (auto simp: filter_empty_conv)

lemma first_conflicting_None:
  "first_conflicting n ms = None \<longleftrightarrow>
     \<not> (\<exists>row\<in>set known_conflicts. n = fst row \<and> (\<exists>m\<in>set ms. to_lowercase m \<in> set (snd row)))"
  unfolding first_conflicting_def hd_option_None
  by (rule table_rows_Nil [where P = "\<lambda>c m. to_lowercase m \<in> set c"])

lemma check_conflicting_iff:
  "cr_has_conflicts (check_conflicting_modules d ms) \<longleftrightarrow>
     di_module_type (de_id d) = KernelModule \<and>
     (\<exists>row\<in>set known_conflicts. to_lowercase (di_name (de_id d)) = fst row \<and>
        (\<exists>m\<in>set ms. to_lowercase m \<in> set (snd row)))"
proof -
  have "cr_has_conflicts (check_conflicting_modules d ms) \<longleftrightarrow>
      di_module_type (de_id d) = KernelModule \<and>
      first_conflicting (to_lowercase (di_name (de_id d))) ms \<noteq> None"
    by (simp add: check_conflicting_modules_def split: option.splits)
  then show ?thesis by (simp only: first_conflicting_None) blast
qed

lemma check_duplicate_first:
  "cr_has_conflicts (check_duplicate d ds) \<longleftrightarrow>
     (\<exists>e. find (\<lambda>e. same_identity e d \<and> is_operational (de_status e)) ds = Some e
        \<and> di_version (de_id e) = di_version (de_id d))"
  by (induction ds) (auto simp: is_operational_def)

text \<open>An installation is reported as conflicting exactly when the kernel range or the
  architecture blocks the driver, or the first operational inventory entry of the same
  name and provider already has this version, or, for a kernel module, a module from the
  conflict table is loaded. Undetected or unsupported hardware never conflicts.\<close>

theorem check_install_iff:
  "cr_has_conflicts (check_install system d ds ms hw) \<longleftrightarrow>
     hard_block system d
     \<or> (\<exists>e. find (\<lambda>e. same_identity e d \<and> is_operational (de_status e)) ds = Some e
          \<and> di_version (de_id e) = di_version (de_id d))
     \<or> (di_module_type (de_id d) = KernelModule \<and>
        (\<exists>row\<in>set known_conflicts. to_lowercase (di_name (de_id d)) = fst row \<and>
          (\<exists>m\<in>set ms. to_lowercase m \<in> set (snd row))))"
  by (auto simp: check_install_def check_kernel_iff check_architecture_iff check_duplicate_first
      check_conflicting_iff hard_block_def)

lemma check_install_lists:
  "cr_conflicts (check_install system d ds ms hw) =
     cr_conflicts (check_kernel system d) @ cr_conflicts (check_architecture system d)
     @ cr_conflicts (check_duplicate d ds) @ cr_conflicts (check_conflicting_modules d ms)"
  by (simp add: check_install_def conflicts_merge conflict_wf)

text \<open>The flag the execution engine tests and the list of conflicts it reports agree
  for all three entry points: the flag is set exactly when the list is not empty.\<close>

theorem conflict_flag_list:
  "wf_conflict_result (check_install system d ds ms hw) \<and>
   wf_conflict_result (check_remove d ms ds) \<and>
   wf_conflict_result (check_update system d d' ds ms hw)"
proof -
  have "wf_conflict_result (check_install s x ds ms hw)" for s x
    unfolding check_install_def Let_def by (intro conflict_wf)
  then show ?thesis
    by (auto simp: check_remove_def check_update_def Let_def intro!: conflict_wf)
qed

text \<open>The update check accepts only a strictly newer version whose installation has no
  conflict.\<close>

theorem check_update_strict:
  "\<not> cr_has_conflicts (check_update system d d' ds ms hw) \<longleftrightarrow>
     di_version (de_id d) < di_version (de_id d') \<and>
     \<not> cr_has_conflicts (check_install system d' ds ms hw)"
  by (auto simp: check_update_def conflict_add_def Let_def)

end
