(* ===== verification/Hex.thy ===== *)
theory Hex
  imports Errors
begin

text \<open>
  Hexadecimal text of byte strings. The services carry three decoders, one each in
  metadata.rs, repository.rs and verification.rs; they agree on ASCII text, where they
  invert the common encoder, and differ on the bytes of non-ASCII characters. The
  slice \<open>&hex[i..i + 2]\<close> of repository.rs panics inside a character, so its
  result is a \<open>may_panic\<close> value.
\<close>

datatype 'a may_panic = Panic | Ret 'a

definition panic_then :: "'a may_panic \<Rightarrow> ('a \<Rightarrow> 'b may_panic) \<Rightarrow> 'b may_panic" where
  "panic_then m f = (case m of Panic \<Rightarrow> Panic | Ret x \<Rightarrow> f x)"

lemma panic_then_simps [simp]:
  "panic_then Panic f = Panic" "panic_then (Ret x) f = f x"
  by (simp_all add: panic_then_def)

section \<open>Encoding and the three decoders\<close>

definition hex_encode :: "bytes \<Rightarrow> string" where
  "hex_encode bs = concat (map show_hex_u8 bs)"

definition is_ascii :: "char \<Rightarrow> bool" where
  "is_ascii c = (byte_of c < 128)"

text \<open>A byte inside a UTF-8 sequence, where a string cannot be cut.\<close>

definition is_continuation :: "char \<Rightarrow> bool" where
  "is_continuation c = (128 \<le> byte_of c \<and> byte_of c < 192)"

text \<open>\<open>from_utf8\<close> on a chunk of two bytes.\<close>

definition utf8_pair :: "char \<Rightarrow> char \<Rightarrow> bool" where
  "utf8_pair a b =
     ((is_ascii a \<and> is_ascii b)
      \<or> (194 \<le> byte_of a \<and> byte_of a < 224 \<and> is_continuation b))"

definition hex_byte :: "char \<Rightarrow> char \<Rightarrow> u8 option" where
  "hex_byte a b = (case parse_hex_u8 [a, b] of Inl _ \<Rightarrow> None | Inr v \<Rightarrow> Some v)"

text \<open>metadata.rs: a chunk that is not UTF-8 is read as \<open>00\<close>.\<close>

fun hex_chunks_meta :: "string \<Rightarrow> bytes option" where
  "hex_chunks_meta (a # b # cs) =
     (case (if utf8_pair a b then hex_byte a b else hex_byte CHR ''0'' CHR ''0'') of
        None \<Rightarrow> None
      | Some v \<Rightarrow> map_option ((#) v) (hex_chunks_meta cs))"
| "hex_chunks_meta _ = Some []"

definition hex_decode_meta :: "string \<Rightarrow> bytes result" where
  "hex_decode_meta input0 =
     (let input = trim input0 in
      if odd (length input) then Err (InvalidArgument ''hex string must have even length'')
      else (case hex_chunks_meta input of
          None \<Rightarrow> Err (InvalidArgument ''invalid hex string'')
        | Some bs \<Rightarrow> Ok bs))"

text \<open>repository.rs: slices the string, and stops at the first bad pair.\<close>

fun hex_slices_repo :: "string \<Rightarrow> bytes option may_panic" where
  "hex_slices_repo (a # b # cs) =
     (if cs \<noteq> [] \<and> is_continuation (hd cs) then Panic
      else (case hex_byte a b of
          None \<Rightarrow> Ret None
        | Some v \<Rightarrow> panic_then (hex_slices_repo cs) (\<lambda>r. Ret (map_option ((#) v) r))))"
| "hex_slices_repo _ = Ret (Some [])"

definition hex_decode_repo :: "string \<Rightarrow> bytes option may_panic" where
  "hex_decode_repo hex0 =
     (let hex = trim hex0 in if odd (length hex) then Ret None else hex_slices_repo hex)"

text \<open>verification.rs: drops bad chunks, then compares the count.\<close>

fun hex_filter_verif :: "string \<Rightarrow> bytes" where
  "hex_filter_verif (a # b # cs) =
     (case (if utf8_pair a b then hex_byte a b else None) of
        None \<Rightarrow> hex_filter_verif cs
      | Some v \<Rightarrow> v # hex_filter_verif cs)"
| "hex_filter_verif _ = []"

definition hex_decode_verif :: "string \<Rightarrow> bytes option" where
  "hex_decode_verif input0 =
     (let input = trim input0 in
      if odd (length input) then None
      else (let bs = hex_filter_verif input in
            if length bs = length input div 2 then Some bs else None))"

section \<open>Agreement on ASCII text\<close>

text \<open>The common reading: two characters at a time, all of them hexadecimal.\<close>

fun hex_pairs :: "string \<Rightarrow> bytes option" where
  "hex_pairs (a # b # cs) =
     (case hex_byte a b of None \<Rightarrow> None | Some v \<Rightarrow> map_option ((#) v) (hex_pairs cs))"
| "hex_pairs [] = Some []"
| "hex_pairs [a] = None"

definition hex_value :: "string \<Rightarrow> bytes option" where
  "hex_value s = hex_pairs (trim s)"

lemma hex_pairs_even: "hex_pairs s = Some bs \<Longrightarrow> length s = 2 * length bs"
  by (induction s arbitrary: bs rule: hex_pairs.induct) (auto split: option.splits)

lemma hex_pairs_odd: "odd (length s) \<Longrightarrow> hex_pairs s = None"
  using hex_pairs_even by (cases "hex_pairs s") auto

lemma ascii_not_continuation [simp]: "is_ascii c \<Longrightarrow> \<not> is_continuation c"
  by (simp add: is_ascii_def is_continuation_def)

lemma ascii_utf8_pair [simp]: "is_ascii a \<Longrightarrow> is_ascii b \<Longrightarrow> utf8_pair a b"
  by (simp add: utf8_pair_def)

lemma hex_chunks_meta_ascii:
  "\<forall>c\<in>set s. is_ascii c \<Longrightarrow> even (length s) \<Longrightarrow> hex_chunks_meta s = hex_pairs s"
  by (induction s rule: hex_pairs.induct) (auto split: option.splits)

lemma hex_slices_repo_ascii:
  "\<forall>c\<in>set s. is_ascii c \<Longrightarrow> even (length s) \<Longrightarrow> hex_slices_repo s = Ret (hex_pairs s)"
  by (induction s rule: hex_pairs.induct)
    (auto simp: neq_Nil_conv split: option.splits)

lemma hex_filter_length: "length (hex_filter_verif s) \<le> length s div 2"
  by (induction s rule: hex_filter_verif.induct) (auto intro: le_SucI split: option.splits)

lemma hex_filter_verif_ascii:
  "\<forall>c\<in>set s. is_ascii c \<Longrightarrow> even (length s) \<Longrightarrow>
   hex_pairs s =
     (if length (hex_filter_verif s) = length s div 2 then Some (hex_filter_verif s) else None)"
proof (induction s rule: hex_pairs.induct)
  case (1 a b cs)
  have "length (hex_filter_verif cs) \<noteq> Suc (length cs div 2)"
    using hex_filter_length [of cs] by simp
  with 1 show ?case by (auto split: option.splits if_splits)
qed auto

lemma trim_subset: "set (trim s) \<subseteq> set s"
  unfolding trim_def trim_end_def trim_start_def
  by (auto dest!: set_dropWhileD)

lemma trim_ascii: "\<forall>c\<in>set s. is_ascii c \<Longrightarrow> \<forall>c\<in>set (trim s). is_ascii c"
  using trim_subset by blast

lemma hex_decode_repo_ascii: "\<forall>c\<in>set s. is_ascii c \<Longrightarrow> hex_decode_repo s = Ret (hex_value s)"
  using hex_slices_repo_ascii [OF trim_ascii]
  by (auto simp: hex_decode_repo_def hex_value_def hex_pairs_odd Let_def)

lemma hex_decode_verif_ascii: "\<forall>c\<in>set s. is_ascii c \<Longrightarrow> hex_decode_verif s = hex_value s"
  using hex_filter_verif_ascii [OF trim_ascii]
  by (auto simp: hex_decode_verif_def hex_value_def hex_pairs_odd Let_def)

lemma hex_decode_meta_ascii:
  "\<forall>c\<in>set s. is_ascii c \<Longrightarrow>
   (case hex_decode_meta s of Inl _ \<Rightarrow> None | Inr bs \<Rightarrow> Some bs) = hex_value s"
  using hex_chunks_meta_ascii [OF trim_ascii]
  by (auto simp: hex_decode_meta_def hex_value_def hex_pairs_odd Let_def split: option.splits)

text \<open>On ASCII text the three hexadecimal decoders of the driver service accept the same
  strings with the same bytes, and the string-slicing one does not panic.\<close>

theorem hex_decoders_agree:
  assumes "\<forall>c\<in>set s. is_ascii c"
  shows "hex_decode_repo s = Ret (hex_value s) \<and> hex_decode_verif s = hex_value s \<and>
    (case hex_decode_meta s of Inl _ \<Rightarrow> None | Inr bs \<Rightarrow> Some bs) = hex_value s"
  using assms hex_decode_repo_ascii hex_decode_verif_ascii hex_decode_meta_ascii by blast

lemma hex_decoders_agree_witness:
  "hex_decode_repo '' 0aFf '' = Ret (Some [10, 255]) \<and> hex_decode_verif '' 0aFf '' = Some [10, 255]"
proof -
  have v: "hex_value '' 0aFf '' = Some [10, 255]"
    by (simp add: hex_value_def hex_byte_def parse_eval)
  have "\<forall>c\<in>set '' 0aFf ''. is_ascii c" by (simp add: is_ascii_def byte_of_def)
  from hex_decoders_agree [OF this] show ?thesis by (simp add: v)
qed

section \<open>The round trip\<close>

lemma hexdigit_ascii_nonws: "is_ascii_hexdigit c \<Longrightarrow> is_ascii c \<and> \<not> is_ws c"
  by (auto simp: is_ascii_hexdigit_def is_ascii_digit_def is_ascii_def is_ws_def byte_of_def)

lemma hex_encode_chars: "c \<in> set (hex_encode bs) \<Longrightarrow> is_ascii_hexdigit c"
  by (auto simp: hex_encode_def dest: show_hex_u8_chars)

lemma hex_encode_length [simp]: "length (hex_encode bs) = 2 * length bs"
  by (induction bs) (simp_all add: hex_encode_def)

lemma hex_pairs_encode [simp]: "hex_pairs (hex_encode bs) = Some bs"
proof (induction bs)
  case (Cons b bs)
  obtain x y where xy: "show_hex_u8 b = [x, y]"
    by (simp add: show_hex_u8_def)
  have "hex_byte x y = Some b"
    using parse_show_hex_u8 [of b] xy by (simp add: hex_byte_def)
  with Cons xy show ?case by (simp add: hex_encode_def)
qed (simp add: hex_encode_def)

lemma hex_encode_trim: "trim (hex_encode bs) = hex_encode bs"
  by (rule trim_all_nonws) (blast dest: hex_encode_chars hexdigit_ascii_nonws)

lemma hex_value_encode [simp]: "hex_value (hex_encode bs) = Some bs"
  by (simp add: hex_value_def hex_encode_trim)

lemma hex_encode_ascii: "\<forall>c\<in>set (hex_encode bs). is_ascii c"
  by (blast dest: hex_encode_chars hexdigit_ascii_nonws)

lemma hex_decode_meta_iff:
  "\<forall>c\<in>set s. is_ascii c \<Longrightarrow> (hex_decode_meta s = Ok bs) = (hex_value s = Some bs)"
  using hex_decode_meta_ascii [of s] by (auto split: sum.splits)

lemma hex_decode_repo_encode [simp]: "hex_decode_repo (hex_encode bs) = Ret (Some bs)"
  by (simp add: hex_decode_repo_ascii hex_encode_ascii)

lemma hex_decode_verif_encode [simp]: "hex_decode_verif (hex_encode bs) = Some bs"
  by (simp add: hex_decode_verif_ascii hex_encode_ascii)

lemma hex_decode_meta_encode [simp]: "hex_decode_meta (hex_encode bs) = Ok bs"
  by (simp add: hex_decode_meta_iff hex_encode_ascii)

lemma hex_encode_inj: "hex_encode a = hex_encode b \<Longrightarrow> a = b"
  by (metis hex_pairs_encode option.inject)

text \<open>
  Off ASCII they part. The three bytes of an em dash and a letter are two chunks that
  are not UTF-8: zero bytes to metadata.rs, a panic to repository.rs, an error to
  verification.rs.
\<close>

definition dash_text :: string where
  "dash_text = [CHR 0xE2, CHR 0x80, CHR 0x94, CHR ''a'']"

lemma hex_decode_meta_dash: "hex_decode_meta dash_text = Ok [0, 0]"
  by (simp add: hex_decode_meta_def dash_text_def hex_byte_def utf8_pair_def is_ascii_def
      is_continuation_def parse_eval)

lemma hex_decode_repo_dash: "hex_decode_repo dash_text = Panic"
  by (simp add: hex_decode_repo_def dash_text_def is_continuation_def parse_eval)

lemma hex_decode_verif_dash: "hex_decode_verif dash_text = None"
  by (simp add: hex_decode_verif_def dash_text_def hex_byte_def utf8_pair_def is_ascii_def
      is_continuation_def parse_eval)

section \<open>The accumulating comparison loop\<close>

text \<open>The digest comparisons of metadata.rs and hash.rs or the differences of all byte
  pairs into one byte.\<close>

lemma xor_eq_0_word: "xor a b = 0 \<longleftrightarrow> a = (b :: 'a::len word)"
proof
  assume "xor a b = 0"
  then have "xor (xor a b) b = xor 0 b" by simp
  then show "a = b" by (simp add: xor.assoc)
qed simp

lemma fold_or_xor:
  "fold (\<lambda>(x, y) acc. or acc (xor x y)) ps (acc :: u8) = 0 \<longleftrightarrow>
     acc = 0 \<and> (\<forall>(x, y)\<in>set ps. x = y)"
  by (induction ps arbitrary: acc) (auto simp: or_eq_0_iff xor_eq_0_word)

end
