(* ===== verification/Crypto.thy ===== *)
theory Crypto
  imports Hex
begin

text \<open>
  The parts of mission-crypto the driver service calls: hash.rs and the verification
  half of signing.rs. The primitives of sha2, blake3 and ed25519-dalek are the fields
  of \<open>crypto_prims\<close>, an argument of the operations; what the wrappers add (length
  checks, output truncation, constant-time comparison) is modelled.
\<close>

record crypto_prims =
  cp_sha256 :: "bytes \<Rightarrow> bytes"
  cp_sha512 :: "bytes \<Rightarrow> bytes"
  cp_blake3 :: "bytes \<Rightarrow> bytes"
  cp_key_ok :: "bytes \<Rightarrow> bool"
  cp_ed25519 :: "bytes \<Rightarrow> bytes \<Rightarrow> bytes \<Rightarrow> bool"

section \<open>Errors\<close>

datatype crypto_error =
    CeInvalidKey | CeInvalidSignature | CeUnsupportedAlgorithm | CeRngFailure | CeMemoryError
  | CeInternal string

fun crypto_error_description :: "crypto_error \<Rightarrow> string" where
  "crypto_error_description CeInvalidKey = ''invalid key''"
| "crypto_error_description CeInvalidSignature = ''invalid signature''"
| "crypto_error_description CeUnsupportedAlgorithm = ''unsupported algorithm''"
| "crypto_error_description CeRngFailure = ''random number generation failed''"
| "crypto_error_description CeMemoryError = ''memory operation failed''"
| "crypto_error_description (CeInternal _) = ''internal cryptographic error''"

definition show_crypto_error :: "crypto_error \<Rightarrow> string" where
  "show_crypto_error e =
     (case e of CeInternal msg \<Rightarrow> ''internal error: '' @ msg
      | other \<Rightarrow> crypto_error_description other)"

section \<open>Hashing\<close>

datatype hash_algorithm = Sha256 | Sha512 | Blake3 nat

fun output_size :: "hash_algorithm \<Rightarrow> nat" where
  "output_size Sha256 = 32"
| "output_size Sha512 = 64"
| "output_size (Blake3 n) = n"

record hash_value =
  hv_algorithm :: hash_algorithm
  hv_bytes :: bytes

definition hash_to_hex :: "hash_value \<Rightarrow> string" where
  "hash_to_hex h = hex_encode (hv_bytes h)"

definition hash_to_hex_prefixed :: "hash_value \<Rightarrow> string" where
  "hash_to_hex_prefixed h = ''0x'' @ hash_to_hex h"

text \<open>The slice \<open>[..output_len]\<close> panics beyond the 32 bytes of a BLAKE3 digest.\<close>

definition hash_compute ::
  "crypto_prims \<Rightarrow> hash_algorithm \<Rightarrow> bytes \<Rightarrow> (crypto_error + hash_value) may_panic" where
  "hash_compute cp alg data =
     (case alg of
        Sha256 \<Rightarrow> Ret (Ok \<lparr>hv_algorithm = alg, hv_bytes = cp_sha256 cp data\<rparr>)
      | Sha512 \<Rightarrow> Ret (Ok \<lparr>hv_algorithm = alg, hv_bytes = cp_sha512 cp data\<rparr>)
      | Blake3 n \<Rightarrow>
          (if n \<le> length (cp_blake3 cp data)
           then Ret (Ok \<lparr>hv_algorithm = alg, hv_bytes = take n (cp_blake3 cp data)\<rparr>)
           else Panic))"

text \<open>The accumulator loop shared by hash.rs and metadata.rs.\<close>

definition xor_fold :: "bytes \<Rightarrow> bytes \<Rightarrow> u8" where
  "xor_fold a b = fold (\<lambda>(x, y) acc. or acc (xor x y)) (zip a b) 0"

definition constant_time_eq :: "bytes \<Rightarrow> bytes \<Rightarrow> bool" where
  "constant_time_eq a b = (if length a \<noteq> length b then False else xor_fold a b = 0)"

definition hash_verify ::
  "crypto_prims \<Rightarrow> hash_algorithm \<Rightarrow> bytes \<Rightarrow> hash_value \<Rightarrow> (crypto_error + bool) may_panic" where
  "hash_verify cp alg data expected =
     (if alg \<noteq> hv_algorithm expected then Ret (Err CeUnsupportedAlgorithm)
      else panic_then (hash_compute cp alg data)
        (\<lambda>r. Ret (and_then r (\<lambda>h. Ok (constant_time_eq (hv_bytes h) (hv_bytes expected))))))"

section \<open>Signatures\<close>

datatype verification_result = SigValid | SigInvalid

definition sig_verify ::
  "crypto_prims \<Rightarrow> bytes \<Rightarrow> bytes \<Rightarrow> bytes \<Rightarrow> crypto_error + verification_result" where
  "sig_verify cp public_key message signature =
     (if length public_key \<noteq> 32 then Err CeInvalidKey
      else if length signature \<noteq> 64 then Err CeInvalidSignature
      else if \<not> cp_key_ok cp public_key then Err CeInvalidKey
      else if cp_ed25519 cp public_key message signature then Ok SigValid
      else Ok SigInvalid)"

section \<open>The comparison loop decides equality\<close>

lemma constant_time_eq_iff [simp]: "constant_time_eq a b \<longleftrightarrow> a = b"
  by (auto simp: constant_time_eq_def xor_fold_def fold_or_xor list_eq_iff_nth_eq set_zip)

lemma hash_compute_cases:
  "hash_compute cp alg data = Panic \<or>
     (\<exists>h. hash_compute cp alg data = Ret (Ok h) \<and> hv_algorithm h = alg)"
  by (cases alg) (auto simp: hash_compute_def)

text \<open>The accumulating comparison used for digests returns true exactly on equal byte
  strings: no difference is cancelled by another and a common prefix is not enough.
  Hash verification therefore accepts exactly the data with the expected digest, and
  only under the algorithm the digest was made with.\<close>

theorem hash_verify_exact:
  "hash_verify cp alg data expected = Ret (Ok True) \<longleftrightarrow>
     alg = hv_algorithm expected \<and>
     hash_compute cp alg data = Ret (Ok expected)"
  using hash_compute_cases [of cp alg data] by (auto simp: hash_verify_def)

lemma sig_verify_valid:
  "sig_verify cp k m s = Ok SigValid \<longleftrightarrow>
     length k = 32 \<and> length s = 64 \<and> cp_key_ok cp k \<and> cp_ed25519 cp k m s"
  by (auto simp: sig_verify_def)

end
