(* ===== verification/Crypto_Keys.thy ===== *)
theory Crypto_Keys
  imports Crypto
begin

text \<open>
  Random numbers (rng.rs), keys (keygen.rs), the signing half of signing.rs and the
  streaming hasher of hash.rs. The kernel's entropy source is an argument: from its state
  it either fails or fills a buffer, which is a function from positions to bytes. The
  Ed25519 operations and the incremental hashes of the external crates are arguments too.
  The flag \<open>dbg\<close> says whether debug assertions are compiled in. Integers are read from
  bytes in little-endian order, the order of the supported targets.
\<close>

section \<open>Random numbers\<close>

type_synonym 'g entropy = "'g \<Rightarrow> nat \<Rightarrow> (string + (nat \<Rightarrow> u8)) \<times> 'g"

definition fill_bytes :: "'g entropy \<Rightarrow> nat \<Rightarrow> 'g \<Rightarrow> (crypto_error + bytes) \<times> 'g" where
  "fill_bytes ent n g =
     (case ent g n of
        (Inl e, g1) \<Rightarrow> (Err (CeInternal (''CSPRNG failure: '' @ e)), g1)
      | (Inr f, g1) \<Rightarrow> (Ok (map f [0..<n]), g1))"

fun le_value :: "bytes \<Rightarrow> nat" where
  "le_value [] = 0"
| "le_value (b # bs) = unat b + 256 * le_value bs"

definition next_u64 :: "'g entropy \<Rightarrow> 'g \<Rightarrow> (crypto_error + u64) \<times> 'g" where
  "next_u64 ent g =
     (let (r, g1) = fill_bytes ent 8 g in (and_then r (\<lambda>bs. Ok (of_nat (le_value bs))), g1))"

definition next_u32 :: "'g entropy \<Rightarrow> 'g \<Rightarrow> (crypto_error + u32) \<times> 'g" where
  "next_u32 ent g =
     (let (r, g1) = fill_bytes ent 4 g in (and_then r (\<lambda>bs. Ok (of_nat (le_value bs))), g1))"

definition random_vec :: "'g entropy \<Rightarrow> nat \<Rightarrow> 'g \<Rightarrow> (crypto_error + bytes) \<times> 'g" where
  "random_vec ent len g = fill_bytes ent len g"

section \<open>Keys\<close>

datatype key_type = Symmetric | Ed25519

fun key_size :: "key_type \<Rightarrow> nat" where
  "key_size Symmetric = 32"
| "key_size Ed25519 = 32"

record secret_key =
  sk_key_type :: key_type
  sk_bytes :: bytes

record public_key =
  pk_key_type :: key_type
  pk_bytes :: bytes

definition secret_key_new :: "bool \<Rightarrow> key_type \<Rightarrow> bytes \<Rightarrow> secret_key may_panic" where
  "secret_key_new dbg t bs =
     (if dbg \<and> length bs \<noteq> key_size t then Panic else Ret \<lparr>sk_key_type = t, sk_bytes = bs\<rparr>)"

definition public_key_new :: "bool \<Rightarrow> key_type \<Rightarrow> bytes \<Rightarrow> public_key may_panic" where
  "public_key_new dbg t bs =
     (let expected = (case t of Symmetric \<Rightarrow> 32 | Ed25519 \<Rightarrow> 32)
      in if dbg \<and> length bs \<noteq> expected then Panic else Ret \<lparr>pk_key_type = t, pk_bytes = bs\<rparr>)"

definition zeroize :: "bytes \<Rightarrow> bytes" where
  "zeroize bs = map (\<lambda>_. 0) bs"

text \<open>What is in the key's memory once the destructor has run.\<close>

definition secret_key_drop :: "secret_key \<Rightarrow> secret_key" where
  "secret_key_drop k = k\<lparr>sk_bytes := zeroize (sk_bytes k)\<rparr>"

fun debug_key_type :: "key_type \<Rightarrow> string" where
  "debug_key_type Symmetric = ''Symmetric''"
| "debug_key_type Ed25519 = ''Ed25519''"

definition secret_key_debug :: "secret_key \<Rightarrow> string" where
  "secret_key_debug k = ''SecretKey { key_type: '' @ debug_key_type (sk_key_type k)
     @ '', bytes: '' @ [CHR 0x22] @ ''[REDACTED]'' @ [CHR 0x22] @ '' }''"

text \<open>The operations of ed25519-dalek: the public key of a seed and the signature a seed
  makes. A signing key is its seed.\<close>

record ed25519_prims =
  ep_public :: "bytes \<Rightarrow> bytes"
  ep_sign :: "bytes \<Rightarrow> bytes \<Rightarrow> bytes"

record key_pair =
  kp_signing_key :: bytes
  kp_verifying_key :: bytes

definition generate_symmetric ::
  "bool \<Rightarrow> 'g entropy \<Rightarrow> key_type \<Rightarrow> 'g \<Rightarrow> (crypto_error + secret_key) may_panic \<times> 'g" where
  "generate_symmetric dbg ent t g =
     (case random_vec ent (key_size t) g of
        (Inl e, g1) \<Rightarrow> (Ret (Err e), g1)
      | (Inr bs, g1) \<Rightarrow> (panic_then (secret_key_new dbg t bs) (\<lambda>k. Ret (Ok k)), g1))"

definition generate_ed25519 ::
  "ed25519_prims \<Rightarrow> 'g entropy \<Rightarrow> 'g \<Rightarrow> (crypto_error + key_pair) \<times> 'g" where
  "generate_ed25519 ep ent g =
     (case random_vec ent 32 g of
        (Inl e, g1) \<Rightarrow> (Err e, g1)
      | (Inr seed, g1) \<Rightarrow>
          (if length seed \<noteq> 32 then Err (CeInternal ''unexpected seed length for Ed25519'')
           else Ok \<lparr>kp_signing_key = seed, kp_verifying_key = ep_public ep seed\<rparr>, g1))"

definition generate_key ::
  "bool \<Rightarrow> ed25519_prims \<Rightarrow> 'g entropy \<Rightarrow> key_type \<Rightarrow> 'g
     \<Rightarrow> (crypto_error + secret_key) may_panic \<times> 'g" where
  "generate_key dbg ep ent t g =
     (case t of
        Symmetric \<Rightarrow> generate_symmetric dbg ent t g
      | Ed25519 \<Rightarrow>
          (case generate_ed25519 ep ent g of
             (Inl e, g1) \<Rightarrow> (Ret (Err e), g1)
           | (Inr pair, g1) \<Rightarrow>
               (panic_then (secret_key_new dbg Ed25519 (kp_signing_key pair)) (\<lambda>k. Ret (Ok k)), g1)))"

section \<open>Signing\<close>

definition signature_new :: "bool \<Rightarrow> bytes \<Rightarrow> bytes may_panic" where
  "signature_new dbg bs = (if dbg \<and> length bs \<noteq> 64 then Panic else Ret bs)"

definition signature_to_hex :: "bytes \<Rightarrow> string" where
  "signature_to_hex s = hex_encode s"

definition sig_sign :: "bool \<Rightarrow> ed25519_prims \<Rightarrow> key_pair \<Rightarrow> bytes \<Rightarrow> bytes may_panic" where
  "sig_sign dbg ep pair message = signature_new dbg (ep_sign ep (kp_signing_key pair) message)"

definition sign_with_secret_key ::
  "bool \<Rightarrow> ed25519_prims \<Rightarrow> secret_key \<Rightarrow> bytes \<Rightarrow> (crypto_error + bytes) may_panic" where
  "sign_with_secret_key dbg ep k message =
     (if sk_key_type k \<noteq> Ed25519 then Ret (Err CeUnsupportedAlgorithm)
      else if length (sk_bytes k) \<noteq> 32 then Ret (Err CeInvalidKey)
      else panic_then (signature_new dbg (ep_sign ep (sk_bytes k) message)) (\<lambda>s. Ret (Ok s)))"

definition verify_with_public_key ::
  "crypto_prims \<Rightarrow> public_key \<Rightarrow> bytes \<Rightarrow> bytes \<Rightarrow> crypto_error + verification_result" where
  "verify_with_public_key cp k message signature = sig_verify cp (pk_bytes k) message signature"

section \<open>The streaming hasher\<close>

text \<open>The incremental hashes: start, absorb, finish, on a state of the crate's own.\<close>

record 'h incremental =
  in_start :: 'h
  in_absorb :: "'h \<Rightarrow> bytes \<Rightarrow> 'h"
  in_finish :: "'h \<Rightarrow> bytes"

record ('a, 'b, 'c) hash_prims =
  hp_sha256 :: "'a incremental"
  hp_sha512 :: "'b incremental"
  hp_blake3 :: "'c incremental"

datatype ('a, 'b, 'c) hasher_state = HsSha256 'a | HsSha512 'b | HsBlake3 'c nat

record ('a, 'b, 'c) hasher =
  hs_algorithm :: hash_algorithm
  hs_state :: "('a, 'b, 'c) hasher_state"

definition hasher_new ::
  "('a, 'b, 'c) hash_prims \<Rightarrow> hash_algorithm \<Rightarrow> ('a, 'b, 'c) hasher" where
  "hasher_new hp alg =
     \<lparr>hs_algorithm = alg,
      hs_state = (case alg of
          Sha256 \<Rightarrow> HsSha256 (in_start (hp_sha256 hp))
        | Sha512 \<Rightarrow> HsSha512 (in_start (hp_sha512 hp))
        | Blake3 n \<Rightarrow> HsBlake3 (in_start (hp_blake3 hp)) n)\<rparr>"

definition hasher_update ::
  "('a, 'b, 'c) hash_prims \<Rightarrow> bytes \<Rightarrow> ('a, 'b, 'c) hasher \<Rightarrow> ('a, 'b, 'c) hasher" where
  "hasher_update hp data h =
     h\<lparr>hs_state := (case hs_state h of
         HsSha256 s \<Rightarrow> HsSha256 (in_absorb (hp_sha256 hp) s data)
       | HsSha512 s \<Rightarrow> HsSha512 (in_absorb (hp_sha512 hp) s data)
       | HsBlake3 s n \<Rightarrow> HsBlake3 (in_absorb (hp_blake3 hp) s data) n)\<rparr>"

text \<open>The slice of a BLAKE3 digest panics beyond its 32 bytes, and so does the length
  assertion of \<open>Hash::new\<close> when it is compiled in.\<close>

definition hash_new :: "bool \<Rightarrow> hash_algorithm \<Rightarrow> bytes \<Rightarrow> hash_value may_panic" where
  "hash_new dbg alg bs =
     (if dbg \<and> length bs \<noteq> output_size alg then Panic
      else Ret \<lparr>hv_algorithm = alg, hv_bytes = bs\<rparr>)"

definition hasher_finalize ::
  "bool \<Rightarrow> ('a, 'b, 'c) hash_prims \<Rightarrow> ('a, 'b, 'c) hasher \<Rightarrow> hash_value may_panic" where
  "hasher_finalize dbg hp h =
     panic_then
       (case hs_state h of
          HsSha256 s \<Rightarrow> Ret (in_finish (hp_sha256 hp) s)
        | HsSha512 s \<Rightarrow> Ret (in_finish (hp_sha512 hp) s)
        | HsBlake3 s n \<Rightarrow>
            (let r = in_finish (hp_blake3 hp) s
             in if n \<le> length r then Ret (take n r) else Panic))
       (hash_new dbg (hs_algorithm h))"

section \<open>Generated keys\<close>

text \<open>A generated key has its type and is exactly the 32 bytes the kernel's entropy source
  filled in, whether or not debug assertions are on; generation fails only when that source
  does, and there is no other source to fall back on.\<close>

theorem generate_key_exact:
  "generate_key dbg ep ent t g =
     (case ent g 32 of
        (Inl e, g1) \<Rightarrow> (Ret (Err (CeInternal (''CSPRNG failure: '' @ e))), g1)
      | (Inr f, g1) \<Rightarrow> (Ret (Ok \<lparr>sk_key_type = t, sk_bytes = map f [0..<32]\<rparr>), g1))"
  by (cases t) (simp_all add: generate_key_def generate_symmetric_def generate_ed25519_def
      random_vec_def fill_bytes_def secret_key_new_def split: prod.split sum.split)

lemma generate_ed25519_seed:
  "generate_ed25519 ep ent g = (Ok pair, g1) \<Longrightarrow>
     length (kp_signing_key pair) = 32 \<and> kp_verifying_key pair = ep_public ep (kp_signing_key pair)"
  by (auto simp: generate_ed25519_def random_vec_def fill_bytes_def split: prod.splits sum.splits
      if_splits)

text \<open>What is printed of a key, and what is left of it, does not depend on its bytes.\<close>

lemma secret_key_debug_redacts: "secret_key_debug (k\<lparr>sk_bytes := b\<rparr>) = secret_key_debug k"
  by (simp add: secret_key_debug_def)

lemma zeroize_eq: "zeroize bs = replicate (length bs) 0"
  by (simp add: zeroize_def map_replicate_const)

lemma secret_key_drop_forgets:
  "length (sk_bytes k) = length (sk_bytes k') \<Longrightarrow> sk_key_type k = sk_key_type k' \<Longrightarrow>
     secret_key_drop k = secret_key_drop k'"
  by (simp add: secret_key_drop_def zeroize_eq)

lemma next_u64_bytes:
  "ent g 8 = (Inr f, g1) \<Longrightarrow>
     next_u64 ent g = (Ok (of_nat (le_value (map f [0..<8]))), g1)"
  by (simp add: next_u64_def fill_bytes_def)

lemma le_value_bound: "le_value bs < 256 ^ length bs"
proof (induction bs)
  case (Cons b bs)
  have "unat b < 256" using unsigned_less [of b] by simp
  moreover have "256 * le_value bs + 256 \<le> 256 * 256 ^ length bs"
    using Cons by (metis Suc_leI mult_Suc_right mult_le_mono2 add.commute)
  ultimately show ?case by simp
qed simp

section \<open>Signatures verify\<close>

text \<open>The law of Ed25519 the code relies on: what a 32-byte seed signs, its public key
  accepts, with keys of 32 and signatures of 64 bytes.\<close>

definition ed25519_law :: "crypto_prims \<Rightarrow> ed25519_prims \<Rightarrow> bytes \<Rightarrow> bytes \<Rightarrow> bool" where
  "ed25519_law cp ep seed m =
     (length (ep_public ep seed) = 32 \<and> cp_key_ok cp (ep_public ep seed)
      \<and> length (ep_sign ep seed m) = 64
      \<and> cp_ed25519 cp (ep_public ep seed) m (ep_sign ep seed m))"

lemma sig_sign_law:
  "ed25519_law cp ep (kp_signing_key pair) m \<Longrightarrow>
     sig_sign dbg ep pair m = Ret (ep_sign ep (kp_signing_key pair) m)"
  by (simp add: ed25519_law_def sig_sign_def signature_new_def)

lemma sig_verify_law:
  "ed25519_law cp ep seed m \<Longrightarrow> sig_verify cp (ep_public ep seed) m (ep_sign ep seed m) = Ok SigValid"
  by (simp add: ed25519_law_def sig_verify_valid)

text \<open>A signature made with a generated key pair, or with the secret key stored from its
  seed, is accepted under the public key of the pair; both ways of signing give the same
  64 bytes. A symmetric key of the same length is refused.\<close>

theorem generated_pair_signs:
  assumes "generate_ed25519 ep ent g = (Ok pair, g1)"
    and "ed25519_law cp ep (kp_signing_key pair) m"
  shows "\<exists>s. sig_sign dbg ep pair m = Ret s \<and> length s = 64
    \<and> sign_with_secret_key dbg ep \<lparr>sk_key_type = Ed25519, sk_bytes = kp_signing_key pair\<rparr> m = Ret (Ok s)
    \<and> sign_with_secret_key dbg ep \<lparr>sk_key_type = Symmetric, sk_bytes = kp_signing_key pair\<rparr> m
        = Ret (Err CeUnsupportedAlgorithm)
    \<and> verify_with_public_key cp \<lparr>pk_key_type = Ed25519, pk_bytes = kp_verifying_key pair\<rparr> m s
        = Ok SigValid"
  using generate_ed25519_seed [OF assms(1)] sig_sign_law [OF assms(2)] sig_verify_law [OF assms(2)]
    assms(2)
  by (simp add: sign_with_secret_key_def signature_new_def verify_with_public_key_def ed25519_law_def)

definition sample_ed25519 :: ed25519_prims where
  "sample_ed25519 = \<lparr>ep_public = (\<lambda>s. s), ep_sign = (\<lambda>s m. s @ s)\<rparr>"

definition sample_signing_prims :: crypto_prims where
  "sample_signing_prims = \<lparr>cp_sha256 = (\<lambda>d. replicate 32 0), cp_sha512 = (\<lambda>d. replicate 64 0),
     cp_blake3 = (\<lambda>d. replicate 32 0), cp_key_ok = (\<lambda>_. True),
     cp_ed25519 = (\<lambda>k m s. s = k @ k)\<rparr>"

lemma sample_law [simp]: "length seed = 32 \<Longrightarrow> ed25519_law sample_signing_prims sample_ed25519 seed m"
  by (simp add: ed25519_law_def sample_ed25519_def sample_signing_prims_def)

lemma generated_pair_signs_witness:
  "sign_with_secret_key True sample_ed25519
     \<lparr>sk_key_type = Symmetric, sk_bytes = replicate 32 7\<rparr> [1, 2] = Ret (Err CeUnsupportedAlgorithm)
   \<and> (\<exists>s. sig_verify sample_signing_prims (replicate 32 7) [1, 2] s = Ok SigValid)"
proof -
  let ?p = "\<lparr>kp_signing_key = replicate 32 7, kp_verifying_key = replicate 32 7\<rparr>"
  have "generate_ed25519 sample_ed25519 (\<lambda>g n. (Inr (\<lambda>_. 7), ())) () = (Ok ?p, ())"
    by (simp add: generate_ed25519_def random_vec_def fill_bytes_def sample_ed25519_def
        map_replicate_const)
  from generated_pair_signs [OF this, of sample_signing_prims "[1, 2]" True] show ?thesis
    by (auto simp: verify_with_public_key_def)
qed

section \<open>Streaming agrees with hashing at once\<close>

text \<open>The law of an incremental hash: absorbing chunks gives the digest of their
  concatenation.\<close>

definition incremental_law :: "'h incremental \<Rightarrow> (bytes \<Rightarrow> bytes) \<Rightarrow> bytes list \<Rightarrow> bool" where
  "incremental_law i digest chunks =
     (in_finish i (fold (\<lambda>c s. in_absorb i s c) chunks (in_start i)) = digest (concat chunks))"

definition hashes_law ::
  "('a, 'b, 'c) hash_prims \<Rightarrow> crypto_prims \<Rightarrow> bytes list \<Rightarrow> bool" where
  "hashes_law hp cp chunks =
     (incremental_law (hp_sha256 hp) (cp_sha256 cp) chunks
      \<and> incremental_law (hp_sha512 hp) (cp_sha512 cp) chunks
      \<and> incremental_law (hp_blake3 hp) (cp_blake3 cp) chunks)"

lemma hasher_fold:
  "fold (hasher_update hp) chunks (hasher_new hp alg) =
     \<lparr>hs_algorithm = alg,
      hs_state = (case alg of
          Sha256 \<Rightarrow> HsSha256 (fold (\<lambda>c s. in_absorb (hp_sha256 hp) s c) chunks (in_start (hp_sha256 hp)))
        | Sha512 \<Rightarrow> HsSha512 (fold (\<lambda>c s. in_absorb (hp_sha512 hp) s c) chunks (in_start (hp_sha512 hp)))
        | Blake3 n \<Rightarrow>
            HsBlake3 (fold (\<lambda>c s. in_absorb (hp_blake3 hp) s c) chunks (in_start (hp_blake3 hp))) n)\<rparr>"
proof (induction chunks rule: rev_induct)
  case Nil
  show ?case by (cases alg) (simp_all add: hasher_new_def)
next
  case (snoc c cs)
  then show ?case by (cases alg) (simp_all add: hasher_update_def)
qed

text \<open>However the data is cut into chunks, the streaming hasher gives the same hash as the
  one-shot function on the whole data, and panics exactly when it does: for a BLAKE3
  output length beyond the digest.\<close>

theorem streaming_agrees:
  assumes "hashes_law hp cp chunks"
  shows "hasher_finalize False hp (fold (hasher_update hp) chunks (hasher_new hp alg)) =
    (case hash_compute cp alg (concat chunks) of
       Ret (Inr h) \<Rightarrow> Ret h
     | _ \<Rightarrow> Panic)"
  using assms unfolding hasher_fold
  by (cases alg) (simp_all add: hashes_law_def incremental_law_def hasher_finalize_def hash_new_def
      hash_compute_def Let_def)

definition sample_incremental :: "(bytes \<Rightarrow> bytes) \<Rightarrow> bytes incremental" where
  "sample_incremental digest = \<lparr>in_start = [], in_absorb = (\<lambda>s c. s @ c), in_finish = digest\<rparr>"

lemma fold_append: "fold (\<lambda>c s. s @ c) cs s = s @ concat cs"
  by (induction cs arbitrary: s) simp_all

lemma sample_incremental_law: "incremental_law (sample_incremental digest) digest cs"
  by (simp add: incremental_law_def sample_incremental_def fold_append)

lemma streaming_agrees_witness:
  "let hp = \<lparr>hp_sha256 = sample_incremental (cp_sha256 sample_signing_prims),
      hp_sha512 = sample_incremental (cp_sha512 sample_signing_prims),
      hp_blake3 = sample_incremental (cp_blake3 sample_signing_prims)\<rparr>
   in hasher_finalize False hp (fold (hasher_update hp) [[1], [2, 3]] (hasher_new hp (Blake3 33))) = Panic
    \<and> hasher_finalize False hp (fold (hasher_update hp) [[1], [2, 3]] (hasher_new hp Sha256))
        = Ret \<lparr>hv_algorithm = Sha256, hv_bytes = replicate 32 0\<rparr>"
proof -
  let ?hp = "\<lparr>hp_sha256 = sample_incremental (cp_sha256 sample_signing_prims),
      hp_sha512 = sample_incremental (cp_sha512 sample_signing_prims),
      hp_blake3 = sample_incremental (cp_blake3 sample_signing_prims)\<rparr>"
  have "hashes_law ?hp sample_signing_prims [[1], [2, 3]]"
    by (simp add: hashes_law_def sample_incremental_law)
  from streaming_agrees [OF this, of "Blake3 33"] streaming_agrees [OF this, of Sha256]
  show ?thesis by (simp add: hash_compute_def sample_signing_prims_def Let_def)
qed


end
