(* ===== verification/Metadata.thy ===== *)
theory Metadata
  imports Inventory Hex
begin

text \<open>
  Package metadata (metadata.rs): package identities, digests with their text form
  \<open>algorithm:hex\<close>, the metadata record and its validation.
\<close>

section \<open>Package identity\<close>

record package_id =
  pid_driver_name :: string
  pid_source_id :: string
  pid_version :: driver_version

definition package_id_validate :: "package_id \<Rightarrow> unit result" where
  "package_id_validate p =
     (if trim (pid_driver_name p) = [] then
        Err (InvalidArgument ''package driver_name must not be empty'')
      else if trim (pid_source_id p) = [] then
        Err (InvalidArgument ''package source_id must not be empty'')
      else driver_version_validate (pid_version p))"

definition show_package_id :: "package_id \<Rightarrow> string" where
  "show_package_id p = pid_source_id p @ ''/'' @ pid_driver_name p @ ''@''
     @ show_driver_version (pid_version p)"

section \<open>Digests\<close>

record package_digest =
  pd_algorithm :: string
  pd_value :: bytes

definition digest_sha256 :: "bytes \<Rightarrow> package_digest result" where
  "digest_sha256 bs =
     (if length bs \<noteq> 32 then
        Err (InvalidArgument (''SHA-256 digest must be 32 bytes, got '' @ show_nat (length bs)))
      else Ok \<lparr>pd_algorithm = ''sha256'', pd_value = bs\<rparr>)"

definition digest_blake3 :: "bytes \<Rightarrow> package_digest result" where
  "digest_blake3 bs =
     (if length bs \<noteq> 32 then
        Err (InvalidArgument (''BLAKE3 digest must be 32 bytes, got '' @ show_nat (length bs)))
      else Ok \<lparr>pd_algorithm = ''blake3'', pd_value = bs\<rparr>)"

definition digest_parse :: "string \<Rightarrow> package_digest result" where
  "digest_parse input0 =
     (let input = trim input0 in
      case split_once CHR '':'' input of
        None \<Rightarrow> Err (InvalidArgument
                 (''invalid digest format, expected '' @ quoted ''algorithm:hex'' @ '': '' @ input))
      | Some (algo, hex) \<Rightarrow>
          (if algo = ''sha256'' \<or> algo = ''SHA256'' then
             and_then (hex_decode_meta hex) digest_sha256
           else if algo = ''blake3'' \<or> algo = ''BLAKE3'' then
             and_then (hex_decode_meta hex) digest_blake3
           else Err (InvalidArgument (''unsupported hash algorithm: '' @ algo))))"

definition digest_to_hex :: "package_digest \<Rightarrow> string" where
  "digest_to_hex d = hex_encode (pd_value d)"

definition digest_to_string_full :: "package_digest \<Rightarrow> string" where
  "digest_to_string_full d = pd_algorithm d @ '':'' @ digest_to_hex d"

text \<open>The field \<open>value\<close> in serialized metadata (\<open>hex_serde\<close>); \<open>Inl\<close> is the text of serde's error.\<close>

definition digest_value_serialize :: "bytes \<Rightarrow> string" where
  "digest_value_serialize bs = concat (map show_hex_u8 bs)"

definition digest_value_deserialize :: "string \<Rightarrow> string + bytes" where
  "digest_value_deserialize hex =
     (if odd (length hex) then Err ''hex string must have even length''
      else (case hex_chunks_meta hex of
          None \<Rightarrow> Err ''invalid hex character''
        | Some bs \<Rightarrow> Ok bs))"

definition digest_matches :: "package_digest \<Rightarrow> bytes \<Rightarrow> bool" where
  "digest_matches d other =
     (if length other \<noteq> length (pd_value d) then False
      else fold (\<lambda>(a, b) acc. or acc (xor a b)) (zip (pd_value d) other) 0 = 0)"

section \<open>Metadata\<close>

record package_metadata =
  pm_package_id :: package_id
  pm_driver_name :: string
  pm_description :: string
  pm_module_type :: driver_module_type
  pm_architecture :: string
  pm_kernel_compat :: kernel_compatibility
  pm_filename :: string
  pm_size_bytes :: u64
  pm_digest :: package_digest
  pm_signature_hex :: string
  pm_signing_key_id :: "string option"
  pm_source_id :: string
  pm_url_path :: string
  pm_is_delta :: bool
  pm_base_version :: "driver_version option"

definition package_metadata_validate :: "package_metadata \<Rightarrow> unit result" where
  "package_metadata_validate m =
     and_then (package_id_validate (pm_package_id m)) (\<lambda>_.
       if trim (pm_driver_name m) = [] then Err (InvalidArgument ''driver_name must not be empty'')
       else if trim (pm_architecture m) = [] then
         Err (InvalidArgument ''architecture must not be empty'')
       else if trim (pm_filename m) = [] then Err (InvalidArgument ''filename must not be empty'')
       else if trim (pm_source_id m) = [] then Err (InvalidArgument ''source_id must not be empty'')
       else if pm_size_bytes m = 0 then
         Err (InvalidArgument ''package size must be greater than 0'')
       else if 2000000000 < pm_size_bytes m then
         Err (InvalidArgument ''package size exceeds maximum (2 GB)'')
       else if pd_value (pm_digest m) = [] then
         Err (InvalidArgument ''package digest must not be empty'')
       else and_then (kernel_compatibility_validate (pm_kernel_compat m)) (\<lambda>_.
         if contains_str (pm_url_path m) ''..'' then
           Err (InvalidArgument (''url_path must not contain '' @ quoted ''..''))
         else if pm_is_delta m \<and> pm_base_version m = None then
           Err (InvalidArgument ''delta package must specify base_version'')
         else Ok ()))"

definition normalized_architecture :: "package_metadata \<Rightarrow> string" where
  "normalized_architecture m =
     (let arch = to_lowercase (pm_architecture m) in
      if arch = ''amd64'' then ''x86_64'' else if arch = ''arm64'' then ''aarch64'' else arch)"

record catalog_entry =
  cat_metadata :: package_metadata
  cat_available :: bool
  cat_source_priority :: u32

section \<open>Digest text\<close>

text \<open>Stored digests read back, and reading them differs from \<open>digest_parse\<close> only in not
  trimming the text and in the error it gives.\<close>

lemma digest_value_roundtrip: "digest_value_deserialize (digest_value_serialize bs) = Ok bs"
proof -
  have e: "even (length (hex_encode bs))"
    using hex_pairs_even [of "hex_encode bs" bs] hex_value_encode [of bs] hex_encode_trim [of bs]
    by (simp add: hex_value_def)
  have "hex_chunks_meta (hex_encode bs) = Some bs"
    using hex_chunks_meta_ascii [OF hex_encode_ascii e] hex_value_encode [of bs]
    by (simp add: hex_value_def hex_encode_trim)
  then show ?thesis
    using e by (simp add: digest_value_serialize_def digest_value_deserialize_def hex_encode_def)
qed

lemma digest_value_trim:
  "digest_value_deserialize (trim s) = Ok bs \<longleftrightarrow> hex_decode_meta s = Ok bs"
  by (auto simp: digest_value_deserialize_def hex_decode_meta_def Let_def split: option.split)

lemma digest_matches_iff: "digest_matches d bs \<longleftrightarrow> pd_value d = bs"
  by (auto simp: digest_matches_def fold_or_xor list_eq_iff_nth_eq set_zip)

lemma digest_parse_result:
  assumes "digest_parse s = Ok d"
  shows "length (pd_value d) = 32 \<and> (pd_algorithm d = ''sha256'' \<or> pd_algorithm d = ''blake3'')"
proof (cases "split_once CHR '':'' (trim s)")
  case None
  then show ?thesis using assms unfolding digest_parse_def by simp
next
  case (Some p)
  then obtain algo hex where "split_once CHR '':'' (trim s) = Some (algo, hex)" by (cases p) auto
  then consider "and_then (hex_decode_meta hex) digest_sha256 = Ok d"
    | "and_then (hex_decode_meta hex) digest_blake3 = Ok d"
    using assms unfolding digest_parse_def by (auto simp only: Let_def option.case prod.case
      split: if_splits)
  then show ?thesis
    by cases (auto simp: and_then_Ok_iff digest_sha256_def digest_blake3_def split: if_splits)
qed

lemma hexdigit_colon: "is_ascii_hexdigit CHR '':'' = False"
  by (simp add: is_ascii_hexdigit_def is_ascii_digit_def byte_of_def)

lemma digest_text_trim:
  assumes "pd_algorithm d = ''sha256'' \<or> pd_algorithm d = ''blake3''"
  shows "trim (digest_to_string_full d) = digest_to_string_full d"
proof (rule trim_all_nonws)
  have "\<not> is_ws c" if "c \<in> set (digest_to_hex d)" for c
    using that hex_encode_chars hexdigit_ascii_nonws unfolding digest_to_hex_def by blast
  then show "\<forall>c\<in>set (digest_to_string_full d). \<not> is_ws c"
    using assms by (auto simp: digest_to_string_full_def is_ws_def)
qed

text \<open>A digest that the parser accepts is printed to a text that parses to the same digest,
  its value always has 32 bytes, and the comparison with a computed hash accepts exactly
  that value.\<close>

theorem digest_parse_roundtrip:
  assumes "digest_parse s = Ok d"
  shows "digest_parse (digest_to_string_full d) = Ok d \<and> length (pd_value d) = 32 \<and>
    (digest_matches d h \<longleftrightarrow> h = pd_value d)"
proof -
  note r = digest_parse_result [OF assms]
  have split: "split_once CHR '':'' (digest_to_string_full d) =
      Some (pd_algorithm d, digest_to_hex d)"
    unfolding digest_to_string_full_def using r by (auto intro!: split_once_append)
  have "digest_parse (digest_to_string_full d) = Ok d"
    unfolding digest_parse_def digest_text_trim [OF conjunct2 [OF r]] Let_def split
    using r by (auto simp: digest_to_hex_def digest_sha256_def digest_blake3_def)
  then show ?thesis using r by (auto simp: digest_matches_iff)
qed

lemma digest_parse_roundtrip_witness:
  "digest_parse (''SHA256:'' @ hex_encode (replicate 32 171)) =
     Ok \<lparr>pd_algorithm = ''sha256'', pd_value = replicate 32 171\<rparr> \<and>
   \<not> digest_matches \<lparr>pd_algorithm = ''sha256'', pd_value = replicate 32 171\<rparr> (replicate 31 171)"
proof -
  have t: "trim (''SHA256:'' @ hex_encode (replicate 32 171)) =
      ''SHA256:'' @ hex_encode (replicate 32 171)"
  proof (rule trim_all_nonws)
    have "\<not> is_ws c" if "c \<in> set (hex_encode bs)" for c bs
      using that hex_encode_chars hexdigit_ascii_nonws by blast
    then show "\<forall>c\<in>set (''SHA256:'' @ hex_encode (replicate 32 171)). \<not> is_ws c"
      by (auto simp: is_ws_def)
  qed
  have s: "split_once CHR '':'' (''SHA256'' @ CHR '':'' # hex_encode (replicate 32 171)) =
      Some (''SHA256'', hex_encode (replicate 32 171))"
    by (rule split_once_append) simp
  have p: "digest_parse (''SHA256:'' @ hex_encode (replicate 32 171)) =
      Ok \<lparr>pd_algorithm = ''sha256'', pd_value = replicate 32 171\<rparr>"
    using s unfolding digest_parse_def t by (simp add: digest_sha256_def Let_def)
  show ?thesis using p digest_parse_roundtrip [OF p, of "replicate 31 171"] by simp
qed

section \<open>What valid metadata guarantees\<close>

lemma package_metadata_validate_iff:
  "package_metadata_validate m = Ok () \<longleftrightarrow>
     package_id_validate (pm_package_id m) = Ok () \<and>
     trim (pm_driver_name m) \<noteq> [] \<and> trim (pm_architecture m) \<noteq> [] \<and>
     trim (pm_filename m) \<noteq> [] \<and> trim (pm_source_id m) \<noteq> [] \<and>
     0 < pm_size_bytes m \<and> pm_size_bytes m \<le> 2000000000 \<and> pd_value (pm_digest m) \<noteq> [] \<and>
     kernel_compatibility_validate (pm_kernel_compat m) = Ok () \<and>
     \<not> contains_str (pm_url_path m) ''..'' \<and> (pm_is_delta m \<longrightarrow> pm_base_version m \<noteq> None)"
  by (auto simp: package_metadata_validate_def and_then_Ok_iff word_gt_0 linorder_not_less)

end
