(* ===== verification/Repository.thy ===== *)
theory Repository
  imports Inventory Audit_Trail Crypto
begin

text \<open>
  Repository metadata (repository.rs): trust configurations, freshness policies, the
  manifest and its validation, the freshness window, and the signature check against a
  set of trusted keys. A clock reading is an argument: \<open>now\<close> where the code compares
  it, \<open>t\<close> where it stamps an event. Seconds are u64 and the release build wraps.
\<close>

definition sat_sub :: "u64 \<Rightarrow> u64 \<Rightarrow> u64" where
  "sat_sub a b = (if a < b then 0 else a - b)"

definition default_clock_skew_secs :: u64 where "default_clock_skew_secs = 300"
definition default_freshness_secs :: u64 where "default_freshness_secs = 86400"
definition min_freshness_secs :: u64 where "min_freshness_secs = 3600"
definition max_freshness_secs :: u64 where "max_freshness_secs = 604800"

definition supported_digest_algorithms :: "string list" where
  "supported_digest_algorithms = [''sha256'', ''blake3'']"

definition supported_architectures :: "string list" where
  "supported_architectures = [''x86_64'', ''amd64'', ''aarch64'', ''arm64'']"

section \<open>Trust and freshness\<close>

datatype trust_level = Trusted | Untrusted | TrustUnknown

record trust_config =
  tc_level :: trust_level
  tc_trusted_keys :: "string list"
  tc_key_identity :: "string option"

definition trust_trusted :: "string list \<Rightarrow> trust_config" where
  "trust_trusted keys = \<lparr>tc_level = Trusted, tc_trusted_keys = keys, tc_key_identity = None\<rparr>"

definition trust_untrusted :: trust_config where
  "trust_untrusted = \<lparr>tc_level = Untrusted, tc_trusted_keys = [], tc_key_identity = None\<rparr>"

definition has_keys :: "trust_config \<Rightarrow> bool" where
  "has_keys t = (tc_trusted_keys t \<noteq> [])"

record freshness_policy =
  fp_clock_skew_secs :: u64
  fp_max_age_secs :: u64

definition freshness_strict :: freshness_policy where
  "freshness_strict = \<lparr>fp_clock_skew_secs = 60, fp_max_age_secs = 3600\<rparr>"

definition freshness_default :: freshness_policy where
  "freshness_default = \<lparr>fp_clock_skew_secs = default_clock_skew_secs,
     fp_max_age_secs = default_freshness_secs\<rparr>"

definition freshness_policy_validate :: "freshness_policy \<Rightarrow> unit result" where
  "freshness_policy_validate p =
     (if fp_max_age_secs p < min_freshness_secs then
        Err (InvalidArgument (''max_age_secs '' @ show_u64 (fp_max_age_secs p)
          @ '' is below minimum '' @ show_u64 min_freshness_secs))
      else if max_freshness_secs < fp_max_age_secs p then
        Err (InvalidArgument (''max_age_secs '' @ show_u64 (fp_max_age_secs p)
          @ '' exceeds maximum '' @ show_u64 max_freshness_secs))
      else Ok ())"

section \<open>The manifest\<close>

record package_entry =
  pe_name :: string
  pe_version :: string
  pe_url :: string
  pe_size :: "u64 option"
  pe_digest_algorithm :: string
  pe_digest_value :: string
  pe_architecture :: "string option"
  pe_kernel_compat :: "string option"
  pe_modalias_patterns :: "string list"
  pe_metadata_version :: u32
  pe_channel :: "string option"

datatype manifest_verification =
    Unverified | Verified string | InvalidManifestSignature string | UnknownKey string

definition mv_is_trusted :: "manifest_verification \<Rightarrow> bool" where
  "mv_is_trusted v = (case v of Verified _ \<Rightarrow> True | _ \<Rightarrow> False)"

record manifest =
  mf_repository_id :: string
  mf_manifest_version :: u32
  mf_issued_at :: u64
  mf_expires_at :: u64
  mf_signing_key_id :: string
  mf_packages :: "package_entry list"
  mf_verification :: manifest_verification

definition package_entry_validate_url :: "package_entry \<Rightarrow> unit result" where
  "package_entry_validate_url p =
     (let url = trim (pe_url p) in
      if url = [] then Err (MetadataError ''package URL must not be empty'')
      else if contains_str url ''..'' then
        Err (MetadataError ''package URL must not contain path traversal sequences'')
      else if contains_str url [CHR 0x5C] then
        Err (MetadataError ''package URL must not contain backslashes'')
      else if \<not> starts_with url ''http://'' \<and> \<not> starts_with url ''https://''
              \<and> \<not> starts_with url ''/'' then
        Err (MetadataError (''package URL must be http/https or absolute path: '' @ quoted url))
      else Ok ())"

definition package_entry_validate :: "package_entry \<Rightarrow> unit result" where
  "package_entry_validate p =
     (if trim (pe_name p) = [] then Err (MetadataError ''package name must not be empty'')
      else if 256 < length (pe_name p) then
        Err (MetadataError ''package name exceeds maximum length'')
      else if trim (pe_version p) = [] then
        Err (MetadataError ''package version must not be empty'')
      else
        and_then (map_err (\<lambda>e. MetadataError (''invalid package version '' @ quoted (pe_version p)
             @ '': '' @ show_service_error e)) (driver_version_parse (pe_version p))) (\<lambda>_.
        and_then (package_entry_validate_url p) (\<lambda>_.
          if pe_size p = Some 0 then
            Err (MetadataError ''package size must be positive if specified'')
          else
            (let algo_lower = to_lowercase (pe_digest_algorithm p); expected_len = 64 in
             if algo_lower \<notin> set supported_digest_algorithms then
               Err (MetadataError (''unsupported digest algorithm '' @ quoted (pe_digest_algorithm p)))
             else if length (pe_digest_value p) \<noteq> expected_len then
               Err (MetadataError (''digest value length '' @ show_nat (length (pe_digest_value p))
                 @ '' does not match expected '' @ show_nat expected_len @ '' for algorithm ''
                 @ quoted (pe_digest_algorithm p)))
             else if \<not> list_all is_ascii_hexdigit (pe_digest_value p) then
               Err (MetadataError ''digest value must be valid hexadecimal'')
             else
               and_then (case pe_architecture p of
                   None \<Rightarrow> Ok ()
                 | Some arch \<Rightarrow>
                     if to_lowercase arch \<notin> set supported_architectures
                     then Err (MetadataError (''unsupported architecture '' @ quoted arch))
                     else Ok ())
                 (\<lambda>_. case pe_channel p of
                   None \<Rightarrow> Ok ()
                 | Some ch \<Rightarrow>
                     if ch \<notin> {''stable'', ''beta'', ''testing'', ''nightly'', ''rc''}
                     then Err (MetadataError (''invalid release channel '' @ quoted ch))
                     else Ok ())))))"

text \<open>The loop with the set of the (name, version) pairs seen so far.\<close>

fun validate_packages :: "(string \<times> string) list \<Rightarrow> package_entry list \<Rightarrow> unit result" where
  "validate_packages seen [] = Ok ()"
| "validate_packages seen (p # ps) =
     and_then (package_entry_validate p) (\<lambda>_.
       if (pe_name p, pe_version p) \<in> set seen then
         Err (MetadataError (''duplicate package entry '' @ quoted (pe_name p) @ '' version ''
           @ pe_version p))
       else validate_packages ((pe_name p, pe_version p) # seen) ps)"

definition manifest_validate :: "manifest \<Rightarrow> unit result" where
  "manifest_validate m =
     (if trim (mf_repository_id m) = [] then Err (MetadataError ''repository_id must not be empty'')
      else if mf_manifest_version m \<noteq> 1 then
        Err (MetadataError (''unsupported manifest version: '' @ show_u32 (mf_manifest_version m)))
      else if trim (mf_signing_key_id m) = [] then
        Err (MetadataError ''signing_key_id must not be empty'')
      else if mf_issued_at m = 0 then Err (MetadataError ''issued_at must not be zero'')
      else if mf_expires_at m = 0 then Err (MetadataError ''expires_at must not be zero'')
      else if mf_expires_at m \<le> mf_issued_at m then
        Err (MetadataError ''expires_at must be after issued_at'')
      else validate_packages [] (mf_packages m))"

definition check_freshness :: "u64 \<Rightarrow> freshness_policy \<Rightarrow> manifest \<Rightarrow> unit result" where
  "check_freshness now policy m =
     (let skew = fp_clock_skew_secs policy in
      if now + skew < mf_issued_at m then
        Err (MetadataError (''manifest issued_at '' @ show_u64 (mf_issued_at m)
          @ '' is in the future (skew tolerance: '' @ show_u64 skew @ ''s)''))
      else if mf_expires_at m < sat_sub now skew then
        Err (MetadataError (''manifest expired at '' @ show_u64 (mf_expires_at m)
          @ '' (current time: '' @ show_u64 now @ '', skew tolerance: '' @ show_u64 skew @ ''s)''))
      else (let age = sat_sub now (mf_issued_at m) in
        if fp_max_age_secs policy < age then
          Err (MetadataError (''manifest age '' @ show_u64 age @ ''s exceeds maximum ''
            @ show_u64 (fp_max_age_secs policy) @ ''s''))
        else Ok ()))"

definition check_freshness_audited ::
  "u64 \<Rightarrow> u64 \<Rightarrow> freshness_policy \<Rightarrow> string \<Rightarrow> manifest \<Rightarrow> audit_log \<Rightarrow> unit result \<times> audit_log" where
  "check_freshness_audited now t policy subject m l =
     (case check_freshness now policy m of
        Inr _ \<Rightarrow> (Ok (), l)
      | Inl e \<Rightarrow> (Err e, record_event (audit_event_new t Integrity SevWarning
          ''metadata_freshness_rejected'' subject
          (''Repository '' @ quoted (mf_repository_id m) @ '': '' @ show_service_error e)) l))"

section \<open>Signature verification\<close>

text \<open>The loop over the trusted keys: malformed keys are skipped.\<close>

fun try_manifest_keys :: "crypto_prims \<Rightarrow> bytes \<Rightarrow> bytes \<Rightarrow> string list \<Rightarrow> string option may_panic"
where
  "try_manifest_keys cp json sig [] = Ret None"
| "try_manifest_keys cp json sig (key_hex # keys) =
     panic_then (hex_decode_repo key_hex) (\<lambda>d.
       case d of
         Some bs \<Rightarrow>
           (if length bs = 32 then
              (case sig_verify cp bs json sig of
                 Inr SigValid \<Rightarrow> Ret (Some key_hex)
               | _ \<Rightarrow> try_manifest_keys cp json sig keys)
            else try_manifest_keys cp json sig keys)
       | None \<Rightarrow> try_manifest_keys cp json sig keys)"

definition verify_manifest_signature ::
  "crypto_prims \<Rightarrow> bytes \<Rightarrow> string \<Rightarrow> string list \<Rightarrow> manifest_verification may_panic" where
  "verify_manifest_signature cp json signature_hex trusted_keys =
     panic_then (hex_decode_repo signature_hex) (\<lambda>d.
       case (case d of Some bs \<Rightarrow> if length bs = 64 then Some bs else None | None \<Rightarrow> None) of
         None \<Rightarrow> Ret (InvalidManifestSignature
           ''signature is not valid hex or wrong length (expected 64 bytes)'')
       | Some sig \<Rightarrow> panic_then (try_manifest_keys cp json sig trusted_keys) (\<lambda>k.
           Ret (case k of
               Some key_id \<Rightarrow> Verified key_id
             | None \<Rightarrow>
                 if trusted_keys = [] then UnknownKey ''no trusted keys configured''
                 else InvalidManifestSignature ''signature does not match any trusted key'')))"

definition verify_manifest_signature_audited ::
  "crypto_prims \<Rightarrow> u64 \<Rightarrow> bytes \<Rightarrow> string \<Rightarrow> string list \<Rightarrow> string \<Rightarrow> string \<Rightarrow> audit_log
     \<Rightarrow> (manifest_verification \<times> audit_log) may_panic" where
  "verify_manifest_signature_audited cp t json signature_hex trusted_keys subject repository_id l =
     panic_then (verify_manifest_signature cp json signature_hex trusted_keys) (\<lambda>r.
       Ret (case r of
           Verified key_id \<Rightarrow>
             (r, record_event (audit_event_new t Integrity SevInfo
                ''metadata_authentication_success'' subject
                (''Repository '' @ quoted repository_id @ '' metadata authenticated with key ''
                  @ take (min 16 (length key_id)) key_id)) l)
         | InvalidManifestSignature msg \<Rightarrow>
             (r, record_event (audit_event_new t Integrity SevError
                ''metadata_authentication_failure'' subject
                (''Repository '' @ quoted repository_id @ '': '' @ msg)) l)
         | UnknownKey msg \<Rightarrow>
             (r, record_event (audit_event_new t Integrity SevError
                ''metadata_unknown_key'' subject
                (''Repository '' @ quoted repository_id @ '': '' @ msg)) l)
         | Unverified \<Rightarrow> (r, l)))"

section \<open>The manager\<close>

definition verify_manifest ::
  "crypto_prims \<Rightarrow> u64 \<Rightarrow> u64 \<Rightarrow> freshness_policy \<Rightarrow> bytes \<Rightarrow> manifest \<Rightarrow> string \<Rightarrow> string list
     \<Rightarrow> string \<Rightarrow> audit_log \<Rightarrow> (manifest result \<times> audit_log) may_panic" where
  "verify_manifest cp now t policy json m signature_hex trusted_keys subject l =
     (case manifest_validate m of
        Inl e \<Rightarrow> Ret (Err (MetadataError (''manifest validation failed for ''
            @ quoted (mf_repository_id m) @ '': '' @ show_service_error e)), l)
      | Inr _ \<Rightarrow>
          (case check_freshness_audited now t policy subject m l of
             (Inl e, l1) \<Rightarrow> Ret (Err (MetadataError (''manifest freshness check failed for ''
                @ quoted (mf_repository_id m) @ '': '' @ show_service_error e)), l1)
           | (Inr _, l1) \<Rightarrow>
               panic_then (verify_manifest_signature_audited cp t json signature_hex trusted_keys
                   subject (mf_repository_id m) l1) (\<lambda>(verification, l2).
                 let verified = m\<lparr>mf_verification := verification\<rparr> in
                 Ret ((case verification of
                     Verified _ \<Rightarrow> Ok verified
                   | InvalidManifestSignature msg \<Rightarrow>
                       Err (VerificationFailed (''manifest signature verification failed for ''
                         @ quoted (mf_repository_id m) @ '': '' @ msg))
                   | UnknownKey msg \<Rightarrow>
                       Err (SourceError (''unknown signing key for repository ''
                         @ quoted (mf_repository_id m) @ '': '' @ msg))
                   | Unverified \<Rightarrow>
                       Err (Internal ''manifest not verified after verification call'')), l2))))"

definition validate_unsigned_manifest ::
  "u64 \<Rightarrow> u64 \<Rightarrow> freshness_policy \<Rightarrow> manifest \<Rightarrow> string \<Rightarrow> audit_log
     \<Rightarrow> manifest result \<times> audit_log" where
  "validate_unsigned_manifest now t policy m subject l =
     (case manifest_validate m of
        Inl e \<Rightarrow> (Err (MetadataError (''manifest validation failed for ''
            @ quoted (mf_repository_id m) @ '': '' @ show_service_error e)), l)
      | Inr _ \<Rightarrow>
          (case check_freshness_audited now t policy subject m l of
             (Inl e, l1) \<Rightarrow> (Err (MetadataError (''manifest freshness check failed for ''
                @ quoted (mf_repository_id m) @ '': '' @ show_service_error e)), l1)
           | (Inr _, l1) \<Rightarrow> (Ok (m\<lparr>mf_verification := Unverified\<rparr>), l1)))"

section \<open>The freshness window\<close>

lemma unat_sat_sub: "unat (sat_sub a b) = unat a - unat b"
  by (simp add: sat_sub_def word_less_nat_alt unat_sub_if_size word_size linorder_not_less
      word_le_nat_alt)

lemma unat_add_no_wrap:
  fixes a b :: u64
  assumes "unat a + unat b < 2 ^ 64" shows "unat (a + b) = unat a + unat b"
  using assms by (simp add: unat_add_lem [where 'a = 64, THEN iffD1])

text \<open>C21: A manifest is fresh exactly when it was issued no later than the clock reading plus the
  tolerated skew, has not expired by more than the skew, and is no older than the maximum age;
  otherwise it is a metadata error. Expiry and age never wrap, the first sum does: a skew that
  takes the clock past the end of u64 is cut to the remainder.\<close>

theorem check_freshness_window:
  "case check_freshness now p m of
     Inr u \<Rightarrow> unat (mf_issued_at m) \<le> (unat now + unat (fp_clock_skew_secs p)) mod 2 ^ 64 \<and>
       unat now \<le> unat (mf_expires_at m) + unat (fp_clock_skew_secs p) \<and>
       unat now \<le> unat (mf_issued_at m) + unat (fp_max_age_secs p)
   | Inl e \<Rightarrow> (\<exists>t. e = MetadataError t) \<and>
       (if unat (mf_issued_at m) \<le> (unat now + unat (fp_clock_skew_secs p)) mod 2 ^ 64
        then unat (mf_expires_at m) + unat (fp_clock_skew_secs p) < unat now \<or>
          unat (mf_issued_at m) + unat (fp_max_age_secs p) < unat now
        else True)"
  by (auto simp: check_freshness_def Let_def word_less_nat_alt unat_sat_sub unat_word_ariths)

text \<open>A skew without bound rejects every manifest that is not from the first second.\<close>

lemma freshness_skew_wraps:
  "fp_clock_skew_secs p = - now \<Longrightarrow> mf_issued_at m \<noteq> 0 \<Longrightarrow> check_freshness now p m \<noteq> Ok ()"
  by (simp add: check_freshness_def Let_def word_gt_0)

definition sample_manifest :: "u64 \<Rightarrow> u64 \<Rightarrow> manifest" where
  "sample_manifest i e = \<lparr>mf_repository_id = ''mission'', mf_manifest_version = 1,
     mf_issued_at = i, mf_expires_at = e, mf_signing_key_id = ''k'', mf_packages = [],
     mf_verification = Unverified\<rparr>"

section \<open>Valid manifests\<close>

lemma validate_packages_iff:
  "validate_packages seen ps = Ok () \<longleftrightarrow>
     (\<forall>p\<in>set ps. package_entry_validate p = Ok ()) \<and>
     distinct (map (\<lambda>p. (pe_name p, pe_version p)) ps) \<and>
     (\<forall>p\<in>set ps. (pe_name p, pe_version p) \<notin> set seen)"
  by (induction seen ps rule: validate_packages.induct) (auto simp: and_then_Ok_iff image_iff)

lemma hexdigit_pair:
  assumes "is_ascii_hexdigit a" "is_ascii_hexdigit b" shows "\<exists>v. hex_byte a b = Some v"
proof -
  have d: "\<exists>n<16. digit_value 16 c = Some n" if "is_ascii_hexdigit c" for c
    using that by (auto simp: is_ascii_hexdigit_def is_ascii_digit_def digit_value_def Let_def)
  have "a \<noteq> CHR ''+''" using assms(1) by (auto simp: is_ascii_hexdigit_def is_ascii_digit_def byte_of_def)
  with d [OF assms(1)] d [OF assms(2)] show ?thesis
    by (auto simp: hex_byte_def parse_hex_u8_def parse_radix_def)
qed

lemma hex_pairs_hexdigits:
  "list_all is_ascii_hexdigit s \<Longrightarrow> even (length s) \<Longrightarrow> \<exists>bs. hex_pairs s = Some bs"
proof (induction s rule: hex_pairs.induct)
  case (1 a b cs)
  then obtain v bs where "hex_byte a b = Some v" "hex_pairs cs = Some bs"
    using hexdigit_pair [of a b] by auto
  then show ?case by simp
qed auto

lemma hexdigits_decode:
  assumes h: "list_all is_ascii_hexdigit s" and l: "length s = 64"
  shows "\<exists>bs. hex_decode_meta s = Ok bs \<and> length bs = 32"
proof -
  have c: "\<forall>c\<in>set s. is_ascii c \<and> \<not> is_ws c"
    using h hexdigit_ascii_nonws by (auto simp: list_all_iff)
  then have v: "hex_value s = hex_pairs s" by (simp add: hex_value_def trim_all_nonws)
  obtain bs where "hex_pairs s = Some bs" using hex_pairs_hexdigits [OF h] l by auto
  then show ?thesis using hex_pairs_even [of s bs] hex_decode_meta_iff [of s bs] c v l by auto
qed

lemma package_entry_validate_Ok:
  assumes "package_entry_validate p = Ok ()"
  shows "trim (pe_name p) \<noteq> [] \<and> (\<exists>v. driver_version_parse (pe_version p) = Ok v) \<and>
    package_entry_validate_url p = Ok () \<and> pe_size p \<noteq> Some 0 \<and>
    to_lowercase (pe_digest_algorithm p) \<in> set supported_digest_algorithms \<and>
    length (pe_digest_value p) = 64 \<and> list_all is_ascii_hexdigit (pe_digest_value p)"
  using assms
  by (auto simp: package_entry_validate_def Let_def and_then_Ok_iff map_err_Ok_iff split: if_splits)

text \<open>A manifest that validation accepts names each (package, version) pair once, expires
  after it was issued, and each of its packages has a version the parser accepts, a URL
  free of parent references, and a digest text that decodes to 32 bytes.\<close>

theorem manifest_validate_guarantees:
  assumes "manifest_validate m = Ok ()"
  shows "distinct (map (\<lambda>p. (pe_name p, pe_version p)) (mf_packages m)) \<and>
    mf_issued_at m < mf_expires_at m \<and>
    (\<forall>p\<in>set (mf_packages m).
       (\<exists>v. driver_version_parse (pe_version p) = Ok v) \<and>
       \<not> contains_str (trim (pe_url p)) ''..'' \<and>
       (\<exists>bs. hex_decode_meta (pe_digest_value p) = Ok bs \<and> length bs = 32))"
proof -
  have v: "validate_packages [] (mf_packages m) = Ok ()" "mf_issued_at m < mf_expires_at m"
    using assms by (auto simp: manifest_validate_def split: if_splits)
  have "(\<exists>v. driver_version_parse (pe_version p) = Ok v) \<and>
       \<not> contains_str (trim (pe_url p)) ''..'' \<and>
       (\<exists>bs. hex_decode_meta (pe_digest_value p) = Ok bs \<and> length bs = 32)"
    if "p \<in> set (mf_packages m)" for p
  proof -
    have p: "package_entry_validate p = Ok ()" using v that by (simp add: validate_packages_iff)
    note ok = package_entry_validate_Ok [OF p]
    then have "package_entry_validate_url p = Ok ()" by blast
    then have "\<not> contains_str (trim (pe_url p)) ''..''"
      by (auto simp: package_entry_validate_url_def Let_def split: if_splits)
    then show ?thesis using ok hexdigits_decode by blast
  qed
  then show ?thesis using v by (simp add: validate_packages_iff)
qed

definition sample_package :: package_entry where
  "sample_package = \<lparr>pe_name = ''e1000e'', pe_version = ''3.8.7'', pe_url = ''/e1000e.pkg'',
     pe_size = Some 4096, pe_digest_algorithm = ''SHA256'',
     pe_digest_value = hex_encode (replicate 32 7), pe_architecture = Some ''amd64'',
     pe_kernel_compat = None, pe_modalias_patterns = [], pe_metadata_version = 1,
     pe_channel = Some ''stable''\<rparr>"

lemma sample_package_valid: "package_entry_validate sample_package = Ok ()"
proof -
  have h: "list_all is_ascii_hexdigit (hex_encode bs)" for bs
    using hex_encode_chars by (auto simp: list_all_iff)
  show ?thesis
    by (simp add: package_entry_validate_def sample_package_def h package_entry_validate_url_def
        supported_digest_algorithms_def supported_architectures_def driver_version_parse_def
        parse_component_def parse_eval char_of_def bit_0)
qed

lemma manifest_validate_guarantees_witness:
  "manifest_validate ((sample_manifest 5 9)\<lparr>mf_packages := [sample_package]\<rparr>) = Ok () \<and>
   (\<exists>bs. hex_decode_meta (pe_digest_value sample_package) = Ok bs \<and> length bs = 32)"
proof -
  have v: "manifest_validate ((sample_manifest 5 9)\<lparr>mf_packages := [sample_package]\<rparr>) = Ok ()"
    by (simp add: manifest_validate_def sample_manifest_def sample_package_valid trim_eq_Nil is_ws_def)
  show ?thesis using v manifest_validate_guarantees [OF v] by simp
qed

section \<open>What an accepted signature means\<close>

lemma try_manifest_keys_Some:
  "try_manifest_keys cp json sig ks = Ret (Some k) \<Longrightarrow>
     k \<in> set ks \<and> (\<exists>bs. hex_decode_repo k = Ret (Some bs) \<and> sig_verify cp bs json sig = Ok SigValid)"
  by (induction ks)
    (auto simp: panic_then_def split: may_panic.splits option.splits if_splits sum.splits
      verification_result.splits)

lemma verify_manifest_signature_Verified:
  assumes "verify_manifest_signature cp json sh ks = Ret (Verified k)"
  shows "k \<in> set ks \<and> (\<exists>bs sig. hex_decode_repo k = Ret (Some bs) \<and>
    hex_decode_repo sh = Ret (Some sig) \<and> sig_verify cp bs json sig = Ok SigValid)"
  using assms try_manifest_keys_Some
  by (auto simp: verify_manifest_signature_def panic_then_def
      split: may_panic.splits option.splits if_splits)

lemma audited_signature_result:
  "verify_manifest_signature_audited cp t json sh ks subj rid l = Ret (v, l') \<Longrightarrow>
     verify_manifest_signature cp json sh ks = Ret v \<and> log_extends l l'"
  by (auto simp: verify_manifest_signature_audited_def panic_then_def
      split: may_panic.splits manifest_verification.splits intro: log_intros)

lemma freshness_audited_result:
  "check_freshness_audited now t p subj m l = (r, l1) \<Longrightarrow>
     r = check_freshness now p m \<and> log_extends l l1"
  by (cases "check_freshness now p m")
    (auto simp: check_freshness_audited_def intro: log_intros)

text \<open>C11: The manager hands out a manifest only if it is structurally valid, fresh, and its
  exact received bytes carry a 64-byte signature that ed25519 accepts under one of the
  configured 32-byte keys; the manifest is returned unchanged except for the verdict,
  which names that key, and the audit log only grows.\<close>

theorem verify_manifest_sound:
  assumes "verify_manifest cp now t p json m sh ks subj l = Ret (Ok v, l')"
  shows "manifest_validate m = Ok () \<and> check_freshness now p m = Ok () \<and>
    (\<exists>k\<in>set ks. v = m\<lparr>mf_verification := Verified k\<rparr> \<and>
       (\<exists>bs sig. hex_decode_repo k = Ret (Some bs) \<and> length bs = 32 \<and>
          hex_decode_repo sh = Ret (Some sig) \<and> length sig = 64 \<and> cp_ed25519 cp bs json sig)) \<and>
    log_extends l l'"
proof -
  obtain l1 w where val: "manifest_validate m = Ok ()"
    and fr: "check_freshness_audited now t p subj m l = (Ok (), l1)"
    and sg: "verify_manifest_signature_audited cp t json sh ks subj (mf_repository_id m) l1
       = Ret (w, l')"
    and v: "v = m\<lparr>mf_verification := w\<rparr>" "\<exists>k. w = Verified k"
    using assms
    by (auto simp: verify_manifest_def panic_then_def Let_def split: sum.splits prod.splits
        may_panic.splits manifest_verification.splits)
  then obtain k where k: "w = Verified k" by blast
  note s = audited_signature_result [OF sg] and f = freshness_audited_result [OF fr]
  from s k have "verify_manifest_signature cp json sh ks = Ret (Verified k)" by simp
  note vk = verify_manifest_signature_Verified [OF this]
  then obtain bs sig where "hex_decode_repo k = Ret (Some bs)" "hex_decode_repo sh = Ret (Some sig)"
    "length bs = 32" "length sig = 64" "cp_ed25519 cp bs json sig"
    by (auto simp: sig_verify_valid)
  moreover have "k \<in> set ks" "log_extends l l'" "check_freshness now p m = Ok ()"
    using vk s f log_extends_trans by auto
  ultimately show ?thesis using val v k by blast
qed

definition sample_prims :: crypto_prims where
  "sample_prims = \<lparr>cp_sha256 = (\<lambda>d. replicate 32 (of_nat (length d))),
     cp_sha512 = (\<lambda>d. replicate 64 0), cp_blake3 = (\<lambda>d. replicate 32 (of_nat (length d))),
     cp_key_ok = (\<lambda>_. True),
     cp_ed25519 = (\<lambda>k m s. k = replicate 32 5 \<and> m = [1, 2] \<and> s = replicate 64 9)\<rparr>"

lemma verify_manifest_sound_witness:
  "\<exists>v l'. verify_manifest sample_prims 10 11 freshness_default [1, 2] (sample_manifest 5 20)
     (hex_encode (replicate 64 9)) [''zz'', hex_encode (replicate 32 5)] ''svc'' [] = Ret (Ok v, l')
   \<and> mv_is_trusted (mf_verification v) \<and> log_extends [] l'"
proof -
  have zz: "hex_decode_repo ''zz'' = Ret None"
    by (simp add: hex_decode_repo_def hex_byte_def parse_eval)
  have sv: "sig_verify sample_prims (replicate 32 5) [1, 2] (replicate 64 9) = Ok SigValid"
    by (simp add: sig_verify_valid sample_prims_def)
  have sg: "verify_manifest_signature sample_prims [1, 2] (hex_encode (replicate 64 9))
      [''zz'', hex_encode (replicate 32 5)] = Ret (Verified (hex_encode (replicate 32 5)))"
    by (simp add: verify_manifest_signature_def zz sv)
  have val: "manifest_validate (sample_manifest 5 20) = Ok ()"
    by (simp add: manifest_validate_def sample_manifest_def trim_eq_Nil is_ws_def)
  have fr: "check_freshness 10 freshness_default (sample_manifest 5 20) = Ok ()"
    by (simp add: check_freshness_def sample_manifest_def freshness_default_def sat_sub_def
        default_clock_skew_secs_def default_freshness_secs_def)
  obtain v l' where r: "verify_manifest sample_prims 10 11 freshness_default [1, 2]
      (sample_manifest 5 20) (hex_encode (replicate 64 9)) [''zz'', hex_encode (replicate 32 5)]
      ''svc'' [] = Ret (Ok v, l')"
    by (simp add: verify_manifest_def val fr check_freshness_audited_def
        verify_manifest_signature_audited_def sg)
  from verify_manifest_sound [OF r] show ?thesis using r by (auto simp: mv_is_trusted_def)
qed

text \<open>Without keys nothing is trusted, and the unsigned path never yields a trusted manifest.\<close>

lemma verify_no_keys:
  "verify_manifest_signature cp json sh [] \<noteq> Ret (Verified k)"
  using verify_manifest_signature_Verified [of cp json sh "[]" k] by auto

lemma unsigned_not_trusted:
  "validate_unsigned_manifest now t p m subj l = (Ok v, l') \<Longrightarrow> \<not> mv_is_trusted (mf_verification v)"
  by (auto simp: validate_unsigned_manifest_def mv_is_trusted_def split: sum.splits prod.splits)

end
