(* ===== verification/Manifest_Builder.thy ===== *)
theory Manifest_Builder
  imports Repository Crypto_Keys
begin

text \<open>
  The producing side of repository metadata (repository.rs): repository identifiers and
  the manifest builder, and that what is built and signed here is what the manager
  accepts. serde's serializer is an argument. A clock reading is an argument.
\<close>

section \<open>Repository identifiers\<close>

text \<open>The code points of a UTF-8 string. Which of those above 127 are alphanumeric is a table of
  the standard library, the argument \<open>uni\<close>.\<close>

fun code_points :: "string \<Rightarrow> nat list" where
  "code_points [] = []"
| "code_points (a # s) =
     (if byte_of a < 128 then byte_of a # code_points s
      else (case s of
          b # s1 \<Rightarrow>
            (if byte_of a < 224 then ((byte_of a - 192) * 64 + (byte_of b - 128)) # code_points s1
             else (case s1 of
                 c # s2 \<Rightarrow>
                   (if byte_of a < 240 then
                      ((byte_of a - 224) * 4096 + (byte_of b - 128) * 64 + (byte_of c - 128))
                        # code_points s2
                    else (case s2 of
                        d # s3 \<Rightarrow>
                          ((byte_of a - 240) * 262144 + (byte_of b - 128) * 4096
                             + (byte_of c - 128) * 64 + (byte_of d - 128)) # code_points s3
                      | [] \<Rightarrow> []))
               | [] \<Rightarrow> []))
        | [] \<Rightarrow> []))"

definition id_char_ok :: "(nat \<Rightarrow> bool) \<Rightarrow> nat \<Rightarrow> bool" where
  "id_char_ok uni n =
     ((if n < 128 then is_ascii_alphanumeric (char_of n) else uni n)
      \<or> n = 45 \<or> n = 95 \<or> n = 46)"

definition repository_id_new :: "(nat \<Rightarrow> bool) \<Rightarrow> string \<Rightarrow> string result" where
  "repository_id_new uni i =
     (if trim i = [] then Err (InvalidArgument ''repository ID must not be empty'')
      else if 128 < length i then
        Err (InvalidArgument ''repository ID exceeds maximum length (128)'')
      else if \<not> list_all (id_char_ok uni) (code_points i) then
        Err (InvalidArgument (''repository ID '' @ quoted i @ '' contains invalid characters''))
      else Ok i)"

section \<open>The builder\<close>

record manifest_builder =
  mb_repository_id :: string
  mb_manifest_version :: u32
  mb_issued_at :: u64
  mb_expires_at :: u64
  mb_signing_key_id :: string
  mb_packages :: "package_entry list"

definition builder_new :: "u64 \<Rightarrow> string \<Rightarrow> manifest_builder" where
  "builder_new now rid =
     \<lparr>mb_repository_id = rid, mb_manifest_version = 1, mb_issued_at = now,
      mb_expires_at = now + default_freshness_secs, mb_signing_key_id = '''', mb_packages = []\<rparr>"

definition builder_version :: "u32 \<Rightarrow> manifest_builder \<Rightarrow> manifest_builder" where
  "builder_version v b = b\<lparr>mb_manifest_version := v\<rparr>"

definition builder_issued_at :: "u64 \<Rightarrow> manifest_builder \<Rightarrow> manifest_builder" where
  "builder_issued_at ts b = b\<lparr>mb_issued_at := ts\<rparr>"

definition builder_expires_at :: "u64 \<Rightarrow> manifest_builder \<Rightarrow> manifest_builder" where
  "builder_expires_at ts b = b\<lparr>mb_expires_at := ts\<rparr>"

definition builder_signing_key :: "string \<Rightarrow> manifest_builder \<Rightarrow> manifest_builder" where
  "builder_signing_key k b = b\<lparr>mb_signing_key_id := k\<rparr>"

definition builder_add_package :: "package_entry \<Rightarrow> manifest_builder \<Rightarrow> manifest_builder" where
  "builder_add_package p b = b\<lparr>mb_packages := mb_packages b @ [p]\<rparr>"

definition builder_build :: "manifest_builder \<Rightarrow> manifest" where
  "builder_build b =
     \<lparr>mf_repository_id = mb_repository_id b, mf_manifest_version = mb_manifest_version b,
      mf_issued_at = mb_issued_at b, mf_expires_at = mb_expires_at b,
      mf_signing_key_id = mb_signing_key_id b, mf_packages = mb_packages b,
      mf_verification = Unverified\<rparr>"

section \<open>Built manifests are accepted\<close>

lemma fold_builder_add: "mb_packages (fold builder_add_package ps b) = mb_packages b @ ps
   \<and> mb_repository_id (fold builder_add_package ps b) = mb_repository_id b
   \<and> mb_manifest_version (fold builder_add_package ps b) = mb_manifest_version b
   \<and> mb_issued_at (fold builder_add_package ps b) = mb_issued_at b
   \<and> mb_expires_at (fold builder_add_package ps b) = mb_expires_at b
   \<and> mb_signing_key_id (fold builder_add_package ps b) = mb_signing_key_id b"
  by (induction ps arbitrary: b) (simp_all add: builder_add_package_def)

text \<open>What the builder makes is valid when its parts are.\<close>

lemma built_valid:
  assumes "trim rid \<noteq> []" "trim k \<noteq> []" "0 < now" "unat now + 86400 < 2 ^ 64"
    and "\<forall>p\<in>set ps. package_entry_validate p = Ok ()"
    and "distinct (map (\<lambda>p. (pe_name p, pe_version p)) ps)"
  shows "manifest_validate
    (builder_build (fold builder_add_package ps (builder_signing_key k (builder_new now rid)))) = Ok ()"
proof -
  have "unat (now + 86400) = unat now + 86400"
    using unat_add_no_wrap [of now 86400] assms(4) by simp
  then have "now < now + 86400" "now + 86400 \<noteq> 0"
    by (auto simp: word_less_nat_alt unat_eq_0)
  then show ?thesis
    using assms validate_packages_iff [of "[]" ps]
    by (simp add: manifest_validate_def builder_build_def fold_builder_add builder_new_def
        builder_signing_key_def default_freshness_secs_def not_le)
qed

text \<open>With the default policy it is fresh from five minutes before its issue to a day after it.\<close>

lemma built_fresh:
  assumes "unat now + 86400 < 2 ^ 64" "unat at + 300 < 2 ^ 64"
    and "mb_issued_at b = now" "mb_expires_at b = now + default_freshness_secs"
  shows "check_freshness at freshness_default (builder_build b) = Ok () \<longleftrightarrow>
    unat now \<le> unat at + 300 \<and> unat at \<le> unat now + 86400"
proof -
  have u: "unat (now + 86400) = unat now + 86400" "unat (at + 300) = unat at + 300"
    using unat_add_no_wrap [of now 86400] unat_add_no_wrap [of at 300] assms(1,2) by simp_all
  then show ?thesis
    using assms(3,4)
    by (auto simp: check_freshness_def freshness_default_def builder_build_def Let_def
        default_clock_skew_secs_def default_freshness_secs_def word_less_nat_alt unat_sat_sub)
qed

lemma try_encoded_keys:
  assumes "k \<in> set ks" "sig_verify cp k json sig = Ok SigValid"
  shows "\<exists>k'\<in>set ks. try_manifest_keys cp json sig (map hex_encode ks) = Ret (Some (hex_encode k'))"
  using assms
proof (induction ks)
  case (Cons a ks)
  show ?case
  proof (cases "sig_verify cp a json sig = Ok SigValid")
    case True
    then show ?thesis using sig_verify_valid [THEN iffD1, OF True] by simp
  next
    case False
    then have "\<exists>k'\<in>set ks. try_manifest_keys cp json sig (map hex_encode ks) = Ret (Some (hex_encode k'))"
      using Cons by auto
    moreover have "try_manifest_keys cp json sig (map hex_encode (a # ks)) =
        try_manifest_keys cp json sig (map hex_encode ks)"
      using False by (auto split: sum.split verification_result.split)
    ultimately show ?thesis by auto
  qed
qed simp

text \<open>C39: A manifest that the builder makes with default expiry from valid packages, no two of the
  same name and version, for a repository and a key that are not blank, and that is signed with
  a generated key pair, is accepted by every service that has the public key among its trusted
  keys and the default freshness policy, at every clock reading from five minutes before the
  issue to a day after it, and at no other: the verdict names a trusted key, and the packages,
  the repository and the key arrive unchanged. The law of Ed25519 is assumed of the signed
  bytes; clocks are a day away from the end of u64.\<close>

theorem signed_manifest_accepted:
  assumes "generate_ed25519 ep ent g = (Ok pair, g1)"
    and "ed25519_law cp ep (kp_signing_key pair) json"
    and "b = fold builder_add_package ps (builder_signing_key k (builder_new now rid))"
    and "m = builder_build b" "json = to_vec m"
    and "sig_sign dbg ep pair json = Ret sg"
    and "kp_verifying_key pair \<in> set keys"
    and "trim rid \<noteq> []" "trim k \<noteq> []" "0 < now" "unat now + 86400 < 2 ^ 64"
    and "\<forall>p\<in>set ps. package_entry_validate p = Ok ()"
    and "distinct (map (\<lambda>p. (pe_name p, pe_version p)) ps)"
    and "unat at + 300 < 2 ^ 64"
  shows "mf_packages m = ps \<and> mf_repository_id m = rid \<and> mf_signing_key_id m = k \<and>
    (if unat now \<le> unat at + 300 \<and> unat at \<le> unat now + 86400
     then \<exists>key\<in>set keys. \<exists>l'. verify_manifest cp at t freshness_default json m
            (signature_to_hex sg) (map hex_encode keys) subj l
          = Ret (Ok (m\<lparr>mf_verification := Verified (hex_encode key)\<rparr>), l')
     else \<exists>e l'. verify_manifest cp at t freshness_default json m
            (signature_to_hex sg) (map hex_encode keys) subj l = Ret (Err e, l'))"
proof -
  note pair = generate_ed25519_seed [OF assms(1)]
  have hex: "signature_to_hex sg = hex_encode (ep_sign ep (kp_signing_key pair) json)"
    using assms(6) sig_sign_law [OF assms(2), of dbg] by (auto simp: signature_to_hex_def)
  have val: "manifest_validate m = Ok ()"
    unfolding assms(3,4) by (rule built_valid [OF assms(8-13)])
  have fr: "check_freshness at freshness_default m = Ok () \<longleftrightarrow>
      unat now \<le> unat at + 300 \<and> unat at \<le> unat now + 86400"
    unfolding assms(4) by (rule built_fresh [OF assms(11,14)])
      (simp_all add: assms(3) fold_builder_add builder_signing_key_def builder_new_def)
  have "sig_verify cp (kp_verifying_key pair) json (ep_sign ep (kp_signing_key pair) json) = Ok SigValid"
    using sig_verify_law [OF assms(2)] pair by simp
  from try_encoded_keys [OF assms(7) this] obtain key where key: "key \<in> set keys"
    "try_manifest_keys cp json (ep_sign ep (kp_signing_key pair) json) (map hex_encode keys) =
       Ret (Some (hex_encode key))" by blast
  have "length (ep_sign ep (kp_signing_key pair) json) = 64"
    using assms(2) by (simp add: ed25519_law_def)
  then have sig: "verify_manifest_signature cp json (signature_to_hex sg) (map hex_encode keys) =
      Ret (Verified (hex_encode key))"
    using key(2) by (simp add: verify_manifest_signature_def hex)
  have "mf_packages m = ps" "mf_repository_id m = rid" "mf_signing_key_id m = k"
    unfolding assms(3,4)
    by (simp_all add: builder_build_def fold_builder_add builder_signing_key_def builder_new_def)
  then show ?thesis
    using val fr key(1) sig
    by (cases "check_freshness at freshness_default m")
      (auto simp: verify_manifest_def check_freshness_audited_def verify_manifest_signature_audited_def)
qed

lemma signed_manifest_accepted_witness:
  "\<exists>key l'. verify_manifest sample_signing_prims 1700086400 0 freshness_default [1, 2]
      (builder_build (builder_add_package sample_package
        (builder_signing_key ''k'' (builder_new 1700000000 ''mission''))))
      (hex_encode (replicate 32 7 @ replicate 32 7)) [hex_encode (replicate 32 7)] ''svc'' []
    = Ret (Ok ((builder_build (builder_add_package sample_package
        (builder_signing_key ''k'' (builder_new 1700000000 ''mission''))))
          \<lparr>mf_verification := Verified key\<rparr>), l')"
proof -
  let ?p = "\<lparr>kp_signing_key = replicate 32 7, kp_verifying_key = replicate 32 7\<rparr>"
  let ?b = "fold builder_add_package [sample_package]
    (builder_signing_key ''k'' (builder_new 1700000000 ''mission''))"
  have g: "generate_ed25519 sample_ed25519 (\<lambda>g n. (Inr (\<lambda>_. 7), ())) () = (Ok ?p, ())"
    by (simp add: generate_ed25519_def random_vec_def fill_bytes_def sample_ed25519_def
        map_replicate_const)
  obtain sg where s: "sig_sign True sample_ed25519 ?p [1, 2] = Ret sg"
    "signature_to_hex sg = hex_encode (replicate 32 7 @ replicate 32 7)"
    by (simp add: sig_sign_def signature_new_def sample_ed25519_def signature_to_hex_def)
  have law: "ed25519_law sample_signing_prims sample_ed25519 (kp_signing_key ?p) [1, 2]"
    by simp
  have "\<exists>key\<in>set [replicate 32 7]. \<exists>l'. verify_manifest sample_signing_prims 1700086400 0
      freshness_default [1, 2] (builder_build ?b) (signature_to_hex sg)
      (map hex_encode [replicate 32 7]) ''svc'' []
      = Ret (Ok ((builder_build ?b)\<lparr>mf_verification := Verified (hex_encode key)\<rparr>), l')"
    using signed_manifest_accepted [OF g law refl refl _ s(1), where to_vec = "\<lambda>_. [1, 2]"
        and keys = "[replicate 32 7]" and rid = "''mission''" and k = "''k''" and now = 1700000000
        and ps = "[sample_package]" and at = 1700086400 and t = 0 and subj = "''svc''" and l = "[]"]
    by (simp add: sample_package_valid trim_eq_Nil is_ws_def)
  then show ?thesis unfolding s(2) by auto
qed

end
