(* ===== verification/Source.thy ===== *)
theory Source
  imports Repository
begin

text \<open>
  Driver sources (source.rs): identifiers, configurations and their validation, the
  registry with its lookups, and the default sources. Whether a local path exists is
  the argument \<open>path_exists\<close> of the resolver.
\<close>

section \<open>Configurations\<close>

definition source_id_new :: "string \<Rightarrow> string result" where
  "source_id_new i =
     (let trimmed = trim i in
      if trimmed = [] then Err (InvalidArgument ''source ID must not be empty'')
      else if 128 < length trimmed then
        Err (InvalidArgument ''source ID exceeds maximum length (128)'')
      else if \<not> list_all (\<lambda>c. is_ascii_alphanumeric c \<or> c \<in> {CHR ''_'', CHR ''-'', CHR ''.''}) trimmed
      then Err (InvalidArgument
        ''source ID must contain only alphanumeric chars, underscores, hyphens, or dots'')
      else Ok trimmed)"

datatype source_type = StMission | StLinux | StVendor | StCommunity | StLocal

definition requires_network :: "source_type \<Rightarrow> bool" where
  "requires_network t = (t \<in> {StMission, StVendor, StCommunity})"

definition default_trusted :: "source_type \<Rightarrow> bool" where
  "default_trusted t = (t \<in> {StMission, StLinux})"

record source_config =
  sc_id :: string
  sc_name :: string
  sc_source_type :: source_type
  sc_base_url :: string
  sc_enabled :: bool
  sc_priority :: u32
  sc_trusted_key_ids :: "string list"
  sc_allowed_architectures :: "string list"
  sc_mirrors :: "string list"
  sc_metadata_url :: "string option"
  sc_trust_config :: "trust_config option"

definition source_validate_url :: "string \<Rightarrow> unit result" where
  "source_validate_url url =
     (let trimmed = trim url in
      if trimmed = [] then Err (InvalidArgument ''URL must not be empty for remote sources'')
      else if \<not> starts_with trimmed ''https://'' \<and> \<not> starts_with trimmed ''file://'' then
        Err (InvalidArgument (''URL scheme must be HTTPS for remote sources: '' @ trimmed))
      else if CHR ''@'' \<in> set trimmed \<and> starts_with trimmed ''https://''
              \<and> CHR ''@'' \<in> set (trim_start_matches trimmed ''https://'') then
        Err (InvalidArgument ''URL must not contain embedded credentials'')
      else Ok ())"

definition source_config_validate :: "source_config \<Rightarrow> unit result" where
  "source_config_validate c =
     and_then (source_id_new (sc_id c)) (\<lambda>_.
       if trim (sc_name c) = [] then Err (InvalidArgument ''source name must not be empty'')
       else
         and_then (if requires_network (sc_source_type c) then
             and_then (source_validate_url (sc_base_url c))
               (\<lambda>_. for_each source_validate_url (sc_mirrors c))
           else Ok ()) (\<lambda>_.
         if 1000 < sc_priority c then
           Err (InvalidArgument ''source priority must be between 0 and 1000'')
         else
           and_then (for_each (\<lambda>k. if trim k = []
             then Err (InvalidArgument ''trusted key ID must not be empty'') else Ok ())
             (sc_trusted_key_ids c)) (\<lambda>_.
           and_then (for_each (\<lambda>a. if trim a = []
             then Err (InvalidArgument ''architecture must not be empty'') else Ok ())
             (sc_allowed_architectures c)) (\<lambda>_.
           and_then (case sc_metadata_url c of
               Some u \<Rightarrow> if requires_network (sc_source_type c) then source_validate_url u else Ok ()
             | None \<Rightarrow> Ok ()) (\<lambda>_.
           case sc_trust_config c of
             Some trust \<Rightarrow>
               (if tc_level trust = Trusted \<and> tc_trusted_keys trust = [] then
                  Err (InvalidArgument ''trusted repositories must have at least one trusted key'')
                else Ok ())
           | None \<Rightarrow> Ok ())))))"

section \<open>The registry\<close>

record source_registry =
  sr_sources :: "source_config list"

fun check_configs :: "string list \<Rightarrow> source_config list \<Rightarrow> unit result" where
  "check_configs seen [] = Ok ()"
| "check_configs seen (c # cs) =
     and_then (source_config_validate c) (\<lambda>_.
     and_then (source_id_new (sc_id c)) (\<lambda>i.
       if i \<in> set seen then Err (AlreadyExists (''duplicate source ID: '' @ sc_id c))
       else check_configs (i # seen) cs))"

definition registry_from_configs :: "source_config list \<Rightarrow> source_registry result" where
  "registry_from_configs cs = and_then (check_configs [] cs) (\<lambda>_. Ok \<lparr>sr_sources = cs\<rparr>)"

definition registry_empty :: source_registry where
  "registry_empty = \<lparr>sr_sources = []\<rparr>"

definition enabled_sources :: "source_registry \<Rightarrow> source_config list" where
  "enabled_sources r = sort_key (\<lambda>s. unat (sc_priority s)) (filter sc_enabled (sr_sources r))"

definition get_source :: "source_registry \<Rightarrow> string \<Rightarrow> source_config option" where
  "get_source r i = find (\<lambda>s. sc_id s = i) (sr_sources r)"

definition is_source_enabled :: "source_registry \<Rightarrow> string \<Rightarrow> bool" where
  "is_source_enabled r i = (\<exists>s\<in>set (sr_sources r). sc_id s = i \<and> sc_enabled s)"

definition source_count :: "source_registry \<Rightarrow> nat" where
  "source_count r = length (sr_sources r)"

record resolved_source =
  rs_identity :: source_config
  rs_resolved_url :: string
  rs_reachable :: bool

definition resolve_source ::
  "(path \<Rightarrow> bool) \<Rightarrow> source_registry \<Rightarrow> string \<Rightarrow> resolved_source result" where
  "resolve_source path_exists r i =
     (case find (\<lambda>s. sc_id s = i \<and> sc_enabled s) (sr_sources r) of
        None \<Rightarrow> Err (NotFound (''source '' @ quoted i @ '' not found or disabled''))
      | Some source \<Rightarrow>
          and_then (if sc_source_type source = StLocal then
              (if \<not> path_exists (sc_base_url source) then
                 Err (BackendUnavailable (''local source path ''
                   @ quoted (show_debug (sc_base_url source)) @ '' does not exist''))
               else Ok (sc_base_url source))
            else Ok (sc_base_url source))
          (\<lambda>url. Ok \<lparr>rs_identity = source, rs_resolved_url = url, rs_reachable = True\<rparr>))"

section \<open>Default sources\<close>

definition mission_source :: source_config where
  "mission_source = \<lparr>sc_id = ''mission'', sc_name = ''Mission OS Repository'',
     sc_source_type = StMission,
     sc_base_url = ''https://packages.mission-os.org/drivers/v1/'', sc_enabled = True,
     sc_priority = 10, sc_trusted_key_ids = [''mission-os-release-key''],
     sc_allowed_architectures = [], sc_mirrors = [],
     sc_metadata_url = Some ''https://packages.mission-os.org/drivers/v1/manifest.json'',
     sc_trust_config = Some (trust_trusted [''mission-os-release-key''])\<rparr>"

definition linux_source :: source_config where
  "linux_source = \<lparr>sc_id = ''linux'', sc_name = ''Linux Kernel (Built-in)'',
     sc_source_type = StLinux, sc_base_url = '''', sc_enabled = True,
     sc_priority = 20, sc_trusted_key_ids = [],
     sc_allowed_architectures = [], sc_mirrors = [], sc_metadata_url = None,
     sc_trust_config = None\<rparr>"

definition default_sources :: "source_config list" where
  "default_sources = [mission_source, linux_source]"

section \<open>The lookup interface\<close>

text \<open>
  What the selector and the fetch path rely on: a lookup returns the entry of that
  identifier, and in a registry that was built from checked configurations "enabled"
  and "found" speak about the same entry.
\<close>

locale source_lookup =
  fixes valid :: "'r \<Rightarrow> bool"
    and get :: "'r \<Rightarrow> string \<Rightarrow> 's option"
    and enabled :: "'r \<Rightarrow> string \<Rightarrow> bool"
    and resolve :: "'r \<Rightarrow> string \<Rightarrow> 's result"
    and ident :: "'s \<Rightarrow> string"
    and active :: "'s \<Rightarrow> bool"
  assumes get_ident: "get r i = Some s \<Longrightarrow> ident s = i"
    and enabled_get: "valid r \<Longrightarrow> enabled r i \<longleftrightarrow> (\<exists>s. get r i = Some s \<and> active s)"
    and resolve_get: "valid r \<Longrightarrow> resolve r i = Ok s \<Longrightarrow> get r i = Some s \<and> active s"
begin

lemma enabled_found: "valid r \<Longrightarrow> enabled r i \<Longrightarrow> get r i \<noteq> None"
  by (auto simp: enabled_get)

lemma resolve_enabled: "valid r \<Longrightarrow> resolve r i = Ok s \<Longrightarrow> enabled r i \<and> ident s = i"
  using resolve_get [of r i s] get_ident [of r i s] by (auto simp: enabled_get)

lemma disabled_not_resolved: "valid r \<Longrightarrow> \<not> enabled r i \<Longrightarrow> \<not> is_ok (resolve r i)"
  using resolve_enabled by (auto simp: is_ok_iff)

end

definition valid_registry :: "source_registry \<Rightarrow> bool" where
  "valid_registry r = (registry_from_configs (sr_sources r) = Ok r)"

lemma source_id_new_Ok: "source_id_new i = Ok j \<Longrightarrow> j = trim i"
  by (auto simp: source_id_new_def Let_def split: if_splits)

lemma check_configs_iff:
  "check_configs seen cs = Ok () \<longleftrightarrow>
     (\<forall>c\<in>set cs. source_config_validate c = Ok ()) \<and> distinct (map (\<lambda>c. trim (sc_id c)) cs) \<and>
     (\<forall>c\<in>set cs. trim (sc_id c) \<notin> set seen)"
proof (induction seen cs rule: check_configs.induct)
  case (2 seen c cs)
  show ?case
  proof (cases "source_config_validate c = Ok ()")
    case True
    then have i: "source_id_new (sc_id c) = Ok (trim (sc_id c))"
      using source_id_new_Ok by (auto simp: source_config_validate_def and_then_Ok_iff)
    show ?thesis using 2 [of "trim (sc_id c)"] True i by (auto simp: image_iff)
  next
    case False
    then show ?thesis by (auto simp: and_then_Ok_iff)
  qed
qed simp

lemma valid_registry_iff:
  "valid_registry r \<longleftrightarrow> (\<forall>c\<in>set (sr_sources r). source_config_validate c = Ok ()) \<and>
     distinct (map (\<lambda>c. trim (sc_id c)) (sr_sources r))"
  by (auto simp: valid_registry_def registry_from_configs_def and_then_Ok_iff check_configs_iff)

lemma registry_from_configs_valid: "registry_from_configs cs = Ok r \<Longrightarrow> valid_registry r"
  by (cases r) (auto simp: valid_registry_def registry_from_configs_def and_then_Ok_iff)

lemma distinct_find:
  assumes "distinct (map f xs)" "x \<in> set xs" "f x = k"
  shows "find (\<lambda>y. f y = k) xs = Some x"
  using assms by (induction xs) auto

lemma get_source_in:
  assumes "valid_registry r" "s \<in> set (sr_sources r)" shows "get_source r (sc_id s) = Some s"
proof -
  have "distinct (map trim (map sc_id (sr_sources r)))"
    using assms(1) by (simp add: valid_registry_iff comp_def)
  then have "distinct (map sc_id (sr_sources r))" by (simp only: distinct_map)
  then show ?thesis unfolding get_source_def using assms(2) by (rule distinct_find) auto
qed

lemma get_source_Some: "get_source r i = Some s \<Longrightarrow> s \<in> set (sr_sources r) \<and> sc_id s = i"
  by (auto simp: get_source_def find_Some_iff)

lemma resolve_source_Ok:
  assumes "resolve_source ex r i = Ok rs"
  shows "rs_identity rs \<in> set (sr_sources r) \<and> sc_id (rs_identity rs) = i \<and>
    sc_enabled (rs_identity rs) \<and> rs_resolved_url rs = sc_base_url (rs_identity rs)"
  using assms
  by (auto simp: resolve_source_def find_Some_iff and_then_Ok_iff split: option.splits if_splits)

definition resolve_config :: "(path \<Rightarrow> bool) \<Rightarrow> source_registry \<Rightarrow> string \<Rightarrow> source_config result" where
  "resolve_config ex r i = and_then (resolve_source ex r i) (\<lambda>rs. Ok (rs_identity rs))"

interpretation reg: source_lookup valid_registry get_source is_source_enabled "resolve_config ex"
  sc_id sc_enabled for ex
proof (unfold_locales, goal_cases)
  case (1 r i s)
  then show ?case by (simp add: get_source_Some)
next
  case (2 r i)
  then show ?case
    using get_source_in get_source_Some unfolding is_source_enabled_def by metis
next
  case (3 r i s)
  then obtain rs where "resolve_source ex r i = Ok rs" "s = rs_identity rs"
    by (auto simp: resolve_config_def and_then_Ok_iff)
  then show ?case using resolve_source_Ok get_source_in [OF 3(1)] by metis
qed

section \<open>Properties\<close>

text \<open>A registry is built exactly from configurations that are each valid and whose
  trimmed identifiers are pairwise different, and it then keeps them as given.\<close>

theorem registry_from_configs_iff:
  "registry_from_configs cs = Ok r \<longleftrightarrow>
     sr_sources r = cs \<and> (\<forall>c\<in>set cs. source_config_validate c = Ok ()) \<and>
     distinct (map (\<lambda>c. trim (sc_id c)) cs)"
  by (cases r) (auto simp: registry_from_configs_def and_then_Ok_iff check_configs_iff)

text \<open>In a registry built from checked configurations, resolving an identifier succeeds
  only with the one enabled source of that identifier and its base URL; for a source that
  is not local it succeeds exactly when that source is enabled.\<close>

theorem resolve_source_spec:
  assumes "registry_from_configs cs = Ok r"
  shows "(resolve_source ex r i = Ok rs \<longrightarrow>
      get_source r i = Some (rs_identity rs) \<and> is_source_enabled r i \<and>
      rs_resolved_url rs = sc_base_url (rs_identity rs)) \<and>
    (\<forall>s. get_source r i = Some s \<and> sc_source_type s \<noteq> StLocal \<longrightarrow>
      (is_ok (resolve_source ex r i) \<longleftrightarrow> sc_enabled s))"
proof -
  have v: "valid_registry r" by (rule registry_from_configs_valid [OF assms])
  have "is_ok (resolve_source ex r i) \<longleftrightarrow> sc_enabled s"
    if g: "get_source r i = Some s" "sc_source_type s \<noteq> StLocal" for s
  proof
    assume "is_ok (resolve_source ex r i)"
    then obtain x where "resolve_source ex r i = Ok x" by (auto simp: is_ok_iff)
    then have "resolve_config ex r i = Ok (rs_identity x)" by (simp add: resolve_config_def)
    from reg.resolve_get [OF v this] show "sc_enabled s" using g by simp
  next
    assume en: "sc_enabled s"
    obtain x where x: "find (\<lambda>s. sc_id s = i \<and> sc_enabled s) (sr_sources r) = Some x"
      using en get_source_Some [OF g(1)]
      by (cases "find (\<lambda>s. sc_id s = i \<and> sc_enabled s) (sr_sources r)") (auto simp: find_None_iff)
    then have "x = s" using get_source_in [OF v, of x] g(1) by (auto simp: find_Some_iff)
    then show "is_ok (resolve_source ex r i)" using x g(2) by (simp add: resolve_source_def)
  qed
  moreover have "get_source r i = Some (rs_identity rs) \<and> is_source_enabled r i \<and>
      rs_resolved_url rs = sc_base_url (rs_identity rs)"
    if "resolve_source ex r i = Ok rs" for rs
    using that resolve_source_Ok [OF that] get_source_in [OF v]
    by (auto simp: is_source_enabled_def)
  ultimately show ?thesis by blast
qed

lemma enabled_sources_spec:
  "set (enabled_sources r) = {s \<in> set (sr_sources r). sc_enabled s} \<and>
   sorted (map (\<lambda>s. unat (sc_priority s)) (enabled_sources r))"
  by (simp add: enabled_sources_def)

lemma default_sources_valid: "registry_from_configs default_sources = Ok \<lparr>sr_sources = default_sources\<rparr>"
proof -
  have "source_config_validate mission_source = Ok ()"
    by (simp add: source_config_validate_def mission_source_def source_id_new_def requires_network_def
        source_validate_url_def trust_trusted_def parse_eval char_of_def bit_0)
  moreover have "source_config_validate linux_source = Ok ()"
    by (simp add: source_config_validate_def linux_source_def source_id_new_def requires_network_def
        parse_eval char_of_def bit_0)
  moreover have "trim (sc_id mission_source) \<noteq> trim (sc_id linux_source)"
    by (simp add: mission_source_def linux_source_def parse_eval)
  ultimately have "check_configs [] default_sources = Ok ()"
    unfolding check_configs_iff by (simp add: default_sources_def)
  then show ?thesis by (simp add: registry_from_configs_def)
qed

lemma registry_from_configs_iff_witness:
  "source_config_validate mission_source = Ok () \<and> source_config_validate linux_source = Ok () \<and>
   distinct (map (\<lambda>c. trim (sc_id c)) default_sources)"
  using registry_from_configs_iff [of default_sources "\<lparr>sr_sources = default_sources\<rparr>", THEN iffD1,
      OF default_sources_valid]
  by (simp add: default_sources_def)

lemma resolve_source_spec_witness:
  "is_ok (resolve_source (\<lambda>_. False) \<lparr>sr_sources = default_sources\<rparr> ''mission'')"
proof -
  have g: "get_source \<lparr>sr_sources = default_sources\<rparr> ''mission'' = Some mission_source"
    by (simp add: get_source_def default_sources_def mission_source_def)
  show ?thesis
    using resolve_source_spec [OF default_sources_valid, of "\<lambda>_. False" "''mission''"] g
    by (simp add: mission_source_def)
qed

text \<open>The trusted key of the shipped Mission source is a name and not a hexadecimal key:
  the configuration passes validation, but no signature on any manifest can be accepted
  under it, whatever the cryptographic primitives answer.\<close>

theorem default_source_never_authenticates:
  "registry_from_configs default_sources = Ok \<lparr>sr_sources = default_sources\<rparr> \<and>
   mission_source \<in> set default_sources \<and>
   (\<exists>trust. sc_trust_config mission_source = Some trust \<and> tc_level trust = Trusted \<and>
     (\<forall>cp json sh k. verify_manifest_signature cp json sh (tc_trusted_keys trust)
        \<noteq> Ret (Verified k)))"
proof -
  have key: "hex_decode_repo ''mission-os-release-key'' = Ret None"
    by (simp add: hex_decode_repo_def hex_byte_def is_continuation_def parse_eval)
  have "verify_manifest_signature cp json sh [''mission-os-release-key''] \<noteq> Ret (Verified k)"
    for cp json sh k
    using verify_manifest_signature_Verified [of cp json sh "[''mission-os-release-key'']" k] key
    by auto
  then show ?thesis
    using default_sources_valid
    by (auto simp: mission_source_def default_sources_def trust_trusted_def)
qed

end
