(* ===== verification/Selector.thy ===== *)
theory Selector
  imports Matching_Score Conflict Metadata Source
begin

text \<open>
  Driver selection (selector.rs): candidates from the matching drivers and the packages
  of enabled sources, the reasons that disqualify one, and the choice of the best by a
  chain of comparisons. The selector's own view of the machine is in the record; what
  \<open>SystemInfo::detect\<close> returns when it is called again, and the build's
  \<open>std::env::consts::ARCH\<close>, are the arguments \<open>detected\<close> and \<open>arch_const\<close>.
\<close>

record selection_candidate =
  cd_driver :: driver_entry
  cd_metadata :: "package_metadata option"
  cd_source_id :: string
  cd_score :: f64
  cd_trusted :: bool
  cd_rejection_reason :: "string option"

record selection_result =
  sl_selected :: "selection_candidate option"
  sl_candidates :: "selection_candidate list"
  sl_found_any :: bool

definition selection_none :: selection_result where
  "selection_none = \<lparr>sl_selected = None, sl_candidates = [], sl_found_any = False\<rparr>"

record selector =
  se_matcher :: system_info
  se_registry :: source_registry
  se_manifests :: "string \<Rightarrow> manifest_verification option"

definition selector_new :: "system_info \<Rightarrow> source_registry \<Rightarrow> selector" where
  "selector_new sys reg = \<lparr>se_matcher = sys, se_registry = reg, se_manifests = (\<lambda>_. None)\<rparr>"

definition update_manifest_verification ::
  "string \<Rightarrow> manifest_verification \<Rightarrow> selector \<Rightarrow> selector" where
  "update_manifest_verification i v se = se\<lparr>se_manifests := (se_manifests se)(i \<mapsto> v)\<rparr>"

definition clear_manifest_verification :: "string \<Rightarrow> selector \<Rightarrow> selector" where
  "clear_manifest_verification i se = se\<lparr>se_manifests := (se_manifests se)(i := None)\<rparr>"

definition clear_all_verifications :: "selector \<Rightarrow> selector" where
  "clear_all_verifications se = se\<lparr>se_manifests := (\<lambda>_. None)\<rparr>"

section \<open>The checks\<close>

definition manifest_trust_score :: "selector \<Rightarrow> string \<Rightarrow> nat" where
  "manifest_trust_score se i =
     (case se_manifests se i of
        Some (Verified _) \<Rightarrow> 2
      | Some Unverified \<Rightarrow> 1
      | Some (InvalidManifestSignature _) \<Rightarrow> 0
      | Some (UnknownKey _) \<Rightarrow> 0
      | None \<Rightarrow> 1)"

definition source_priority :: "selector \<Rightarrow> string \<Rightarrow> u32" where
  "source_priority se i =
     (case get_source (se_registry se) i of Some s \<Rightarrow> sc_priority s | None \<Rightarrow> 100)"

definition is_source_trusted :: "selector \<Rightarrow> string \<Rightarrow> string option \<Rightarrow> bool" where
  "is_source_trusted se i signing_key_id =
     (case get_source (se_registry se) i of
        None \<Rightarrow> False
      | Some source \<Rightarrow>
          if sc_trusted_key_ids source = [] then default_trusted (sc_source_type source)
          else (case signing_key_id of
              Some key_id \<Rightarrow> key_id \<in> set (sc_trusted_key_ids source)
            | None \<Rightarrow> default_trusted (sc_source_type source)))"

definition is_architecture_compatible :: "string \<Rightarrow> package_metadata \<Rightarrow> bool" where
  "is_architecture_compatible arch_const package =
     (let sys_arch = to_lowercase arch_const; pkg_arch = normalized_architecture package
      in sys_arch = pkg_arch \<or> arch_alias sys_arch pkg_arch)"

definition is_kernel_compatible :: "system_info \<Rightarrow> kernel_compatibility \<Rightarrow> bool" where
  "is_kernel_compatible detected kc =
     (let sys_parts = kernel_parts (si_kernel_version detected);
          min_parts = dotted_parts (kc_min_version kc)
      in if sys_parts = [] then True
         else if min_parts \<noteq> [] \<and> below_min sys_parts 0 min_parts then False
         else (case kc_max_version kc of
             Some mx \<Rightarrow>
               (let max_parts = dotted_parts mx in
                \<not> (max_parts \<noteq> [] \<and> above_max sys_parts 0 max_parts))
           | None \<Rightarrow> True))"

section \<open>Candidates\<close>

definition package_candidate ::
  "selector \<Rightarrow> system_info \<Rightarrow> string \<Rightarrow> driver_entry \<Rightarrow> f64 \<Rightarrow> package_metadata \<Rightarrow> selection_candidate"
where
  "package_candidate se detected arch_const driver score pkg =
     (let trusted = is_source_trusted se (pm_source_id pkg) (pm_signing_key_id pkg);
          reasons =
            (if is_architecture_compatible arch_const pkg then []
             else [''Architecture mismatch: driver requires '' @ quoted (di_arch (de_id driver))
                     @ '', package is '' @ quoted (pm_architecture pkg)])
            @ (if is_kernel_compatible detected (pm_kernel_compat pkg) then []
               else [''Kernel incompatible with package requirements''])
            @ (if trusted then [] else [''Package source or signing key not trusted''])
      in \<lparr>cd_driver = driver, cd_metadata = Some pkg, cd_source_id = pm_source_id pkg,
          cd_score = score, cd_trusted = trusted,
          cd_rejection_reason = (if reasons = [] then None else Some (join ''; '' reasons))\<rparr>)"

definition matching_packages ::
  "selector \<Rightarrow> driver_entry \<Rightarrow> package_metadata list \<Rightarrow> package_metadata list" where
  "matching_packages se driver pkgs =
     filter (\<lambda>p. eq_ignore_ascii_case (pid_driver_name (pm_package_id p)) (di_name (de_id driver))
       \<and> is_source_enabled (se_registry se) (pm_source_id p)) pkgs"

definition driver_candidates ::
  "selector \<Rightarrow> system_info \<Rightarrow> string \<Rightarrow> hardware_device \<Rightarrow> package_metadata list \<Rightarrow> driver_entry
     \<Rightarrow> selection_candidate list" where
  "driver_candidates se detected arch_const device pkgs driver =
     (let ci = evaluate_compatibility (se_matcher se) driver device in
      if \<not> ci_compatible ci then
        [\<lparr>cd_driver = driver, cd_metadata = None, cd_source_id = [], cd_score = 0,
          cd_trusted = False, cd_rejection_reason = Some (ci_explanation ci)\<rparr>]
      else (let ms = matching_packages se driver pkgs in
        if ms = [] then
          [\<lparr>cd_driver = driver, cd_metadata = None, cd_source_id = [], cd_score = ci_score ci,
            cd_trusted = False,
            cd_rejection_reason = Some ''No matching package found in enabled sources''\<rparr>]
        else map (package_candidate se detected arch_const driver (ci_score ci)) ms))"

text \<open>The chain of the \<open>max_by\<close> closure.\<close>

definition candidate_version :: "selection_candidate \<Rightarrow> driver_version option" where
  "candidate_version c = map_option (\<lambda>m. pid_version (pm_package_id m)) (cd_metadata c)"

definition cmp_candidate :: "selector \<Rightarrow> selection_candidate \<Rightarrow> selection_candidate \<Rightarrow> ordering" where
  "cmp_candidate se = (\<lambda>a b.
     then_cmp (cmp_lin (if cd_trusted a then 1 else 0 :: nat) (if cd_trusted b then 1 else 0))
    (then_cmp (cmp_lin (manifest_trust_score se (cd_source_id a))
                       (manifest_trust_score se (cd_source_id b)))
    (then_cmp (cmp_lin (cd_score a) (cd_score b))
    (then_cmp (reverse_ord (cmp_lin (unat (source_priority se (cd_source_id a)))
                                    (unat (source_priority se (cd_source_id b)))))
    (then_cmp (cmp_option driver_version_cmp (candidate_version a) (candidate_version b))
              (cmp_str (di_name (de_id (cd_driver a))) (di_name (de_id (cd_driver b)))))))))"

definition select_best_candidate ::
  "selector \<Rightarrow> selection_candidate list \<Rightarrow> selection_candidate option" where
  "select_best_candidate se candidates =
     (let qualified = filter (\<lambda>c. cd_rejection_reason c = None) candidates in
      if qualified = [] then None else max_by (cmp_candidate se) qualified)"

definition select_for_device ::
  "selector \<Rightarrow> system_info \<Rightarrow> string \<Rightarrow> hardware_device \<Rightarrow> driver_entry list
     \<Rightarrow> package_metadata list \<Rightarrow> selection_result" where
  "select_for_device se detected arch_const device drivers pkgs =
     (let candidates = concat (map (driver_candidates se detected arch_const device pkgs) drivers)
      in \<lparr>sl_selected = select_best_candidate se candidates, sl_candidates = candidates,
          sl_found_any = (candidates \<noteq> [])\<rparr>)"

section \<open>The comparison is an order\<close>

lemma cmp_lin_preorder: "preorder_cmp (cmp_lin :: 'a::linorder \<Rightarrow> _)"
  using total_cmp_lin by (rule total_cmp.axioms(1))

lemmas cmp_lin_key = preorder_cmp_inv_image [OF cmp_lin_preorder]

lemma cmp_candidate_preorder: "preorder_cmp (cmp_candidate se)"
  unfolding cmp_candidate_def
proof (intro preorder_cmp_then)
  show "preorder_cmp (\<lambda>a b. cmp_lin (if cd_trusted a then 1 else 0 :: nat)
      (if cd_trusted b then 1 else 0))"
    by (rule cmp_lin_key)
  show "preorder_cmp (\<lambda>a b. cmp_lin (manifest_trust_score se (cd_source_id a))
      (manifest_trust_score se (cd_source_id b)))"
    by (rule cmp_lin_key)
  show "preorder_cmp (\<lambda>a b. cmp_lin (cd_score a) (cd_score b))"
    by (rule cmp_lin_key)
  show "preorder_cmp (\<lambda>a b. reverse_ord (cmp_lin (unat (source_priority se (cd_source_id a)))
      (unat (source_priority se (cd_source_id b)))))"
    by (rule preorder_cmp_reverse [OF cmp_lin_key])
  show "preorder_cmp (\<lambda>a b. cmp_option driver_version_cmp (candidate_version a)
      (candidate_version b))"
    by (rule preorder_cmp_inv_image [OF preorder_cmp_option [OF driver_version_preorder]])
  show "preorder_cmp (\<lambda>a b. cmp_str (di_name (de_id (cd_driver a))) (di_name (de_id (cd_driver b))))"
    by (rule preorder_cmp_inv_image [OF str_ord.preorder_cmp_axioms])
qed

interpretation cand: preorder_cmp "cmp_candidate se" for se
  by (rule cmp_candidate_preorder)

section \<open>One kernel rule in three places\<close>

lemma is_kernel_compatible_iff:
  "is_kernel_compatible detected kc \<longleftrightarrow>
     kernel_parts (si_kernel_version detected) = [] \<or>
     kernel_in_range (kernel_parts (si_kernel_version detected)) kc"
  by (auto simp: is_kernel_compatible_def kernel_in_range_def Let_def below_min_lex above_max_lex
      lex_below_def lex_above_def split: option.splits)

lemma incompatible_iff:
  "(\<exists>reason. check_kernel_compatibility system d = KIncompatible reason) \<longleftrightarrow>
     \<not> is_kernel_compatible system (di_kernel_compat (de_id d))"
proof -
  have k: "(\<exists>reason. k = KIncompatible reason) \<longleftrightarrow> k \<noteq> KUnknown \<and> k \<noteq> KCompatible" for k
    by (cases k) auto
  show ?thesis
    unfolding k [of "check_kernel_compatibility system d"] check_kernel_compatibility_cases
      is_kernel_compatible_iff
    by blast
qed

text \<open>The three kernel-range checks of the service, in the matcher, in conflict detection
  and in the selector, written three times in the code, decide the same range.\<close>

theorem kernel_checks_agree:
  "((\<exists>reason. check_kernel_compatibility system d = KIncompatible reason) \<longleftrightarrow>
      cr_has_conflicts (check_kernel system d)) \<and>
   (is_kernel_compatible system (di_kernel_compat (de_id d)) \<longleftrightarrow>
      \<not> cr_has_conflicts (check_kernel system d))"
  unfolding check_kernel_iff incompatible_iff by simp

section \<open>Where candidates come from\<close>

lemma package_candidate_qualified:
  "cd_rejection_reason (package_candidate se det ar d sc p) = None \<longleftrightarrow>
     is_architecture_compatible ar p \<and> is_kernel_compatible det (pm_kernel_compat p) \<and>
     is_source_trusted se (pm_source_id p) (pm_signing_key_id p)"
  by (simp add: package_candidate_def Let_def)

lemma package_candidate_simps [simp]:
  "cd_driver (package_candidate se det ar d sc p) = d"
  "cd_metadata (package_candidate se det ar d sc p) = Some p"
  "cd_source_id (package_candidate se det ar d sc p) = pm_source_id p"
  "cd_score (package_candidate se det ar d sc p) = sc"
  "cd_trusted (package_candidate se det ar d sc p) =
     is_source_trusted se (pm_source_id p) (pm_signing_key_id p)"
  by (simp_all add: package_candidate_def Let_def)

definition qualified_candidates :: "selection_candidate list \<Rightarrow> selection_candidate list" where
  "qualified_candidates cs = filter (\<lambda>c. cd_rejection_reason c = None) cs"

lemma driver_candidates_qualified:
  "c \<in> set (driver_candidates se det ar dev pkgs d) \<and> cd_rejection_reason c = None \<longleftrightarrow>
     ci_compatible (evaluate_compatibility (se_matcher se) d dev) \<and>
     (\<exists>p\<in>set (matching_packages se d pkgs).
        c = package_candidate se det ar d (ci_score (evaluate_compatibility (se_matcher se) d dev)) p \<and>
        is_architecture_compatible ar p \<and> is_kernel_compatible det (pm_kernel_compat p) \<and>
        is_source_trusted se (pm_source_id p) (pm_signing_key_id p))"
  by (auto simp: driver_candidates_def Let_def package_candidate_qualified)

lemma select_best_max: "select_best_candidate se cs = max_by (cmp_candidate se) (qualified_candidates cs)"
  by (simp add: select_best_candidate_def qualified_candidates_def Let_def)

lemma selected_max:
  "sl_selected (select_for_device se det ar dev drivers pkgs) =
     max_by (cmp_candidate se)
       (qualified_candidates (sl_candidates (select_for_device se det ar dev drivers pkgs)))"
  by (simp add: select_for_device_def select_best_max Let_def)

lemma selected_qualified:
  assumes "sl_selected (select_for_device se det ar dev drivers pkgs) = Some c"
  shows "\<exists>d\<in>set drivers. c \<in> set (driver_candidates se det ar dev pkgs d) \<and>
    cd_rejection_reason c = None"
  using assms cand.max_by_Some_in
  by (fastforce simp: select_for_device_def select_best_max qualified_candidates_def Let_def)

text \<open>What trust means: a source without pinned keys, or a package without a key, is as trusted as
  the type of the source; a package with a key needs a pinned one, whatever the type.\<close>

lemma is_source_trusted_iff:
  "is_source_trusted se i k \<longleftrightarrow> (\<exists>s. get_source (se_registry se) i = Some s \<and>
     (if sc_trusted_key_ids s = [] \<or> k = None then default_trusted (sc_source_type s)
      else k \<in> Some ` set (sc_trusted_key_ids s)))"
  by (auto simp: is_source_trusted_def split: option.splits)

text \<open>C14: A selected package is for a driver the matcher judged compatible with the device, is
  one of the offered packages and carries the driver's name, fits the build architecture and
  the running kernel, and comes from an enabled source of the registry. A source that pins
  keys must have pinned the signing key of the package, also when its type is trusted; only
  without pinned keys, or without a key on the package, does the type of the source decide.\<close>

theorem selection_sound:
  assumes "registry_from_configs cs = Ok (se_registry se)"
    and "sl_selected (select_for_device se det ar dev drivers pkgs) = Some c"
  shows "\<exists>p. cd_metadata c = Some p \<and> p \<in> set pkgs \<and> cd_driver c \<in> set drivers \<and>
    ci_compatible (evaluate_compatibility (se_matcher se) (cd_driver c) dev) \<and>
    eq_ignore_ascii_case (pid_driver_name (pm_package_id p)) (di_name (de_id (cd_driver c))) \<and>
    is_architecture_compatible ar p \<and> is_kernel_compatible det (pm_kernel_compat p) \<and>
    (\<exists>s. get_source (se_registry se) (pm_source_id p) = Some s \<and> sc_enabled s \<and>
       (if sc_trusted_key_ids s = [] \<or> pm_signing_key_id p = None
        then default_trusted (sc_source_type s)
        else pm_signing_key_id p \<in> Some ` set (sc_trusted_key_ids s)))"
proof -
  have v: "valid_registry (se_registry se)" by (rule registry_from_configs_valid [OF assms(1)])
  obtain d p where d: "d \<in> set drivers" "ci_compatible (evaluate_compatibility (se_matcher se) d dev)"
    and p: "p \<in> set (matching_packages se d pkgs)"
    and c: "cd_driver c = d" "cd_metadata c = Some p"
    and ok: "is_architecture_compatible ar p" "is_kernel_compatible det (pm_kernel_compat p)"
      "is_source_trusted se (pm_source_id p) (pm_signing_key_id p)"
    using selected_qualified [OF assms(2)] by (auto simp: driver_candidates_qualified)
  have "is_source_enabled (se_registry se) (pm_source_id p)"
    using p by (simp add: matching_packages_def)
  then obtain s where "get_source (se_registry se) (pm_source_id p) = Some s" "sc_enabled s"
    using reg.enabled_get [OF v] by blast
  then show ?thesis
    using d p c ok ok(3) [unfolded is_source_trusted_iff]
    by (auto simp: matching_packages_def)
qed

definition sample_system :: system_info where
  "sample_system = \<lparr>si_kernel_version = ''6.1'', si_architecture = ''x86_64'',
     si_kernel_features = []\<rparr>"

definition sample_driver :: driver_entry where
  "sample_driver = \<lparr>de_id = \<lparr>di_name = ''e1000e'', di_provider = ''intel'',
       di_version = DriverVersion 3 8 7 None, di_arch = ''x86_64'',
       di_kernel_compat = \<lparr>kc_min_version = ''5'', kc_max_version = None, kc_required_features = []\<rparr>,
       di_module_type = KernelModule\<rparr>,
     de_status = Available, de_supported_hardware = [''*''], de_compatibility = None,
     de_sources = [], de_metadata = [], de_description = [], de_package_size_bytes = None\<rparr>"

definition sample_device :: hardware_device where
  "sample_device = \<lparr>hd_hardware_id = \<lparr>hw_modalias = ''pci:v8086'', hw_vendor_id = ''0x8086'',
       hw_device_id = ''0x1533'', hw_subsystem_vendor_id = None, hw_subsystem_device_id = None,
       hw_class_code = None, hw_bus = ''pci'', hw_current_driver = None\<rparr>,
     hd_device_name = ''nic'', hd_vendor_name = None, hd_bus_type = Pci, hd_bound_driver = None,
     hd_operational = False, hd_matched_drivers = []\<rparr>"

definition sample_metadata :: package_metadata where
  "sample_metadata = \<lparr>pm_package_id = \<lparr>pid_driver_name = ''E1000E'', pid_source_id = ''mission'',
       pid_version = DriverVersion 3 8 8 None\<rparr>,
     pm_driver_name = ''e1000e'', pm_description = [], pm_module_type = KernelModule,
     pm_architecture = ''AMD64'',
     pm_kernel_compat = \<lparr>kc_min_version = ''5'', kc_max_version = None, kc_required_features = []\<rparr>,
     pm_filename = ''e1000e.pkg'', pm_size_bytes = 4096,
     pm_digest = \<lparr>pd_algorithm = ''sha256'', pd_value = replicate 32 7\<rparr>,
     pm_signature_hex = [], pm_signing_key_id = Some ''mission-os-release-key'',
     pm_source_id = ''mission'', pm_url_path = [], pm_is_delta = False,
     pm_base_version = None\<rparr>"

definition sample_selector :: selector where
  "sample_selector = selector_new sample_system \<lparr>sr_sources = default_sources\<rparr>"

lemma sample_compatible:
  "ci_compatible (evaluate_compatibility (se_matcher sample_selector) sample_driver sample_device)"
proof -
  have m: "check_modalias_match sample_driver sample_device"
    by (simp add: check_modalias_match_def sample_driver_def modalias_pattern_match_def)
  have "is_kernel_compatible sample_system (di_kernel_compat (de_id sample_driver))"
    by (simp add: is_kernel_compatible_def sample_system_def sample_driver_def kernel_parts_def
        dotted_parts_def numeric_parts_def List.map_filter_simps parse_eval part_at_def)
  moreover have "check_architecture_match sample_system sample_driver"
    by (simp add: check_architecture_match_def sample_system_def sample_driver_def)
  ultimately have "\<not> hard_block sample_system sample_driver"
    unfolding hard_block_def incompatible_iff by blast
  then show ?thesis
    using m by (simp add: sample_selector_def selector_new_def evaluate_unblocked score_of_threshold)
qed

lemma sample_selected:
  "sl_selected (select_for_device sample_selector sample_system ''x86_64'' sample_device
     [sample_driver] [sample_metadata]) \<noteq> None"
proof -
  let ?r = "select_for_device sample_selector sample_system ''x86_64'' sample_device
      [sample_driver] [sample_metadata]"
  have "matching_packages sample_selector sample_driver [sample_metadata] = [sample_metadata]"
    by (simp add: matching_packages_def sample_metadata_def sample_driver_def sample_selector_def
        selector_new_def is_source_enabled_def default_sources_def mission_source_def parse_eval
        char_of_def bit_0)
  moreover have "is_architecture_compatible ''x86_64'' sample_metadata"
    by (simp add: is_architecture_compatible_def normalized_architecture_def sample_metadata_def
        parse_eval char_of_def bit_0)
  moreover have "is_kernel_compatible sample_system (pm_kernel_compat sample_metadata)"
    by (simp add: is_kernel_compatible_def sample_system_def sample_metadata_def kernel_parts_def
        dotted_parts_def numeric_parts_def List.map_filter_simps parse_eval part_at_def)
  moreover have "is_source_trusted sample_selector (pm_source_id sample_metadata)
      (pm_signing_key_id sample_metadata)"
    by (simp add: is_source_trusted_def sample_selector_def selector_new_def get_source_def
        default_sources_def mission_source_def sample_metadata_def)
  ultimately have "\<exists>c. c \<in> set (driver_candidates sample_selector sample_system ''x86_64''
      sample_device [sample_metadata] sample_driver) \<and> cd_rejection_reason c = None"
    unfolding driver_candidates_qualified using sample_compatible by auto
  then have "qualified_candidates (sl_candidates ?r) \<noteq> []"
    by (auto simp: select_for_device_def qualified_candidates_def filter_empty_conv Let_def)
  then show ?thesis unfolding selected_max cand.max_by_None .
qed

lemma selection_sound_witness:
  "\<exists>c. sl_selected (select_for_device sample_selector sample_system ''x86_64'' sample_device
        [sample_driver] [sample_metadata]) = Some c \<and>
     (\<exists>p. cd_metadata c = Some p \<and> is_architecture_compatible ''x86_64'' p)"
proof -
  have reg: "registry_from_configs default_sources = Ok (se_registry sample_selector)"
    by (simp add: sample_selector_def selector_new_def default_sources_valid)
  obtain c where c: "sl_selected (select_for_device sample_selector sample_system ''x86_64''
      sample_device [sample_driver] [sample_metadata]) = Some c"
    using sample_selected by auto
  from selection_sound [OF reg c] c show ?thesis by blast
qed

section \<open>The choice among candidates\<close>

lemma cmp_lin_Less: "cmp_lin a b \<noteq> Greater \<longleftrightarrow> a \<le> b" "cmp_lin a b = Equal \<longleftrightarrow> a = b"
  by (auto simp: cmp_lin_def)

lemma then_cmp_not_Greater:
  "then_cmp a b \<noteq> Greater \<longleftrightarrow> a \<noteq> Greater \<and> (a = Equal \<longrightarrow> b \<noteq> Greater)"
  by (cases a) auto

lemma reverse_cmp_lin:
  "reverse_ord (cmp_lin a b) \<noteq> Greater \<longleftrightarrow> b \<le> a"
  "reverse_ord (cmp_lin a b) = Equal \<longleftrightarrow> a = b"
  by (auto simp: cmp_lin_def)

definition lexi_below :: "selector \<Rightarrow> selection_candidate \<Rightarrow> selection_candidate \<Rightarrow> bool" where
  "lexi_below se q c =
     (let m = manifest_trust_score se \<circ> cd_source_id;
          pr = unat \<circ> source_priority se \<circ> cd_source_id
      in m q \<le> m c \<and> (m q = m c \<longrightarrow> cd_score q \<le> cd_score c \<and>
           (cd_score q = cd_score c \<longrightarrow> pr c \<le> pr q \<and>
              (pr q = pr c \<longrightarrow>
                 (let v = cmp_option driver_version_cmp (candidate_version q) (candidate_version c)
                  in v \<noteq> Greater \<and> (v = Equal \<longrightarrow>
                    cmp_str (di_name (de_id (cd_driver q))) (di_name (de_id (cd_driver c))) \<noteq> Greater))))))"

lemma cmp_candidate_lexi:
  assumes "cmp_candidate se q c \<noteq> Greater" "cd_trusted q = cd_trusted c"
  shows "lexi_below se q c"
  using assms
  unfolding cmp_candidate_def lexi_below_def then_cmp_not_Greater cmp_lin_Less reverse_cmp_lin
    Let_def comp_def
  by simp

text \<open>The documentation of the selector puts the version of the driver before the priority of its
  source; the chain compares them the other way round, as the comment on the chain says.\<close>

lemma priority_beats_version:
  assumes "cd_trusted a = cd_trusted b" "cd_score a = cd_score b"
    and "manifest_trust_score se (cd_source_id a) = manifest_trust_score se (cd_source_id b)"
    and "source_priority se (cd_source_id a) < source_priority se (cd_source_id b)"
  shows "cmp_candidate se b a = Less"
  using assms by (simp add: cmp_candidate_def cmp_lin_def word_less_nat_alt)

text \<open>C15: A package is selected exactly when some candidate qualifies. The selected one qualifies,
  and no qualified candidate beats it: a better manifest verdict, then a higher score, then a
  more preferred source (a lower number), then a higher version, then a later name is never
  passed over. This is the chain of the code and of its comment; the documentation of the
  selector names the version before the source priority.\<close>

theorem selection_best:
  "(sl_selected (select_for_device se det ar dev drivers pkgs) = None \<longleftrightarrow>
      qualified_candidates (sl_candidates (select_for_device se det ar dev drivers pkgs)) = []) \<and>
   (\<forall>c q. sl_selected (select_for_device se det ar dev drivers pkgs) = Some c \<and>
      q \<in> set (qualified_candidates (sl_candidates (select_for_device se det ar dev drivers pkgs)))
      \<longrightarrow> lexi_below se q c \<and>
        c \<in> set (qualified_candidates (sl_candidates (select_for_device se det ar dev drivers pkgs))))"
proof -
  let ?r = "select_for_device se det ar dev drivers pkgs"
  let ?qs = "qualified_candidates (sl_candidates ?r)"
  note sel = selected_max [of se det ar dev drivers pkgs]
  have tr: "cd_trusted x" if "x \<in> set ?qs" for x
    using that
    by (auto simp: select_for_device_def qualified_candidates_def Let_def
        dest: driver_candidates_qualified [THEN iffD1, OF conjI])
  have chain: "cmp_candidate se q c \<noteq> Greater" "cd_trusted q = cd_trusted c"
    if "sl_selected ?r = Some c" "q \<in> set ?qs" for c q
    using that tr cand.max_by_ub [of se ?qs c q] cand.max_by_Some_in [of se ?qs c]
    by (simp_all add: sel)
  have "sl_selected ?r = None \<longleftrightarrow> ?qs = []"
    unfolding sel by (rule cand.max_by_None)
  moreover have "c \<in> set ?qs" if "sl_selected ?r = Some c" for c
    using that cand.max_by_Some_in [of se ?qs c] by (simp add: sel)
  ultimately show ?thesis using cmp_candidate_lexi [OF chain] by blast
qed

lemma selection_best_witness:
  "\<exists>c q. sl_selected (select_for_device sample_selector sample_system ''x86_64'' sample_device
       [sample_driver] [sample_metadata]) = Some c \<and> lexi_below sample_selector q c"
proof -
  let ?r = "select_for_device sample_selector sample_system ''x86_64'' sample_device
      [sample_driver] [sample_metadata]"
  note best = selection_best [of sample_selector sample_system "''x86_64''" sample_device
      "[sample_driver]" "[sample_metadata]"]
  obtain c where c: "sl_selected ?r = Some c" using sample_selected by auto
  have "qualified_candidates (sl_candidates ?r) \<noteq> []" using best sample_selected by blast
  then obtain q where "q \<in> set (qualified_candidates (sl_candidates ?r))"
    by (cases "qualified_candidates (sl_candidates ?r)") auto
  then show ?thesis using best c by blast
qed

text \<open>The verdict on a repository's manifest only ranks: whatever verdicts are recorded,
  the candidates and their reasons are the same, and something is selected in one case
  exactly when it is in the other. A source whose manifest signature was found invalid is
  still selected from when it is the only one.\<close>

theorem manifest_verdict_only_ranks:
  "sl_candidates (select_for_device (se\<lparr>se_manifests := f\<rparr>) det ar dev drivers pkgs) =
     sl_candidates (select_for_device se det ar dev drivers pkgs) \<and>
   (sl_selected (select_for_device (se\<lparr>se_manifests := f\<rparr>) det ar dev drivers pkgs) = None \<longleftrightarrow>
    sl_selected (select_for_device se det ar dev drivers pkgs) = None)"
proof -
  have "driver_candidates (se\<lparr>se_manifests := f\<rparr>) det ar dev pkgs =
      driver_candidates se det ar dev pkgs"
    by (intro ext) (simp add: driver_candidates_def matching_packages_def package_candidate_def
        is_source_trusted_def Let_def)
  then show ?thesis
    by (simp add: select_for_device_def select_best_max Let_def)
qed

end
