(* ===== verification/Fs.thy ===== *)
theory Fs
  imports Errors "HOL-Library.AList"
begin

text \<open>
  The part of \<open>std::fs\<close> and \<open>std::path\<close> the services use, over an explicit store of
  regular files. The environment decides which operation on which path is refused, and
  with which message (\<open>fs_deny\<close>); everything else is the documented effect of the call.
  Directories carry no state of their own: a directory lists the files below its prefix.
\<close>

datatype io_op = IoOpen | IoRead | IoCreate | IoWrite | IoRename | IoRemove | IoMkdir | IoReadDir
  | IoMetadata

record fs_file =
  f_data :: bytes
  f_modified :: nat

record fs =
  fs_files :: "(path \<times> fs_file) list"
  fs_deny :: "io_op \<Rightarrow> path \<Rightarrow> string option"
  fs_time :: nat

section \<open>Paths\<close>

definition path_join :: "path \<Rightarrow> string \<Rightarrow> path" where
  "path_join dir name = (if ends_with dir ''/'' \<or> dir = [] then dir @ name else dir @ ''/'' @ name)"

definition file_name :: "path \<Rightarrow> string" where
  "file_name p = last (split_on CHR ''/'' p)"

definition rsplit_once :: "char \<Rightarrow> string \<Rightarrow> (string \<times> string) option" where
  "rsplit_once c s = map_option (\<lambda>(b, a). (rev a, rev b)) (split_once c (rev s))"

text \<open>A leading dot does not begin an extension.\<close>

definition stem_extension :: "string \<Rightarrow> string \<times> string option" where
  "stem_extension n =
     (case rsplit_once CHR ''.'' n of
        Some (a, b) \<Rightarrow> if a = [] \<or> n = ''..'' then (n, None) else (a, Some b)
      | None \<Rightarrow> (n, None))"

definition path_extension :: "path \<Rightarrow> string option" where
  "path_extension p = snd (stem_extension (file_name p))"

definition with_extension :: "path \<Rightarrow> string \<Rightarrow> path" where
  "with_extension p ext =
     take (length p - length (file_name p)) p @ fst (stem_extension (file_name p)) @ ''.'' @ ext"

text \<open>\<open>Path::file_name\<close>: the last component that is not the current directory.\<close>

definition path_file_name :: "path \<Rightarrow> string option" where
  "path_file_name p =
     (case rev (filter (\<lambda>c. c \<noteq> [] \<and> c \<noteq> ''.'') (split_on CHR ''/'' p)) of
        [] \<Rightarrow> None
      | c # _ \<Rightarrow> if c = ''..'' then None else Some c)"

definition is_absolute :: "path \<Rightarrow> bool" where
  "is_absolute p = starts_with p ''/''"

text \<open>\<open>Path::join\<close>: an absolute argument replaces the base.\<close>

definition path_push :: "path \<Rightarrow> path \<Rightarrow> path" where
  "path_push base p = (if is_absolute p then p else path_join base p)"

text \<open>The name of a file directly in a directory.\<close>

definition child_name :: "path \<Rightarrow> path \<Rightarrow> string option" where
  "child_name dir p =
     (let pre = path_join dir [] in
      if starts_with p pre \<and> length pre < length p \<and> CHR ''/'' \<notin> set (drop (length pre) p)
      then Some (drop (length pre) p) else None)"

section \<open>Operations\<close>

definition enoent :: string where
  "enoent = ''No such file or directory (os error 2)''"

definition fs_lookup :: "fs \<Rightarrow> path \<Rightarrow> fs_file option" where
  "fs_lookup s p = map_of (fs_files s) p"

definition fs_exists :: "fs \<Rightarrow> path \<Rightarrow> bool" where
  "fs_exists s p = (fs_lookup s p \<noteq> None)"

definition fs_put :: "path \<Rightarrow> fs_file \<Rightarrow> fs \<Rightarrow> fs" where
  "fs_put p f s = s\<lparr>fs_files := AList.update p f (fs_files s)\<rparr>"

definition fs_del :: "path \<Rightarrow> fs \<Rightarrow> fs" where
  "fs_del p s = s\<lparr>fs_files := AList.delete p (fs_files s)\<rparr>"

definition fs_read :: "fs \<Rightarrow> path \<Rightarrow> string + bytes" where
  "fs_read s p =
     (case fs_deny s IoOpen p of
        Some e \<Rightarrow> Err e
      | None \<Rightarrow>
          (case fs_lookup s p of
             None \<Rightarrow> Err enoent
           | Some f \<Rightarrow> (case fs_deny s IoRead p of Some e \<Rightarrow> Err e | None \<Rightarrow> Ok (f_data f))))"

definition fs_create :: "path \<Rightarrow> fs \<Rightarrow> (string + unit) \<times> fs" where
  "fs_create p s =
     (case fs_deny s IoCreate p of
        Some e \<Rightarrow> (Err e, s)
      | None \<Rightarrow> (Ok (), fs_put p \<lparr>f_data = [], f_modified = fs_time s\<rparr> s))"

text \<open>Opening an existing file: the error, if any.\<close>

definition fs_open_existing :: "fs \<Rightarrow> path \<Rightarrow> string option" where
  "fs_open_existing s p =
     (case fs_deny s IoOpen p of
        Some e \<Rightarrow> Some e
      | None \<Rightarrow> if fs_exists s p then None else Some enoent)"

text \<open>\<open>write_all\<close> on an open file; a write to a deleted file reaches no path.\<close>

definition fs_append :: "path \<Rightarrow> bytes \<Rightarrow> fs \<Rightarrow> (string + unit) \<times> fs" where
  "fs_append p bs s =
     (case fs_deny s IoWrite p of
        Some e \<Rightarrow> (Err e, s)
      | None \<Rightarrow>
          (case fs_lookup s p of
             None \<Rightarrow> (Ok (), s)
           | Some f \<Rightarrow> (Ok (), fs_put p \<lparr>f_data = f_data f @ bs, f_modified = fs_time s\<rparr> s)))"

definition fs_write :: "path \<Rightarrow> bytes \<Rightarrow> fs \<Rightarrow> (string + unit) \<times> fs" where
  "fs_write p bs s =
     (case fs_create p s of
        (Inl e, s1) \<Rightarrow> (Err e, s1)
      | (Inr _, s1) \<Rightarrow> fs_append p bs s1)"

definition fs_rename :: "path \<Rightarrow> path \<Rightarrow> fs \<Rightarrow> (string + unit) \<times> fs" where
  "fs_rename a b s =
     (case fs_deny s IoRename a of
        Some e \<Rightarrow> (Err e, s)
      | None \<Rightarrow>
          (case fs_lookup s a of
             None \<Rightarrow> (Err enoent, s)
           | Some f \<Rightarrow> (Ok (), if a = b then s else fs_put b f (fs_del a s))))"

definition fs_remove :: "path \<Rightarrow> fs \<Rightarrow> (string + unit) \<times> fs" where
  "fs_remove p s =
     (case fs_deny s IoRemove p of
        Some e \<Rightarrow> (Err e, s)
      | None \<Rightarrow> if fs_exists s p then (Ok (), fs_del p s) else (Err enoent, s))"

definition fs_mkdir_all :: "path \<Rightarrow> fs \<Rightarrow> string + unit" where
  "fs_mkdir_all p s = (case fs_deny s IoMkdir p of Some e \<Rightarrow> Err e | None \<Rightarrow> Ok ())"

text \<open>The files of a directory, in the order of the store.\<close>

definition fs_read_dir :: "fs \<Rightarrow> path \<Rightarrow> string + path list" where
  "fs_read_dir s dir =
     (case fs_deny s IoReadDir dir of
        Some e \<Rightarrow> Err e
      | None \<Rightarrow> Ok (filter (\<lambda>p. child_name dir p \<noteq> None) (remdups (map fst (fs_files s)))))"

definition fs_metadata :: "fs \<Rightarrow> path \<Rightarrow> fs_file option" where
  "fs_metadata s p = (if fs_deny s IoMetadata p \<noteq> None then None else fs_lookup s p)"

section \<open>Lookups after operations\<close>

named_theorems fs_simps "what is stored after an operation"

lemma lookup_put [simp, fs_simps]:
  "fs_lookup (fs_put p f s) q = (if q = p then Some f else fs_lookup s q)"
  by (simp add: fs_lookup_def fs_put_def AList.update_conv')

lemma lookup_del [simp, fs_simps]:
  "fs_lookup (fs_del p s) q = (if q = p then None else fs_lookup s q)"
  by (simp add: fs_lookup_def fs_del_def AList.delete_conv')

lemma deny_put_del [simp, fs_simps]:
  "fs_deny (fs_put p f s) = fs_deny s" "fs_deny (fs_del p s) = fs_deny s"
  "fs_time (fs_put p f s) = fs_time s" "fs_time (fs_del p s) = fs_time s"
  by (simp_all add: fs_put_def fs_del_def)

lemma exists_lookup [fs_simps]: "fs_exists s p \<longleftrightarrow> (\<exists>f. fs_lookup s p = Some f)"
  by (simp add: fs_exists_def)

text \<open>An operation touches only the paths it names.\<close>

definition fs_same_except :: "path set \<Rightarrow> fs \<Rightarrow> fs \<Rightarrow> bool" where
  "fs_same_except ps s s' =
     (fs_deny s' = fs_deny s \<and> fs_time s' = fs_time s \<and>
      (\<forall>q. q \<notin> ps \<longrightarrow> fs_lookup s' q = fs_lookup s q))"

named_theorems fs_frame "which paths an operation can touch"

lemma fs_same_except_refl [simp, fs_frame]: "fs_same_except ps s s"
  by (simp add: fs_same_except_def)

lemma fs_same_except_trans:
  "fs_same_except ps s s' \<Longrightarrow> fs_same_except ps s' s'' \<Longrightarrow> fs_same_except ps s s''"
  by (simp add: fs_same_except_def)

lemma fs_same_except_mono: "fs_same_except ps s s' \<Longrightarrow> ps \<subseteq> qs \<Longrightarrow> fs_same_except qs s s'"
  by (auto simp: fs_same_except_def)

lemma frame_create [fs_frame]: "p \<in> ps \<Longrightarrow> fs_same_except ps s (snd (fs_create p s))"
  by (auto simp: fs_same_except_def fs_create_def split: option.splits)

lemma frame_append [fs_frame]: "p \<in> ps \<Longrightarrow> fs_same_except ps s (snd (fs_append p bs s))"
  by (auto simp: fs_same_except_def fs_append_def split: option.splits)

lemma frame_write [fs_frame]: "p \<in> ps \<Longrightarrow> fs_same_except ps s (snd (fs_write p bs s))"
proof -
  assume "p \<in> ps"
  moreover obtain r s1 where c: "fs_create p s = (r, s1)" by (cases "fs_create p s") auto
  ultimately have "fs_same_except ps s s1" "fs_same_except ps s1 (snd (fs_append p bs s1))"
    using frame_create [of p ps s] frame_append by auto
  then have "fs_same_except ps s s1" "fs_same_except ps s (snd (fs_append p bs s1))"
    using fs_same_except_trans by blast+
  then show ?thesis by (auto simp: fs_write_def c split: sum.splits)
qed

lemma frame_rename [fs_frame]:
  "a \<in> ps \<Longrightarrow> b \<in> ps \<Longrightarrow> fs_same_except ps s (snd (fs_rename a b s))"
  by (auto simp: fs_same_except_def fs_rename_def split: option.splits)

lemma frame_remove [fs_frame]: "p \<in> ps \<Longrightarrow> fs_same_except ps s (snd (fs_remove p s))"
  by (auto simp: fs_same_except_def fs_remove_def split: option.splits)

lemma write_lookup:
  "fst (fs_write p bs s) = Ok () \<Longrightarrow>
   fs_lookup (snd (fs_write p bs s)) p = Some \<lparr>f_data = bs, f_modified = fs_time s\<rparr>"
  by (auto simp: fs_write_def fs_create_def fs_append_def split: option.splits)

lemma rename_Ok:
  "fst (fs_rename a b s) = Ok () \<Longrightarrow>
   fs_lookup s a \<noteq> None \<and> fs_lookup (snd (fs_rename a b s)) b = fs_lookup s a \<and>
   (a \<noteq> b \<longrightarrow> fs_lookup (snd (fs_rename a b s)) a = None)"
  by (auto simp: fs_rename_def split: option.splits)

lemma remove_gone:
  "fs_deny s IoRemove p = None \<Longrightarrow> fs_lookup (snd (fs_remove p s)) p = None"
  by (simp add: fs_remove_def fs_exists_def)

lemma remove_lookup:
  "fs_lookup (snd (fs_remove p s)) q =
     (if q = p \<and> fs_deny s IoRemove p = None then None else fs_lookup s q)"
  by (auto simp: fs_remove_def fs_exists_def split: option.splits)

lemma remove_env [simp]:
  "fs_deny (snd (fs_remove p s)) = fs_deny s" "fs_time (snd (fs_remove p s)) = fs_time s"
  by (auto simp: fs_remove_def split: option.splits)

lemma read_dir_mem:
  "fs_read_dir s d = Ok ps \<Longrightarrow> p \<in> set ps \<longleftrightarrow> fs_lookup s p \<noteq> None \<and> child_name d p \<noteq> None"
  by (force simp: fs_read_dir_def fs_lookup_def map_of_eq_None_iff split: option.splits)

lemma read_dir_distinct: "fs_read_dir s d = Ok ps \<Longrightarrow> distinct ps"
  by (auto simp: fs_read_dir_def split: option.splits)

section \<open>Path facts\<close>

lemma split_on_last_append:
  "d \<notin> set n \<Longrightarrow> last (split_on d (s @ d # n)) = n"
proof (induction s)
  case Nil
  then show ?case by (simp add: split_on_none)
next
  case (Cons c s)
  have ne: "split_on d (s @ d # n) \<noteq> []" by simp
  have l: "tl (split_on d (s @ d # n)) \<noteq> []"
    by (induction s) (auto split: list.splits)
  then show ?case using Cons ne by (cases "split_on d (s @ d # n)") auto
qed

lemma file_name_join [simp]:
  assumes "CHR ''/'' \<notin> set n" shows "file_name (path_join d n) = n"
proof (cases "ends_with d ''/''")
  case True
  then obtain t where "d = t @ ''/''" by (auto simp: ends_with_iff)
  then show ?thesis using assms split_on_last_append [of "CHR ''/''" n t]
    by (simp add: file_name_def path_join_def)
next
  case False
  then show ?thesis using assms split_on_last_append [of "CHR ''/''" n d]
    by (auto simp: file_name_def path_join_def split_on_none)
qed

lemma path_join_inj [simp]: "path_join d a = path_join d b \<longleftrightarrow> a = b"
  by (simp add: path_join_def)

lemma path_join_split: "path_join d n = path_join d [] @ n"
  by (auto simp: path_join_def)

lemma child_name_join [simp]:
  "CHR ''/'' \<notin> set n \<Longrightarrow> n \<noteq> [] \<Longrightarrow> child_name d (path_join d n) = Some n"
  by (simp add: child_name_def path_join_split [of d n] Let_def)

lemma child_name_Some: "child_name d p = Some n \<Longrightarrow> p = path_join d n \<and> CHR ''/'' \<notin> set n \<and> n \<noteq> []"
  by (auto simp: child_name_def path_join_split [of d n] starts_with_iff Let_def split: if_splits)

end
