(* ===== verification/Fetch.thy ===== *)
theory Fetch
  imports Fs Crypto Metadata Repository
begin

text \<open>
  Package acquisition (fetch.rs): the streaming hasher, URL validation and the download
  to a temporary file with its size limits, digest check and rename. The HTTP client is
  the argument \<open>http\<close>: what a GET of a URL yields, the body as the successive results
  of \<open>read\<close>. A hasher of sha2 or blake3 is the bytes it has been fed; its digest is
  the primitive of \<open>crypto_prims\<close> on them.
\<close>

section \<open>Streaming hashes\<close>

datatype hasher_inner = HSha256 bytes | HBlake3 bytes

record streaming_hasher =
  sh_algorithm :: string
  sh_inner :: hasher_inner

definition hasher_new :: "string \<Rightarrow> streaming_hasher result" where
  "hasher_new algorithm =
     (if algorithm = ''sha256'' \<or> algorithm = ''SHA256'' then
        Ok \<lparr>sh_algorithm = ''sha256'', sh_inner = HSha256 []\<rparr>
      else if algorithm = ''blake3'' \<or> algorithm = ''BLAKE3'' then
        Ok \<lparr>sh_algorithm = ''blake3'', sh_inner = HBlake3 []\<rparr>
      else Err (NotSupported (''unsupported hash algorithm: '' @ algorithm)))"

definition hasher_update :: "bytes \<Rightarrow> streaming_hasher \<Rightarrow> streaming_hasher" where
  "hasher_update data h =
     h\<lparr>sh_inner := (case sh_inner h of
         HSha256 fed \<Rightarrow> HSha256 (fed @ data)
       | HBlake3 fed \<Rightarrow> HBlake3 (fed @ data))\<rparr>"

definition hasher_finalize :: "crypto_prims \<Rightarrow> streaming_hasher \<Rightarrow> bytes" where
  "hasher_finalize cp h =
     (case sh_inner h of HSha256 fed \<Rightarrow> cp_sha256 cp fed | HBlake3 fed \<Rightarrow> cp_blake3 cp fed)"

text \<open>The read loop of \<open>hash_file\<close>, a buffer of 64 KiB at a time.\<close>

function feed_file :: "bytes \<Rightarrow> streaming_hasher \<Rightarrow> streaming_hasher" where
  "feed_file data h =
     (if data = [] then h else feed_file (drop 65536 data) (hasher_update (take 65536 data) h))"
  by pat_completeness auto
termination
  by (relation "measure (\<lambda>(data, h). length data)") auto

declare feed_file.simps [simp del]

definition hash_file :: "crypto_prims \<Rightarrow> fs \<Rightarrow> string \<Rightarrow> path \<Rightarrow> bytes result" where
  "hash_file cp s algorithm p =
     and_then (hasher_new algorithm) (\<lambda>h.
       case fs_deny s IoOpen p of
         Some e \<Rightarrow> Err (Internal (''cannot open file for hashing: '' @ e))
       | None \<Rightarrow>
           (case fs_lookup s p of
              None \<Rightarrow> Err (Internal (''cannot open file for hashing: '' @ enoent))
            | Some f \<Rightarrow>
                (case fs_deny s IoRead p of
                   Some e \<Rightarrow> Err (Internal (''error reading file for hash: '' @ e))
                 | None \<Rightarrow> Ok (hasher_finalize cp (feed_file (f_data f) h)))))"

text \<open>The digest the named algorithm gives.\<close>

definition digest_of :: "crypto_prims \<Rightarrow> string \<Rightarrow> bytes \<Rightarrow> bytes option" where
  "digest_of cp algorithm data =
     (if algorithm = ''sha256'' \<or> algorithm = ''SHA256'' then Some (cp_sha256 cp data)
      else if algorithm = ''blake3'' \<or> algorithm = ''BLAKE3'' then Some (cp_blake3 cp data)
      else None)"

definition has_digest :: "crypto_prims \<Rightarrow> package_digest \<Rightarrow> bytes \<Rightarrow> bool" where
  "has_digest cp d data = (digest_of cp (pd_algorithm d) data = Some (pd_value d))"

section \<open>Downloads\<close>

record download_config =
  dc_max_response_size :: u64
  dc_follow_redirects :: bool
  dc_max_redirects :: u32

definition download_config_default :: download_config where
  "download_config_default = \<lparr>dc_max_response_size = 1000000000, dc_follow_redirects = True,
     dc_max_redirects = 5\<rparr>"

record download_result =
  dr_path :: path
  dr_actual_size :: u64
  dr_content_type :: "string option"

datatype body_read = Chunk bytes | ReadError string

record http_response =
  rsp_url :: string
  rsp_header :: "string \<Rightarrow> string option"
  rsp_body :: "body_read list"

datatype http_outcome = HttpStatus nat | HttpTransport string | HttpResponse http_response

type_synonym http_client = "u32 \<Rightarrow> string \<Rightarrow> http_outcome"

definition validate_download_url :: "string \<Rightarrow> unit result" where
  "validate_download_url url0 =
     (let url = trim url0 in
      if url = [] then Err (InvalidArgument ''download URL must not be empty'')
      else if \<not> starts_with url ''https://'' \<and> \<not> starts_with url ''file://'' then
        Err (InvalidArgument (''download URL scheme must be HTTPS: '' @ url))
      else if starts_with url ''https://'' \<and> CHR ''@'' \<in> set (drop (length ''https://'') url) then
        Err (InvalidArgument ''URL must not contain embedded credentials'')
      else if 2048 < length url then
        Err (InvalidArgument ''URL exceeds maximum length (2048)'')
      else Ok ())"

definition content_length :: "http_response \<Rightarrow> u64 option" where
  "content_length r = Option.bind (rsp_header r ''Content-Length'') parse_u64_ok"

text \<open>The copy loop; an empty chunk is the end of the body.\<close>

fun stream_body ::
  "u64 \<Rightarrow> path \<Rightarrow> u64 \<Rightarrow> body_read list \<Rightarrow> fs \<Rightarrow> u64 result \<times> fs" where
  "stream_body max_size tmp tot [] s = (Ok tot, s)"
| "stream_body max_size tmp tot (ReadError e # body) s =
     (Err (DownloadFailed (''read error: '' @ e)), s)"
| "stream_body max_size tmp tot (Chunk bs # body) s =
     (if bs = [] then (Ok tot, s)
      else (let tot' = tot + of_nat (length bs) in
        if max_size < tot' then
          (Err (InvalidArgument (''download exceeded maximum size of '' @ show_u64 max_size
             @ '' bytes'')), snd (fs_remove tmp s))
        else (case fs_append tmp bs s of
            (Inl e, s1) \<Rightarrow> (Err (Internal (''file write error: '' @ e)), s1)
          | (Inr _, s1) \<Rightarrow> stream_body max_size tmp tot' body s1)))"

definition check_content_length ::
  "download_config \<Rightarrow> u64 option \<Rightarrow> http_response \<Rightarrow> unit result" where
  "check_content_length cfg expected_size r =
     and_then (case (expected_size, content_length r) of
         (Some expected, Some len) \<Rightarrow>
           (if len \<noteq> expected then
              Err (InvalidArgument (''Content-Length mismatch: expected '' @ show_u64 expected
                @ '', got '' @ show_u64 len))
            else Ok ())
       | _ \<Rightarrow> Ok ())
     (\<lambda>_. case content_length r of
         Some len \<Rightarrow>
           (if dc_max_response_size cfg < len then
              Err (InvalidArgument (''response size '' @ show_u64 len @ '' exceeds maximum ''
                @ show_u64 (dc_max_response_size cfg)))
            else Ok ())
       | None \<Rightarrow> Ok ())"

definition download_to_file ::
  "http_client \<Rightarrow> download_config \<Rightarrow> string \<Rightarrow> path \<Rightarrow> u64 option \<Rightarrow> fs \<Rightarrow> download_result result \<times> fs"
where
  "download_to_file http cfg url tmp expected_size s =
     (case http (if dc_follow_redirects cfg then dc_max_redirects cfg else 0) url of
        HttpStatus code \<Rightarrow> (Err (DownloadFailed (''HTTP '' @ show_nat code)), s)
      | HttpTransport t \<Rightarrow> (Err (DownloadFailed t), s)
      | HttpResponse r \<Rightarrow>
          if \<not> starts_with (rsp_url r) ''https://'' \<and> \<not> starts_with (rsp_url r) ''file://'' then
            (Err (InvalidArgument ''redirect to non-HTTPS URL rejected''), s)
          else (case check_content_length cfg expected_size r of
              Inl e \<Rightarrow> (Err e, s)
            | Inr _ \<Rightarrow>
                (case fs_create tmp s of
                   (Inl e, s1) \<Rightarrow> (Err (Internal (''cannot create temp file: '' @ e)), s1)
                 | (Inr _, s1) \<Rightarrow>
                     (case stream_body (dc_max_response_size cfg) tmp 0 (rsp_body r) s1 of
                        (Inl e, s2) \<Rightarrow> (Err e, s2)
                      | (Inr tot, s2) \<Rightarrow>
                          (Ok \<lparr>dr_path = tmp, dr_actual_size = tot,
                               dr_content_type = rsp_header r ''Content-Type''\<rparr>, s2)))))"

definition fetch_verify_digest :: "crypto_prims \<Rightarrow> fs \<Rightarrow> path \<Rightarrow> package_digest \<Rightarrow> unit result" where
  "fetch_verify_digest cp s p expected =
     and_then (hash_file cp s (pd_algorithm expected) p) (\<lambda>actual.
       if \<not> digest_matches expected actual then
         Err (VerificationFailed (''package digest mismatch: expected '' @ pd_algorithm expected
           @ '':'' @ digest_to_hex expected))
       else Ok ())"

definition parent_dir :: "path \<Rightarrow> path" where
  "parent_dir p = take (length p - length (file_name p) - 1) p"

definition download ::
  "crypto_prims \<Rightarrow> http_client \<Rightarrow> download_config \<Rightarrow> string \<Rightarrow> path \<Rightarrow> u64 option
     \<Rightarrow> package_digest option \<Rightarrow> fs \<Rightarrow> download_result result \<times> fs" where
  "download cp http cfg url destination expected_size expected_digest s =
     (case validate_download_url url of
        Inl e \<Rightarrow> (Err e, s)
      | Inr _ \<Rightarrow>
        (case fs_mkdir_all (parent_dir destination) s of
           Inl e \<Rightarrow> (Err (Internal (''cannot create download directory: '' @ e)), s)
         | Inr _ \<Rightarrow>
           (let tmp = with_extension destination ''tmp'' in
            case download_to_file http cfg url tmp expected_size s of
              (Inl e, s1) \<Rightarrow> (Err e, s1)
            | (Inr res, s1) \<Rightarrow>
                (case (case expected_digest of
                    Some d \<Rightarrow> fetch_verify_digest cp s1 tmp d | None \<Rightarrow> Ok ()) of
                   Inl e \<Rightarrow> (Err e, s1)
                 | Inr _ \<Rightarrow>
                     (case fs_rename tmp destination s1 of
                        (Inl e, s2) \<Rightarrow> (Err (Internal (''atomic rename failed: '' @ e)), s2)
                      | (Inr _, s2) \<Rightarrow> (Ok res, s2))))))"

section \<open>The streamed digest is the digest of the whole file\<close>

lemma hasher_update_compose [simp]:
  "hasher_update b (hasher_update a h) = hasher_update (a @ b) h"
  by (simp add: hasher_update_def split: hasher_inner.splits)

lemma hasher_update_Nil [simp]: "hasher_update [] h = h"
  by (cases h) (auto simp: hasher_update_def split: hasher_inner.splits)

lemma feed_file_update: "feed_file data h = hasher_update data h"
proof (induction data h rule: feed_file.induct)
  case (1 data h)
  then show ?case by (cases "data = []") (simp_all add: feed_file.simps [of data] feed_file.simps [of "[]"])
qed

lemma hash_file_Ok_iff:
  "hash_file cp s alg p = Ok d \<longleftrightarrow>
     fs_deny s IoOpen p = None \<and> fs_deny s IoRead p = None \<and>
     (\<exists>f. fs_lookup s p = Some f \<and> digest_of cp alg (f_data f) = Some d)"
  by (auto simp: hash_file_def hasher_new_def digest_of_def and_then_Ok_iff feed_file_update
      hasher_finalize_def hasher_update_def split: option.splits if_splits)

lemma fetch_verify_digest_iff:
  "fetch_verify_digest cp s p d = Ok () \<longleftrightarrow>
     fs_deny s IoOpen p = None \<and> fs_deny s IoRead p = None \<and>
     (\<exists>f. fs_lookup s p = Some f \<and> has_digest cp d (f_data f))"
  by (auto simp: fetch_verify_digest_def and_then_Ok_iff hash_file_Ok_iff digest_matches_iff
      has_digest_def)

section \<open>What a download leaves behind\<close>

text \<open>The bytes of a body up to its end.\<close>

fun body_bytes :: "body_read list \<Rightarrow> bytes" where
  "body_bytes (Chunk bs # body) = (if bs = [] then [] else bs @ body_bytes body)"
| "body_bytes _ = []"

lemma frame_stream_body [fs_frame]:
  "tmp \<in> ps \<Longrightarrow> fs_same_except ps s (snd (stream_body mx tmp tot body s))"
proof (induction mx tmp tot body s rule: stream_body.induct)
  case (3 mx tmp tot bs body s)
  obtain r s1 where a: "fs_append tmp bs s = (r, s1)" by (cases "fs_append tmp bs s") auto
  then have f: "fs_same_except ps s s1" using frame_append [of tmp ps s bs] 3 by simp
  have rm: "fs_same_except ps s (snd (fs_remove tmp s))" using 3 by (simp add: frame_remove)
  show ?case
  proof (cases "bs \<noteq> [] \<and> \<not> mx < tot + of_nat (length bs) \<and> is_ok r")
    case True
    then have "fs_same_except ps s1 (snd (stream_body mx tmp (tot + of_nat (length bs)) body s1))"
      using 3 a by (auto simp: is_ok_iff)
    then show ?thesis using True a fs_same_except_trans [OF f] by (auto simp: is_ok_iff Let_def)
  next
    case False
    then show ?thesis using f rm a by (cases r) (auto simp: Let_def)
  qed
qed auto

lemma stream_body_Ok:
  "stream_body mx tmp tot body s = (Ok n, s') \<Longrightarrow> fs_lookup s tmp = Some f \<Longrightarrow>
   \<exists>f'. fs_lookup s' tmp = Some f' \<and> f_data f' = f_data f @ body_bytes body"
proof (induction mx tmp tot body s arbitrary: f rule: stream_body.induct)
  case (3 mx tmp tot bs body s)
  show ?case
  proof (cases "bs = []")
    case True
    then show ?thesis using 3 by auto
  next
    case False
    then obtain s1 where a: "fs_append tmp bs s = (Ok (), s1)"
      and go: "stream_body mx tmp (tot + of_nat (length bs)) body s1 = (Ok n, s')"
      "\<not> mx < tot + of_nat (length bs)"
      using 3(2) by (auto simp: Let_def split: if_splits prod.splits sum.splits)
    then have "fs_lookup s1 tmp = Some \<lparr>f_data = f_data f @ bs, f_modified = fs_time s\<rparr>"
      using 3(3) by (auto simp: fs_append_def split: option.splits)
    from "3.IH" [OF False refl go(2) a [symmetric] refl go(1) this] False show ?thesis by auto
  qed
qed auto

lemma download_to_file_Ok:
  assumes "download_to_file http cfg url tmp es s = (Ok r, s')"
  shows "\<exists>rsp f. http (if dc_follow_redirects cfg then dc_max_redirects cfg else 0) url
      = HttpResponse rsp \<and>
    (starts_with (rsp_url rsp) ''https://'' \<or> starts_with (rsp_url rsp) ''file://'') \<and>
    check_content_length cfg es rsp = Ok () \<and> dr_path r = tmp \<and>
    fs_lookup s' tmp = Some f \<and> f_data f = body_bytes (rsp_body rsp)"
proof -
  obtain rsp s1 where h: "http (if dc_follow_redirects cfg then dc_max_redirects cfg else 0) url
      = HttpResponse rsp"
    and u: "starts_with (rsp_url rsp) ''https://'' \<or> starts_with (rsp_url rsp) ''file://''"
    and c: "check_content_length cfg es rsp = Ok ()" and cr: "fs_create tmp s = (Ok (), s1)"
    and b: "stream_body (dc_max_response_size cfg) tmp 0 (rsp_body rsp) s1 = (Ok (dr_actual_size r), s')"
    and p: "dr_path r = tmp"
    using assms
    by (auto simp: download_to_file_def split: http_outcome.splits if_splits sum.splits prod.splits)
  have "fs_lookup s1 tmp = Some \<lparr>f_data = [], f_modified = fs_time s\<rparr>"
    using cr by (auto simp: fs_create_def split: option.splits)
  from stream_body_Ok [OF b this] show ?thesis using h u c p by auto
qed

text \<open>A read into the buffer of the copy loop gives at most 64 KiB.\<close>

fun read_fits :: "body_read \<Rightarrow> bool" where
  "read_fits (Chunk bs) = (length bs \<le> 65536)"
| "read_fits (ReadError e) = True"

lemma stream_body_size:
  "stream_body mx tmp tot body s = (Ok n, s') \<Longrightarrow> tot \<le> mx \<Longrightarrow>
   n \<le> mx \<and> n = tot + of_nat (length (body_bytes body))"
proof (induction mx tmp tot body s rule: stream_body.induct)
  case (3 mx tmp tot bs body s)
  then show ?case
    by (auto simp: Let_def not_less split: if_splits prod.splits sum.splits)
qed auto

lemma stream_body_length:
  "stream_body mx tmp tot body s = (Ok n, s') \<Longrightarrow> list_all read_fits body \<Longrightarrow> tot \<le> mx \<Longrightarrow>
   unat mx + 65536 < 2 ^ 64 \<Longrightarrow> unat tot + length (body_bytes body) \<le> unat mx"
proof (induction mx tmp tot body s rule: stream_body.induct)
  case (3 mx tmp tot bs body s)
  show ?case
  proof (cases "bs = []")
    case True
    then show ?thesis using 3 by (simp add: word_le_nat_alt)
  next
    case False
    then obtain s1 where a: "fs_append tmp bs s = (Ok (), s1)"
      and go: "stream_body mx tmp (tot + of_nat (length bs)) body s1 = (Ok n, s')"
      "\<not> mx < tot + of_nat (length bs)"
      using 3(2) by (auto simp: Let_def split: if_splits prod.splits sum.splits)
    have "length bs \<le> 65536" "unat tot \<le> unat mx" using 3 by (simp_all add: word_le_nat_alt)
    then have "unat (tot + of_nat (length bs)) = unat tot + length bs"
      using 3(5) by (simp add: unat_word_ariths unat_of_nat)
    then show ?thesis
      using "3.IH" [OF False refl go(2) a [symmetric] refl go(1)] 3(3,5) go(2) False
      by (simp add: not_less)
  qed
qed (simp_all add: word_le_nat_alt)

lemma check_content_length_iff:
  "check_content_length cfg es rsp = Ok () \<longleftrightarrow>
     (\<forall>len. content_length rsp = Some len \<longrightarrow>
        len \<le> dc_max_response_size cfg \<and> (\<forall>e. es = Some e \<longrightarrow> len = e))"
  by (auto simp: check_content_length_def and_then_Ok_iff not_less split: option.splits)

lemma validate_download_url_scheme:
  "validate_download_url url = Ok () \<Longrightarrow>
     starts_with (trim url) ''https://'' \<or> starts_with (trim url) ''file://''"
  by (auto simp: validate_download_url_def Let_def split: if_splits)

text \<open>What a successful transfer says of the sizes.\<close>

lemma download_to_file_size:
  assumes "download_to_file http cfg url tmp es s = (Ok r, s')"
    and "http (if dc_follow_redirects cfg then dc_max_redirects cfg else 0) url = HttpResponse rsp"
  shows "dr_actual_size r \<le> dc_max_response_size cfg"
    "dr_actual_size r = of_nat (length (body_bytes (rsp_body rsp)))"
    "list_all read_fits (rsp_body rsp) \<and> unat (dc_max_response_size cfg) + 65536 < 2 ^ 64 \<Longrightarrow>
       length (body_bytes (rsp_body rsp)) \<le> unat (dc_max_response_size cfg)"
proof -
  obtain s1 where "stream_body (dc_max_response_size cfg) tmp 0 (rsp_body rsp) s1 = (Ok (dr_actual_size r), s')"
    using assms
    by (auto simp: download_to_file_def split: http_outcome.splits if_splits sum.splits prod.splits)
  note b = this
  have "dr_actual_size r \<le> dc_max_response_size cfg
      \<and> dr_actual_size r = 0 + of_nat (length (body_bytes (rsp_body rsp)))"
    by (rule stream_body_size [OF b]) simp
  then show "dr_actual_size r \<le> dc_max_response_size cfg"
    "dr_actual_size r = of_nat (length (body_bytes (rsp_body rsp)))" by (blast, simp)
  assume "list_all read_fits (rsp_body rsp) \<and> unat (dc_max_response_size cfg) + 65536 < 2 ^ 64"
  then show "length (body_bytes (rsp_body rsp)) \<le> unat (dc_max_response_size cfg)"
    using stream_body_length [OF b] by simp
qed

lemma frame_download_to_file [fs_frame]:
  assumes "tmp \<in> ps"
  shows "fs_same_except ps s (snd (download_to_file http cfg url tmp es s))"
proof -
  obtain r s1 where c: "fs_create tmp s = (r, s1)" by (cases "fs_create tmp s") auto
  then have f: "fs_same_except ps s s1" using frame_create [OF assms, of s] by simp
  show ?thesis
  proof (cases "http (if dc_follow_redirects cfg then dc_max_redirects cfg else 0) url")
    case (HttpResponse rsp)
    obtain r2 s2 where b: "stream_body (dc_max_response_size cfg) tmp 0 (rsp_body rsp) s1 = (r2, s2)"
      by (cases "stream_body (dc_max_response_size cfg) tmp 0 (rsp_body rsp) s1") auto
    then have "fs_same_except ps s1 s2"
      using frame_stream_body [OF assms, of s1 "dc_max_response_size cfg" 0 "rsp_body rsp"] by simp
    with f have "fs_same_except ps s s2" by (rule fs_same_except_trans)
    with f show ?thesis
      by (cases r; cases r2; cases "check_content_length cfg es rsp")
        (simp_all add: download_to_file_def HttpResponse b c)
  qed (simp_all add: download_to_file_def)
qed

lemma download_cases:
  assumes "download cp http cfg url dst es ed s = (res, s')"
  obtains (early) e where "res = Err e" "s' = s"
  | (fetched) s1 r1 where
      "download_to_file http cfg url (with_extension dst ''tmp'') es s = (r1, s1)"
      "\<not> is_ok res" "s' = s1"
  | (renamed) s1 r where
      "validate_download_url url = Ok ()"
      "download_to_file http cfg url (with_extension dst ''tmp'') es s = (Ok r, s1)"
      "(case ed of Some d \<Rightarrow> fetch_verify_digest cp s1 (with_extension dst ''tmp'') d
          | None \<Rightarrow> Ok ()) = Ok ()"
      "snd (fs_rename (with_extension dst ''tmp'') dst s1) = s'"
      "is_ok res \<longleftrightarrow> fst (fs_rename (with_extension dst ''tmp'') dst s1) = Ok ()"
      "is_ok res \<Longrightarrow> res = Ok r"
  using assms
  by (auto simp: download_def Let_def split: sum.splits prod.splits)

text \<open>C13: A download that succeeds with an expected digest came over HTTPS or from a file, also
  after redirects, with an announced length, if any, that is the expected one and within the
  limit. It leaves at the destination exactly the received body; the body has the digest and
  the reported size, which is within the limit; when no read exceeds the buffer and the limit
  is that far from the end of the counter, the number of bytes is within the limit, too. Only
  the destination and its temporary file were touched. The temporary file is gone, although
  its path is what the result reports as the location of the download.\<close>

theorem download_verified:
  assumes "download cp http cfg url dst es (Some d) s = (Ok r, s')"
    and "with_extension dst ''tmp'' \<noteq> dst"
  shows "(\<exists>f rsp. fs_lookup s' dst = Some f \<and> has_digest cp d (f_data f) \<and>
      http (if dc_follow_redirects cfg then dc_max_redirects cfg else 0) url = HttpResponse rsp \<and>
      f_data f = body_bytes (rsp_body rsp) \<and>
      (starts_with (trim url) ''https://'' \<or> starts_with (trim url) ''file://'') \<and>
      (starts_with (rsp_url rsp) ''https://'' \<or> starts_with (rsp_url rsp) ''file://'') \<and>
      (\<forall>len. content_length rsp = Some len \<longrightarrow>
         len \<le> dc_max_response_size cfg \<and> (\<forall>e. es = Some e \<longrightarrow> len = e)) \<and>
      dr_actual_size r = of_nat (length (f_data f)) \<and> dr_actual_size r \<le> dc_max_response_size cfg \<and>
      (list_all read_fits (rsp_body rsp) \<and> unat (dc_max_response_size cfg) + 65536 < 2 ^ 64 \<longrightarrow>
         length (f_data f) \<le> unat (dc_max_response_size cfg))) \<and>
    fs_same_except {dst, with_extension dst ''tmp''} s s' \<and>
    dr_path r = with_extension dst ''tmp'' \<and> fs_lookup s' (dr_path r) = None"
  using assms(1)
proof (cases rule: download_cases)
  case (renamed s1 r1)
  let ?tmp = "with_extension dst ''tmp''"
  have r: "r = r1" and ren: "fst (fs_rename ?tmp dst s1) = Ok ()" using renamed by auto
  from download_to_file_Ok [OF renamed(2)] obtain rsp f where
    rsp: "http (if dc_follow_redirects cfg then dc_max_redirects cfg else 0) url = HttpResponse rsp"
    and dl: "starts_with (rsp_url rsp) ''https://'' \<or> starts_with (rsp_url rsp) ''file://''"
      "check_content_length cfg es rsp = Ok ()" "dr_path r1 = ?tmp"
      "fs_lookup s1 ?tmp = Some f" "f_data f = body_bytes (rsp_body rsp)" by blast
  note sz = download_to_file_size [OF renamed(2) rsp]
  have "fs_same_except {dst, ?tmp} s s1"
    using frame_download_to_file [of ?tmp "{dst, ?tmp}" s http cfg url es] renamed(2) by simp
  moreover have "fs_same_except {dst, ?tmp} s1 s'"
    using frame_rename [of ?tmp "{dst, ?tmp}" dst s1] renamed(4) by simp
  ultimately have "fs_same_except {dst, ?tmp} s s'" by (rule fs_same_except_trans)
  moreover have "has_digest cp d (f_data f)"
    using renamed(3) dl(4) by (simp add: fetch_verify_digest_iff)
  moreover have "fs_lookup s' dst = Some f" "fs_lookup s' ?tmp = None"
    using rename_Ok [OF ren] renamed(4) dl(4) assms(2) by auto
  ultimately show ?thesis
    using rsp dl(1,3,5) sz r validate_download_url_scheme [OF renamed(1)]
      dl(2) [unfolded check_content_length_iff]
    by (intro conjI exI [of _ f] exI [of _ rsp]) simp_all
qed simp_all

text \<open>C20: A download that fails, at whatever step, leaves the file at the destination as it
  was.\<close>

theorem download_failure_keeps_destination:
  assumes "download cp http cfg url dst es ed s = (Err e, s')"
    and "with_extension dst ''tmp'' \<noteq> dst"
  shows "fs_lookup s' dst = fs_lookup s dst \<and> fs_same_except {with_extension dst ''tmp''} s s'"
proof -
  let ?tmp = "with_extension dst ''tmp''"
  have fr: "fs_same_except {?tmp} s s1" if "download_to_file http cfg url ?tmp es s = (x, s1)" for x s1
    using frame_download_to_file [of ?tmp "{?tmp}" s http cfg url es] that by simp
  have "fs_same_except {?tmp} s s'"
    using assms(1)
  proof (cases rule: download_cases)
    case (renamed s1 r1)
    then have "fst (fs_rename ?tmp dst s1) \<noteq> Ok ()" by simp
    then have "snd (fs_rename ?tmp dst s1) = s1"
      by (auto simp: fs_rename_def split: option.splits)
    then show ?thesis using fr renamed by simp
  qed (use fr in auto)
  then show ?thesis using assms(2) by (simp add: fs_same_except_def)
qed

definition empty_fs :: fs where
  "empty_fs = \<lparr>fs_files = [], fs_deny = (\<lambda>_ _. None), fs_time = 0\<rparr>"

lemma empty_fs_simps [simp]:
  "fs_deny empty_fs op p = None" "fs_lookup empty_fs p = None" "fs_time empty_fs = 0"
  by (simp_all add: empty_fs_def fs_lookup_def)

definition sample_http :: "bytes \<Rightarrow> http_client" where
  "sample_http body = (\<lambda>_ url. HttpResponse \<lparr>rsp_url = url, rsp_header = (\<lambda>_. None),
     rsp_body = [Chunk body]\<rparr>)"

definition sample_digest :: package_digest where
  "sample_digest = \<lparr>pd_algorithm = ''sha256'', pd_value = replicate 32 3\<rparr>"

lemmas download_eval = download_def download_to_file_def fetch_verify_digest_def hash_file_def
  hasher_new_def hasher_finalize_def feed_file_update hasher_update_def check_content_length_def
  content_length_def fs_create_def fs_append_def fs_rename_def fs_mkdir_all_def fs_remove_def
  validate_download_url_def with_extension_def stem_extension_def file_name_def rsplit_once_def
  parent_dir_def download_config_default_def

lemma sample_tmp: "with_extension ''/c/pkg'' ''tmp'' = ''/c/pkg.tmp''"
  by (simp add: with_extension_def stem_extension_def file_name_def rsplit_once_def)

lemma download_verified_witness:
  "\<exists>f. fs_lookup (snd (download sample_prims (sample_http [1, 2, 3]) download_config_default
       ''https://h/p'' ''/c/pkg'' None (Some sample_digest) empty_fs)) ''/c/pkg'' = Some f
     \<and> f_data f = [1, 2, 3]"
proof -
  have d: "digest_matches sample_digest (replicate 32 3)"
    by (simp add: digest_matches_iff sample_digest_def)
  obtain s' where s': "download sample_prims (sample_http [1, 2, 3]) download_config_default
      ''https://h/p'' ''/c/pkg'' None (Some sample_digest) empty_fs =
      (Ok \<lparr>dr_path = ''/c/pkg.tmp'', dr_actual_size = 3, dr_content_type = None\<rparr>, s')"
    using d by (simp add: download_eval sample_http_def empty_fs_def sample_prims_def parse_eval
        sample_digest_def)
  from download_verified [OF s'] obtain f
    where "fs_lookup s' ''/c/pkg'' = Some f" "f_data f = [1, 2, 3]"
    by (auto simp: sample_tmp sample_http_def)
  then show ?thesis unfolding s' by simp
qed

lemma download_failure_keeps_destination_witness:
  "fs_lookup (snd (download sample_prims (sample_http [1]) download_config_default
       ''https://h/p'' ''/c/pkg'' None (Some sample_digest)
       (fs_put ''/c/pkg'' \<lparr>f_data = [9], f_modified = 0\<rparr> empty_fs))) ''/c/pkg''
     = Some \<lparr>f_data = [9], f_modified = 0\<rparr>"
proof -
  let ?s = "fs_put ''/c/pkg'' \<lparr>f_data = [9], f_modified = 0\<rparr> empty_fs"
  have d: "\<not> digest_matches sample_digest (replicate 32 1)"
    by (simp add: digest_matches_iff sample_digest_def)

  obtain e s' where s': "download sample_prims (sample_http [1]) download_config_default
      ''https://h/p'' ''/c/pkg'' None (Some sample_digest) ?s = (Err e, s')"
    using d by (simp add: download_eval sample_http_def sample_prims_def parse_eval
        sample_digest_def)
  from download_failure_keeps_destination [OF s'] show ?thesis
    by (simp add: s' sample_tmp)
qed

end
