(* ===== verification/Download.thy ===== *)
theory Download
  imports Fetch Audit_Trail Float64
begin

text \<open>
  The download manager (download.rs): states, retry policy, partial files, the resume by
  Range request with its Content-Range validation, and the retry loop around it with
  the final digest check. The network answers the \<open>n\<close>-th attempt: \<open>nw_get n\<close> is the
  client of a plain download, \<open>nw_range n\<close> the answer to a Range request. The
  length of the delays is modelled, sleeping itself has no effect.
\<close>

section \<open>States and policy\<close>

datatype download_state =
    DsIdle | DsMetadataFetch | DsMetadataVerified | DsDownloadStarted | DsDownloadResumed
  | DsDownloadRetry | DsDownloadComplete | DsDigestVerify | DsStaged | DsFailed | DsCleanup

definition ds_is_active :: "download_state \<Rightarrow> bool" where
  "ds_is_active d = (d \<in> {DsMetadataFetch, DsDownloadStarted, DsDownloadResumed, DsDownloadRetry,
     DsDigestVerify})"

definition ds_is_terminal :: "download_state \<Rightarrow> bool" where
  "ds_is_terminal d = (d \<in> {DsStaged, DsFailed, DsCleanup})"

fun show_download_state :: "download_state \<Rightarrow> string" where
  "show_download_state DsIdle = ''Idle''"
| "show_download_state DsMetadataFetch = ''MetadataFetch''"
| "show_download_state DsMetadataVerified = ''MetadataVerified''"
| "show_download_state DsDownloadStarted = ''DownloadStarted''"
| "show_download_state DsDownloadResumed = ''DownloadResumed''"
| "show_download_state DsDownloadRetry = ''DownloadRetry''"
| "show_download_state DsDownloadComplete = ''DownloadComplete''"
| "show_download_state DsDigestVerify = ''DigestVerify''"
| "show_download_state DsStaged = ''Staged''"
| "show_download_state DsFailed = ''Failed''"
| "show_download_state DsCleanup = ''Cleanup''"

text \<open>Durations are whole seconds: no other value is ever built.\<close>

record retry_policy =
  rp_max_retries :: u32
  rp_initial_backoff :: u64
  rp_max_backoff :: u64
  rp_backoff_factor :: f64

definition retry_default :: retry_policy where
  "retry_default = \<lparr>rp_max_retries = 3, rp_initial_backoff = 1, rp_max_backoff = 30,
     rp_backoff_factor = 2 * f64_one\<rparr>"

definition retry_strict :: retry_policy where
  "retry_strict = \<lparr>rp_max_retries = 1, rp_initial_backoff = 1, rp_max_backoff = 5,
     rp_backoff_factor = 2 * f64_one\<rparr>"

definition retry_none :: retry_policy where
  "retry_none = \<lparr>rp_max_retries = 0, rp_initial_backoff = 0, rp_max_backoff = 0,
     rp_backoff_factor = f64_one\<rparr>"

text \<open>
  The delay in nanoseconds. \<open>pow_int\<close> is \<open>f64::powi\<close>, whose precision Rust leaves open, so
  it is an argument, \<open>None\<close> for an infinite power: \<open>f64::min\<close> then gives the cap, also when
  the product is not a number. A product of at least one second is a multiple of \<open>2 ^ -58\<close>
  after rounding, so \<open>f64_mul\<close> is exact for factors from one on. \<open>from_secs_f64\<close> rounds to the
  nearest nanosecond and panics from \<open>2 ^ 64\<close> seconds on.
\<close>

definition f64_of_secs :: "u64 \<Rightarrow> f64" where
  "f64_of_secs s = f64_round (unat s * f64_one)"

definition f64_mul :: "f64 \<Rightarrow> f64 \<Rightarrow> f64" where
  "f64_mul a b = f64_round (a * b) div f64_one"

definition nanos_of_f64 :: "f64 \<Rightarrow> nat" where
  "nanos_of_f64 x =
     (let n = x * 10 ^ 9; q = n div f64_one; r = n mod f64_one
      in if f64_one < 2 * r \<or> (2 * r = f64_one \<and> odd q) then q + 1 else q)"

definition duration_from_f64 :: "f64 \<Rightarrow> nat may_panic" where
  "duration_from_f64 x = (if 2 ^ 64 * f64_one \<le> x then Panic else Ret (nanos_of_f64 x))"

definition delay_for_attempt ::
  "(f64 \<Rightarrow> int \<Rightarrow> f64 option) \<Rightarrow> retry_policy \<Rightarrow> u32 \<Rightarrow> nat may_panic" where
  "delay_for_attempt pow_int p attempt =
     (if rp_max_retries p \<le> attempt then Ret 0
      else (let cap = f64_of_secs (rp_max_backoff p);
                delay_secs = (case pow_int (rp_backoff_factor p) (sint attempt) of
                    None \<Rightarrow> cap
                  | Some f \<Rightarrow> min (f64_mul (f64_of_secs (rp_initial_backoff p)) f) cap)
            in duration_from_f64 delay_secs))"

fun transient_error :: "service_error \<Rightarrow> bool" where
  "transient_error (DownloadFailed _) = True"
| "transient_error (BackendUnavailable _) = True"
| "transient_error _ = False"

definition should_retry :: "retry_policy \<Rightarrow> service_error \<Rightarrow> bool" where
  "should_retry p e = (if rp_max_retries p = 0 then False else transient_error e)"

definition retry_policy_validate :: "retry_policy \<Rightarrow> unit result" where
  "retry_policy_validate p =
     (if 10 < rp_max_retries p then Err (InvalidArgument ''max_retries must not exceed 10'')
      else if rp_backoff_factor p < f64_one then
        Err (InvalidArgument ''backoff_factor must be >= 1.0'')
      else Ok ())"

section \<open>Delays\<close>

lemma f64_round_shift:
  assumes "n < 2 ^ 53" shows "f64_round (n * 2 ^ j) = n * 2 ^ j"
proof -
  have "n * 2 ^ j < 2 ^ (53 + j)" using assms by (simp add: power_add)
  then have "bit_len (n * 2 ^ j) \<le> 53 + j" by (rule bit_len_le)
  then have "(2::nat) ^ (bit_len (n * 2 ^ j) - 53) dvd n * 2 ^ j"
    by (intro dvd_mult le_imp_power_dvd) simp
  then show ?thesis by (auto simp: f64_round_def Let_def dvd_eq_mod_eq_0 [symmetric])
qed

lemma f64_one_power: "f64_one = 2 ^ 58"
  by (simp add: f64_one_def)

lemma f64_of_secs_exact: "unat s < 2 ^ 53 \<Longrightarrow> f64_of_secs s = unat s * f64_one"
  using f64_round_shift [of "unat s" 58] by (simp add: f64_of_secs_def f64_one_power)

lemma nanos_of_f64_secs: "nanos_of_f64 (n * f64_one) = n * 10 ^ 9"
proof -
  have "n * f64_one * 10 ^ 9 = (n * 10 ^ 9) * f64_one" by simp
  then show ?thesis by (simp add: nanos_of_f64_def Let_def f64_one_def)
qed

lemma nanos_of_f64_mono:
  assumes "x \<le> y" shows "nanos_of_f64 x \<le> nanos_of_f64 y"
proof -
  let ?n = "x * 10 ^ 9" and ?m = "y * 10 ^ 9"
  have "?n div f64_one \<le> ?m div f64_one" using assms by (intro div_le_mono) simp
  then consider "?n div f64_one < ?m div f64_one" | "?n div f64_one = ?m div f64_one" by linarith
  then show ?thesis
  proof cases
    case 2
    have "?n \<le> ?m" using assms by simp
    moreover have "?n = ?m div f64_one * f64_one + ?n mod f64_one"
      "?m = ?m div f64_one * f64_one + ?m mod f64_one"
      using 2 div_mult_mod_eq [of ?n f64_one] by simp_all
    ultimately have "?n mod f64_one \<le> ?m mod f64_one" by linarith
    with 2 show ?thesis unfolding nanos_of_f64_def Let_def by auto
  qed (simp add: nanos_of_f64_def Let_def)
qed

text \<open>Whatever powers the platform computes, a delay never exceeds the cap of the policy, and
  none panics for caps that a double holds exactly.\<close>

lemma delay_bounded:
  assumes "unat (rp_max_backoff p) < 2 ^ 53"
  shows "\<exists>d. delay_for_attempt pow_int p attempt = Ret d \<and> d \<le> unat (rp_max_backoff p) * 10 ^ 9"
proof -
  let ?cap = "unat (rp_max_backoff p) * f64_one"
  have c: "?cap < 2 ^ 64 * f64_one" using assms by (simp add: f64_one_def)
  have "x \<le> ?cap \<Longrightarrow> \<exists>d. duration_from_f64 x = Ret d \<and> d \<le> unat (rp_max_backoff p) * 10 ^ 9" for x
    using order_le_less_trans [OF _ c, of x] nanos_of_f64_mono [of x ?cap]
    by (auto simp: duration_from_f64_def nanos_of_f64_secs simp flip: not_less)
  from this [of ?cap] this [of "min y ?cap" for y] show ?thesis
    by (auto simp: delay_for_attempt_def Let_def f64_of_secs_exact [OF assms] split: option.split)
qed

text \<open>With exact powers of two the default policy waits one, two and four seconds.\<close>

lemma delay_default:
  assumes "\<And>n. n \<in> {0, 1, 2} \<Longrightarrow> pow_int (2 * f64_one) n = Some (2 ^ nat n * f64_one)"
  shows "map (delay_for_attempt pow_int retry_default) [0, 1, 2, 3] =
    map (\<lambda>s. Ret (s * 10 ^ 9)) [1, 2, 4, 0]"
proof -
  have one: "f64_of_secs 1 = 1 * f64_one" "f64_of_secs 30 = 30 * f64_one"
    by (simp_all add: f64_of_secs_exact)
  have mul: "f64_mul (1 * f64_one) (k * f64_one) = k * f64_one" if "k < 2 ^ 53" for k
  proof -
    have "1 * f64_one * (k * f64_one) = k * 2 ^ 116" by (simp add: f64_one_def)
    then have "f64_mul (1 * f64_one) (k * f64_one) = k * 2 ^ 116 div 2 ^ 58"
      using f64_round_shift [OF that, of 116] by (simp only: f64_mul_def f64_one_power)
    then show ?thesis by (simp add: f64_one_def div_mult_swap dvd_def)
  qed
  have d: "duration_from_f64 (min (k * f64_one) (30 * f64_one)) = Ret (k * 10 ^ 9)" if "k \<le> 30" for k
    using that nanos_of_f64_secs [of k] by (simp add: duration_from_f64_def f64_one_def)
  have "delay_for_attempt pow_int retry_default a = Ret (2 ^ nat (sint a) * 10 ^ 9)"
    if "a < 3" "sint a \<in> {0, 1, 2}" for a :: u32
    using that assms [OF that(2)] one mul [of "2 ^ nat (sint a)"] d [of "2 ^ nat (sint a)"]
    by (auto simp: delay_for_attempt_def retry_default_def Let_def)
  from this [of 0] this [of 1] this [of 2] show ?thesis
    by (simp add: delay_for_attempt_def retry_default_def)
qed

record download_tracker =
  dt_state :: download_state
  dt_digest :: package_digest
  dt_url :: string
  dt_destination :: path
  dt_retry_count :: u32
  dt_bytes_downloaded :: u64
  dt_expected_size :: "u64 option"
  dt_error :: "string option"
  dt_correlation_id :: string
  dt_started_at :: u64

definition tracker_new ::
  "u64 \<Rightarrow> u64 \<Rightarrow> package_digest \<Rightarrow> string \<Rightarrow> path \<Rightarrow> u64 option \<Rightarrow> download_tracker" where
  "tracker_new seqno now d url dst es =
     \<lparr>dt_state = DsIdle, dt_digest = d, dt_url = url, dt_destination = dst, dt_retry_count = 0,
      dt_bytes_downloaded = 0, dt_expected_size = es, dt_error = None,
      dt_correlation_id = show_u64 seqno, dt_started_at = now\<rparr>"

section \<open>Partial files\<close>

definition dl_partial_path :: "path \<Rightarrow> package_digest \<Rightarrow> path" where
  "dl_partial_path dir d = path_join dir (''dl-'' @ digest_to_hex d @ ''.part'')"

definition partial_size :: "path \<Rightarrow> fs \<Rightarrow> package_digest \<Rightarrow> u64 option" where
  "partial_size dir s d =
     (let p = dl_partial_path dir d in
      if fs_exists s p then map_option (\<lambda>f. of_nat (length (f_data f))) (fs_metadata s p) else None)"

definition remove_partial :: "path \<Rightarrow> package_digest \<Rightarrow> fs \<Rightarrow> unit result \<times> fs" where
  "remove_partial dir d s =
     (let p = dl_partial_path dir d in
      if fs_exists s p then
        (case fs_remove p s of
           (Inl e, s1) \<Rightarrow> (Err (Internal (''cannot remove partial file: '' @ e)), s1)
         | (Inr _, s1) \<Rightarrow> (Ok (), s1))
      else (Ok (), s))"

text \<open>A file from the future has no age and is kept.\<close>

fun cleanup_stale_files :: "nat \<Rightarrow> nat \<Rightarrow> path list \<Rightarrow> nat \<Rightarrow> fs \<Rightarrow> nat \<times> fs" where
  "cleanup_stale_files now max_age [] n s = (n, s)"
| "cleanup_stale_files now max_age (p # ps) n s =
     (if \<not> ends_with p ''.part'' then cleanup_stale_files now max_age ps n s
      else (case fs_metadata s p of
          None \<Rightarrow> cleanup_stale_files now max_age ps n s
        | Some f \<Rightarrow>
            if f_modified f \<le> now \<and> max_age < now - f_modified f then
              (case fs_remove p s of
                 (Inr _, s1) \<Rightarrow> cleanup_stale_files now max_age ps (n + 1) s1
               | (Inl _, s1) \<Rightarrow> cleanup_stale_files now max_age ps n s1)
            else cleanup_stale_files now max_age ps n s))"

definition cleanup_stale :: "nat \<Rightarrow> path \<Rightarrow> nat \<Rightarrow> fs \<Rightarrow> nat \<times> fs" where
  "cleanup_stale now dir max_age s =
     (case fs_read_dir s dir of
        Inl _ \<Rightarrow> (0, s)
      | Inr ps \<Rightarrow> cleanup_stale_files now max_age ps 0 s)"

section \<open>Range requests\<close>

datatype range_outcome = RgStatus nat | RgTransport string | RgResponse nat http_response

record network =
  nw_get :: "nat \<Rightarrow> http_client"
  nw_range :: "nat \<Rightarrow> string \<Rightarrow> u64 \<Rightarrow> range_outcome"

definition parse_range_u64 :: "string \<Rightarrow> string \<Rightarrow> u64 result" where
  "parse_range_u64 what t =
     (case parse_u64 t of
        Inl _ \<Rightarrow> Err (DownloadFailed (''invalid Content-Range '' @ what @ '': '' @ quoted t))
      | Inr n \<Rightarrow> Ok n)"

definition validate_content_range :: "string \<Rightarrow> u64 \<Rightarrow> (u64 \<times> u64 \<times> u64) result" where
  "validate_content_range header expected_start =
     (let trimmed = trim header in
      if \<not> starts_with trimmed ''bytes '' then
        Err (DownloadFailed (''invalid Content-Range format: '' @ quoted header))
      else (let range_part = drop 6 trimmed in
        if starts_with range_part ''*/'' then
          Err (DownloadFailed ''server does not support range requests'')
        else (case split_on CHR ''/'' range_part of
            [rng, total_text] \<Rightarrow>
              and_then (parse_range_u64 ''total'' total_text) (\<lambda>tot.
                (case split_on CHR ''-'' rng of
                   [start_text, end_text] \<Rightarrow>
                     and_then (parse_range_u64 ''start'' start_text) (\<lambda>start.
                     and_then (parse_range_u64 ''end'' end_text) (\<lambda>stop.
                       if start \<noteq> expected_start then
                         Err (DownloadFailed (''Content-Range start '' @ show_u64 start
                           @ '' does not match expected offset '' @ show_u64 expected_start))
                       else if stop < start then
                         Err (DownloadFailed (''Content-Range end '' @ show_u64 stop
                           @ '' is before start '' @ show_u64 start))
                       else Ok (start, stop, tot)))
                 | _ \<Rightarrow> Err (DownloadFailed (''invalid Content-Range range: '' @ quoted rng))))
          | _ \<Rightarrow> Err (DownloadFailed (''invalid Content-Range: '' @ quoted header)))))"

text \<open>The copy loop that appends to the partial file.\<close>

fun append_body :: "u64 \<Rightarrow> path \<Rightarrow> u64 \<Rightarrow> body_read list \<Rightarrow> fs \<Rightarrow> u64 result \<times> fs" where
  "append_body mx part tot [] s = (Ok tot, s)"
| "append_body mx part tot (ReadError e # body) s =
     (Err (DownloadFailed (''read error: '' @ e)), s)"
| "append_body mx part tot (Chunk bs # body) s =
     (if bs = [] then (Ok tot, s)
      else (let tot' = tot + of_nat (length bs) in
        if mx < tot' then
          (Err (InvalidArgument (''download exceeded maximum size of '' @ show_u64 mx @ '' bytes'')), s)
        else (case fs_append part bs s of
            (Inl e, s1) \<Rightarrow> (Err (Internal (''file write error: '' @ e)), s1)
          | (Inr _, s1) \<Rightarrow> append_body mx part tot' body s1)))"

definition range_status_error :: "nat \<Rightarrow> u64 \<Rightarrow> service_error" where
  "range_status_error code offset =
     (if code = 416 then
        DownloadFailed (''HTTP 416 Range Not Satisfiable for offset '' @ show_u64 offset)
      else if code = 206 then DownloadFailed (''HTTP '' @ show_nat code @ '' (unexpected)'')
      else if 500 \<le> code then DownloadFailed (''HTTP '' @ show_nat code)
      else DownloadFailed (''HTTP '' @ show_nat code @ '' (permanent)''))"

definition resume_partial_content ::
  "download_config \<Rightarrow> http_response \<Rightarrow> path \<Rightarrow> u64 \<Rightarrow> path \<Rightarrow> fs \<Rightarrow> download_result result \<times> fs"
where
  "resume_partial_content cfg r part offset dst s =
     (case rsp_header r ''Content-Range'' of
        None \<Rightarrow> (Err (DownloadFailed ''server returned 206 without Content-Range header''), s)
      | Some h \<Rightarrow>
        (case validate_content_range h offset of
           Inl e \<Rightarrow> (Err e, s)
         | Inr _ \<Rightarrow>
           (case fs_open_existing s part of
              Some e \<Rightarrow> (Err (Internal (''cannot open partial file for append: '' @ e)), s)
            | None \<Rightarrow>
              (case append_body (dc_max_response_size cfg) part offset (rsp_body r) s of
                 (Inl e, s1) \<Rightarrow> (Err e, s1)
               | (Inr tot, s1) \<Rightarrow>
                   (case fs_rename part dst s1 of
                      (Inl e, s2) \<Rightarrow> (Err (Internal (''resume rename failed: '' @ e)), s2)
                    | (Inr _, s2) \<Rightarrow>
                        (Ok \<lparr>dr_path = dst, dr_actual_size = tot, dr_content_type = None\<rparr>, s2))))))"

definition resume_download ::
  "crypto_prims \<Rightarrow> network \<Rightarrow> download_config \<Rightarrow> nat \<Rightarrow> string \<Rightarrow> path \<Rightarrow> u64 \<Rightarrow> path \<Rightarrow> fs
     \<Rightarrow> download_result result \<times> fs" where
  "resume_download cp net cfg n url part offset dst s =
     (case nw_range net n url offset of
        RgStatus code \<Rightarrow> (Err (range_status_error code offset), s)
      | RgTransport t \<Rightarrow> (Err (DownloadFailed t), s)
      | RgResponse status r \<Rightarrow>
          if status = 206 then resume_partial_content cfg r part offset dst s
          else if status = 200 then
            download cp (nw_get net n) cfg url dst None None (snd (fs_remove part s))
          else (Err (DownloadFailed (''unexpected HTTP status '' @ show_nat status
                  @ '' for resume request'')), s))"

section \<open>The download loop\<close>

record download_manager =
  dm_fetch :: download_config
  dm_policy :: retry_policy
  dm_partial_dir :: path

record download_request =
  rq_url :: string
  rq_destination :: path
  rq_digest :: package_digest
  rq_expected_size :: "u64 option"
  rq_source_id :: string
  rq_subject :: string

definition audit_download ::
  "u64 \<Rightarrow> download_tracker \<Rightarrow> download_request \<Rightarrow> string \<Rightarrow> event_severity \<Rightarrow> audit_log \<Rightarrow> audit_log"
where
  "audit_download t tr rq action sev l =
     record_event (audit_event_new t Download sev action (rq_subject rq)
       (''source='' @ rq_source_id rq @ '', url='' @ dt_url tr
        @ '', state='' @ show_download_state (dt_state tr)
        @ '', bytes='' @ show_u64 (dt_bytes_downloaded tr)
        @ '', retries='' @ show_u32 (dt_retry_count tr)
        @ '', error='' @ show_debug (case dt_error tr of Some e \<Rightarrow> e | None \<Rightarrow> ''none''))) l"

definition perform_download_with_resume ::
  "crypto_prims \<Rightarrow> network \<Rightarrow> download_config \<Rightarrow> nat \<Rightarrow> download_tracker \<Rightarrow> path \<Rightarrow> u64 option \<Rightarrow> fs
     \<Rightarrow> download_result result \<times> fs" where
  "perform_download_with_resume cp net cfg n tr part resume_offset s =
     (case resume_offset of
        Some offset \<Rightarrow>
          if 0 < offset then
            resume_download cp net cfg n (dt_url tr) part offset (dt_destination tr) s
          else download cp (nw_get net n) cfg (dt_url tr) (dt_destination tr)
                 (dt_expected_size tr) None s
      | None \<Rightarrow> download cp (nw_get net n) cfg (dt_url tr) (dt_destination tr)
                 (dt_expected_size tr) None s)"

text \<open>The success branch: digest, size, rename, cleanup.\<close>

definition finish_download ::
  "crypto_prims \<Rightarrow> download_manager \<Rightarrow> u64 \<Rightarrow> download_request \<Rightarrow> download_tracker \<Rightarrow> download_result
     \<Rightarrow> fs \<Rightarrow> audit_log \<Rightarrow> path result \<times> fs \<times> audit_log" where
  "finish_download cp dm t rq tr res s l =
     (let dst = rq_destination rq; d = rq_digest rq;
          verified = (if fs_exists s (dr_path res) then dr_path res else dst);
          tr1 = tr\<lparr>dt_state := DsDigestVerify\<rparr>
      in case hash_file cp s (pd_algorithm d) verified of
           Inl e \<Rightarrow> (Err e, s, l)
         | Inr actual \<Rightarrow>
             if \<not> digest_matches d actual then
               (let tr2 = tr1\<lparr>dt_state := DsFailed, dt_error := Some ''digest mismatch''\<rparr>;
                    l1 = audit_download t tr2 rq ''download_digest_mismatch'' SevError l;
                    s1 = snd (remove_partial (dm_partial_dir dm) d (snd (fs_remove verified s)))
                in (Err (VerificationFailed (''digest mismatch for '' @ quoted (digest_to_hex d))),
                    s1, l1))
             else if (case rq_expected_size rq of Some e \<Rightarrow> dr_actual_size res \<noteq> e | None \<Rightarrow> False) then
               (let l1 = audit_download t (tr1\<lparr>dt_state := DsFailed\<rparr>) rq ''download_size_mismatch''
                     SevError l
                in (Err (InvalidArgument (''size mismatch: expected ''
                      @ (case rq_expected_size rq of Some e \<Rightarrow> show_u64 e | None \<Rightarrow> [])
                      @ '', got '' @ show_u64 (dr_actual_size res))),
                    snd (fs_remove verified s), l1))
             else (case (if verified \<noteq> dst then fs_rename verified dst s else (Ok (), s)) of
                 (Inl e, s1) \<Rightarrow> (Err (Internal (''atomic rename failed: '' @ e)), s1, l)
               | (Inr _, s1) \<Rightarrow>
                   (Ok dst, snd (remove_partial (dm_partial_dir dm) d s1),
                    audit_download t (tr1\<lparr>dt_state := DsStaged\<rparr>) rq ''download_completed''
                      SevInfo l)))"

text \<open>\<open>max_attempts\<close> is u32 and wraps; the attempt counter stays below it and is a
  natural number here, written to the tracker as u32.\<close>

definition max_attempts :: "download_manager \<Rightarrow> u32" where
  "max_attempts dm = rp_max_retries (dm_policy dm) + 1"

function download_loop ::
  "crypto_prims \<Rightarrow> network \<Rightarrow> download_manager \<Rightarrow> u64 \<Rightarrow> download_request \<Rightarrow> path \<Rightarrow> u64 option
     \<Rightarrow> nat \<Rightarrow> download_tracker \<Rightarrow> fs \<Rightarrow> audit_log \<Rightarrow> path result \<times> fs \<times> audit_log" where
  "download_loop cp net dm t rq part existing attempt tr s l =
     (case perform_download_with_resume cp net (dm_fetch dm) attempt tr part existing s of
        (Inr res, s1) \<Rightarrow> finish_download cp dm t rq tr res s1 l
      | (Inl e, s1) \<Rightarrow>
          (let attempt' = attempt + 1; tr1 = tr\<lparr>dt_retry_count := of_nat attempt'\<rparr> in
           if attempt' < unat (max_attempts dm) \<and> should_retry (dm_policy dm) e then
             (let tr2 = tr1\<lparr>dt_state := DsDownloadRetry, dt_error := Some (show_service_error e)\<rparr>
              in download_loop cp net dm t rq part existing attempt' tr2 s1
                   (audit_download t tr2 rq ''download_retry'' SevWarning l))
           else (Err e, s1,
             audit_download t (tr1\<lparr>dt_state := DsFailed, dt_error := Some (show_service_error e)\<rparr>) rq
               ''download_failed'' SevError l)))"
  by pat_completeness auto
termination
  by (relation "measure (\<lambda>(cp, net, dm, t, rq, part, existing, attempt, tr, s, l).
      unat (max_attempts dm) - attempt)") auto

declare download_loop.simps [simp del]

definition manager_download ::
  "crypto_prims \<Rightarrow> network \<Rightarrow> download_manager \<Rightarrow> u64 \<Rightarrow> u64 \<Rightarrow> download_request \<Rightarrow> fs \<Rightarrow> audit_log
     \<Rightarrow> path result \<times> fs \<times> audit_log" where
  "manager_download cp net dm seqno t rq s l =
     (let tr = tracker_new seqno t (rq_digest rq) (rq_url rq) (rq_destination rq) (rq_expected_size rq);
          l1 = audit_download t tr rq ''download_started'' SevInfo l;
          part = dl_partial_path (dm_partial_dir dm) (rq_digest rq);
          existing = (if fs_exists s part
                      then map_option (\<lambda>f. of_nat (length (f_data f))) (fs_metadata s part)
                      else None);
          tr1 = (case existing of
              Some sz \<Rightarrow> tr\<lparr>dt_state := DsDownloadResumed, dt_bytes_downloaded := sz\<rparr>
            | None \<Rightarrow> tr)
      in case fs_mkdir_all (parent_dir (rq_destination rq)) s of
           Inl e \<Rightarrow> (Err (Internal (''cannot create directory: '' @ e)), s, l1)
         | Inr _ \<Rightarrow> download_loop cp net dm t rq part existing 0 tr1 s l1)"

section \<open>Which files a download touches\<close>

definition touched :: "download_manager \<Rightarrow> download_request \<Rightarrow> path set" where
  "touched dm rq = {rq_destination rq, with_extension (rq_destination rq) ''tmp'',
     dl_partial_path (dm_partial_dir dm) (rq_digest rq)}"

lemma frame_append_body [fs_frame]:
  "part \<in> ps \<Longrightarrow> fs_same_except ps s (snd (append_body mx part tot body s))"
proof (induction mx part tot body s rule: append_body.induct)
  case (3 mx part tot bs body s)
  obtain r s1 where a: "fs_append part bs s = (r, s1)" by (cases "fs_append part bs s") auto
  then have f: "fs_same_except ps s s1" using frame_append [of part ps s bs] 3 by simp
  show ?case
  proof (cases "bs \<noteq> [] \<and> \<not> mx < tot + of_nat (length bs) \<and> is_ok r")
    case True
    then have "fs_same_except ps s1 (snd (append_body mx part (tot + of_nat (length bs)) body s1))"
      using 3 a by (auto simp: is_ok_iff)
    then show ?thesis using True a fs_same_except_trans [OF f] by (auto simp: is_ok_iff Let_def)
  next
    case False
    then show ?thesis using f a by (cases r) (auto simp: Let_def)
  qed
qed auto

lemma append_body_Ok:
  "append_body mx part tot body s = (Ok n, s') \<Longrightarrow> fs_lookup s part = Some f \<Longrightarrow>
   \<exists>f'. fs_lookup s' part = Some f' \<and> f_data f' = f_data f @ body_bytes body"
proof (induction mx part tot body s arbitrary: f rule: append_body.induct)
  case (3 mx part tot bs body s)
  show ?case
  proof (cases "bs = []")
    case True
    then show ?thesis using 3 by auto
  next
    case False
    then obtain s1 where a: "fs_append part bs s = (Ok (), s1)"
      and go: "append_body mx part (tot + of_nat (length bs)) body s1 = (Ok n, s')"
      "\<not> mx < tot + of_nat (length bs)"
      using 3(2) by (auto simp: Let_def split: if_splits prod.splits sum.splits)
    then have "fs_lookup s1 part = Some \<lparr>f_data = f_data f @ bs, f_modified = fs_time s\<rparr>"
      using 3(3) by (auto simp: fs_append_def split: option.splits)
    from "3.IH" [OF False refl go(2) a [symmetric] refl go(1) this] False show ?thesis by auto
  qed
qed auto

lemma frame_download [fs_frame]:
  assumes "dst \<in> ps" "with_extension dst ''tmp'' \<in> ps"
  shows "fs_same_except ps s (snd (download cp http cfg url dst es ed s))"
proof -
  obtain res s' where d: "download cp http cfg url dst es ed s = (res, s')"
    by (cases "download cp http cfg url dst es ed s") auto
  have fr: "fs_same_except ps s s1"
    if "download_to_file http cfg url (with_extension dst ''tmp'') es s = (x, s1)" for x s1
    using frame_download_to_file [OF assms(2), of s http cfg url es] that by simp
  from d have "fs_same_except ps s s'"
  proof (cases rule: download_cases)
    case (renamed s1 r)
    show ?thesis
      using fs_same_except_trans [OF fr [OF renamed(2)] frame_rename [OF assms(2,1)]] renamed(4)
      by simp
  qed (use fr in auto)
  then show ?thesis by (simp add: d)
qed

lemma download_Ok_path:
  assumes "download cp http cfg url dst es ed s = (Ok r, s')"
  shows "(dr_path r = dst \<or> fs_lookup s' (dr_path r) = None) \<and> fs_lookup s' dst \<noteq> None"
  using assms
proof (cases rule: download_cases)
  case (renamed s1 r1)
  have "r = r1" and ren: "fst (fs_rename (with_extension dst ''tmp'') dst s1) = Ok ()"
    using renamed by auto
  then show ?thesis
    using download_to_file_Ok [OF renamed(2)] rename_Ok [OF ren] renamed(4) by auto
qed simp_all

lemma frame_resume_partial [fs_frame]:
  assumes "part \<in> ps" "dst \<in> ps"
  shows "fs_same_except ps s (snd (resume_partial_content cfg r part offset dst s))"
proof -
  obtain x s1 where b: "append_body (dc_max_response_size cfg) part offset (rsp_body r) s = (x, s1)"
    by (cases "append_body (dc_max_response_size cfg) part offset (rsp_body r) s") auto
  then have f: "fs_same_except ps s s1"
    using frame_append_body [OF assms(1), of s "dc_max_response_size cfg" offset "rsp_body r"] by simp
  obtain y s2 where rn: "fs_rename part dst s1 = (y, s2)" by (cases "fs_rename part dst s1") auto
  then have "fs_same_except ps s s2"
    using fs_same_except_trans [OF f frame_rename [OF assms]] by simp
  then show ?thesis
    using f by (cases x; cases y) (auto simp: resume_partial_content_def b rn
        split: option.splits sum.splits)
qed

lemma resume_partial_Ok:
  assumes "resume_partial_content cfg r part offset dst s = (Ok res, s')"
  shows "dr_path res = dst \<and> (\<exists>f f'. fs_lookup s part = Some f \<and> fs_lookup s' dst = Some f' \<and>
    f_data f' = f_data f @ body_bytes (rsp_body r))"
proof -
  obtain s1 n where b: "append_body (dc_max_response_size cfg) part offset (rsp_body r) s = (Ok n, s1)"
    and rn: "fs_rename part dst s1 = (Ok (), s')" and p: "dr_path res = dst"
    and o: "fs_open_existing s part = None"
    using assms
    by (auto simp: resume_partial_content_def split: option.splits sum.splits prod.splits)
  obtain f where f: "fs_lookup s part = Some f"
    using o by (auto simp: fs_open_existing_def fs_exists_def split: option.splits if_splits)
  from append_body_Ok [OF b f] show ?thesis using rename_Ok [of part dst s1] rn p f by auto
qed

lemma frame_resume [fs_frame]:
  assumes "part \<in> ps" "dst \<in> ps" "with_extension dst ''tmp'' \<in> ps"
  shows "fs_same_except ps s (snd (resume_download cp net cfg n url part offset dst s))"
  using fs_same_except_trans [OF frame_remove [OF assms(1)] frame_download [OF assms(2,3)]]
    frame_resume_partial [OF assms(1,2)]
  by (auto simp: resume_download_def split: range_outcome.splits)

lemma resume_Ok_path:
  "resume_download cp net cfg n url part offset dst s = (Ok r, s') \<Longrightarrow>
   (dr_path r = dst \<or> fs_lookup s' (dr_path r) = None) \<and> fs_lookup s' dst \<noteq> None"
  using download_Ok_path resume_partial_Ok
  by (fastforce simp: resume_download_def split: range_outcome.splits if_splits)

lemma perform_cases:
  "perform_download_with_resume cp net cfg n tr part ro s =
     (if \<exists>off. ro = Some off \<and> 0 < off
      then resume_download cp net cfg n (dt_url tr) part (the ro) (dt_destination tr) s
      else download cp (nw_get net n) cfg (dt_url tr) (dt_destination tr) (dt_expected_size tr) None s)"
  by (auto simp: perform_download_with_resume_def split: option.splits)

lemma frame_perform [fs_frame]:
  assumes "part \<in> ps" "dt_destination tr \<in> ps" "with_extension (dt_destination tr) ''tmp'' \<in> ps"
  shows "fs_same_except ps s (snd (perform_download_with_resume cp net cfg n tr part ro s))"
  using frame_resume [OF assms] frame_download [OF assms(2,3)] by (simp add: perform_cases)

lemma perform_Ok_path:
  "perform_download_with_resume cp net cfg n tr part ro s = (Ok r, s') \<Longrightarrow>
   (dr_path r = dt_destination tr \<or> fs_lookup s' (dr_path r) = None) \<and>
   fs_lookup s' (dt_destination tr) \<noteq> None"
  unfolding perform_cases by (metis download_Ok_path resume_Ok_path)

lemma frame_remove_partial [fs_frame]:
  "dl_partial_path dir d \<in> ps \<Longrightarrow> fs_same_except ps s (snd (remove_partial dir d s))"
  using frame_remove [of "dl_partial_path dir d" ps s]
  by (auto simp: remove_partial_def Let_def split: sum.splits prod.splits)

text \<open>An attempt itself checks no digest.\<close>

lemma stream_body_error:
  "stream_body mx tmp tot body s = (Err e, s') \<Longrightarrow> \<not> (\<exists>m. e = VerificationFailed m)"
  by (induction mx tmp tot body s rule: stream_body.induct)
    (auto simp: Let_def split: if_splits prod.splits sum.splits)

lemma append_body_error:
  "append_body mx tmp tot body s = (Err e, s') \<Longrightarrow> \<not> (\<exists>m. e = VerificationFailed m)"
  by (induction mx tmp tot body s rule: append_body.induct)
    (auto simp: Let_def split: if_splits prod.splits sum.splits)

lemma content_range_error:
  "validate_content_range h off = Err e \<Longrightarrow> \<exists>m. e = DownloadFailed m"
  by (auto simp: validate_content_range_def parse_range_u64_def Let_def and_then_def
      split: if_splits list.splits sum.splits)

lemma download_to_file_error:
  "download_to_file http cfg url tmp es s = (Err e, s') \<Longrightarrow> \<not> (\<exists>m. e = VerificationFailed m)"
  by (auto simp: download_to_file_def check_content_length_def and_then_def
      split: http_outcome.splits if_splits sum.splits prod.splits option.splits
      dest: stream_body_error)

lemma download_error:
  "download cp http cfg url dst es None s = (Err e, s') \<Longrightarrow> \<not> (\<exists>m. e = VerificationFailed m)"
  by (auto simp: download_def validate_download_url_def Let_def
      split: if_splits sum.splits prod.splits dest: download_to_file_error)

lemma perform_no_verification_failure:
  "perform_download_with_resume cp net cfg n tr part ro s \<noteq> (Err (VerificationFailed m), s1)"
  unfolding perform_cases
  by (auto simp: resume_download_def resume_partial_content_def range_status_error_def
      split: range_outcome.splits option.splits sum.splits prod.splits if_splits
      dest: download_error append_body_error content_range_error)

section \<open>The end of a download\<close>

text \<open>The attempt leaves its file at the destination, so that is the file checked.\<close>

lemma finish_verified_path:
  "dr_path res = dst \<or> fs_lookup s (dr_path res) = None \<Longrightarrow>
   (if fs_exists s (dr_path res) then dr_path res else dst) = dst"
  by (auto simp: fs_exists_def)

lemma finish_download_at_dst:
  assumes "dr_path res = rq_destination rq \<or> fs_lookup s (dr_path res) = None"
  shows "finish_download cp dm t rq tr res s l =
    (let dst = rq_destination rq; d = rq_digest rq; tr1 = tr\<lparr>dt_state := DsDigestVerify\<rparr>
     in case hash_file cp s (pd_algorithm d) dst of
          Inl e \<Rightarrow> (Err e, s, l)
        | Inr actual \<Rightarrow>
            if actual \<noteq> pd_value d then
              (Err (VerificationFailed (''digest mismatch for '' @ quoted (digest_to_hex d))),
               snd (remove_partial (dm_partial_dir dm) d (snd (fs_remove dst s))),
               audit_download t (tr1\<lparr>dt_state := DsFailed, dt_error := Some ''digest mismatch''\<rparr>) rq
                 ''download_digest_mismatch'' SevError l)
            else if (case rq_expected_size rq of Some e \<Rightarrow> dr_actual_size res \<noteq> e | None \<Rightarrow> False) then
              (Err (InvalidArgument (''size mismatch: expected ''
                 @ (case rq_expected_size rq of Some e \<Rightarrow> show_u64 e | None \<Rightarrow> [])
                 @ '', got '' @ show_u64 (dr_actual_size res))),
               snd (fs_remove dst s),
               audit_download t (tr1\<lparr>dt_state := DsFailed\<rparr>) rq ''download_size_mismatch'' SevError l)
            else
              (Ok dst, snd (remove_partial (dm_partial_dir dm) d s),
               audit_download t (tr1\<lparr>dt_state := DsStaged\<rparr>) rq ''download_completed'' SevInfo l))"
  unfolding finish_download_def Let_def finish_verified_path [OF assms] digest_matches_iff
  by (auto split: sum.splits)

lemma finish_Ok:
  assumes "finish_download cp dm t rq tr res s l = (Ok p, s', l')"
    and "dr_path res = rq_destination rq \<or> fs_lookup s (dr_path res) = None"
    and "dl_partial_path (dm_partial_dir dm) (rq_digest rq) \<noteq> rq_destination rq"
  shows "p = rq_destination rq \<and>
    (\<exists>f. fs_lookup s' p = Some f \<and> has_digest cp (rq_digest rq) (f_data f))"
proof -
  have h: "hash_file cp s (pd_algorithm (rq_digest rq)) (rq_destination rq) =
      Ok (pd_value (rq_digest rq))"
    and s': "s' = snd (remove_partial (dm_partial_dir dm) (rq_digest rq) s)" "p = rq_destination rq"
    using assms(1) unfolding finish_download_at_dst [OF assms(2)] Let_def
    by (auto split: sum.splits if_splits)
  have "fs_lookup s' p = fs_lookup s p"
    using frame_remove_partial [of "dm_partial_dir dm" "rq_digest rq"
        "{dl_partial_path (dm_partial_dir dm) (rq_digest rq)}" s] s' assms(3)
    by (simp add: fs_same_except_def)
  then show ?thesis using h s' by (auto simp: hash_file_Ok_iff has_digest_def)
qed

lemma finish_mismatch:
  assumes "finish_download cp dm t rq tr res s l = (Err (VerificationFailed m), s', l')"
    and "dr_path res = rq_destination rq \<or> fs_lookup s (dr_path res) = None"
    and "fs_deny s IoRemove (rq_destination rq) = None"
  shows "fs_lookup s' (rq_destination rq) = None"
proof -
  let ?s1 = "snd (fs_remove (rq_destination rq) s)"
  have s': "s' = snd (remove_partial (dm_partial_dir dm) (rq_digest rq) ?s1)"
    using assms(1) unfolding finish_download_at_dst [OF assms(2)] Let_def
    by (auto simp: hash_file_def hasher_new_def and_then_def split: sum.splits if_splits option.splits)
  have "fs_lookup ?s1 (rq_destination rq) = None" using remove_gone [OF assms(3)] .
  then have "fs_lookup (snd (fs_remove q ?s1)) (rq_destination rq) = None" for q
    by (simp add: remove_lookup)
  then show ?thesis
    using \<open>fs_lookup ?s1 (rq_destination rq) = None\<close> unfolding s'
    by (auto simp: remove_partial_def Let_def split: sum.splits prod.splits) (metis snd_conv)+
qed

lemma frame_finish:
  assumes "dr_path res = rq_destination rq \<or> fs_lookup s (dr_path res) = None"
  shows "fs_same_except (touched dm rq) s (fst (snd (finish_download cp dm t rq tr res s l)))"
proof -
  have dst: "rq_destination rq \<in> touched dm rq"
    and part: "dl_partial_path (dm_partial_dir dm) (rq_digest rq) \<in> touched dm rq"
    by (simp_all add: touched_def)
  show ?thesis
    unfolding finish_download_at_dst [OF assms] Let_def
    using frame_remove [OF dst, of s] frame_remove_partial [OF part]
      fs_same_except_trans [OF frame_remove [OF dst] frame_remove_partial [OF part], of s]
    by (auto split: sum.splits)
qed

section \<open>The loop\<close>

lemma loop_step:
  assumes "perform_download_with_resume cp net (dm_fetch dm) attempt tr part existing s = (r, s1)"
  shows "download_loop cp net dm t rq part existing attempt tr s l =
    (case r of
       Inr res \<Rightarrow> finish_download cp dm t rq tr res s1 l
     | Inl e \<Rightarrow>
         if Suc attempt < unat (max_attempts dm) \<and> should_retry (dm_policy dm) e then
           (let tr2 = tr\<lparr>dt_retry_count := of_nat (Suc attempt), dt_state := DsDownloadRetry,
                         dt_error := Some (show_service_error e)\<rparr>
            in download_loop cp net dm t rq part existing (Suc attempt) tr2 s1
                 (audit_download t tr2 rq ''download_retry'' SevWarning l))
         else (Err e, s1,
           audit_download t (tr\<lparr>dt_retry_count := of_nat (Suc attempt), dt_state := DsFailed,
             dt_error := Some (show_service_error e)\<rparr>) rq ''download_failed'' SevError l))"
  using assms by (subst download_loop.simps) (simp add: Let_def split: sum.splits)

text \<open>Whatever the loop does ends in a last attempt: a finished one or a refused retry.\<close>

lemma loop_ends:
  assumes "dt_destination tr = rq_destination rq"
    and "part = dl_partial_path (dm_partial_dir dm) (rq_digest rq)"
    and "download_loop cp net dm t rq part existing attempt tr s l = (r, s', l')"
  shows "(\<exists>tr' res s1 l1. finish_download cp dm t rq tr' res s1 l1 = (r, s', l') \<and>
       fs_same_except (touched dm rq) s s1 \<and>
       (dr_path res = rq_destination rq \<or> fs_lookup s1 (dr_path res) = None)) \<or>
     (\<exists>e. r = Err e \<and> fs_same_except (touched dm rq) s s' \<and>
       (\<exists>n s0 tr0 s1. perform_download_with_resume cp net (dm_fetch dm) n tr0 part existing s0 = (Err e, s1)))"
  using assms
proof (induction "unat (max_attempts dm) - attempt" arbitrary: attempt tr s l rule: less_induct)
  case less
  obtain x s1 where x: "perform_download_with_resume cp net (dm_fetch dm) attempt tr part existing s = (x, s1)"
    by (cases "perform_download_with_resume cp net (dm_fetch dm) attempt tr part existing s") auto
  have f: "fs_same_except (touched dm rq) s s1"
    using frame_perform [of part "touched dm rq" tr s cp net "dm_fetch dm" attempt existing] x less.prems
    by (simp add: touched_def)
  show ?case
  proof (cases x)
    case (Inr res)
    then show ?thesis
      using loop_step [OF x] f less.prems perform_Ok_path [of cp net "dm_fetch dm" attempt tr part existing s]
        x by auto
  next
    case (Inl e)
    show ?thesis
    proof (cases "Suc attempt < unat (max_attempts dm) \<and> should_retry (dm_policy dm) e")
      case True
      let ?tr2 = "tr\<lparr>dt_retry_count := of_nat (Suc attempt), dt_state := DsDownloadRetry,
          dt_error := Some (show_service_error e)\<rparr>"
      have go: "download_loop cp net dm t rq part existing (Suc attempt) ?tr2 s1
          (audit_download t ?tr2 rq ''download_retry'' SevWarning l) = (r, s', l')"
        using less.prems(3) loop_step [OF x] Inl True by (simp add: Let_def)
      have "unat (max_attempts dm) - Suc attempt < unat (max_attempts dm) - attempt"
        using conjunct1 [OF True] by (intro diff_less_mono2) linarith+
      from less.hyps [OF this _ less.prems(2) go] less.prems(1) show ?thesis
        using fs_same_except_trans [OF f] by auto
    next
      case False
      then have "r = Err e" "s' = s1" using less.prems(3) loop_step [OF x] Inl by auto
      then show ?thesis using f x Inl by blast
    qed
  qed
qed

lemma audit_download_record:
  "\<exists>e. audit_download t tr rq a sev l = l @ [e] \<and> ev_action e = a"
  by (simp add: audit_download_def record_event_def)

lemma manager_download_loop:
  assumes "manager_download cp net dm seqno t rq s l = (r, s', l')"
  obtains (refused) ev m where "ev_action ev = ''download_started''" "r = Err (Internal m)"
      "s' = s" "l' = l @ [ev]"
  | (looped) ev existing tr where "ev_action ev = ''download_started''"
      "dt_destination tr = rq_destination rq"
      "download_loop cp net dm t rq (dl_partial_path (dm_partial_dir dm) (rq_digest rq)) existing 0
         tr s (l @ [ev]) = (r, s', l')"
proof -
  let ?tr = "tracker_new seqno t (rq_digest rq) (rq_url rq) (rq_destination rq) (rq_expected_size rq)"
  obtain ev where ev: "audit_download t ?tr rq ''download_started'' SevInfo l = l @ [ev]"
    "ev_action ev = ''download_started''" using audit_download_record by blast
  show ?thesis
  proof (cases "fs_mkdir_all (parent_dir (rq_destination rq)) s")
    case (Inl e)
    then have "r = Err (Internal (''cannot create directory: '' @ e))" "s' = s" "l' = l @ [ev]"
      using assms unfolding manager_download_def Let_def ev(1) by simp_all
    then show ?thesis by (rule refused [OF ev(2)])
  next
    case (Inr u)
    have dst: "dt_destination (case e of Some sz \<Rightarrow>
        ?tr\<lparr>dt_state := DsDownloadResumed, dt_bytes_downloaded := sz\<rparr> | None \<Rightarrow> ?tr) =
        rq_destination rq" for e
      by (cases e) (simp_all add: tracker_new_def)
    show ?thesis
      using assms Inr looped [OF ev(2) dst] unfolding manager_download_def Let_def ev(1) by simp
  qed
qed

text \<open>C12: Whatever the network answers on each attempt, and whatever an earlier partial file
  contains, a download that succeeds returns the requested destination, and the file there
  has the expected digest; resuming and retrying do not bypass the check. Only the
  destination, its temporary file and the partial file of the digest are touched.\<close>

theorem manager_download_verified:
  assumes "manager_download cp net dm seqno t rq s l = (Ok p, s', l')"
    and "dl_partial_path (dm_partial_dir dm) (rq_digest rq) \<noteq> rq_destination rq"
  shows "p = rq_destination rq \<and>
    (\<exists>f. fs_lookup s' p = Some f \<and> has_digest cp (rq_digest rq) (f_data f)) \<and>
    fs_same_except (touched dm rq) s s'"
proof -
  obtain existing tr l1 where "dt_destination tr = rq_destination rq"
    "download_loop cp net dm t rq (dl_partial_path (dm_partial_dir dm) (rq_digest rq)) existing 0 tr s l1
         = (Ok p, s', l')"
    by (rule manager_download_loop [OF assms(1)]) auto
  from loop_ends [OF this(1) refl this(2)] obtain tr' res s1 l2
    where fin: "finish_download cp dm t rq tr' res s1 l2 = (Ok p, s', l')"
      and fr: "fs_same_except (touched dm rq) s s1"
      and path: "dr_path res = rq_destination rq \<or> fs_lookup s1 (dr_path res) = None"
    by auto
  have "fs_same_except (touched dm rq) s1 s'"
    using frame_finish [OF path, of dm cp t tr' l2] fin by simp
  then show ?thesis
    using finish_Ok [OF fin path assms(2)] fs_same_except_trans [OF fr] by blast
qed

text \<open>A download whose content does not have the expected digest is refused, and the
  refused file does not stay at the destination when it can be removed.\<close>

theorem manager_download_mismatch_removed:
  assumes "manager_download cp net dm seqno t rq s l = (Err (VerificationFailed m), s', l')"
    and "fs_deny s IoRemove (rq_destination rq) = None"
  shows "fs_lookup s' (rq_destination rq) = None"
proof -
  obtain existing tr l1 where "dt_destination tr = rq_destination rq"
    "download_loop cp net dm t rq (dl_partial_path (dm_partial_dir dm) (rq_digest rq)) existing 0 tr s l1
         = (Err (VerificationFailed m), s', l')"
    by (rule manager_download_loop [OF assms(1)]) auto
  note ends = loop_ends [OF this(1) refl this(2)]
  have no: "perform_download_with_resume cp net cfg n tr0 part ex s0 \<noteq> (Err (VerificationFailed m), s1)"
    for cfg n tr0 part ex s0 s1
    by (rule perform_no_verification_failure)
  from ends no obtain tr' res s1 l2
    where fin: "finish_download cp dm t rq tr' res s1 l2 = (Err (VerificationFailed m), s', l')"
      and fr: "fs_same_except (touched dm rq) s s1"
      and path: "dr_path res = rq_destination rq \<or> fs_lookup s1 (dr_path res) = None"
    by auto
  have "fs_deny s1 IoRemove (rq_destination rq) = None"
    using fr assms(2) by (simp add: fs_same_except_def)
  from finish_mismatch [OF fin path this] show ?thesis .
qed

section \<open>Bounded retries\<close>

lemma finish_log:
  "finish_download cp dm t rq tr res s l = (r, s', l') \<Longrightarrow> \<exists>evs. l' = l @ evs"
  by (auto simp: finish_download_def audit_download_def record_event_def Let_def
      split: sum.splits if_splits prod.splits)

text \<open>One attempt of a request, as its fields determine it, and a run of failed attempts: the
  errors, and the files from one attempt to the next.\<close>

definition request_attempt ::
  "crypto_prims \<Rightarrow> network \<Rightarrow> download_manager \<Rightarrow> download_request \<Rightarrow> u64 option \<Rightarrow> nat \<Rightarrow> fs
     \<Rightarrow> download_result result \<times> fs" where
  "request_attempt cp net dm rq existing n s =
     (case existing of
        Some offset \<Rightarrow>
          if 0 < offset then
            resume_download cp net (dm_fetch dm) n (rq_url rq)
              (dl_partial_path (dm_partial_dir dm) (rq_digest rq)) offset (rq_destination rq) s
          else download cp (nw_get net n) (dm_fetch dm) (rq_url rq) (rq_destination rq)
                 (rq_expected_size rq) None s
      | None \<Rightarrow> download cp (nw_get net n) (dm_fetch dm) (rq_url rq) (rq_destination rq)
                 (rq_expected_size rq) None s)"

fun failed_run :: "(nat \<Rightarrow> fs \<Rightarrow> 'a result \<times> fs) \<Rightarrow> nat \<Rightarrow> service_error list \<Rightarrow> fs \<Rightarrow> fs \<Rightarrow> bool" where
  "failed_run att n [] s s' = (s' = s)"
| "failed_run att n (e # es) s s' =
     (fst (att n s) = Err e \<and> failed_run att (Suc n) es (snd (att n s)) s')"

definition of_request :: "download_request \<Rightarrow> download_tracker \<Rightarrow> bool" where
  "of_request rq tr = (dt_url tr = rq_url rq \<and> dt_destination tr = rq_destination rq
     \<and> dt_expected_size tr = rq_expected_size rq)"

lemma perform_request:
  "of_request rq tr \<Longrightarrow>
   perform_download_with_resume cp net (dm_fetch dm) n tr
     (dl_partial_path (dm_partial_dir dm) (rq_digest rq)) existing s
   = request_attempt cp net dm rq existing n s"
  by (simp add: perform_download_with_resume_def request_attempt_def of_request_def split: option.split)

text \<open>What the last attempt leaves in the trail, and when there is no further one.\<close>

definition last_attempt ::
  "download_manager \<Rightarrow> nat \<Rightarrow> download_result result \<Rightarrow> path result \<Rightarrow> string list \<Rightarrow> bool" where
  "last_attempt dm n x r acts =
     (case x of
        Inl e \<Rightarrow> r = Err e \<and> acts = [''download_failed'']
          \<and> \<not> (Suc n < unat (max_attempts dm) \<and> should_retry (dm_policy dm) e)
      | Inr res \<Rightarrow>
          (case r of
             Inr p \<Rightarrow> acts = [''download_completed'']
           | Inl e \<Rightarrow> acts = [''download_digest_mismatch''] \<and> (\<exists>m. e = VerificationFailed m)
               \<or> acts = [''download_size_mismatch''] \<and> (\<exists>m. e = InvalidArgument m)
               \<or> acts = []))"

lemma audit_download_actions:
  "map ev_action (audit_download t tr rq a sev l) = map ev_action l @ [a]"
  by (simp add: audit_download_def record_event_def)

lemma finish_cases:
  assumes "finish_download cp dm t rq tr res s l = (r, s', l')"
  shows "(\<exists>e. Err e = r \<and> l = l') \<or>
    (\<exists>m tr'. Err (VerificationFailed m) = r \<and>
       audit_download t tr' rq ''download_digest_mismatch'' SevError l = l') \<or>
    (\<exists>m tr'. Err (InvalidArgument m) = r \<and>
       audit_download t tr' rq ''download_size_mismatch'' SevError l = l') \<or>
    (\<exists>p tr'. Ok p = r \<and> audit_download t tr' rq ''download_completed'' SevInfo l = l')"
proof -
  let ?dst = "rq_destination rq"
  let ?v = "if fs_exists s (dr_path res) then dr_path res else ?dst"
  let ?move = "if ?v \<noteq> ?dst then fs_rename ?v ?dst s else (Ok (), s)"
  let ?off = "case rq_expected_size rq of Some e \<Rightarrow> dr_actual_size res \<noteq> e | None \<Rightarrow> False"
  note d = assms [unfolded finish_download_def Let_def]
  show ?thesis
  proof (cases "hash_file cp s (pd_algorithm (rq_digest rq)) ?v")
    case (Inl e)
    then show ?thesis using d by (simp only: sum.case prod.inject) blast
  next
    case (Inr h)
    consider "\<not> digest_matches (rq_digest rq) h" | "digest_matches (rq_digest rq) h" ?off
      | "digest_matches (rq_digest rq) h" "\<not> ?off" by blast
    then show ?thesis
    proof cases
      case 1
      show ?thesis
        using d Inr 1 by (simp only: sum.case if_True not_False_eq_True prod.inject) blast
    next
      case 2
      show ?thesis
        using d Inr 2 by (simp only: sum.case if_True if_False not_True_eq_False prod.inject) blast
    next
      case 3
      obtain x s1 where mv: "?move = (x, s1)" by (cases ?move)
      show ?thesis
        using d Inr 3 mv
        by (cases x) (simp_all only: sum.case prod.case if_False not_True_eq_False prod.inject, blast+)
    qed
  qed
qed

lemma finish_actions:
  assumes "finish_download cp dm t rq tr res s l = (r, s', l')"
  shows "\<exists>acts. map ev_action l' = map ev_action l @ acts \<and> last_attempt dm n (Inr res) r acts"
  using finish_cases [OF assms]
proof (elim disjE exE conjE)
  fix e assume "Err e = r" "l = l'"
  then show ?thesis by (intro exI [of _ "[]"]) (auto simp: last_attempt_def)
next
  fix m tr' assume "Err (VerificationFailed m) = r"
    "audit_download t tr' rq ''download_digest_mismatch'' SevError l = l'"
  then show ?thesis
    using audit_download_actions [of t tr' rq "''download_digest_mismatch''" SevError l]
    by (intro exI [of _ "[''download_digest_mismatch'']"]) (auto simp: last_attempt_def)
next
  fix m tr' assume "Err (InvalidArgument m) = r"
    "audit_download t tr' rq ''download_size_mismatch'' SevError l = l'"
  then show ?thesis
    using audit_download_actions [of t tr' rq "''download_size_mismatch''" SevError l]
    by (intro exI [of _ "[''download_size_mismatch'']"]) (auto simp: last_attempt_def)
next
  fix p tr' assume "Ok p = r" "audit_download t tr' rq ''download_completed'' SevInfo l = l'"
  then show ?thesis
    using audit_download_actions [of t tr' rq "''download_completed''" SevInfo l]
    by (intro exI [of _ "[''download_completed'']"]) (auto simp: last_attempt_def)
qed

lemma loop_actions:
  assumes "download_loop cp net dm t rq (dl_partial_path (dm_partial_dir dm) (rq_digest rq)) existing
      n tr s l = (r, s', l')" and "of_request rq tr"
  shows "\<exists>errs s1 acts. failed_run (request_attempt cp net dm rq existing) n errs s s1
    \<and> list_all (should_retry (dm_policy dm)) errs
    \<and> (errs = [] \<or> n + length errs < unat (max_attempts dm))
    \<and> map ev_action l' = map ev_action l @ replicate (length errs) ''download_retry'' @ acts
    \<and> last_attempt dm (n + length errs) (fst (request_attempt cp net dm rq existing (n + length errs) s1))
        r acts"
  using assms
proof (induction "unat (max_attempts dm) - n" arbitrary: n tr s l rule: less_induct)
  case less
  let ?part = "dl_partial_path (dm_partial_dir dm) (rq_digest rq)"
  obtain x s1 where x: "perform_download_with_resume cp net (dm_fetch dm) n tr ?part existing s = (x, s1)"
    by (cases "perform_download_with_resume cp net (dm_fetch dm) n tr ?part existing s") auto
  have att: "request_attempt cp net dm rq existing n s = (x, s1)"
    using x perform_request [OF less.prems(2)] by simp
  show ?case
  proof (cases x)
    case (Inr res)
    then have "finish_download cp dm t rq tr res s1 l = (r, s', l')"
      using loop_step [OF x] less.prems by simp
    from finish_actions [OF this, of n] obtain acts where
      "map ev_action l' = map ev_action l @ acts" "last_attempt dm n (Inr res) r acts" by blast
    then show ?thesis
      using att Inr by (intro exI [of _ "[]"] exI [of _ s] exI [of _ acts]) simp
  next
    case (Inl e)
    show ?thesis
    proof (cases "Suc n < unat (max_attempts dm) \<and> should_retry (dm_policy dm) e")
      case True
      let ?tr2 = "tr\<lparr>dt_retry_count := of_nat (Suc n), dt_state := DsDownloadRetry,
          dt_error := Some (show_service_error e)\<rparr>"
      have go: "download_loop cp net dm t rq ?part existing (Suc n) ?tr2 s1
          (audit_download t ?tr2 rq ''download_retry'' SevWarning l) = (r, s', l')"
        using less.prems loop_step [OF x] Inl True by (simp add: Let_def)
      have "unat (max_attempts dm) - Suc n < unat (max_attempts dm) - n"
        using conjunct1 [OF True] by (intro diff_less_mono2) linarith+
      from less.hyps [OF this go] less.prems(2) obtain errs s2 acts where
        r: "failed_run (request_attempt cp net dm rq existing) (Suc n) errs s1 s2"
        "list_all (should_retry (dm_policy dm)) errs"
        "errs = [] \<or> Suc n + length errs < unat (max_attempts dm)"
        "map ev_action l' = (map ev_action l @ [''download_retry''])
           @ replicate (length errs) ''download_retry'' @ acts"
        "last_attempt dm (Suc n + length errs)
           (fst (request_attempt cp net dm rq existing (Suc n + length errs) s2)) r acts"
        unfolding audit_download_actions of_request_def by auto
      have "failed_run (request_attempt cp net dm rq existing) n (e # errs) s s2"
        using r(1) att Inl by simp
      then show ?thesis
        using r(2-5) True by (intro exI [of _ "e # errs"] exI [of _ s2] exI [of _ acts]) auto
    next
      case False
      then have "r = Err e" "map ev_action l' = map ev_action l @ [''download_failed'']"
        using less.prems loop_step [OF x] Inl by (auto simp: audit_download_actions)
      then show ?thesis
        using att Inl False
        by (intro exI [of _ "[]"] exI [of _ s] exI [of _ "[''download_failed'']"])
          (simp add: last_attempt_def)
    qed
  qed
qed

lemma loop_log:
  assumes "download_loop cp net dm t rq part existing attempt tr s l = (r, s', l')"
  shows "\<exists>evs. l' = l @ evs"
  using assms
proof (induction "unat (max_attempts dm) - attempt" arbitrary: attempt tr s l rule: less_induct)
  case less
  obtain x s1 where x: "perform_download_with_resume cp net (dm_fetch dm) attempt tr part existing s = (x, s1)"
    by (cases "perform_download_with_resume cp net (dm_fetch dm) attempt tr part existing s") auto
  have rec: "\<exists>e. audit_download t tr' rq a sev l = l @ [e]" for tr' a sev
    using audit_download_record by blast
  show ?case
  proof (cases x)
    case (Inr res)
    then show ?thesis using loop_step [OF x] less.prems finish_log by fastforce
  next
    case (Inl e)
    show ?thesis
    proof (cases "Suc attempt < unat (max_attempts dm) \<and> should_retry (dm_policy dm) e")
      case True
      let ?tr2 = "tr\<lparr>dt_retry_count := of_nat (Suc attempt), dt_state := DsDownloadRetry,
          dt_error := Some (show_service_error e)\<rparr>"
      have go: "download_loop cp net dm t rq part existing (Suc attempt) ?tr2 s1
          (audit_download t ?tr2 rq ''download_retry'' SevWarning l) = (r, s', l')"
        using less.prems loop_step [OF x] Inl True by (simp add: Let_def)
      have "unat (max_attempts dm) - Suc attempt < unat (max_attempts dm) - attempt"
        using conjunct1 [OF True] by (intro diff_less_mono2) linarith+
      from less.hyps [OF this go] obtain evs where
        "l' = audit_download t ?tr2 rq ''download_retry'' SevWarning l @ evs" by blast
      moreover obtain e2 where "audit_download t ?tr2 rq ''download_retry'' SevWarning l = l @ [e2]"
        using rec by blast
      ultimately show ?thesis by (metis append_assoc)
    next
      case False
      then obtain tr2 where "l' = audit_download t tr2 rq ''download_failed'' SevError l"
        using less.prems loop_step [OF x] Inl by auto
      then show ?thesis using audit_download_record by blast
    qed
  qed
qed

lemma max_attempts_bound: "unat (max_attempts dm) - 1 \<le> unat (rp_max_retries (dm_policy dm))"
  using unat_word_ariths(1) [of "rp_max_retries (dm_policy dm)" 1] by (simp add: max_attempts_def)


section \<open>Content-Range\<close>

lemma show_u64_no [simp]: "CHR ''/'' \<notin> set (show_u64 w)" "CHR '' '' \<notin> set (show_u64 w)"
  by (auto dest!: show_u64_chars simp: is_ascii_digit_def byte_of_def)

lemma two_parts:
  "((case xs of [a, b] \<Rightarrow> f a b | _ \<Rightarrow> Inl e) = Inr y) = (\<exists>a b. xs = [a, b] \<and> f a b = Inr y)"
  by (auto split: list.splits)

text \<open>The Content-Range validation accepts a header only when its start is the offset that
  was asked for and its end is not before the start, and it accepts every header of that
  kind a server can print, with the printed numbers.\<close>

theorem content_range_spec:
  "(\<forall>a b tot. validate_content_range h off = Ok (a, b, tot) \<longrightarrow> a = off \<and> a \<le> b) \<and>
   (x \<le> y \<longrightarrow> validate_content_range
      (''bytes '' @ show_u64 x @ ''-'' @ show_u64 y @ ''/'' @ show_u64 z) x = Ok (x, y, z))"
proof -
  have "a = off \<and> a \<le> b" if "validate_content_range h off = Ok (a, b, tot)" for a b tot
    using that
    unfolding validate_content_range_def Let_def if_Err_Ok_iff two_parts and_then_Ok_iff by auto
  moreover have "validate_content_range
      (''bytes '' @ show_u64 x @ ''-'' @ show_u64 y @ ''/'' @ show_u64 z) x = Ok (x, y, z)"
    if "x \<le> y"
  proof -
    let ?h = "''bytes '' @ show_u64 x @ ''-'' @ show_u64 y @ ''/'' @ show_u64 z"
    have "\<not> is_ws (last (show_u64 z))"
      using show_u64_chars [of "last (show_u64 z)" z] digit_not_sep by auto
    then have t: "trim ?h = ?h" by (intro trim_id) (simp add: is_ws_def)
    have star: "\<not> starts_with (show_u64 x @ r) ''*/''" for r
      using show_u64_chars [of "hd (show_u64 x)" x]
      by (cases "show_u64 x") (auto simp: is_ascii_digit_def byte_of_def)
    have sl: "split_on CHR ''/'' ((show_u64 x @ ''-'' @ show_u64 y) @ CHR ''/'' # show_u64 z) =
        [show_u64 x @ ''-'' @ show_u64 y, show_u64 z]"
      by (subst split_on_append) (simp_all add: split_on_none)
    have da: "split_on CHR ''-'' (show_u64 x @ CHR ''-'' # show_u64 y) = [show_u64 x, show_u64 y]"
      by (subst split_on_append) (simp_all add: split_on_none)
    have "drop 6 ?h = show_u64 x @ ''-'' @ show_u64 y @ ''/'' @ show_u64 z" by simp
    then show ?thesis
      using sl da star that unfolding validate_content_range_def t Let_def
      by (simp add: parse_range_u64_def)
  qed
  ultimately show ?thesis by blast
qed

lemma content_range_spec_witness:
  "validate_content_range (''bytes '' @ show_u64 100 @ ''-'' @ show_u64 199 @ ''/'' @ show_u64 200) 100
     = Ok (100, 199, 200)"
  using content_range_spec [of "[]" 0 100 199 200] by simp

section \<open>What is retried\<close>

text \<open>
  A Range request answered with 404 is reported as permanent and still retried: the
  policy looks at the variant of the error only.
\<close>

lemma permanent_status_retried:
  "should_retry p (range_status_error 404 off) \<longleftrightarrow> rp_max_retries p \<noteq> 0"
  by (simp add: should_retry_def range_status_error_def)

section \<open>A concrete download\<close>

definition sample_manager :: download_manager where
  "sample_manager = \<lparr>dm_fetch = download_config_default, dm_policy = retry_strict,
     dm_partial_dir = ''/p''\<rparr>"

definition sample_request :: "u64 option \<Rightarrow> download_request" where
  "sample_request es = \<lparr>rq_url = ''https://h/p'', rq_destination = ''/c/pkg'',
     rq_digest = sample_digest, rq_expected_size = es, rq_source_id = ''mission'',
     rq_subject = '':1.7''\<rparr>"

text \<open>The first attempt fails in transport, the second delivers the body.\<close>

definition sample_net :: "bytes \<Rightarrow> network" where
  "sample_net body = \<lparr>nw_get = (\<lambda>n. if n = 0 then (\<lambda>_ _. HttpTransport ''reset'') else sample_http body),
     nw_range = (\<lambda>_ _ _. RgStatus 404)\<rparr>"

lemma sample_partial_ne: "dl_partial_path dir d \<noteq> ''/c/pkg''"
proof
  assume "dl_partial_path dir d = ''/c/pkg''"
  moreover have "path_extension (dl_partial_path dir d) = Some ''part''"
  proof -
    have "CHR ''/'' \<notin> set (''dl-'' @ digest_to_hex d @ ''.part'')"
      by (auto simp: digest_to_hex_def is_ascii_hexdigit_def is_ascii_digit_def byte_of_def
          dest!: hex_encode_chars)
    then have "file_name (dl_partial_path dir d) = ''dl-'' @ digest_to_hex d @ ''.part''"
      unfolding dl_partial_path_def by (rule file_name_join)
    then show ?thesis
      by (simp add: path_extension_def stem_extension_def rsplit_once_def)
  qed
  ultimately show False by (simp add: path_extension_def file_name_def stem_extension_def rsplit_once_def)
qed

lemma sample_attempt_1:
  "dt_url tr = ''https://h/p'' \<Longrightarrow> perform_download_with_resume sample_prims (sample_net body)
     (dm_fetch sample_manager) 0 tr part None empty_fs = (Err (DownloadFailed ''reset''), empty_fs)"
  by (simp add: perform_cases download_def validate_download_url_def fs_mkdir_all_def parse_eval
      download_to_file_def sample_net_def sample_http_def)

definition sample_store :: "bytes \<Rightarrow> fs" where
  "sample_store body = fs_put ''/c/pkg'' \<lparr>f_data = body, f_modified = 0\<rparr>
     (fs_del ''/c/pkg.tmp'' (fs_put ''/c/pkg.tmp'' \<lparr>f_data = body, f_modified = 0\<rparr>
       (fs_put ''/c/pkg.tmp'' \<lparr>f_data = [], f_modified = 0\<rparr> empty_fs)))"

lemma sample_attempt_2:
  assumes "dt_url tr = ''https://h/p''" "dt_destination tr = ''/c/pkg''"
    "dt_expected_size tr = None" "body \<noteq> []" "of_nat (length body) \<le> (1000000000 :: u64)"
  shows "perform_download_with_resume sample_prims (sample_net body) (dm_fetch sample_manager)
     (Suc 0) tr part None empty_fs =
     (Ok \<lparr>dr_path = ''/c/pkg.tmp'', dr_actual_size = of_nat (length body), dr_content_type = None\<rparr>,
      sample_store body)"
  using assms
  by (simp add: perform_cases download_def validate_download_url_def fs_mkdir_all_def parse_eval
      download_to_file_def sample_net_def sample_http_def check_content_length_def content_length_def
      sample_tmp fs_create_def fs_append_def fs_rename_def sample_manager_def
      download_config_default_def sample_store_def linorder_not_less)

lemma sample_download:
  assumes "body \<noteq> []" "of_nat (length body) \<le> (1000000000 :: u64)"
  shows "\<exists>tr l. manager_download sample_prims (sample_net body) sample_manager 1 2
      (sample_request None) empty_fs [] =
    finish_download sample_prims sample_manager 2 (sample_request None) tr
      \<lparr>dr_path = ''/c/pkg.tmp'', dr_actual_size = of_nat (length body), dr_content_type = None\<rparr>
      (sample_store body) l"
proof -
  have none: "fs_exists empty_fs p = False" for p by (simp add: fs_exists_def)
  have m: "Suc 0 < unat (max_attempts sample_manager)"
    by (simp add: max_attempts_def sample_manager_def retry_strict_def)
  have r: "should_retry (dm_policy sample_manager) (DownloadFailed ''reset'')"
    by (simp add: should_retry_def sample_manager_def retry_strict_def)
  have d: "dt_url (tracker_new a b c u x es) = u" "dt_destination (tracker_new a b c u x es) = x"
    "dt_expected_size (tracker_new a b c u x es) = es" for a b c u x es
    by (simp_all add: tracker_new_def)
  show ?thesis
    using m r assms
    by (auto simp: manager_download_def none fs_mkdir_all_def sample_request_def d Let_def
        loop_step [OF sample_attempt_1] loop_step [OF sample_attempt_2])
qed

lemma sample_store_lookup [simp]:
  "fs_lookup (sample_store body) ''/c/pkg.tmp'' = None"
  "fs_lookup (sample_store body) ''/c/pkg'' = Some \<lparr>f_data = body, f_modified = 0\<rparr>"
  "fs_deny (sample_store body) op p = None"
  by (simp_all add: sample_store_def)

lemma sample_hash:
  "hash_file sample_prims (sample_store body) (pd_algorithm sample_digest) ''/c/pkg'' =
     Ok (replicate 32 (of_nat (length body)))"
  unfolding hash_file_Ok_iff by (simp add: digest_of_def sample_digest_def sample_prims_def)

lemma sample_finish:
  "\<exists>s' l'. finish_download sample_prims sample_manager 2 (sample_request None) tr
      \<lparr>dr_path = ''/c/pkg.tmp'', dr_actual_size = n, dr_content_type = None\<rparr> (sample_store body) l =
    (if replicate 32 (of_nat (length body)) = pd_value sample_digest then Ok ''/c/pkg''
     else Err (VerificationFailed (''digest mismatch for '' @ quoted (digest_to_hex sample_digest))),
     s', l')"
  by (subst finish_download_at_dst) (simp_all add: sample_request_def sample_hash Let_def)

lemma manager_download_verified_witness:
  "\<exists>s' l'. manager_download sample_prims (sample_net [1, 2, 3]) sample_manager 1 2
      (sample_request None) empty_fs [] = (Ok ''/c/pkg'', s', l') \<and>
    (\<exists>f. fs_lookup s' ''/c/pkg'' = Some f \<and> has_digest sample_prims sample_digest (f_data f))"
proof -
  obtain tr l where d: "manager_download sample_prims (sample_net [1, 2, 3]) sample_manager 1 2
      (sample_request None) empty_fs [] =
    finish_download sample_prims sample_manager 2 (sample_request None) tr
      \<lparr>dr_path = ''/c/pkg.tmp'', dr_actual_size = of_nat (length [1, 2, 3 :: u8]),
       dr_content_type = None\<rparr> (sample_store [1, 2, 3]) l"
    using sample_download [of "[1, 2, 3]"] by auto
  obtain s' l' where r: "manager_download sample_prims (sample_net [1, 2, 3]) sample_manager 1 2
      (sample_request None) empty_fs [] = (Ok ''/c/pkg'', s', l')"
    using sample_finish [of tr "of_nat (length [1, 2, 3 :: u8])" "[1, 2, 3]" l]
    unfolding d by (auto simp: sample_digest_def)
  have "dl_partial_path (dm_partial_dir sample_manager) (rq_digest (sample_request None))
      \<noteq> rq_destination (sample_request None)"
    using sample_partial_ne by (simp add: sample_request_def)
  from manager_download_verified [OF r this] r show ?thesis by (simp add: sample_request_def)
qed

lemma manager_download_mismatch_removed_witness:
  "\<exists>m s' l'. manager_download sample_prims (sample_net [1]) sample_manager 1 2
      (sample_request None) empty_fs [] = (Err (VerificationFailed m), s', l') \<and>
    fs_lookup s' ''/c/pkg'' = None"
proof -
  obtain tr l where d: "manager_download sample_prims (sample_net [1]) sample_manager 1 2
      (sample_request None) empty_fs [] =
    finish_download sample_prims sample_manager 2 (sample_request None) tr
      \<lparr>dr_path = ''/c/pkg.tmp'', dr_actual_size = of_nat (length [1 :: u8]),
       dr_content_type = None\<rparr> (sample_store [1]) l"
    using sample_download [of "[1]"] by auto
  obtain m s' l' where r: "manager_download sample_prims (sample_net [1]) sample_manager 1 2
      (sample_request None) empty_fs [] = (Err (VerificationFailed m), s', l')"
    using sample_finish [of tr "of_nat (length [1 :: u8])" "[1]" l]
    unfolding d by (auto simp: sample_digest_def)
  from manager_download_mismatch_removed [OF r] r show ?thesis by (simp add: sample_request_def)
qed


end
