(* ===== verification/Cache.thy ===== *)
theory Cache
  imports Fetch "HOL-Library.Multiset"
begin

text \<open>
  The package cache (cache.rs): paths derived from digests, finalization of a staged
  file, verification of an entry by recomputing its digest, removal, cleanup and the
  size limits. The metadata file is serde's JSON: its encoder and decoder are the
  arguments \<open>enc\<close> and \<open>dec\<close>. Sizes are added as natural numbers.
\<close>

record cache_config =
  cc_cache_path :: path
  cc_max_size_bytes :: u64
  cc_max_entries :: nat

definition cache_config_new :: "path \<Rightarrow> cache_config" where
  "cache_config_new p = \<lparr>cc_cache_path = p, cc_max_size_bytes = 5000000000, cc_max_entries = 50\<rparr>"

definition cache_config_validate :: "cache_config \<Rightarrow> unit result" where
  "cache_config_validate c =
     (if cc_cache_path c = [] then Err (InvalidArgument ''cache path must not be empty'')
      else if cc_max_size_bytes c = 0 then
        Err (InvalidArgument ''max cache size must be positive'')
      else if cc_max_entries c = 0 then
        Err (InvalidArgument ''max cache entries must be positive'')
      else Ok ())"

record cache_entry_meta =
  cm_package_name :: string
  cm_package_version :: string
  cm_source_id :: string
  cm_digest_algorithm :: string
  cm_digest_value :: string
  cm_size_bytes :: u64
  cm_cached_at :: u64
  cm_digest_verified :: bool

datatype meta_parse = MetaNotText string | MetaBadJson string | MetaParsed cache_entry_meta

section \<open>Paths\<close>

definition cache_path_for :: "cache_config \<Rightarrow> package_digest \<Rightarrow> path" where
  "cache_path_for c d = path_join (cc_cache_path c) (''pkg-'' @ digest_to_hex d)"

definition partial_path_for :: "cache_config \<Rightarrow> package_digest \<Rightarrow> path" where
  "partial_path_for c d = path_join (cc_cache_path c) (''pkg-'' @ digest_to_hex d @ ''.part'')"

definition meta_path_for :: "cache_config \<Rightarrow> package_digest \<Rightarrow> path" where
  "meta_path_for c d = path_join (cc_cache_path c) (''pkg-'' @ digest_to_hex d @ ''.meta'')"

section \<open>Entries\<close>

definition cache_contains :: "cache_config \<Rightarrow> fs \<Rightarrow> package_digest \<Rightarrow> bool" where
  "cache_contains c s d = fs_exists s (cache_path_for c d)"

definition get_cached_path :: "cache_config \<Rightarrow> fs \<Rightarrow> package_digest \<Rightarrow> path option" where
  "get_cached_path c s d =
     (if fs_exists s (cache_path_for c d) then Some (cache_path_for c d) else None)"

definition get_cache_metadata ::
  "(bytes \<Rightarrow> meta_parse) \<Rightarrow> cache_config \<Rightarrow> fs \<Rightarrow> package_digest \<Rightarrow> cache_entry_meta result" where
  "get_cache_metadata dec c s d =
     (case fs_read s (meta_path_for c d) of
        Inl e \<Rightarrow> Err (NotFound (''cache metadata not found: '' @ e))
      | Inr content \<Rightarrow>
          (case dec content of
             MetaNotText e \<Rightarrow> Err (NotFound (''cache metadata not found: '' @ e))
           | MetaBadJson e \<Rightarrow> Err (Internal (''invalid cache metadata: '' @ e))
           | MetaParsed m \<Rightarrow> Ok m))"

definition stage_partial :: "cache_config \<Rightarrow> fs \<Rightarrow> package_digest \<Rightarrow> path result" where
  "stage_partial c s d =
     (case fs_mkdir_all (parent_dir (partial_path_for c d)) s of
        Inl e \<Rightarrow> Err (Internal (''cannot create cache directory: '' @ e))
      | Inr _ \<Rightarrow> Ok (partial_path_for c d))"

definition entry_meta ::
  "u64 \<Rightarrow> package_digest \<Rightarrow> string \<Rightarrow> string \<Rightarrow> string \<Rightarrow> u64 \<Rightarrow> bool \<Rightarrow> cache_entry_meta" where
  "entry_meta now d source_id package_name package_version size_bytes verified =
     \<lparr>cm_package_name = package_name, cm_package_version = package_version,
      cm_source_id = source_id, cm_digest_algorithm = pd_algorithm d,
      cm_digest_value = digest_to_hex d, cm_size_bytes = size_bytes,
      cm_cached_at = now, cm_digest_verified = verified\<rparr>"

definition cache_finalize ::
  "(cache_entry_meta \<Rightarrow> bytes) \<Rightarrow> cache_config \<Rightarrow> u64 \<Rightarrow> package_digest \<Rightarrow> string \<Rightarrow> string \<Rightarrow> string
     \<Rightarrow> u64 \<Rightarrow> bool \<Rightarrow> fs \<Rightarrow> path result \<times> fs" where
  "cache_finalize enc c now d source_id package_name package_version size_bytes verified s =
     (let part = partial_path_for c d; final = cache_path_for c d in
      if \<not> fs_exists s part then (Err (NotFound ''partial file not found for finalization''), s)
      else (case fs_rename part final s of
          (Inl e, s1) \<Rightarrow> (Err (Internal (''cache finalization failed: '' @ e)), s1)
        | (Inr _, s1) \<Rightarrow>
            (let m = entry_meta now d source_id package_name package_version size_bytes verified
             in case fs_write (meta_path_for c d) (enc m) s1 of
               (Inl e, s2) \<Rightarrow> (Err (Internal (''cache metadata write failed: '' @ e)), s2)
             | (Inr _, s2) \<Rightarrow> (Ok final, s2))))"

definition verify_cache_entry ::
  "crypto_prims \<Rightarrow> cache_config \<Rightarrow> package_digest \<Rightarrow> fs \<Rightarrow> bool result \<times> fs" where
  "verify_cache_entry cp c d s =
     (let p = cache_path_for c d in
      if \<not> fs_exists s p then (Ok False, s)
      else (case hash_file cp s (pd_algorithm d) p of
          Inl e \<Rightarrow> (Err (Internal (''cache verification failed: '' @ show_service_error e)), s)
        | Inr actual \<Rightarrow>
            if digest_matches d actual then (Ok True, s)
            else (Ok False, snd (fs_remove (meta_path_for c d) (snd (fs_remove p s))))))"

definition cache_remove_entry ::
  "cache_config \<Rightarrow> package_digest \<Rightarrow> fs \<Rightarrow> unit result \<times> fs" where
  "cache_remove_entry c d s =
     (let p = cache_path_for c d; m = meta_path_for c d in
      case (if fs_exists s p then fs_remove p s else (Ok (), s)) of
        (Inl e, s1) \<Rightarrow> (Err (Internal (''cache entry removal failed: '' @ e)), s1)
      | (Inr _, s1) \<Rightarrow> (Ok (), if fs_exists s1 m then snd (fs_remove m s1) else s1))"

section \<open>Cleanup\<close>

definition read_dir_or_empty :: "fs \<Rightarrow> path \<Rightarrow> path list" where
  "read_dir_or_empty s p = (case fs_read_dir s p of Inl _ \<Rightarrow> [] | Inr ps \<Rightarrow> ps)"

text \<open>Remove the listed files that pass a test, counting the successes.\<close>

fun remove_where :: "(path \<Rightarrow> bool) \<Rightarrow> path list \<Rightarrow> nat \<Rightarrow> fs \<Rightarrow> nat \<times> fs" where
  "remove_where f [] n s = (n, s)"
| "remove_where f (p # ps) n s =
     (if f p then
        (case fs_remove p s of
           (Inr _, s1) \<Rightarrow> remove_where f ps (n + 1) s1
         | (Inl _, s1) \<Rightarrow> remove_where f ps n s1)
      else remove_where f ps n s)"

definition cleanup_partials :: "cache_config \<Rightarrow> fs \<Rightarrow> nat \<times> fs" where
  "cleanup_partials c s =
     remove_where (\<lambda>p. path_extension p = Some ''part'')
       (read_dir_or_empty s (cc_cache_path c)) 0 s"

definition is_side_file :: "path \<Rightarrow> bool" where
  "is_side_file p = (path_extension p = Some ''part'' \<or> path_extension p = Some ''meta'')"

definition entry_paths :: "cache_config \<Rightarrow> fs \<Rightarrow> path list" where
  "entry_paths c s = filter (\<lambda>p. \<not> is_side_file p) (read_dir_or_empty s (cc_cache_path c))"

definition file_len :: "fs \<Rightarrow> path \<Rightarrow> nat" where
  "file_len s p = (case fs_metadata s p of Some f \<Rightarrow> length (f_data f) | None \<Rightarrow> 0)"

definition current_cache_size :: "cache_config \<Rightarrow> fs \<Rightarrow> nat" where
  "current_cache_size c s = sum_list (map (file_len s) (entry_paths c s))"

definition cache_entry_count :: "cache_config \<Rightarrow> fs \<Rightarrow> nat" where
  "cache_entry_count c s =
     length (filter (\<lambda>p. starts_with (file_name p) ''pkg-'') (entry_paths c s))"

text \<open>The eviction loop: size and count still present, oldest first.\<close>

fun evict :: "cache_config \<Rightarrow> nat \<Rightarrow> nat \<Rightarrow> path list \<Rightarrow> fs \<Rightarrow> fs" where
  "evict c sz cnt [] s = s"
| "evict c sz cnt (p # ps) s =
     (if sz \<le> unat (cc_max_size_bytes c) \<and> cnt \<le> cc_max_entries c then s
      else (let sz' = (case fs_metadata s p of
                  Some f \<Rightarrow> sz - length (f_data f) | None \<Rightarrow> sz);
                s1 = snd (fs_remove p s);
                s2 = snd (fs_remove (with_extension p ''meta'') s1)
            in evict c sz' (cnt - 1) ps s2))"

definition enforce_limits :: "cache_config \<Rightarrow> fs \<Rightarrow> fs" where
  "enforce_limits c s =
     (let sz = current_cache_size c s in
      if sz \<le> unat (cc_max_size_bytes c) \<and> cache_entry_count c s \<le> cc_max_entries c then s
      else (let aged = List.map_filter (\<lambda>p. map_option (\<lambda>f. (p, f_modified f)) (fs_metadata s p))
                         (entry_paths c s);
                entries = sort_key snd aged
            in evict c sz (length entries) (map fst entries) s))"

definition cache_clear :: "cache_config \<Rightarrow> fs \<Rightarrow> nat \<times> fs" where
  "cache_clear c s =
     remove_where (\<lambda>p. let n = file_name p in
         starts_with n ''pkg-'' \<or> ends_with n ''.part'' \<or> ends_with n ''.meta'')
       (read_dir_or_empty s (cc_cache_path c)) 0 s"

section \<open>Paths are names in the cache directory\<close>

lemma hex_text_chars: "c \<in> set (digest_to_hex d) \<Longrightarrow> c \<noteq> CHR ''.'' \<and> c \<noteq> CHR ''/''"
  by (auto simp: digest_to_hex_def is_ascii_hexdigit_def is_ascii_digit_def byte_of_def
      dest!: hex_encode_chars)

lemma pkg_name_chars:
  "CHR ''/'' \<notin> set (''pkg-'' @ digest_to_hex d @ suffix)" if "CHR ''/'' \<notin> set suffix"
  using that hex_text_chars by auto

lemma stem_extension_dot:
  "CHR ''.'' \<notin> set ext \<Longrightarrow> a \<noteq> [] \<Longrightarrow> ext \<noteq> [] \<Longrightarrow> stem_extension (a @ ''.'' @ ext) = (a, Some ext)"
proof -
  assume h: "CHR ''.'' \<notin> set ext" "a \<noteq> []" "ext \<noteq> []"
  then have "split_once CHR ''.'' (rev ext @ CHR ''.'' # rev a) = Some (rev ext, rev a)"
    by (intro split_once_append) simp
  moreover have "a @ ''.'' @ ext \<noteq> ''..''"
  proof
    assume "a @ ''.'' @ ext = ''..''"
    then have "last ext = CHR ''.''" using h(3) by (metis append_is_Nil_conv last.simps last_append
          list.discI)
    then show False using h last_in_set by metis
  qed
  ultimately show ?thesis using h by (simp add: stem_extension_def rsplit_once_def)
qed

lemma stem_extension_no_dot: "CHR ''.'' \<notin> set a \<Longrightarrow> stem_extension a = (a, None)"
  by (simp add: stem_extension_def rsplit_once_def)

lemma hex_no_dot [simp]: "CHR ''.'' \<notin> set (digest_to_hex d)" "CHR ''/'' \<notin> set (digest_to_hex d)"
  using hex_text_chars by blast+

lemma cache_path_names [simp]:
  "file_name (cache_path_for c d) = ''pkg-'' @ digest_to_hex d"
  "file_name (partial_path_for c d) = ''pkg-'' @ digest_to_hex d @ ''.part''"
  "file_name (meta_path_for c d) = ''pkg-'' @ digest_to_hex d @ ''.meta''"
  unfolding cache_path_for_def partial_path_for_def meta_path_for_def
  by (rule file_name_join; simp)+

lemma cache_path_extensions [simp]:
  "path_extension (cache_path_for c d) = None"
  "path_extension (partial_path_for c d) = Some ''part''"
  "path_extension (meta_path_for c d) = Some ''meta''"
  using stem_extension_dot [of "''part''" "''pkg-'' @ digest_to_hex d"]
    stem_extension_dot [of "''meta''" "''pkg-'' @ digest_to_hex d"]
  by (simp_all add: path_extension_def stem_extension_no_dot)

lemma cache_paths_differ [simp]:
  "partial_path_for c d \<noteq> cache_path_for c d'" "meta_path_for c d \<noteq> cache_path_for c d'"
  "meta_path_for c d \<noteq> partial_path_for c d'"
proof -
  have ext: "a \<noteq> b" if "path_extension a \<noteq> path_extension b" for a b using that by auto
  show "partial_path_for c d \<noteq> cache_path_for c d'" by (rule ext) simp
  show "meta_path_for c d \<noteq> cache_path_for c d'" by (rule ext) simp
  show "meta_path_for c d \<noteq> partial_path_for c d'" by (rule ext) simp
qed

lemmas cache_paths_differ' [simp] = cache_paths_differ [symmetric]

lemma cache_path_inj: "cache_path_for c d = cache_path_for c d' \<longleftrightarrow> pd_value d = pd_value d'"
  by (auto simp: cache_path_for_def digest_to_hex_def dest: hex_encode_inj)

lemma cache_side_inj:
  "partial_path_for c d = partial_path_for c d' \<longleftrightarrow> pd_value d = pd_value d'"
  "meta_path_for c d = meta_path_for c d' \<longleftrightarrow> pd_value d = pd_value d'"
  by (auto simp: partial_path_for_def meta_path_for_def digest_to_hex_def dest: hex_encode_inj)

text \<open>C16: The three paths of a digest are files directly in the cache directory whatever the
  digest is, so no digest leads out of it. Each of the three is determined by the digest value
  and by nothing else of the digest, and different digest values have different paths. No
  package, partial or metadata path of any digest is one of another kind.\<close>

theorem cache_paths_safe:
  "child_name (cc_cache_path c) (cache_path_for c d) \<noteq> None \<and>
   child_name (cc_cache_path c) (partial_path_for c d) \<noteq> None \<and>
   child_name (cc_cache_path c) (meta_path_for c d) \<noteq> None \<and>
   (cache_path_for c d = cache_path_for c d' \<longleftrightarrow> pd_value d = pd_value d') \<and>
   (partial_path_for c d = partial_path_for c d' \<longleftrightarrow> pd_value d = pd_value d') \<and>
   (meta_path_for c d = meta_path_for c d' \<longleftrightarrow> pd_value d = pd_value d') \<and>
   cache_path_for c d \<noteq> partial_path_for c d' \<and> cache_path_for c d \<noteq> meta_path_for c d' \<and>
   partial_path_for c d \<noteq> meta_path_for c d'"
proof -
  have "child_name (cc_cache_path c) (path_join (cc_cache_path c) (''pkg-'' @ digest_to_hex d @ sfx))
      = Some (''pkg-'' @ digest_to_hex d @ sfx)" if "CHR ''/'' \<notin> set sfx" for sfx
    by (rule child_name_join) (use that in auto)
  from this [of "[]"] this [of "''.part''"] this [of "''.meta''"]
  have "child_name (cc_cache_path c) (cache_path_for c d) \<noteq> None"
    "child_name (cc_cache_path c) (partial_path_for c d) \<noteq> None"
    "child_name (cc_cache_path c) (meta_path_for c d) \<noteq> None"
    by (simp_all add: cache_path_for_def partial_path_for_def meta_path_for_def)
  then show ?thesis by (simp add: cache_path_inj cache_side_inj)
qed

section \<open>The store interface\<close>

text \<open>
  What a user of the cache may rely on: a positive check leaves the store alone and the
  content is good; a negative check says the content is missing or bad, and gets rid of
  a bad one when it can be removed; a check never harms the content of another key.
\<close>

locale digest_store =
  fixes content :: "'s \<Rightarrow> 'd \<Rightarrow> bytes option"
    and check :: "'d \<Rightarrow> 's \<Rightarrow> bool result \<times> 's"
    and good :: "'d \<Rightarrow> bytes \<Rightarrow> bool"
    and removable :: "'s \<Rightarrow> 'd \<Rightarrow> bool"
    and same_key :: "'d \<Rightarrow> 'd \<Rightarrow> bool"
  assumes check_true: "check d s = (Ok True, s') \<Longrightarrow> s' = s \<and> (\<exists>b. content s d = Some b \<and> good d b)"
    and check_false: "check d s = (Ok False, s') \<Longrightarrow>
      (\<forall>b. content s d = Some b \<longrightarrow> \<not> good d b) \<and> (removable s d \<longrightarrow> content s' d = None)"
    and check_error: "check d s = (Err e, s') \<Longrightarrow> s' = s"
    and check_other: "\<not> same_key d d' \<Longrightarrow> content (snd (check d s)) d' = content s d'"
begin

lemma checked_content:
  assumes "check d s = (Ok b, s')" "removable s d"
  shows "(b \<longleftrightarrow> content s' d \<noteq> None) \<and> (\<forall>bs. content s' d = Some bs \<longrightarrow> good d bs)"
proof (cases b)
  case True
  then show ?thesis using check_true [of d s s'] assms by auto
next
  case False
  then show ?thesis using check_false [of d s s'] assms by auto
qed

lemma good_content_kept:
  assumes "content s d = Some b" "good d b" "check d' s = (r, s')" "same_key d' d \<longrightarrow> d' = d"
  shows "content s' d = Some b"
proof (cases "same_key d' d")
  case False
  then show ?thesis using check_other [of d' d s] assms by simp
next
  case True
  then have d: "d' = d" using assms(4) by simp
  show ?thesis
  proof (cases r)
    case (Inl e)
    then show ?thesis using check_error [of d s e s'] assms d by simp
  next
    case (Inr v)
    then show ?thesis
      using check_true [of d s s'] check_false [of d s s'] assms d by (cases v) auto
  qed
qed

end

definition cache_content :: "cache_config \<Rightarrow> fs \<Rightarrow> package_digest \<Rightarrow> bytes option" where
  "cache_content c s d = map_option f_data (fs_lookup s (cache_path_for c d))"

definition cache_removable :: "cache_config \<Rightarrow> fs \<Rightarrow> package_digest \<Rightarrow> bool" where
  "cache_removable c s d = (fs_deny s IoRemove (cache_path_for c d) = None)"

lemma verify_cache_entry_cases:
  "verify_cache_entry cp c d s = (r, s') \<longleftrightarrow>
     (if fs_lookup s (cache_path_for c d) = None then r = Ok False \<and> s' = s
      else (case hash_file cp s (pd_algorithm d) (cache_path_for c d) of
          Inl e \<Rightarrow> r = Err (Internal (''cache verification failed: '' @ show_service_error e)) \<and> s' = s
        | Inr h \<Rightarrow> if h = pd_value d then r = Ok True \<and> s' = s
            else r = Ok False \<and>
              s' = snd (fs_remove (meta_path_for c d) (snd (fs_remove (cache_path_for c d) s)))))"
  by (auto simp: verify_cache_entry_def Let_def fs_exists_def digest_matches_iff split: sum.splits)

interpretation cache: digest_store "cache_content c" "verify_cache_entry cp c" "has_digest cp"
  "cache_removable c" "\<lambda>d d'. pd_value d = pd_value d'" for cp c
proof (unfold_locales, goal_cases)
  case (1 d s s')
  then show ?case
    by (auto simp: verify_cache_entry_cases cache_content_def has_digest_def hash_file_Ok_iff
        split: if_splits sum.splits)
next
  case (2 d s s')
  then show ?case
    by (auto simp: verify_cache_entry_cases cache_content_def has_digest_def hash_file_Ok_iff
        cache_removable_def remove_lookup split: if_splits sum.splits)
next
  case (3 d s e s')
  then show ?case by (auto simp: verify_cache_entry_cases split: if_splits sum.splits)
next
  case (4 d d' s)
  obtain r s' where v: "verify_cache_entry cp c d s = (r, s')"
    by (cases "verify_cache_entry cp c d s") auto
  then have "fs_lookup s' (cache_path_for c d') = fs_lookup s (cache_path_for c d')"
    using 4 by (auto simp: verify_cache_entry_cases remove_lookup cache_path_inj
        split: if_splits sum.splits)
  then show ?case by (simp add: v cache_content_def)
qed

text \<open>A cache entry is vouched for only after its whole content has been hashed again:
  the check answers true exactly with content of the expected digest and changes nothing
  then; it answers false only when there is no such content, and a corrupt entry that may
  be removed is gone afterwards.\<close>

theorem verify_cache_entry_spec:
  assumes "verify_cache_entry cp c d s = (Ok b, s')"
  shows "(b \<longleftrightarrow> (\<exists>bs. cache_content c s d = Some bs \<and> has_digest cp d bs)) \<and> (b \<longrightarrow> s' = s) \<and>
    (cache_removable c s d \<longrightarrow> (b \<longleftrightarrow> cache_contains c s' d)) \<and>
    (\<forall>d'. pd_value d' \<noteq> pd_value d \<longrightarrow> cache_content c s' d' = cache_content c s d')"
proof -
  have "cache_contains c s' d \<longleftrightarrow> cache_content c s' d \<noteq> None"
    by (simp add: cache_contains_def cache_content_def fs_exists_def)
  moreover have "cache_content c s' d' = cache_content c s d'" if "pd_value d' \<noteq> pd_value d" for d'
    using cache.check_other [of d d' c cp s] that assms by simp
  ultimately show ?thesis
    using cache.check_true [of cp c d s s'] cache.check_false [of cp c d s s']
      cache.checked_content [OF assms] assms by (cases b) auto
qed

lemma verify_cache_entry_spec_witness:
  "\<not> cache_contains (cache_config_new ''/c'') (snd (verify_cache_entry sample_prims
      (cache_config_new ''/c'') sample_digest
      (fs_put (cache_path_for (cache_config_new ''/c'') sample_digest)
        \<lparr>f_data = [1], f_modified = 0\<rparr> empty_fs))) sample_digest"
proof -
  let ?c = "cache_config_new ''/c''"
  let ?p = "cache_path_for ?c sample_digest"
  let ?s = "fs_put ?p \<lparr>f_data = [1], f_modified = 0\<rparr> empty_fs"
  have h: "hash_file sample_prims ?s (pd_algorithm sample_digest) ?p = Ok (replicate 32 1)"
    unfolding hash_file_Ok_iff by (simp add: digest_of_def sample_digest_def sample_prims_def empty_fs_def)
  have "replicate 32 1 \<noteq> pd_value sample_digest" by (simp add: sample_digest_def)
  then obtain s' where v: "verify_cache_entry sample_prims ?c sample_digest ?s = (Ok False, s')"
    by (simp add: verify_cache_entry_cases h)
  have "cache_removable ?c ?s sample_digest" by (simp add: cache_removable_def empty_fs_def)
  with verify_cache_entry_spec [OF v] show ?thesis by (simp add: v)
qed

section \<open>Finalization\<close>

text \<open>Finalizing a staged download moves exactly its bytes to the entry of its digest,
  leaves no partial file, and, given that JSON decodes what it encodes and the metadata
  file can be read, the metadata read back is the one that was recorded. Nothing but
  the three files of the digest changes.\<close>

theorem cache_finalize_spec:
  assumes "cache_finalize enc c now d src name ver sz vf s = (Ok p, s')"
    and "dec (enc (entry_meta now d src name ver sz vf)) =
      MetaParsed (entry_meta now d src name ver sz vf)"
    and "fs_deny s IoOpen (meta_path_for c d) = None" "fs_deny s IoRead (meta_path_for c d) = None"
  shows "p = cache_path_for c d \<and>
    cache_content c s' d = map_option f_data (fs_lookup s (partial_path_for c d)) \<and>
    cache_content c s' d \<noteq> None \<and> fs_lookup s' (partial_path_for c d) = None \<and>
    get_cache_metadata dec c s' d = Ok (entry_meta now d src name ver sz vf) \<and>
    fs_same_except {cache_path_for c d, partial_path_for c d, meta_path_for c d} s s'"
proof -
  let ?part = "partial_path_for c d" and ?fin = "cache_path_for c d" and ?meta = "meta_path_for c d"
  let ?m = "entry_meta now d src name ver sz vf"
  obtain s1 where r: "fs_rename ?part ?fin s = (Ok (), s1)"
    and w: "fs_write ?meta (enc ?m) s1 = (Ok (), s')" and p: "p = ?fin"
    using assms(1)
    by (auto simp: cache_finalize_def Let_def split: if_splits sum.splits prod.splits)
  have w': "fs_lookup s' ?meta = Some \<lparr>f_data = enc ?m, f_modified = fs_time s1\<rparr>"
    using write_lookup [of ?meta "enc ?m" s1] w by simp
  have f1: "fs_same_except {?fin, ?part, ?meta} s s1"
    using frame_rename [of ?part "{?fin, ?part, ?meta}" ?fin s] r by simp
  have f2: "fs_same_except {?meta} s1 s'" using frame_write [of ?meta "{?meta}" s1 "enc ?m"] w by simp
  then have f2': "fs_same_except {?fin, ?part, ?meta} s1 s'" by (rule fs_same_except_mono) simp
  have keep: "fs_lookup s' q = fs_lookup s1 q" if "q \<noteq> ?meta" for q
    using f2 that by (simp add: fs_same_except_def)
  have "fs_lookup s' ?fin = fs_lookup s ?part" "fs_lookup s ?part \<noteq> None" "fs_lookup s' ?part = None"
    using rename_Ok [of ?part ?fin s] r keep [of ?fin] keep [of ?part] by auto
  moreover have "fs_deny s' = fs_deny s" using f1 f2 by (simp add: fs_same_except_def)
  moreover have "get_cache_metadata dec c s' d = Ok ?m"
    using w' assms(2-4) \<open>fs_deny s' = fs_deny s\<close> by (simp add: get_cache_metadata_def fs_read_def)
  ultimately show ?thesis
    using p fs_same_except_trans [OF f1 f2'] by (auto simp: cache_content_def)
qed

lemma cache_finalize_spec_witness:
  "cache_content (cache_config_new ''/c'') (snd (cache_finalize (\<lambda>_. [7]) (cache_config_new ''/c'') 5
      sample_digest ''src'' ''e1000e'' ''1.0.0'' 3 True
      (fs_put (partial_path_for (cache_config_new ''/c'') sample_digest)
        \<lparr>f_data = [1, 2, 3], f_modified = 0\<rparr> empty_fs))) sample_digest = Some [1, 2, 3]"
proof -
  let ?c = "cache_config_new ''/c''"
  let ?p = "partial_path_for ?c sample_digest"
  let ?s = "fs_put ?p \<lparr>f_data = [1, 2, 3], f_modified = 0\<rparr> empty_fs"
  let ?m = "entry_meta 5 sample_digest ''src'' ''e1000e'' ''1.0.0'' 3 True"
  obtain s' where s': "cache_finalize (\<lambda>_. [7]) ?c 5 sample_digest ''src'' ''e1000e'' ''1.0.0'' 3 True ?s
      = (Ok (cache_path_for ?c sample_digest), s')"
    by (simp add: cache_finalize_def fs_exists_def fs_rename_def fs_write_def fs_create_def
        fs_append_def Let_def)
  from cache_finalize_spec [OF s', of "\<lambda>_. MetaParsed ?m"] show ?thesis
    by (simp add: s')
qed

section \<open>Cleanup removes what it names\<close>

lemma remove_where_lookup:
  "fs_deny (snd (remove_where f ps n s)) = fs_deny s \<and>
   fs_lookup (snd (remove_where f ps n s)) q =
     (if q \<in> set ps \<and> f q \<and> fs_deny s IoRemove q = None then None else fs_lookup s q)"
proof (induction ps arbitrary: n s)
  case (Cons p ps)
  obtain r s1 where r: "fs_remove p s = (r, s1)" by (cases "fs_remove p s") auto
  have s1: "fs_deny s1 = fs_deny s"
    "fs_lookup s1 q = (if q = p \<and> fs_deny s IoRemove p = None then None else fs_lookup s q)"
    using remove_env [of p s] remove_lookup [of p s q] r by simp_all
  show ?case using Cons [of _ s1] Cons [of n s] s1 r by (cases r) auto
qed simp

lemma read_dir_or_empty_mem:
  "fs_deny s IoReadDir dir = None \<Longrightarrow>
   p \<in> set (read_dir_or_empty s dir) \<longleftrightarrow> fs_lookup s p \<noteq> None \<and> child_name dir p \<noteq> None"
proof -
  assume "fs_deny s IoReadDir dir = None"
  then obtain ps where "fs_read_dir s dir = Ok ps" by (simp add: fs_read_dir_def)
  then show ?thesis using read_dir_mem [of s dir ps p] by (simp add: read_dir_or_empty_def)
qed

lemma read_dir_or_empty_child:
  "p \<in> set (read_dir_or_empty s dir) \<Longrightarrow> fs_lookup s p \<noteq> None \<and> child_name dir p \<noteq> None"
  using read_dir_mem [of s dir] by (auto simp: read_dir_or_empty_def split: sum.splits)

text \<open>Cleaning up stale downloads removes every partial file of the cache directory that
  may be removed and nothing else: cached packages, their metadata and every file outside
  the cache directory are untouched.\<close>

theorem cleanup_partials_spec:
  assumes "fs_deny s IoReadDir (cc_cache_path c) = None"
  shows "fs_lookup (snd (cleanup_partials c s)) p =
    (if child_name (cc_cache_path c) p \<noteq> None \<and> path_extension p = Some ''part''
        \<and> fs_deny s IoRemove p = None then None else fs_lookup s p)"
  by (auto simp: cleanup_partials_def remove_where_lookup [THEN conjunct2]
      read_dir_or_empty_mem [OF assms])

lemma cleanup_partials_spec_witness:
  "fs_lookup (snd (cleanup_partials (cache_config_new ''/c'')
     (fs_put ''/c/x.part'' \<lparr>f_data = [], f_modified = 0\<rparr>
       (fs_put ''/etc/y.part'' \<lparr>f_data = [], f_modified = 0\<rparr> empty_fs)))) ''/etc/y.part'' \<noteq> None"
proof -
  let ?s = "fs_put ''/c/x.part'' \<lparr>f_data = [], f_modified = 0\<rparr>
       (fs_put ''/etc/y.part'' \<lparr>f_data = [], f_modified = 0\<rparr> empty_fs)"
  have "fs_deny ?s IoReadDir (cc_cache_path (cache_config_new ''/c'')) = None"
    by (simp add: empty_fs_def)
  from cleanup_partials_spec [OF this, of "''/etc/y.part''"] show ?thesis
    by (simp add: child_name_def path_join_def ends_with_def cache_config_new_def)
qed

section \<open>Eviction\<close>

definition permits_all :: "fs \<Rightarrow> bool" where
  "permits_all s = (\<forall>op p. fs_deny s op p = None)"

lemma permits_remove [simp]: "permits_all s \<Longrightarrow> permits_all (snd (fs_remove p s))"
  by (simp add: permits_all_def)

lemma permits_remove_lookup:
  "permits_all s \<Longrightarrow> fs_lookup (snd (fs_remove p s)) q = (if q = p then None else fs_lookup s q)"
  by (simp add: permits_all_def remove_lookup)

lemma permits_metadata: "permits_all s \<Longrightarrow> fs_metadata s p = fs_lookup s p"
  by (simp add: permits_all_def fs_metadata_def)

lemma stem_ne: "n \<noteq> [] \<Longrightarrow> fst (stem_extension n) \<noteq> []"
  by (auto simp: stem_extension_def split: option.splits prod.splits if_splits)

lemma stem_slash: "CHR ''/'' \<notin> set n \<Longrightarrow> CHR ''/'' \<notin> set (fst (stem_extension n))"
  by (auto simp: stem_extension_def rsplit_once_def split: option.splits prod.splits if_splits
      dest!: split_once_Some) (metis Un_iff list.set_intros(2) set_append set_rev)

lemma with_extension_child:
  assumes "child_name dir p = Some n"
  shows "with_extension p ext = path_join dir (fst (stem_extension n) @ ''.'' @ ext)"
proof -
  from child_name_Some [OF assms] have p: "p = path_join dir n" "CHR ''/'' \<notin> set n" by auto
  then have "file_name p = n" by simp
  moreover have "take (length p - length n) p = path_join dir []"
    using p path_join_split [of dir n] by simp
  ultimately show ?thesis by (simp add: with_extension_def path_join_split [of dir "_ @ _"])
qed

lemma with_meta_side:
  assumes "child_name dir p \<noteq> None" shows "is_side_file (with_extension p ''meta'')"
proof -
  obtain n where n: "child_name dir p = Some n" using assms by auto
  from child_name_Some [OF n] have n': "CHR ''/'' \<notin> set n" "n \<noteq> []" by auto
  have "file_name (with_extension p ''meta'') = fst (stem_extension n) @ ''.'' @ ''meta''"
    unfolding with_extension_child [OF n] by (rule file_name_join) (use stem_slash n' in auto)
  then show ?thesis
    using stem_extension_dot [of "''meta''" "fst (stem_extension n)"] stem_ne [OF n'(2)]
    by (simp add: is_side_file_def path_extension_def)
qed

lemma entry_paths_mem:
  "permits_all s \<Longrightarrow> p \<in> set (entry_paths c s) \<longleftrightarrow>
     fs_lookup s p \<noteq> None \<and> child_name (cc_cache_path c) p \<noteq> None \<and> \<not> is_side_file p"
  using read_dir_or_empty_mem [of s "cc_cache_path c" p]
  by (auto simp: entry_paths_def permits_all_def)

lemma entry_paths_distinct: "distinct (entry_paths c s)"
  using read_dir_distinct [of s "cc_cache_path c"]
  by (auto simp: entry_paths_def read_dir_or_empty_def split: sum.splits)

lemma cache_size_sum: "current_cache_size c s = sum (file_len s) (set (entry_paths c s))"
  unfolding current_cache_size_def
  by (rule sum_list_distinct_conv_sum_set) (rule entry_paths_distinct)

lemma cache_count_le: "cache_entry_count c s \<le> card (set (entry_paths c s))"
  using distinct_card [OF entry_paths_distinct, of c s] by (simp add: cache_entry_count_def)

text \<open>One eviction step, on the state the loop reasons about.\<close>

definition evict_step :: "path \<Rightarrow> fs \<Rightarrow> fs" where
  "evict_step p s = snd (fs_remove (with_extension p ''meta'') (snd (fs_remove p s)))"

lemma evict_step_facts:
  assumes "permits_all s" "p \<in> set (entry_paths c s)"
  shows "permits_all (evict_step p s)"
    and "set (entry_paths c (evict_step p s)) = set (entry_paths c s) - {p}"
    and "current_cache_size c (evict_step p s) = current_cache_size c s - file_len s p"
    and "fs_lookup (evict_step p s) q =
      (if q = p \<or> q = with_extension p ''meta'' then None else fs_lookup s q)"
    and "r \<in> set (entry_paths c s) - {p} \<Longrightarrow> file_len (evict_step p s) r = file_len s r"
proof -
  show perm: "permits_all (evict_step p s)" using assms(1) by (simp add: evict_step_def)
  have look: "fs_lookup (evict_step p s) q =
      (if q = p \<or> q = with_extension p ''meta'' then None else fs_lookup s q)" for q
    using assms(1) by (simp add: evict_step_def permits_remove_lookup)
  then show "fs_lookup (evict_step p s) q =
      (if q = p \<or> q = with_extension p ''meta'' then None else fs_lookup s q)" .
  have side: "is_side_file (with_extension p ''meta'')"
    using assms entry_paths_mem with_meta_side by blast
  show set_eq: "set (entry_paths c (evict_step p s)) = set (entry_paths c s) - {p}"
    using assms(1) perm side by (auto simp: entry_paths_mem look split: if_splits)
  have len: "file_len (evict_step p s) q = file_len s q" if "q \<in> set (entry_paths c s) - {p}" for q
    using that side assms(1) perm
    by (auto simp: file_len_def permits_metadata look entry_paths_mem)
  then show "r \<in> set (entry_paths c s) - {p} \<Longrightarrow> file_len (evict_step p s) r = file_len s r" .
  have "current_cache_size c (evict_step p s) = sum (file_len s) (set (entry_paths c s) - {p})"
    unfolding cache_size_sum set_eq using len by (intro sum.cong) auto
  then show "current_cache_size c (evict_step p s) = current_cache_size c s - file_len s p"
    unfolding cache_size_sum using assms(2) by (simp add: sum_diff1_nat)
qed

lemma evict_unfold:
  "permits_all s \<Longrightarrow> evict c sz cnt (p # ps) s =
     (if sz \<le> unat (cc_max_size_bytes c) \<and> cnt \<le> cc_max_entries c then s
      else evict c (sz - file_len s p) (cnt - 1) ps (evict_step p s))"
  by (simp add: evict_step_def file_len_def Let_def split: option.splits)

text \<open>The entries the loop removes are a prefix, and every one of them was removed while the
  entries from it on were still too large or too many.\<close>

definition over_limits :: "cache_config \<Rightarrow> fs \<Rightarrow> path list \<Rightarrow> bool" where
  "over_limits c s ps =
     (unat (cc_max_size_bytes c) < sum_list (map (file_len s) ps) \<or> cc_max_entries c < length ps)"

lemma evict_spec:
  assumes "permits_all s" "set ps = set (entry_paths c s)" "distinct ps"
    "sz = current_cache_size c s" "cnt = length ps"
  shows "\<exists>k. (\<forall>q. fs_lookup (evict c sz cnt ps s) q =
        (if q \<in> set (take k ps) \<or> q \<in> (\<lambda>p. with_extension p ''meta'') ` set (take k ps)
         then None else fs_lookup s q)) \<and>
      current_cache_size c (evict c sz cnt ps s) \<le> unat (cc_max_size_bytes c) \<and>
      cache_entry_count c (evict c sz cnt ps s) \<le> cc_max_entries c \<and>
      (\<forall>i<k. over_limits c s (drop i ps))"
  using assms
proof (induction ps arbitrary: s sz cnt)
  case Nil
  then show ?case using cache_count_le [of c s] cache_size_sum [of c s]
    by (auto intro: exI [of _ "0::nat"])
next
  case (Cons p ps)
  have sz: "sz = sum_list (map (file_len s) (p # ps))"
    using Cons.prems(2-4) by (simp only: cache_size_sum sum_list_distinct_conv_sum_set)
  show ?case
  proof (cases "sz \<le> unat (cc_max_size_bytes c) \<and> cnt \<le> cc_max_entries c")
    case True
    moreover have "card (set (entry_paths c s)) = cnt"
      using Cons.prems distinct_card [of "p # ps"] by metis
    ultimately show ?thesis
      using Cons.prems cache_count_le [of c s] by (intro exI [of _ 0]) simp
  next
    case False
    have p: "p \<in> set (entry_paths c s)" using Cons.prems by auto
    note step = evict_step_facts [OF Cons.prems(1) p]
    have in_ps: "set ps = set (entry_paths c (evict_step p s))" using step(2) Cons.prems by auto
    then obtain k where k: "\<forall>q. fs_lookup (evict c (sz - file_len s p) (cnt - 1) ps (evict_step p s)) q =
        (if q \<in> set (take k ps) \<or> q \<in> (\<lambda>p. with_extension p ''meta'') ` set (take k ps)
         then None else fs_lookup (evict_step p s) q)"
      "current_cache_size c (evict c (sz - file_len s p) (cnt - 1) ps (evict_step p s))
         \<le> unat (cc_max_size_bytes c)"
      "cache_entry_count c (evict c (sz - file_len s p) (cnt - 1) ps (evict_step p s))
         \<le> cc_max_entries c"
      "\<forall>i<k. over_limits c (evict_step p s) (drop i ps)"
      using Cons.IH [of "evict_step p s" "sz - file_len s p" "cnt - 1"] step(1,3) Cons.prems
      by auto
    have len: "file_len (evict_step p s) q = file_len s q" if "q \<in> set ps" for q
      by (rule step(5)) (use that Cons.prems in auto)
    have "over_limits c s (drop i (p # ps))" if "i < Suc k" for i
    proof (cases i)
      case 0
      then show ?thesis using False sz Cons.prems(5) by (auto simp: over_limits_def)
    next
      case (Suc j)
      have eq: "map (file_len (evict_step p s)) (drop j ps) = map (file_len s) (drop j ps)"
        using len in_set_dropD by fastforce
      have "over_limits c (evict_step p s) (drop j ps)" using k(4) Suc that by simp
      then show ?thesis unfolding over_limits_def eq by (simp add: Suc)
    qed
    then show ?thesis
      unfolding evict_unfold [OF Cons.prems(1)] using False step(4) k(1-3)
      by (intro exI [of _ "Suc k"]) auto
  qed
qed

definition modified_at :: "fs \<Rightarrow> path \<Rightarrow> nat" where
  "modified_at s p = (case fs_lookup s p of Some f \<Rightarrow> f_modified f | None \<Rightarrow> 0)"

text \<open>The list the eviction loop walks: the entries, oldest first.\<close>

lemma aged_entries:
  assumes "permits_all s"
  shows "\<exists>ps. map fst (sort_key snd (List.map_filter
        (\<lambda>p. map_option (\<lambda>f. (p, f_modified f)) (fs_metadata s p)) (entry_paths c s))) = ps \<and>
      set ps = set (entry_paths c s) \<and> distinct ps \<and> sorted (map (modified_at s) ps)"
proof -
  let ?g = "\<lambda>p. (p, modified_at s p)"
  have "List.map_filter (\<lambda>p. map_option (\<lambda>f. (p, f_modified f)) (fs_metadata s p)) ps = map ?g ps"
    if "\<forall>p\<in>set ps. fs_lookup s p \<noteq> None" for ps
    using that by (induction ps)
      (auto simp: List.map_filter_simps permits_metadata [OF assms] modified_at_def)
  then have eq: "List.map_filter (\<lambda>p. map_option (\<lambda>f. (p, f_modified f)) (fs_metadata s p))
      (entry_paths c s) = map ?g (entry_paths c s)"
    using entry_paths_mem [OF assms] by blast
  let ?es = "sort_key snd (map ?g (entry_paths c s))"
  have in_es: "snd e = modified_at s (fst e)" if "e \<in> set ?es" for e using that by auto
  have "map (modified_at s) (map fst ?es) = map snd ?es"
    using in_es by simp
  then have "sorted (map (modified_at s) (map fst ?es))" by (simp only: sorted_sort_key)
  moreover have "mset (map fst ?es) = mset (entry_paths c s)"
    by (simp add: mset_map multiset.map_comp comp_def)
  then have "set (map fst ?es) = set (entry_paths c s)" "distinct (map fst ?es)"
    using mset_eq_setD mset_eq_imp_distinct_iff entry_paths_distinct by blast+
  ultimately show ?thesis unfolding eq by blast
qed

lemma entry_side_child:
  assumes "permits_all s" and "p \<in> set (entry_paths c s)"
  shows "child_name (cc_cache_path c) p \<noteq> None"
    "child_name (cc_cache_path c) (with_extension p ''meta'') \<noteq> None"
proof -
  obtain n where n: "child_name (cc_cache_path c) p = Some n"
    using assms entry_paths_mem [OF assms(1)] by auto
  from child_name_Some [OF n] have "CHR ''/'' \<notin> set n" by simp
  then show "child_name (cc_cache_path c) (with_extension p ''meta'') \<noteq> None"
    unfolding with_extension_child [OF n]
    by (subst child_name_join) (use stem_slash [of n] in auto)
  show "child_name (cc_cache_path c) p \<noteq> None" by (simp add: n)
qed

text \<open>The removed entries are a prefix of the list the loop walks.\<close>

lemma enforce_limits_prefix:
  assumes "permits_all s"
  obtains old kept where "set (old @ kept) = set (entry_paths c s)" "distinct (old @ kept)"
    "sorted (map (modified_at s) (old @ kept))"
    "\<forall>i<length old. over_limits c s (drop i (old @ kept))"
    "\<forall>q. fs_lookup (enforce_limits c s) q =
      (if q \<in> set old \<or> q \<in> (\<lambda>p. with_extension p ''meta'') ` set old then None else fs_lookup s q)"
    "current_cache_size c (enforce_limits c s) \<le> unat (cc_max_size_bytes c)"
    "cache_entry_count c (enforce_limits c s) \<le> cc_max_entries c"
proof -
  obtain ps where ps: "map fst (sort_key snd (List.map_filter
        (\<lambda>p. map_option (\<lambda>f. (p, f_modified f)) (fs_metadata s p)) (entry_paths c s))) = ps"
    and set_ps: "set ps = set (entry_paths c s)" and dist: "distinct ps"
    and srt: "sorted (map (modified_at s) ps)"
    using aged_entries [OF assms, of c] by blast
  show ?thesis
  proof (cases "current_cache_size c s \<le> unat (cc_max_size_bytes c) \<and>
      cache_entry_count c s \<le> cc_max_entries c")
    case True
    then have "enforce_limits c s = s" by (simp add: enforce_limits_def Let_def)
    then show ?thesis using that [of "[]" ps] set_ps dist srt True by simp
  next
    case False
    have en: "enforce_limits c s = evict c (current_cache_size c s) (length ps) ps s"
      using False ps by (auto simp: enforce_limits_def Let_def)
    obtain k where "\<forall>q. fs_lookup (enforce_limits c s) q =
        (if q \<in> set (take k ps) \<or> q \<in> (\<lambda>p. with_extension p ''meta'') ` set (take k ps)
         then None else fs_lookup s q)"
      "current_cache_size c (enforce_limits c s) \<le> unat (cc_max_size_bytes c)"
      "cache_entry_count c (enforce_limits c s) \<le> cc_max_entries c"
      "\<forall>i<k. over_limits c s (drop i ps)"
      using evict_spec [OF assms set_ps dist refl refl] unfolding en by blast
    then show ?thesis
      by (intro that [of "take k ps" "drop k ps"])
        (use set_ps dist srt in \<open>simp_all add: append_take_drop_id\<close>)
  qed
qed

text \<open>C17: When the file system refuses nothing, enforcing the limits brings the cache under its
  size and its entry limit. What it removes are the oldest entries with their metadata, in the
  order of their modification times, each while the entries from it on were still too large or
  too many, and nothing at all when the cache is within its limits; every other file of the
  store is as it was.\<close>

theorem enforce_limits_spec:
  assumes "permits_all s"
  shows "current_cache_size c (enforce_limits c s) \<le> unat (cc_max_size_bytes c) \<and>
    cache_entry_count c (enforce_limits c s) \<le> cc_max_entries c \<and>
    (\<exists>old kept. set (old @ kept) = set (entry_paths c s) \<and> distinct (old @ kept) \<and>
       sorted (map (modified_at s) (old @ kept)) \<and>
       (\<forall>i<length old. over_limits c s (drop i (old @ kept))) \<and>
       (\<forall>q. fs_lookup (enforce_limits c s) q =
          (if q \<in> set old \<or> q \<in> (\<lambda>p. with_extension p ''meta'') ` set old
           then None else fs_lookup s q))) \<and>
    (current_cache_size c s \<le> unat (cc_max_size_bytes c) \<and> cache_entry_count c s \<le> cc_max_entries c
       \<longrightarrow> enforce_limits c s = s) \<and>
    (\<forall>q. child_name (cc_cache_path c) q = None \<longrightarrow> fs_lookup (enforce_limits c s) q = fs_lookup s q)"
proof -
  obtain old kept where p: "set (old @ kept) = set (entry_paths c s)" "distinct (old @ kept)"
    "sorted (map (modified_at s) (old @ kept))"
    "\<forall>i<length old. over_limits c s (drop i (old @ kept))"
    and look: "\<forall>q. fs_lookup (enforce_limits c s) q =
      (if q \<in> set old \<or> q \<in> (\<lambda>p. with_extension p ''meta'') ` set old then None else fs_lookup s q)"
    and lim: "current_cache_size c (enforce_limits c s) \<le> unat (cc_max_size_bytes c)"
      "cache_entry_count c (enforce_limits c s) \<le> cc_max_entries c"
    by (rule enforce_limits_prefix [OF assms])
  have "set old \<subseteq> set (entry_paths c s)" using p(1) by auto
  then have "\<forall>e\<in>set old. child_name (cc_cache_path c) e \<noteq> None \<and>
      child_name (cc_cache_path c) (with_extension e ''meta'') \<noteq> None"
    using entry_side_child [OF assms, of _ c] by blast
  then have "\<forall>q. child_name (cc_cache_path c) q = None \<longrightarrow>
      fs_lookup (enforce_limits c s) q = fs_lookup s q"
    using look by auto
  moreover have "enforce_limits c s = s" if "current_cache_size c s \<le> unat (cc_max_size_bytes c)
      \<and> cache_entry_count c s \<le> cc_max_entries c"
    using that by (simp add: enforce_limits_def Let_def)
  ultimately show ?thesis using p look lim by blast
qed

lemma enforce_limits_spec_witness:
  "current_cache_size (cache_config_new ''/c''\<lparr>cc_max_entries := 1\<rparr>)
     (enforce_limits (cache_config_new ''/c''\<lparr>cc_max_entries := 1\<rparr>)
       (fs_put ''/c/pkg-00'' \<lparr>f_data = [1], f_modified = 3\<rparr>
         (fs_put ''/c/pkg-01'' \<lparr>f_data = [1], f_modified = 2\<rparr> empty_fs))) \<le> 5000000000"
proof -
  have "permits_all (fs_put ''/c/pkg-00'' \<lparr>f_data = [1], f_modified = 3\<rparr>
         (fs_put ''/c/pkg-01'' \<lparr>f_data = [1], f_modified = 2\<rparr> empty_fs))"
    by (simp add: permits_all_def)
  from enforce_limits_spec [OF this, of "cache_config_new ''/c''\<lparr>cc_max_entries := 1\<rparr>"]
  show ?thesis by (simp add: cache_config_new_def)
qed

end
