(* ===== verification/Verification.thy ===== *)
theory Verification
  imports Fetch Audit_Trail
begin

text \<open>
  Signature and integrity verification (verification.rs): the trusted key store loaded
  from key files, the verification of a package under the enabled keys, the hash check
  of a file, and their audit events. JSON parsing is the argument \<open>from_json\<close>. The key
  map is a list of entries with distinct identifiers; a hash map's iteration order is
  unspecified, so nothing proved here depends on the order of the list.
\<close>

section \<open>Outcomes\<close>

datatype verification_outcome =
    VValid | VInvalid | VMissingSignature | VUntrustedKey | VError string

definition vo_is_valid :: "verification_outcome \<Rightarrow> bool" where
  "vo_is_valid v = (v = VValid)"

record signature_check =
  sg_outcome :: verification_outcome
  sg_key_id :: "string option"
  sg_description :: string

section \<open>The key store\<close>

record trusted_key =
  tk_id :: string
  tk_name :: string
  tk_public_key :: bytes
  tk_enabled :: bool

datatype json = JNull | JBool bool | JNumber int | JString string | JArray "json list"
  | JObject "(string \<times> json) list"

fun json_get :: "string \<Rightarrow> json \<Rightarrow> json option" where
  "json_get k (JObject members) = map_of members k"
| "json_get k _ = None"

fun json_str :: "json \<Rightarrow> string option" where
  "json_str (JString s) = Some s"
| "json_str _ = None"

definition parse_key_file :: "(bytes \<Rightarrow> json option) \<Rightarrow> bytes \<Rightarrow> trusted_key option" where
  "parse_key_file from_json content =
     (case from_json content of
        None \<Rightarrow> None
      | Some parsed \<Rightarrow>
          (case Option.bind (json_get ''id'' parsed) json_str of
             None \<Rightarrow> None
           | Some i \<Rightarrow>
               (let name = (case Option.bind (case json_get ''name'' parsed of
                      Some v \<Rightarrow> Some v | None \<Rightarrow> json_get ''id'' parsed) json_str of
                    Some n \<Rightarrow> n | None \<Rightarrow> ''Unknown Key'')
                in case Option.bind (json_get ''public_key'' parsed) json_str of
                     None \<Rightarrow> None
                   | Some key_hex \<Rightarrow>
                       (case hex_decode_verif key_hex of
                          None \<Rightarrow> None
                        | Some k \<Rightarrow>
                            if length k \<noteq> 32 then None
                            else Some \<lparr>tk_id = i, tk_name = name, tk_public_key = k,
                                       tk_enabled = True\<rparr>))))"

record key_store =
  ks_keys :: "(string \<times> trusted_key) list"
  ks_store_path :: path

definition add_key :: "trusted_key \<Rightarrow> key_store \<Rightarrow> key_store" where
  "add_key k ks = ks\<lparr>ks_keys := AList.update (tk_id k) k (ks_keys ks)\<rparr>"

definition remove_key :: "string \<Rightarrow> key_store \<Rightarrow> bool \<times> key_store" where
  "remove_key i ks =
     (map_of (ks_keys ks) i \<noteq> None, ks\<lparr>ks_keys := AList.delete i (ks_keys ks)\<rparr>)"

definition get_key :: "key_store \<Rightarrow> string \<Rightarrow> trusted_key option" where
  "get_key ks i = map_of (ks_keys ks) i"

definition enabled_keys :: "key_store \<Rightarrow> trusted_key list" where
  "enabled_keys ks = filter tk_enabled (map snd (ks_keys ks))"

definition is_trusted_key :: "key_store \<Rightarrow> bytes \<Rightarrow> bool" where
  "is_trusted_key ks pk = (\<exists>k\<in>set (map snd (ks_keys ks)). tk_enabled k \<and> tk_public_key k = pk)"

definition key_count :: "key_store \<Rightarrow> nat" where
  "key_count ks = length (ks_keys ks)"

fun load_key_files :: "(bytes \<Rightarrow> json option) \<Rightarrow> fs \<Rightarrow> path list \<Rightarrow> key_store \<Rightarrow> key_store" where
  "load_key_files from_json s [] ks = ks"
| "load_key_files from_json s (p # ps) ks =
     (if path_extension p = Some ''pem'' \<or> path_extension p = Some ''key'' then
        (case fs_read s p of
           Inl _ \<Rightarrow> load_key_files from_json s ps ks
         | Inr content \<Rightarrow>
             (case parse_key_file from_json content of
                Some k \<Rightarrow> load_key_files from_json s ps (add_key k ks)
              | None \<Rightarrow> load_key_files from_json s ps ks))
      else load_key_files from_json s ps ks)"

text \<open>A missing or unreadable directory gives an empty store.\<close>

definition key_store_new :: "(bytes \<Rightarrow> json option) \<Rightarrow> fs \<Rightarrow> path \<Rightarrow> key_store" where
  "key_store_new from_json s p =
     (case fs_read_dir s p of
        Inl _ \<Rightarrow> \<lparr>ks_keys = [], ks_store_path = p\<rparr>
      | Inr ps \<Rightarrow> load_key_files from_json s ps \<lparr>ks_keys = [], ks_store_path = p\<rparr>)"

section \<open>Verification\<close>

record verifier =
  vf_key_store :: key_store
  vf_allow_unsigned :: bool

definition audit_verification ::
  "u64 \<Rightarrow> signature_check \<Rightarrow> bool \<Rightarrow> audit_log \<Rightarrow> audit_log" where
  "audit_verification t r callback l =
     (if callback then
        (let (sev, action) = (case sg_outcome r of
               VValid \<Rightarrow> (SevInfo, ''verification_passed'')
             | VInvalid \<Rightarrow> (SevWarning, ''verification_failed_invalid'')
             | VMissingSignature \<Rightarrow> (SevWarning, ''verification_failed_missing_signature'')
             | VUntrustedKey \<Rightarrow> (SevWarning, ''verification_failed_untrusted_key'')
             | VError _ \<Rightarrow> (SevError, ''verification_error''))
         in record_event (audit_event_new t DriverVerification sev action ''verification_service''
              (sg_description r)) l)
      else l)"

text \<open>The loop over the enabled keys; a key or signature error moves on to the next.\<close>

fun try_keys :: "crypto_prims \<Rightarrow> bytes \<Rightarrow> bytes \<Rightarrow> trusted_key list \<Rightarrow> trusted_key option" where
  "try_keys cp data sig [] = None"
| "try_keys cp data sig (k # ks) =
     (case sig_verify cp (tk_public_key k) data sig of
        Inr SigValid \<Rightarrow> Some k
      | _ \<Rightarrow> try_keys cp data sig ks)"

definition missing_signature_result :: signature_check where
  "missing_signature_result = \<lparr>sg_outcome = VMissingSignature, sg_key_id = None,
     sg_description =
       ''No signature found on driver package and unsigned drivers are not permitted''\<rparr>"

text \<open>The em dash of the source is its three UTF-8 bytes.\<close>

definition unsigned_accepted_result :: signature_check where
  "unsigned_accepted_result = \<lparr>sg_outcome = VValid, sg_key_id = None,
     sg_description = ''No signature present '' @ [CHR 0xE2, CHR 0x80, CHR 0x94]
       @ '' accepted per policy (unsigned drivers allowed in development mode)''\<rparr>"

definition check_package ::
  "crypto_prims \<Rightarrow> verifier \<Rightarrow> fs \<Rightarrow> path \<Rightarrow> bytes \<Rightarrow> string option \<Rightarrow> signature_check" where
  "check_package cp vf s package_path sig signing_key_id =
     (if sig = [] then
        (if \<not> vf_allow_unsigned vf then missing_signature_result else unsigned_accepted_result)
      else (case fs_read s package_path of
          Inl e \<Rightarrow> \<lparr>sg_outcome = VError (''cannot read package file: '' @ e), sg_key_id = None,
              sg_description = ''Failed to read package file for verification''\<rparr>
        | Inr data \<Rightarrow>
            (case try_keys cp data sig (enabled_keys (vf_key_store vf)) of
               Some k \<Rightarrow> \<lparr>sg_outcome = VValid, sg_key_id = Some (tk_id k),
                  sg_description = ''Signature verified with trusted key '' @ quoted (tk_id k)
                    @ '' ('' @ tk_name k @ '')''\<rparr>
             | None \<Rightarrow>
                 if \<exists>i. signing_key_id = Some i \<and> get_key (vf_key_store vf) i = None then
                   \<lparr>sg_outcome = VUntrustedKey, sg_key_id = signing_key_id,
                    sg_description = ''Signing key '' @ quoted (the signing_key_id)
                      @ '' is not in the trusted key store''\<rparr>
                 else \<lparr>sg_outcome = VInvalid, sg_key_id = signing_key_id,
                    sg_description = ''Signature does not match any trusted key or package content has been tampered with''\<rparr>)))"

text \<open>Each return of the source records its result first.\<close>

definition verify_package ::
  "crypto_prims \<Rightarrow> verifier \<Rightarrow> u64 \<Rightarrow> fs \<Rightarrow> path \<Rightarrow> bytes \<Rightarrow> string option \<Rightarrow> bool \<Rightarrow> audit_log
     \<Rightarrow> signature_check \<times> audit_log" where
  "verify_package cp vf t s package_path sig signing_key_id callback l =
     (let r = check_package cp vf s package_path sig signing_key_id
      in (r, audit_verification t r callback l))"

definition verify_integrity ::
  "crypto_prims \<Rightarrow> fs \<Rightarrow> path \<Rightarrow> bytes \<Rightarrow> hash_algorithm \<Rightarrow> signature_check may_panic" where
  "verify_integrity cp s p expected_hash alg =
     (case fs_read s p of
        Inl e \<Rightarrow> Ret \<lparr>sg_outcome = VError (''cannot read file for hash verification: '' @ e),
            sg_key_id = None, sg_description = ''Failed to read file for integrity check''\<rparr>
      | Inr data \<Rightarrow>
          panic_then (hash_compute cp alg data) (\<lambda>h. Ret (case h of
              Inr computed \<Rightarrow>
                (if hv_bytes computed = expected_hash then
                   \<lparr>sg_outcome = VValid, sg_key_id = None,
                    sg_description = ''File integrity verified '' @ [CHR 0xE2, CHR 0x80, CHR 0x94]
                      @ '' hash matches''\<rparr>
                 else \<lparr>sg_outcome = VInvalid, sg_key_id = None,
                    sg_description = ''File integrity check failed '' @ [CHR 0xE2, CHR 0x80, CHR 0x94]
                      @ '' hash mismatch''\<rparr>)
            | Inl e \<Rightarrow> \<lparr>sg_outcome = VError (''hash computation error: '' @ show_crypto_error e),
                sg_key_id = None,
                sg_description = ''Failed to compute file hash for integrity check''\<rparr>)))"

section \<open>Loaded keys\<close>

definition wf_key_store :: "key_store \<Rightarrow> bool" where
  "wf_key_store ks =
     (distinct (map fst (ks_keys ks)) \<and>
      (\<forall>(i, k)\<in>set (ks_keys ks). tk_id k = i \<and> length (tk_public_key k) = 32))"

lemma parse_key_file_Some:
  "parse_key_file from_json c = Some k \<Longrightarrow> length (tk_public_key k) = 32 \<and> tk_enabled k"
  by (auto simp: parse_key_file_def Let_def split: option.splits if_splits)

lemma update_member:
  "(a, b) \<in> set (AList.update k v al) \<Longrightarrow> distinct (map fst al) \<Longrightarrow>
   (a = k \<and> b = v) \<or> (a, b) \<in> set al"
  by (induction al) (auto split: if_splits)

lemma wf_key_storeI:
  assumes "distinct (map fst (ks_keys ks))"
    and "\<And>i k. (i, k) \<in> set (ks_keys ks) \<Longrightarrow> tk_id k = i \<and> length (tk_public_key k) = 32"
  shows "wf_key_store ks"
  using assms unfolding wf_key_store_def by blast

lemma wf_key_storeD:
  assumes "wf_key_store ks"
  shows "distinct (map fst (ks_keys ks))"
    and "(i, k) \<in> set (ks_keys ks) \<Longrightarrow> tk_id k = i \<and> length (tk_public_key k) = 32"
  using assms unfolding wf_key_store_def by blast+

lemma wf_add_key:
  assumes w: "wf_key_store ks" and n: "length (tk_public_key k) = 32"
  shows "wf_key_store (add_key k ks)"
proof (rule wf_key_storeI)
  show "distinct (map fst (ks_keys (add_key k ks)))"
    unfolding add_key_def using AList.distinct_update [OF wf_key_storeD(1) [OF w]] by simp
next
  fix i k' assume "(i, k') \<in> set (ks_keys (add_key k ks))"
  then have "(i, k') \<in> set (AList.update (tk_id k) k (ks_keys ks))" by (simp add: add_key_def)
  from update_member [OF this wf_key_storeD(1) [OF w]]
  show "tk_id k' = i \<and> length (tk_public_key k') = 32"
    using n wf_key_storeD(2) [OF w, of i k'] by blast
qed

lemma wf_load_key_files:
  "wf_key_store ks \<Longrightarrow> wf_key_store (load_key_files from_json s ps ks)"
proof (induction ps arbitrary: ks)
  case Nil
  then show ?case by simp
next
  case (Cons p ps)
  show ?case
  proof (cases "fs_read s p")
    case (Inl e)
    then show ?thesis using Cons by simp
  next
    case (Inr content)
    show ?thesis
    proof (cases "parse_key_file from_json content")
      case None
      then show ?thesis using Cons Inr by simp
    next
      case (Some k)
      have "wf_key_store (add_key k ks)"
        using wf_add_key [OF Cons.prems] parse_key_file_Some [OF Some] by blast
      then show ?thesis using Cons Inr Some by simp
    qed
  qed
qed

lemma delete_member: "x \<in> set (AList.delete i al) \<Longrightarrow> x \<in> set al"
  by (simp add: AList.delete_eq)

lemma wf_remove_key:
  assumes w: "wf_key_store ks" shows "wf_key_store (snd (remove_key i ks))"
proof (rule wf_key_storeI)
  show "distinct (map fst (ks_keys (snd (remove_key i ks))))"
    unfolding remove_key_def using AList.distinct_delete [OF wf_key_storeD(1) [OF w]] by simp
next
  fix j k assume "(j, k) \<in> set (ks_keys (snd (remove_key i ks)))"
  then have "(j, k) \<in> set (AList.delete i (ks_keys ks))" unfolding remove_key_def by simp
  then have "(j, k) \<in> set (ks_keys ks)" by (rule delete_member)
  then show "tk_id k = j \<and> length (tk_public_key k) = 32" by (rule wf_key_storeD(2) [OF w])
qed

lemma wf_key_store_new: "wf_key_store (key_store_new from_json s p)"
proof -
  have e: "wf_key_store \<lparr>ks_keys = [], ks_store_path = p\<rparr>" by (rule wf_key_storeI) simp_all
  then show ?thesis
    by (cases "fs_read_dir s p") (simp_all add: key_store_new_def wf_load_key_files)
qed

text \<open>Whatever the key directory holds, the store built from it has one entry per
  identifier, filed under the key's own identifier, and every key has 32 bytes; adding a
  32-byte key and removing a key keep that.\<close>

theorem key_store_well_formed:
  "wf_key_store (key_store_new from_json s p) \<and>
   (wf_key_store ks \<longrightarrow> wf_key_store (snd (remove_key i ks)) \<and>
     (length (tk_public_key k) = 32 \<longrightarrow> wf_key_store (add_key k ks)))"
  by (intro conjI impI wf_key_store_new wf_remove_key wf_add_key)

lemma key_store_well_formed_witness:
  "wf_key_store (add_key \<lparr>tk_id = ''k'', tk_name = ''n'', tk_public_key = replicate 32 1,
     tk_enabled = True\<rparr> (key_store_new (\<lambda>_. None) empty_fs ''/keys''))"
  using key_store_well_formed [where from_json = "\<lambda>_. None" and s = empty_fs and p = "''/keys''"
      and ks = "key_store_new (\<lambda>_. None) empty_fs ''/keys''"
      and k = "\<lparr>tk_id = ''k'', tk_name = ''n'', tk_public_key = replicate 32 1, tk_enabled = True\<rparr>"]
  by (simp only: trusted_key.simps length_replicate)

section \<open>What a valid outcome means\<close>

lemma try_keys_Some:
  "try_keys cp data sig ks = Some k \<Longrightarrow> k \<in> set ks \<and> sig_verify cp (tk_public_key k) data sig = Ok SigValid"
  by (induction ks) (auto split: sum.splits verification_result.splits)

lemma try_keys_None:
  "try_keys cp data sig ks = None \<longleftrightarrow> (\<forall>k\<in>set ks. sig_verify cp (tk_public_key k) data sig \<noteq> Ok SigValid)"
  by (induction ks) (auto split: sum.splits verification_result.splits)

lemma check_package_valid:
  "sg_outcome (check_package cp vf s p sig i) = VValid \<longleftrightarrow>
     (if sig = [] then vf_allow_unsigned vf
      else \<exists>data. fs_read s p = Ok data \<and>
        (\<exists>k\<in>set (enabled_keys (vf_key_store vf)).
           sig_verify cp (tk_public_key k) data sig = Ok SigValid))"
proof (cases "sig = []")
  case True
  then show ?thesis
    by (simp add: check_package_def missing_signature_result_def unsigned_accepted_result_def)
next
  case False
  show ?thesis
  proof (cases "fs_read s p")
    case (Inl e)
    then show ?thesis using False by (simp add: check_package_def)
  next
    case (Inr data)
    show ?thesis
    proof (cases "try_keys cp data sig (enabled_keys (vf_key_store vf))")
      case None
      then show ?thesis using False Inr
        by (simp add: check_package_def try_keys_None [THEN iffD1, OF None])
    next
      case (Some k)
      then show ?thesis using False Inr try_keys_Some [OF Some] by (auto simp: check_package_def)
    qed
  qed
qed

text \<open>C10: A package is reported valid exactly when it carries a signature that some enabled key
  of the store accepts on the content of the file, or carries none and unsigned drivers
  are allowed. The identifier of the expected signing key never decides: any enabled key
  will do. Each check that is audited adds one event, of severity info exactly for a
  valid outcome.\<close>

theorem verify_package_valid_iff:
  "(sg_outcome (fst (verify_package cp vf t s p sig i cb l)) = VValid \<longleftrightarrow>
      (if sig = [] then vf_allow_unsigned vf
       else \<exists>data. fs_read s p = Ok data \<and>
         (\<exists>k\<in>set (enabled_keys (vf_key_store vf)).
            sig_verify cp (tk_public_key k) data sig = Ok SigValid))) \<and>
   (\<exists>e. snd (verify_package cp vf t s p sig i cb l) = (if cb then l @ [e] else l) \<and>
      (ev_severity e = SevInfo \<longleftrightarrow> sg_outcome (fst (verify_package cp vf t s p sig i cb l)) = VValid))"
proof (intro conjI)
  show "sg_outcome (fst (verify_package cp vf t s p sig i cb l)) = VValid \<longleftrightarrow>
      (if sig = [] then vf_allow_unsigned vf
       else \<exists>data. fs_read s p = Ok data \<and>
         (\<exists>k\<in>set (enabled_keys (vf_key_store vf)).
            sig_verify cp (tk_public_key k) data sig = Ok SigValid))"
    unfolding verify_package_def Let_def fst_conv by (rule check_package_valid)
  have a: "\<exists>e. audit_verification t r cb l = (if cb then l @ [e] else l) \<and>
      (ev_severity e = SevInfo \<longleftrightarrow> sg_outcome r = VValid)" for r
  proof (cases cb)
    case True
    then show ?thesis
      by (cases "sg_outcome r") (simp_all add: audit_verification_def record_event_def)
  next
    case False
    show ?thesis
      using False
      by (intro exI [of _ "audit_event_new t System (if sg_outcome r = VValid then SevInfo else SevError) [] [] []"])
        (simp add: audit_verification_def)
  qed
  show "\<exists>e. snd (verify_package cp vf t s p sig i cb l) = (if cb then l @ [e] else l) \<and>
      (ev_severity e = SevInfo \<longleftrightarrow> sg_outcome (fst (verify_package cp vf t s p sig i cb l)) = VValid)"
    unfolding verify_package_def Let_def fst_conv snd_conv by (rule a)
qed

text \<open>The integrity check reports a file valid exactly when it can be read and the whole
  hash of its content is the expected one.\<close>

theorem verify_integrity_iff:
  "(\<exists>r. verify_integrity cp s p expected alg = Ret r \<and> sg_outcome r = VValid) \<longleftrightarrow>
     (\<exists>data h. fs_read s p = Ok data \<and> hash_compute cp alg data = Ret (Ok h) \<and> hv_bytes h = expected)"
proof (cases "fs_read s p")
  case (Inl e)
  then show ?thesis by (simp add: verify_integrity_def)
next
  case f: (Inr data)
  show ?thesis
  proof (cases "hash_compute cp alg data")
    case (Ret r)
    then show ?thesis using f by (cases r) (simp_all add: verify_integrity_def panic_then_def)
  qed (use f in \<open>simp add: verify_integrity_def panic_then_def\<close>)
qed

end
