(* ===== verification/Package.thy ===== *)
theory Package
  imports Fetch Inventory
begin

text \<open>
  Driver packages (package.rs): the staging area with its size limit, staging of a local
  file with its signature, path validation, cleanup, and the validator of the simple
  source list. A path is a string; links are not modelled, so \<open>std::fs::metadata\<close> and the
  file it reports agree.
\<close>

section \<open>Files as \<open>metadata\<close> and \<open>copy\<close> see them\<close>

datatype fs_stat = StatFile fs_file | StatDir

definition fs_is_dir :: "fs \<Rightarrow> path \<Rightarrow> bool" where
  "fs_is_dir s p = (\<exists>q\<in>set (map fst (fs_files s)). starts_with q (path_join p []) \<and> fs_exists s q)"

definition fs_stat :: "fs \<Rightarrow> path \<Rightarrow> string + fs_stat" where
  "fs_stat s p =
     (case fs_deny s IoMetadata p of
        Some e \<Rightarrow> Err e
      | None \<Rightarrow>
          (case fs_lookup s p of
             Some f \<Rightarrow> Ok (StatFile f)
           | None \<Rightarrow> if fs_is_dir s p then Ok StatDir else Err enoent))"

text \<open>\<open>copy\<close> opens the source, truncates the destination, then moves the bytes: a file
  copied onto itself ends up empty.\<close>

definition fs_copy :: "path \<Rightarrow> path \<Rightarrow> fs \<Rightarrow> (string + unit) \<times> fs" where
  "fs_copy a b s =
     (case fs_open_existing s a of
        Some e \<Rightarrow> (Err e, s)
      | None \<Rightarrow>
          (case fs_create b s of
             (Inl e, s1) \<Rightarrow> (Err e, s1)
           | (Inr _, s1) \<Rightarrow>
               (case fs_read s1 a of
                  Inl e \<Rightarrow> (Err e, s1)
                | Inr d \<Rightarrow> fs_append b d s1)))"

section \<open>The package store\<close>

record package_store_config =
  psc_store_path :: path
  psc_max_package_size_bytes :: u64

definition package_store_config_default :: package_store_config where
  "package_store_config_default =
     \<lparr>psc_store_path = ''/var/cache/mission/driverd/packages'',
      psc_max_package_size_bytes = 1000000000\<rparr>"

record driver_package =
  dp_file_name :: string
  dp_staged_path :: path
  dp_size_bytes :: u64
  dp_expected_hash :: "string option"
  dp_signature :: bytes
  dp_signing_key_id :: "string option"
  dp_module_type :: driver_module_type

record package_store =
  ps_store_path :: path
  ps_max_package_size :: u64

text \<open>The result of creating the store directory is ignored.\<close>

definition package_store_new :: "package_store_config \<Rightarrow> package_store" where
  "package_store_new c =
     \<lparr>ps_store_path = psc_store_path c, ps_max_package_size = psc_max_package_size_bytes c\<rparr>"

definition allowed_prefixes :: "path list" where
  "allowed_prefixes = [''/tmp'', ''/var/cache/mission'', ''/var/lib/mission'', ''/etc/mission'']"

definition validate_package_path :: "fs \<Rightarrow> path \<Rightarrow> unit result" where
  "validate_package_path s p =
     (if contains_str p ''..'' then
        Err (InvalidArgument (''package path must not contain '' @ quoted ''..''))
      else if is_absolute p \<and> \<not> (\<exists>pre\<in>set allowed_prefixes. starts_with p pre) then
        Err (InvalidArgument (''package path '' @ quoted p @ '' is not in an allowed directory''))
      else (case fs_stat s p of
          Inl e \<Rightarrow> Err (InvalidArgument (''cannot access package path: '' @ e))
        | Inr StatDir \<Rightarrow> Err (InvalidArgument ''package path is not a regular file'')
        | Inr (StatFile f) \<Rightarrow> Ok ()))"

text \<open>The two signature names are tried in order; the first readable file wins.\<close>

definition read_first :: "fs \<Rightarrow> path list \<Rightarrow> bytes" where
  "read_first s ps =
     (case List.find (\<lambda>p. fs_exists s p \<and> is_ok (fs_read s p)) ps of
        Some p \<Rightarrow> (case fs_read s p of Inr d \<Rightarrow> d | Inl _ \<Rightarrow> [])
      | None \<Rightarrow> [])"

definition read_signature :: "fs \<Rightarrow> path \<Rightarrow> bytes" where
  "read_signature s package_path =
     read_first s [with_extension package_path ''ko.sig'', with_extension package_path ''sig'']"

definition staged_path :: "package_store \<Rightarrow> string \<Rightarrow> path" where
  "staged_path ps n = path_push (ps_store_path ps) n"

text \<open>A directory passes neither check: the path validation has already refused it.\<close>

definition stage_local ::
  "package_store \<Rightarrow> path \<Rightarrow> driver_module_type \<Rightarrow> fs \<Rightarrow> driver_package result \<times> fs" where
  "stage_local ps source_path mt s =
     (case path_file_name source_path of
        None \<Rightarrow> (Err (InvalidArgument ''invalid source path''), s)
      | Some n \<Rightarrow>
          (case validate_package_path s source_path of
             Inl e \<Rightarrow> (Err e, s)
           | Inr _ \<Rightarrow>
               (case fs_stat s source_path of
                  Inl e \<Rightarrow> (Err (InvalidArgument (''cannot access package file: '' @ e)), s)
                | Inr st \<Rightarrow>
                    (let size_bytes = (case st of StatFile f \<Rightarrow> of_nat (length (f_data f))
                                       | StatDir \<Rightarrow> 0)
                     in if size_bytes > ps_max_package_size ps then
                          (Err (InvalidArgument (''package size '' @ show_u64 size_bytes
                             @ '' exceeds maximum '' @ show_u64 (ps_max_package_size ps))), s)
                        else (case fs_copy source_path (staged_path ps n) s of
                            (Inl e, s1) \<Rightarrow> (Err (Internal (''cannot stage package: '' @ e)), s1)
                          | (Inr _, s1) \<Rightarrow>
                              (Ok \<lparr>dp_file_name = n, dp_staged_path = staged_path ps n,
                                 dp_size_bytes = size_bytes, dp_expected_hash = None,
                                 dp_signature = read_signature s1 source_path,
                                 dp_signing_key_id = None, dp_module_type = mt\<rparr>, s1))))))"

definition remove_staged :: "driver_package \<Rightarrow> fs \<Rightarrow> fs" where
  "remove_staged p s = snd (fs_remove (dp_staged_path p) s)"

definition cleanup_all :: "package_store \<Rightarrow> fs \<Rightarrow> fs" where
  "cleanup_all ps s =
     (case fs_read_dir s (ps_store_path ps) of
        Inl _ \<Rightarrow> s
      | Inr entries \<Rightarrow> fold (\<lambda>p s. if fs_exists s p then snd (fs_remove p s) else s) entries s)"

section \<open>The source validator\<close>

definition create_source_from_id :: "string \<Rightarrow> driver_source option" where
  "create_source_from_id i =
     (let k = to_lowercase i in
      if k = ''mission'' then
        Some \<lparr>ds_id = ''mission'', ds_name = ''Mission OS Repository'', ds_source_type = MissionSrc,
              ds_available = True, ds_priority = 10\<rparr>
      else if k = ''linux'' then
        Some \<lparr>ds_id = ''linux'', ds_name = ''Linux Kernel'', ds_source_type = LinuxSrc,
              ds_available = True, ds_priority = 20\<rparr>
      else if k = ''linux-firmware'' then
        Some \<lparr>ds_id = ''linux-firmware'', ds_name = ''Linux Firmware'', ds_source_type = LinuxSrc,
              ds_available = True, ds_priority = 20\<rparr>
      else if starts_with k ''vendor:'' then
        Some \<lparr>ds_id = k, ds_name = trim_start_matches k ''vendor:'' @ '' Driver Repository'',
              ds_source_type = VendorSrc, ds_available = True, ds_priority = 50\<rparr>
      else None)"

text \<open>The validator is its list of enabled sources.\<close>

definition source_validator_from_config :: "string list \<Rightarrow> driver_source list" where
  "source_validator_from_config ids = List.map_filter create_source_from_id ids"

definition validator_is_source_enabled :: "driver_source list \<Rightarrow> string \<Rightarrow> bool" where
  "validator_is_source_enabled srcs i = (\<exists>s\<in>set srcs. ds_id s = i)"

definition validate_source :: "fs \<Rightarrow> driver_source list \<Rightarrow> string \<Rightarrow> unit result" where
  "validate_source s srcs i =
     (case List.find (\<lambda>d. ds_id d = i) srcs of
        None \<Rightarrow> Err (NotFound (''driver source '' @ quoted i @ '' is not enabled''))
      | Some d \<Rightarrow>
          (case ds_source_type d of
             LocalSrc \<Rightarrow>
               (if \<not> (fs_exists s (ds_name d) \<or> fs_is_dir s (ds_name d)) then
                  Err (BackendUnavailable (''local source path '' @ show_debug (ds_name d)
                         @ '' does not exist''))
                else Ok ())
           | _ \<Rightarrow> Ok ()))"

section \<open>Staging\<close>

lemma frame_copy [fs_frame]:
  assumes "b \<in> ps" shows "fs_same_except ps s (snd (fs_copy a b s))"
proof (cases "fs_open_existing s a")
  case None
  obtain r s1 where c: "fs_create b s = (r, s1)" by (cases "fs_create b s") auto
  have s1: "fs_same_except ps s s1" using frame_create [OF assms, of s] c by simp
  show ?thesis
  proof (cases r)
    case (Inr u)
    show ?thesis
    proof (cases "fs_read s1 a")
      case (Inr d)
      then show ?thesis using None c \<open>r = Inr u\<close> fs_same_except_trans [OF s1 frame_append [OF assms]]
        by (simp add: fs_copy_def)
    qed (use None c \<open>r = Inr u\<close> s1 in \<open>simp add: fs_copy_def\<close>)
  qed (use None c s1 in \<open>simp add: fs_copy_def\<close>)
qed (simp add: fs_copy_def)

lemma copy_Ok:
  assumes "fst (fs_copy a b s) = Ok ()"
  shows "\<exists>f. fs_lookup s a = Some f \<and>
    fs_lookup (snd (fs_copy a b s)) b
      = Some \<lparr>f_data = (if a = b then [] else f_data f), f_modified = fs_time s\<rparr>"
proof -
  from assms have o: "fs_open_existing s a = None" by (auto simp: fs_copy_def split: option.splits)
  then obtain f where f: "fs_lookup s a = Some f"
    by (auto simp: fs_open_existing_def fs_exists_def split: option.splits if_splits)
  from assms o have cr: "fs_deny s IoCreate b = None"
    by (auto simp: fs_copy_def fs_create_def split: option.splits)
  let ?s1 = "fs_put b \<lparr>f_data = [], f_modified = fs_time s\<rparr> s"
  have c: "fs_create b s = (Ok (), ?s1)" by (simp add: fs_create_def cr)
  from assms o c obtain d where d: "fs_read ?s1 a = Ok d"
    by (cases "fs_read ?s1 a") (auto simp: fs_copy_def)
  then have dd: "d = (if a = b then [] else f_data f)"
    using f by (auto simp: fs_read_def split: option.splits if_splits)
  from assms o c d have w: "fs_deny s IoWrite b = None"
    by (auto simp: fs_copy_def fs_append_def split: option.splits)
  show ?thesis using f o c d dd w by (simp add: fs_copy_def fs_append_def)
qed

lemma path_file_name_Some:
  assumes "path_file_name p = Some n"
  shows "CHR ''/'' \<notin> set n \<and> n \<noteq> [] \<and> n \<noteq> ''.'' \<and> n \<noteq> ''..''"
proof -
  let ?cs = "filter (\<lambda>c. c \<noteq> [] \<and> c \<noteq> ''.'') (split_on CHR ''/'' p)"
  from assms obtain rest where r: "rev ?cs = n # rest" and nd: "n \<noteq> ''..''"
    unfolding path_file_name_def by (cases "rev ?cs") (simp_all split: if_splits)
  have "n \<in> set (rev ?cs)" unfolding r by simp
  then show ?thesis using nd split_on_pieces [of n "CHR ''/''" p] by auto
qed

lemma staged_path_join: "CHR ''/'' \<notin> set n \<Longrightarrow> staged_path ps n = path_join (ps_store_path ps) n"
  by (cases n) (auto simp: staged_path_def path_push_def is_absolute_def)

lemma validate_package_path_Ok:
  "validate_package_path s p = Ok () \<longleftrightarrow>
     \<not> contains_str p ''..'' \<and> (is_absolute p \<longrightarrow> (\<exists>pre\<in>set allowed_prefixes. starts_with p pre)) \<and>
     (\<exists>f. fs_stat s p = Ok (StatFile f))"
  by (auto simp: validate_package_path_def split: sum.splits fs_stat.splits if_splits)

lemma fs_stat_file: "fs_stat s p = Ok (StatFile f) \<Longrightarrow> fs_lookup s p = Some f"
  by (auto simp: fs_stat_def split: option.splits if_splits)

lemma stage_local_Ok:
  assumes "stage_local ps src mt s = (Ok pkg, s')"
  shows "\<exists>n f. path_file_name src = Some n \<and> validate_package_path s src = Ok () \<and>
    fs_stat s src = Ok (StatFile f) \<and> of_nat (length (f_data f)) \<le> ps_max_package_size ps \<and>
    fs_copy src (staged_path ps n) s = (Ok (), s') \<and>
    pkg = \<lparr>dp_file_name = n, dp_staged_path = staged_path ps n,
       dp_size_bytes = of_nat (length (f_data f)), dp_expected_hash = None,
       dp_signature = read_signature s' src, dp_signing_key_id = None, dp_module_type = mt\<rparr>"
proof -
  from assms obtain n where n: "path_file_name src = Some n"
    by (cases "path_file_name src") (simp_all add: stage_local_def)
  from assms n have v: "validate_package_path s src = Ok ()"
    by (cases "validate_package_path s src") (simp_all add: stage_local_def)
  then obtain f where f: "fs_stat s src = Ok (StatFile f)" using validate_package_path_Ok by blast
  have sz: "\<not> of_nat (length (f_data f)) > ps_max_package_size ps"
    using assms n v f by (auto simp: stage_local_def)
  obtain r s1 where c: "fs_copy src (staged_path ps n) s = (r, s1)"
    by (cases "fs_copy src (staged_path ps n) s")
  from assms n v f sz c have r: "r = Ok ()" by (cases r) (simp_all add: stage_local_def)
  show ?thesis
  proof (intro exI conjI)
    show "of_nat (length (f_data f)) \<le> ps_max_package_size ps" using sz by simp
    show "pkg = \<lparr>dp_file_name = n, dp_staged_path = staged_path ps n,
       dp_size_bytes = of_nat (length (f_data f)), dp_expected_hash = None,
       dp_signature = read_signature s' src, dp_signing_key_id = None, dp_module_type = mt\<rparr>"
      "fs_copy src (staged_path ps n) s = (Ok (), s')"
      using assms n v f sz c r by (auto simp: stage_local_def)
  qed (fact n v f)+
qed

lemma stage_local_staged:
  assumes "stage_local ps src mt s = (Ok pkg, s')"
  shows "dp_staged_path pkg = path_join (ps_store_path ps) (dp_file_name pkg) \<and>
     CHR ''/'' \<notin> set (dp_file_name pkg) \<and> dp_file_name pkg \<notin> {'''', ''.'', ''..''} \<and>
     dp_size_bytes pkg \<le> ps_max_package_size ps \<and>
     (\<exists>f. fs_lookup s src = Some f \<and> dp_size_bytes pkg = of_nat (length (f_data f)) \<and>
        fs_lookup s' (dp_staged_path pkg) = Some \<lparr>f_data =
          (if src = dp_staged_path pkg then [] else f_data f), f_modified = fs_time s\<rparr>)"
proof -
  from stage_local_Ok [OF assms] obtain n f where k: "path_file_name src = Some n"
    "fs_stat s src = Ok (StatFile f)" "of_nat (length (f_data f)) \<le> ps_max_package_size ps"
    "fs_copy src (staged_path ps n) s = (Ok (), s')"
    and p: "dp_file_name pkg = n" "dp_staged_path pkg = staged_path ps n"
      "dp_size_bytes pkg = of_nat (length (f_data f))" by auto
  have nm: "CHR ''/'' \<notin> set n" "n \<noteq> []" "n \<noteq> ''.''" "n \<noteq> ''..''"
    using path_file_name_Some [OF k(1)] by auto
  show ?thesis
    using k(3) p nm staged_path_join [OF nm(1)] fs_stat_file [OF k(2)]
      copy_Ok [of src "staged_path ps n" s] k(4) by auto
qed

lemma stage_local_frame:
  "case path_file_name src of
     Some n \<Rightarrow> fs_same_except {staged_path ps n} s (snd (stage_local ps src mt s))
   | None \<Rightarrow> snd (stage_local ps src mt s) = s"
proof (cases "path_file_name src")
  case (Some n)
  have c: "fs_same_except {staged_path ps n} s (snd (fs_copy src (staged_path ps n) s))"
    by (rule frame_copy) simp
  have "snd (stage_local ps src mt s) = s \<or>
      snd (stage_local ps src mt s) = snd (fs_copy src (staged_path ps n) s)"
  proof (cases "validate_package_path s src")
    case (Inr u)
    then obtain f where f: "fs_stat s src = Ok (StatFile f)" using validate_package_path_Ok by auto
    show ?thesis
      by (cases "fs_copy src (staged_path ps n) s"; cases "fst (fs_copy src (staged_path ps n) s)")
        (use Some Inr f in \<open>simp_all add: stage_local_def Let_def\<close>)
  qed (use Some in \<open>simp add: stage_local_def\<close>)
  then show ?thesis using Some c fs_same_except_refl by (metis option.simps(5))
qed (simp add: stage_local_def)

text \<open>C37: A package staged from a local file lies directly in the store under the file's own
  name, is no larger than the limit, and has the bytes of the file, provided the file is
  not already there: a file of the store staged again ends up empty. Staging, successful
  or not, changes no other file; in particular it never brings a signature into the
  store.\<close>

theorem stage_local_spec:
  "(stage_local ps src mt s = (Ok pkg, s') \<longrightarrow>
     dp_staged_path pkg = path_join (ps_store_path ps) (dp_file_name pkg) \<and>
     CHR ''/'' \<notin> set (dp_file_name pkg) \<and> dp_file_name pkg \<notin> {'''', ''.'', ''..''} \<and>
     dp_size_bytes pkg \<le> ps_max_package_size ps \<and>
     (\<exists>f. fs_lookup s src = Some f \<and> dp_size_bytes pkg = of_nat (length (f_data f)) \<and>
        fs_lookup s' (dp_staged_path pkg) = Some \<lparr>f_data =
          (if src = dp_staged_path pkg then [] else f_data f), f_modified = fs_time s\<rparr>)) \<and>
   (case path_file_name src of
      Some n \<Rightarrow> fs_same_except {staged_path ps n} s (snd (stage_local ps src mt s))
    | None \<Rightarrow> snd (stage_local ps src mt s) = s)"
  by (intro conjI impI stage_local_staged stage_local_frame)

definition sample_fs :: "(path \<times> bytes) list \<Rightarrow> fs" where
  "sample_fs l = \<lparr>fs_files = map (\<lambda>(p, d). (p, \<lparr>f_data = d, f_modified = 0\<rparr>)) l,
     fs_deny = (\<lambda>_ _. None), fs_time = 7\<rparr>"

definition sample_package_store :: package_store where
  "sample_package_store = \<lparr>ps_store_path = ''/s'', ps_max_package_size = 100\<rparr>"

lemma stage_local_spec_witness:
  "\<exists>pkg s'. stage_local sample_package_store ''/tmp/a.ko'' KernelModule (sample_fs [(''/tmp/a.ko'', [1, 2])])
      = (Ok pkg, s') \<and> dp_staged_path pkg = path_join ''/s'' (dp_file_name pkg) \<and>
      dp_size_bytes pkg \<le> 100"
proof -
  let ?r = "stage_local sample_package_store ''/tmp/a.ko'' KernelModule (sample_fs [(''/tmp/a.ko'', [1, 2])])"
  have "is_ok (fst ?r)" by code_simp
  then obtain pkg s' where r: "?r = (Ok pkg, s')" by (cases ?r) (auto simp: is_ok_iff)
  with stage_local_spec [of sample_package_store "''/tmp/a.ko''" KernelModule
      "sample_fs [(''/tmp/a.ko'', [1, 2])]" pkg s']
  show ?thesis by (auto simp: sample_package_store_def)
qed

text \<open>A package path is accepted exactly when it has no \<open>..\<close>, is relative or begins with one
  of four fixed prefixes, and names a readable regular file. The prefixes end inside a
  component, so a sibling of an allowed directory is accepted as well.\<close>

theorem validate_package_path_iff:
  "(validate_package_path s p = Ok () \<longleftrightarrow>
     \<not> contains_str p ''..'' \<and>
     (if is_absolute p then \<exists>pre\<in>set allowed_prefixes. starts_with p pre else True) \<and>
     fs_deny s IoMetadata p = None \<and> fs_exists s p) \<and>
   validate_package_path (sample_fs [(''/tmpevil/x.ko'', [])]) ''/tmpevil/x.ko'' = Ok ()"
proof
  show "validate_package_path s p = Ok () \<longleftrightarrow> \<not> contains_str p ''..'' \<and>
     (if is_absolute p then \<exists>pre\<in>set allowed_prefixes. starts_with p pre else True) \<and>
     fs_deny s IoMetadata p = None \<and> fs_exists s p"
    unfolding validate_package_path_Ok
    by (auto simp: fs_stat_def fs_exists_def split: option.splits if_splits)
  show "validate_package_path (sample_fs [(''/tmpevil/x.ko'', [])]) ''/tmpevil/x.ko'' = Ok ()"
    by code_simp
qed

end
