(* ===== verification/Kmod.thy ===== *)
theory Kmod
  imports Package
begin

text \<open>
  Kernel module management (kmod.rs). The kernel is an arbitrary state of type \<open>'k\<close> and the
  interface the code uses of it is the record \<open>kernel_api\<close>: reading a pseudo file below
  /proc or /sys, asking whether a path exists, the tree below a directory, and the two
  system calls, which return 0 or an error number. What the code makes of their results
  is modelled; what they do to the kernel is not assumed.
\<close>

section \<open>The kernel\<close>

text \<open>A directory that cannot be listed has no entries to walk: \<open>None\<close>.\<close>

datatype dir_tree = DFile string | DDir string "dir_tree list option"

record 'k kernel_api =
  ka_read :: "'k \<Rightarrow> path \<Rightarrow> string + string"
  ka_exists :: "'k \<Rightarrow> path \<Rightarrow> bool"
  ka_tree :: "'k \<Rightarrow> path \<Rightarrow> dir_tree list option"
  ka_init_module :: "bytes \<Rightarrow> string option \<Rightarrow> 'k \<Rightarrow> nat \<times> 'k"
  ka_delete_module :: "string \<Rightarrow> u32 \<Rightarrow> 'k \<Rightarrow> nat \<times> 'k"

definition EPERM :: nat where "EPERM = 1"
definition ENOENT :: nat where "ENOENT = 2"
definition EBUSY :: nat where "EBUSY = 16"
definition EEXIST :: nat where "EEXIST = 17"
definition EINVAL :: nat where "EINVAL = 22"

text \<open>The flag words of fcntl.h on Linux.\<close>

definition O_NONBLOCK :: u32 where "O_NONBLOCK = 0x800"
definition O_TRUNC :: u32 where "O_TRUNC = 0x200"

section \<open>Module state and listing\<close>

datatype module_state = MLive | MLoaded | MBuiltIn | MUnloaded | MError

definition from_proc_modules_state :: "string \<Rightarrow> module_state" where
  "from_proc_modules_state state =
     (let t = trim state in
      if t = ''Live'' then MLive else if t = ''Loaded'' then MLoaded
      else if t = ''Unloaded'' then MUnloaded else MError)"

record module_info =
  mi_name :: string
  mi_state :: module_state
  mi_size_bytes :: u64
  mi_used_by_count :: u32
  mi_used_by :: "string list"
  mi_is_builtin :: bool
  mi_path :: "string option"

definition u64_or_zero :: "string \<Rightarrow> u64" where
  "u64_or_zero s = (case parse_u64 s of Inr n \<Rightarrow> n | Inl _ \<Rightarrow> 0)"

definition u32_or_zero :: "string \<Rightarrow> u32" where
  "u32_or_zero s = (case parse_u32 s of Inr n \<Rightarrow> n | Inl _ \<Rightarrow> 0)"

definition parse_module_line :: "string \<Rightarrow> module_info option" where
  "parse_module_line line =
     (case split_whitespace (trim line) of
        n # sz # cnt # users # state # _ # _ \<Rightarrow>
          Some \<lparr>mi_name = n, mi_state = from_proc_modules_state state,
                mi_size_bytes = u64_or_zero sz, mi_used_by_count = u32_or_zero cnt,
                mi_used_by = (if users = ''-'' then [] else map trim (split_on CHR '','' users)),
                mi_is_builtin = False, mi_path = None\<rparr>
      | _ \<Rightarrow> None)"

text \<open>The carriage return \<open>lines\<close> strips is white space, which every line loses anyway; an
  empty last piece gives no module.\<close>

definition list_modules :: "'k kernel_api \<Rightarrow> 'k \<Rightarrow> module_info list result" where
  "list_modules api k =
     (case ka_read api k ''/proc/modules'' of
        Inl e \<Rightarrow> Err (BackendUnavailable (''cannot read /proc/modules: '' @ e))
      | Inr content \<Rightarrow> Ok (List.map_filter parse_module_line (split_on CHR 0x0A content)))"

section \<open>Modules on disk\<close>

definition kernel_release :: "'k kernel_api \<Rightarrow> 'k \<Rightarrow> string" where
  "kernel_release api k =
     (case ka_read api k ''/proc/sys/kernel/osrelease'' of Inr s \<Rightarrow> trim s | Inl _ \<Rightarrow> [])"

definition modules_dir :: "'k kernel_api \<Rightarrow> 'k \<Rightarrow> path" where
  "modules_dir api k =
     (if kernel_release api k = [] then ''/lib/modules''
      else path_push ''/lib/modules'' (kernel_release api k))"

definition module_extensions :: "string list" where
  "module_extensions = [''.ko'', ''.ko.xz'', ''.ko.gz'', ''.ko.zst'']"

text \<open>The walk stops at the first hit.\<close>

fun walk_tree :: "string \<Rightarrow> string list \<Rightarrow> dir_tree \<Rightarrow> bool" where
  "walk_tree n exts (DFile f) = (\<exists>e\<in>set exts. f = n @ e)"
| "walk_tree n exts (DDir d None) = False"
| "walk_tree n exts (DDir d (Some ts)) = (\<exists>t\<in>set ts. walk_tree n exts t)"

definition walk_module_dir :: "'k kernel_api \<Rightarrow> 'k \<Rightarrow> path \<Rightarrow> string \<Rightarrow> string list \<Rightarrow> bool" where
  "walk_module_dir api k dir n exts =
     (case ka_tree api k dir of None \<Rightarrow> False | Some ts \<Rightarrow> (\<exists>t\<in>set ts. walk_tree n exts t))"

definition module_available :: "'k kernel_api \<Rightarrow> 'k \<Rightarrow> string \<Rightarrow> bool" where
  "module_available api k n =
     (\<exists>dir\<in>set [path_join (modules_dir api k) ''kernel'', path_join (modules_dir api k) ''updates'',
                path_join (modules_dir api k) ''extra''].
        ka_exists api k dir \<and> walk_module_dir api k dir n module_extensions)"

definition trim_end_matches :: "string \<Rightarrow> string \<Rightarrow> string" where
  "trim_end_matches s p = rev (trim_start_matches (rev s) (rev p))"

definition module_name_of :: "string \<Rightarrow> string" where
  "module_name_of f =
     trim_end_matches (trim_end_matches (trim_end_matches (trim_end_matches f ''.ko'') ''.xz'')
       ''.gz'') ''.zst''"

fun collect_tree :: "dir_tree \<Rightarrow> string list" where
  "collect_tree (DFile f) =
     (if ends_with f ''.ko'' \<and> module_name_of f \<noteq> [] then [module_name_of f] else [])"
| "collect_tree (DDir d None) = []"
| "collect_tree (DDir d (Some ts)) = concat (map collect_tree ts)"

definition collect_kernel_modules :: "'k kernel_api \<Rightarrow> 'k \<Rightarrow> path \<Rightarrow> string list" where
  "collect_kernel_modules api k dir =
     (case ka_tree api k dir of None \<Rightarrow> [] | Some ts \<Rightarrow> concat (map collect_tree ts))"

text \<open>Sorted by byte order, without neighbouring duplicates.\<close>

definition list_available_modules :: "'k kernel_api \<Rightarrow> 'k \<Rightarrow> string list result" where
  "list_available_modules api k =
     (let kernel_dir = path_join (modules_dir api k) ''kernel'';
          names = (if ka_exists api k kernel_dir then collect_kernel_modules api k kernel_dir else [])
      in Ok (remdups_adj (sort_by cmp_str names)))"

section \<open>One module\<close>

definition sys_module :: "string \<Rightarrow> path" where
  "sys_module n = path_push ''/sys/module'' n"

definition is_loaded :: "'k kernel_api \<Rightarrow> 'k \<Rightarrow> string \<Rightarrow> bool" where
  "is_loaded api k n = ka_exists api k (sys_module n)"

fun tree_name :: "dir_tree \<Rightarrow> string" where
  "tree_name (DFile f) = f"
| "tree_name (DDir d _) = d"

definition module_info_of :: "'k kernel_api \<Rightarrow> 'k \<Rightarrow> string \<Rightarrow> module_info result" where
  "module_info_of api k n =
     (if ka_exists api k (sys_module n) then
        (let holders = path_join (sys_module n) ''holders'';
             used_by = (if ka_exists api k holders then
                 (case ka_tree api k holders of Some ts \<Rightarrow> map tree_name ts | None \<Rightarrow> []) else []);
             builtin = (case ka_read api k (path_join (sys_module n) ''hold'') of
                 Inr c \<Rightarrow> trim c = ''1'' | Inl _ \<Rightarrow> False);
             sz = (case ka_read api k (path_join (sys_module n) ''coresize'') of
                 Inr c \<Rightarrow> u64_or_zero (trim c) | Inl _ \<Rightarrow> 0)
         in Ok \<lparr>mi_name = n, mi_state = (if builtin then MBuiltIn else MLive), mi_size_bytes = sz,
                mi_used_by_count = of_nat (length used_by), mi_used_by = used_by,
                mi_is_builtin = builtin, mi_path = None\<rparr>)
      else if module_available api k n then
        Ok \<lparr>mi_name = n, mi_state = MUnloaded, mi_size_bytes = 0, mi_used_by_count = 0,
            mi_used_by = [], mi_is_builtin = False, mi_path = None\<rparr>
      else Err (NotFound (''kernel module '' @ quoted n @ '' not found'')))"

section \<open>Loading and unloading\<close>

definition forbidden_name_chars :: string where
  "forbidden_name_chars =
     [CHR ''/'', CHR 0x5C, CHR ''.'', CHR 0x00, CHR '';'', CHR ''|'', CHR ''&'', CHR ''$'', CHR 0x60]"

definition validate_module_name :: "string \<Rightarrow> unit result" where
  "validate_module_name n =
     (if n = [] then Err (InvalidArgument ''module name must not be empty'')
      else if length n > 128 then
        Err (InvalidArgument ''module name exceeds maximum length (128)'')
      else (case List.find (\<lambda>c. c \<in> set forbidden_name_chars) n of
          Some c \<Rightarrow> Err (InvalidArgument (''module name '' @ quoted n
                     @ '' contains invalid character '' @ quoted [c]))
        | None \<Rightarrow> Ok ()))"

definition load_error :: "string \<Rightarrow> nat \<Rightarrow> service_error" where
  "load_error n errno =
     (if errno = EEXIST then AlreadyExists (''module '' @ quoted n @ '' already loaded'')
      else if errno = ENOENT then NotFound (''module '' @ quoted n @ '' not found on disk'')
      else if errno = EINVAL then
        InvalidArgument (''invalid module file or parameters for '' @ quoted n)
      else if errno = EPERM then PermissionDenied ''insufficient privilege to load kernel module''
      else Internal (''failed to load module '' @ quoted n @ '': errno='' @ show_nat errno))"

text \<open>Without parameters the pointer is null. The file is read before the call.\<close>

definition load_module ::
  "'k kernel_api \<Rightarrow> fs \<Rightarrow> string \<Rightarrow> path \<Rightarrow> string list \<Rightarrow> 'k \<Rightarrow> unit result \<times> 'k" where
  "load_module api s n p params k =
     (case validate_module_name n of
        Inl e \<Rightarrow> (Err e, k)
      | Inr _ \<Rightarrow>
          (case fs_read s p of
             Inl e \<Rightarrow> (Err (InvalidArgument (''cannot read module file '' @ show_debug p @ '': '' @ e)), k)
           | Inr module_data \<Rightarrow>
               (let param_string = join '' '' params;
                    (ret, k1) = ka_init_module api module_data
                      (if param_string = [] then None else Some param_string) k
                in if ret \<noteq> 0 then (Err (load_error n ret), k1) else (Ok (), k1))))"

definition unload_error :: "string \<Rightarrow> nat \<Rightarrow> service_error" where
  "unload_error n errno =
     (if errno = ENOENT then NotFound (''module '' @ quoted n @ '' is not loaded'')
      else if errno = EBUSY then
        Busy (''module '' @ quoted n @ '' is in use and cannot be unloaded'')
      else if errno = EPERM then PermissionDenied ''insufficient privilege to unload kernel module''
      else Internal (''failed to unload module '' @ quoted n @ '': errno='' @ show_nat errno))"

definition unload_flags :: "bool \<Rightarrow> u32" where
  "unload_flags force = (if force then or O_NONBLOCK 0x0001 else O_NONBLOCK)"

text \<open>A validated name has no null byte, so building the C string cannot fail.\<close>

definition unload_module ::
  "'k kernel_api \<Rightarrow> string \<Rightarrow> bool \<Rightarrow> 'k \<Rightarrow> unit result \<times> 'k" where
  "unload_module api n force k =
     (case validate_module_name n of
        Inl e \<Rightarrow> (Err e, k)
      | Inr _ \<Rightarrow>
          if CHR 0x00 \<in> set n then
            (Err (InvalidArgument (''module name '' @ quoted n @ '' contains null byte'')), k)
          else
            (let (ret, k1) = ka_delete_module api n (unload_flags force) k
             in if ret \<noteq> 0 then (Err (unload_error n ret), k1) else (Ok (), k1)))"

section \<open>What reaches the kernel\<close>

lemma validate_module_name_Ok:
  "validate_module_name n = Ok () \<longleftrightarrow>
     n \<noteq> [] \<and> length n \<le> 128 \<and> set n \<inter> set forbidden_name_chars = {}"
proof (cases "List.find (\<lambda>c. c \<in> set forbidden_name_chars) n")
  case None
  then have "set n \<inter> set forbidden_name_chars = {}" by (auto simp: find_None_iff)
  then show ?thesis by (simp add: validate_module_name_def None)
next
  case (Some c)
  then have "c \<in> set n \<and> c \<in> set forbidden_name_chars" by (auto simp: find_Some_iff)
  then show ?thesis using Some by (auto simp: validate_module_name_def)
qed

text \<open>The two calls in one equation each, and the error that belongs to a number.\<close>

lemma valid_name_no_null: "validate_module_name n = Ok () \<Longrightarrow> CHR 0x00 \<notin> set n"
  unfolding validate_module_name_Ok by (auto simp: forbidden_name_chars_def)

lemma invalid_name: "validate_module_name n \<noteq> Ok () \<Longrightarrow> \<exists>m. validate_module_name n = Err (InvalidArgument m)"
  by (auto simp: validate_module_name_def split: if_splits option.splits)

lemma load_module_call:
  "validate_module_name n = Ok () \<Longrightarrow> fs_read s p = Ok data \<Longrightarrow>
   ka_init_module api data (if join '' '' ps = [] then None else Some (join '' '' ps)) k = (errno, after) \<Longrightarrow>
   load_module api s n p ps k = (if errno = 0 then Ok () else Err (load_error n errno), after)"
  by (simp add: load_module_def Let_def)

lemma unload_module_call:
  "validate_module_name n = Ok () \<Longrightarrow>
   ka_delete_module api n (unload_flags force) k = (errno, after) \<Longrightarrow>
   unload_module api n force k = (if errno = 0 then Ok () else Err (unload_error n errno), after)"
  using valid_name_no_null [of n] by (simp add: unload_module_def Let_def)

lemma load_error_classes:
  "(\<exists>m. load_error n e = PermissionDenied m) \<longleftrightarrow> e = 1"
  "(\<exists>m. load_error n e = NotFound m) \<longleftrightarrow> e = 2"
  "(\<exists>m. load_error n e = AlreadyExists m) \<longleftrightarrow> e = 17"
  "(\<exists>m. load_error n e = InvalidArgument m) \<longleftrightarrow> e = 22"
  by (auto simp: load_error_def EPERM_def ENOENT_def EEXIST_def EINVAL_def)

lemma unload_error_classes:
  "(\<exists>m. unload_error n e = PermissionDenied m) \<longleftrightarrow> e = 1"
  "(\<exists>m. unload_error n e = NotFound m) \<longleftrightarrow> e = 2"
  "(\<exists>m. unload_error n e = Busy m) \<longleftrightarrow> e = 16"
  by (auto simp: unload_error_def EPERM_def ENOENT_def EBUSY_def)

lemma unload_flags_value: "unload_flags force = (if force then 0x801 else 0x800)"
  by (simp add: unload_flags_def O_NONBLOCK_def)


text \<open>Forced removal sets the access-mode bit instead of \<open>O_TRUNC\<close>, the flag the comment
  names and the kernel tests.\<close>

lemma unload_force_flag:
  "and (unload_flags force) O_TRUNC = 0" "unload_flags True = 0x801" "unload_flags False = 0x800"
  by (simp_all add: unload_flags_def O_NONBLOCK_def O_TRUNC_def)

text \<open>A compressed module is found by name but never listed.\<close>

lemma compressed_module_listing:
  "walk_tree ''e1000e'' module_extensions (DFile ''e1000e.ko.xz'')"
  "collect_tree (DFile ''e1000e.ko.xz'') = []"
  by (simp_all add: module_extensions_def ends_with_def)


end
