(* ===== verification/Execution.thy ===== *)
theory Execution
  imports Kmod Verification Conflict Authz
begin

text \<open>
  The execution engine (execution.rs): install, remove and update of a driver with
  authorization, validation, conflict detection, signature verification, the tracker of
  saved states, rollback and audit. The world an operation runs in is one record: the
  file store, the kernel, the sequence counter of signals.rs, the tracker, the inventory
  that is passed by mutable reference, and the audit log all backends append to. The
  clock is read once per operation. The tracker's mutex is always released before
  anything can fail, so it is never poisoned.
\<close>

section \<open>The world and the tracker\<close>

record saved_state =
  sv_driver :: driver_entry
  sv_was_loaded :: bool
  sv_correlation_id :: string

record 'k world =
  w_fs :: fs
  w_kernel :: 'k
  w_seq :: u64
  w_tracker :: "saved_state list"
  w_inventory :: driver_inventory
  w_log :: audit_log

text \<open>What the engine is given: system calls, cryptography, the async runtime, the clock.\<close>

record 'k exec_env =
  xe_api :: "'k kernel_api"
  xe_crypto :: crypto_prims
  xe_runtime :: bool
  xe_now :: u64

record engine =
  en_authorizer :: authorizer
  en_package_store :: package_store
  en_verifier :: verifier
  en_system :: system_info
  en_allow_unsigned :: bool

definition engine_new ::
  "authorizer \<Rightarrow> package_store \<Rightarrow> verifier \<Rightarrow> bool \<Rightarrow> system_info \<Rightarrow> engine" where
  "engine_new az ps vf allow_unsigned detected =
     \<lparr>en_authorizer = az, en_package_store = ps, en_verifier = vf, en_system = detected,
      en_allow_unsigned = allow_unsigned\<rparr>"

definition next_sequence :: "'k world \<Rightarrow> u64 \<times> 'k world" where
  "next_sequence w = (w_seq w, w\<lparr>w_seq := w_seq w + 1\<rparr>)"

definition save_state :: "'k exec_env \<Rightarrow> driver_entry \<Rightarrow> 'k world \<Rightarrow> string \<times> 'k world" where
  "save_state env driver w =
     (let (n, w1) = next_sequence w;
          correlation_id = ''op-'' @ show_u64 n;
          was_loaded = is_loaded (xe_api env) (w_kernel w1) (di_name (de_id driver))
      in (correlation_id, w1\<lparr>w_tracker := w_tracker w1 @
           [\<lparr>sv_driver = driver, sv_was_loaded = was_loaded,
             sv_correlation_id = correlation_id\<rparr>]\<rparr>))"

definition find_state :: "string \<Rightarrow> 'k world \<Rightarrow> saved_state option" where
  "find_state correlation_id w =
     List.find (\<lambda>s. sv_correlation_id s = correlation_id) (w_tracker w)"

definition remove_state :: "string \<Rightarrow> 'k world \<Rightarrow> 'k world" where
  "remove_state correlation_id w =
     w\<lparr>w_tracker := filter (\<lambda>s. sv_correlation_id s \<noteq> correlation_id) (w_tracker w)\<rparr>"

section \<open>Audit and failure\<close>

definition audit ::
  "'k exec_env \<Rightarrow> event_category \<Rightarrow> event_severity \<Rightarrow> string \<Rightarrow> string \<Rightarrow> string
     \<Rightarrow> 'k world \<Rightarrow> 'k world" where
  "audit env cat sev action subject details w =
     w\<lparr>w_log := record_event (audit_event_new (xe_now env) cat sev action subject details) (w_log w)\<rparr>"

definition fail_operation ::
  "'k exec_env \<Rightarrow> string \<Rightarrow> string \<Rightarrow> string \<Rightarrow> string \<Rightarrow> event_category \<Rightarrow> 'k world
     \<Rightarrow> operation_result \<times> 'k world" where
  "fail_operation env driver_name msg err caller cat w =
     (operation_failed driver_name msg err,
      audit env cat SevError ''operation_failed'' caller (msg @ '': '' @ err) w)"

text \<open>The first steps of every operation: a sequence number, the request event, the
  authorization of the caller.\<close>

definition begin_operation ::
  "'k exec_env \<Rightarrow> engine \<Rightarrow> driver_action \<Rightarrow> event_category \<Rightarrow> string \<Rightarrow> string \<Rightarrow> string
     \<Rightarrow> 'k world \<Rightarrow> bool \<times> 'k world" where
  "begin_operation env en act cat event details caller w =
     (let (n, w1) = next_sequence w;
          w2 = audit env cat SevInfo event caller details w1;
          (auth, l) = authorize (xe_runtime env) (en_authorizer en) (xe_now env) act caller (w_log w2)
      in (is_authorized auth, w2\<lparr>w_log := l\<rparr>))"

section \<open>Helpers\<close>

definition get_loaded_modules :: "'k exec_env \<Rightarrow> 'k world \<Rightarrow> string list" where
  "get_loaded_modules env w =
     (case list_modules (xe_api env) (w_kernel w) of
        Inl _ \<Rightarrow> []
      | Inr ms \<Rightarrow> map mi_name (filter (\<lambda>m. mi_state m = MLive) ms))"

definition find_package_path :: "engine \<Rightarrow> fs \<Rightarrow> driver_entry \<Rightarrow> path" where
  "find_package_path en s driver =
     (let staged = staged_path (en_package_store en) (di_name (de_id driver) @ ''.ko'');
          staged2 = staged_path (en_package_store en) (di_name (de_id driver))
      in if fs_exists s staged then staged
         else if fs_exists s staged2 then staged2
         else staged)"

definition read_package_signature :: "engine \<Rightarrow> fs \<Rightarrow> driver_entry \<Rightarrow> bytes" where
  "read_package_signature en s driver =
     (case fs_read s (staged_path (en_package_store en) (di_name (de_id driver) @ ''.sig'')) of
        Inr d \<Rightarrow> d
      | Inl _ \<Rightarrow> [])"

fun update_first :: "('a \<Rightarrow> bool) \<Rightarrow> ('a \<Rightarrow> 'a) \<Rightarrow> 'a list \<Rightarrow> 'a list" where
  "update_first P f [] = []"
| "update_first P f (x # xs) = (if P x then f x # xs else x # update_first P f xs)"

definition update_driver_status ::
  "'k exec_env \<Rightarrow> driver_id \<Rightarrow> driver_status \<Rightarrow> 'k world \<Rightarrow> 'k world" where
  "update_driver_status env i new_status w =
     w\<lparr>w_inventory := (w_inventory w)
         \<lparr>inv_drivers := update_first
            (\<lambda>d. di_name (de_id d) = di_name i \<and> di_provider (de_id d) = di_provider i)
            (\<lambda>d. d\<lparr>de_status := new_status\<rparr>) (inv_drivers (w_inventory w)),
          inv_last_scan_timestamp := xe_now env\<rparr>\<rparr>"

definition conflict_details :: "conflict_result \<Rightarrow> string" where
  "conflict_details r = join ''; '' (map (\<lambda>c. cf_message c @ '': '' @ cf_details c) (cr_conflicts r))"

section \<open>Execution of the three operations\<close>

text \<open>Each works on the files and the kernel. The directory of the firmware is created
  first; its failure is ignored.\<close>

definition firmware_path :: "driver_entry \<Rightarrow> path" where
  "firmware_path driver = path_push ''/lib/firmware'' (di_name (de_id driver))"

definition execute_install ::
  "'k exec_env \<Rightarrow> engine \<Rightarrow> driver_entry \<Rightarrow> fs \<times> 'k \<Rightarrow> unit result \<times> fs \<times> 'k" where
  "execute_install env en driver sk =
     (let (s, k) = sk; n = di_name (de_id driver); p = find_package_path en s driver in
      case di_module_type (de_id driver) of
        KernelModule \<Rightarrow>
          (if fs_exists s p then
             (let (r, k1) = load_module (xe_api env) s n p [] k in (r, s, k1))
           else if module_available (xe_api env) k n then (Ok (), s, k)
           else (Err (NotFound (''Module file for '' @ quoted n @ '' not found'')), s, k))
      | Firmware \<Rightarrow>
          (let (r, s1) = fs_copy p (firmware_path driver) s
           in (map_err (\<lambda>e. Internal (''cannot install firmware: '' @ e)) r, s1, k))
      | Userspace \<Rightarrow> (Ok (), s, k)
      | DeviceTreeOverlay \<Rightarrow>
          (Err (NotSupported ''Device tree overlay installation is not supported in M2-D''), s, k))"

definition execute_remove ::
  "'k exec_env \<Rightarrow> driver_entry \<Rightarrow> bool \<Rightarrow> fs \<times> 'k \<Rightarrow> unit result \<times> fs \<times> 'k" where
  "execute_remove env driver force sk =
     (let (s, k) = sk; n = di_name (de_id driver) in
      case di_module_type (de_id driver) of
        KernelModule \<Rightarrow>
          (if is_loaded (xe_api env) k n then
             (let (r, k1) = unload_module (xe_api env) n force k in (r, s, k1))
           else (Ok (), s, k))
      | Firmware \<Rightarrow>
          (if fs_exists s (firmware_path driver) then
             (let (r, s1) = fs_remove (firmware_path driver) s
              in (map_err (\<lambda>e. Internal (''cannot remove firmware: '' @ e)) r, s1, k))
           else (Ok (), s, k))
      | Userspace \<Rightarrow> (Ok (), s, k)
      | DeviceTreeOverlay \<Rightarrow>
          (Err (NotSupported ''Device tree overlay removal is not supported in M2-D''), s, k))"

definition execute_update ::
  "'k exec_env \<Rightarrow> engine \<Rightarrow> driver_entry \<Rightarrow> fs \<times> 'k \<Rightarrow> unit result \<times> fs \<times> 'k" where
  "execute_update env en driver sk =
     (let (s, k) = sk; n = di_name (de_id driver) in
      if is_loaded (xe_api env) k n then
        (case unload_module (xe_api env) n False k of
           (Inl e, k1) \<Rightarrow> (Err e, s, k1)
         | (Inr _, k1) \<Rightarrow> execute_install env en driver (s, k1))
      else execute_install env en driver (s, k))"

definition run_on ::
  "(fs \<times> 'k \<Rightarrow> unit result \<times> fs \<times> 'k) \<Rightarrow> 'k world \<Rightarrow> unit result \<times> 'k world" where
  "run_on f w = (case f (w_fs w, w_kernel w) of (r, s, k) \<Rightarrow> (r, w\<lparr>w_fs := s, w_kernel := k\<rparr>))"

section \<open>Rollback\<close>

definition restore_driver :: "driver_entry \<Rightarrow> driver_inventory \<Rightarrow> driver_inventory" where
  "restore_driver saved iv =
     iv\<lparr>inv_drivers := update_first
          (\<lambda>d. di_name (de_id d) = di_name (de_id saved)
             \<and> di_provider (de_id d) = di_provider (de_id saved))
          (\<lambda>_. saved) (inv_drivers iv)\<rparr>"

definition rollback_operation ::
  "'k exec_env \<Rightarrow> engine \<Rightarrow> string \<Rightarrow> string \<Rightarrow> 'k world \<Rightarrow> 'k world" where
  "rollback_operation env en correlation_id caller w =
     (case find_state correlation_id w of
        Some saved \<Rightarrow>
          (let n = di_name (de_id (sv_driver saved));
               w1 = w\<lparr>w_inventory := restore_driver (sv_driver saved) (w_inventory w)\<rparr>;
               w2 = (if sv_was_loaded saved then
                   w1\<lparr>w_kernel := snd (load_module (xe_api env) (w_fs w1) n
                        (find_package_path en (w_fs w1) (sv_driver saved)) [] (w_kernel w1))\<rparr>
                 else w1);
               w3 = audit env DriverInstall SevWarning ''rollback_completed'' caller
                 (''Rollback completed for operation '' @ quoted correlation_id
                    @ '', restored driver '' @ quoted n) w2
           in remove_state correlation_id w3)
      | None \<Rightarrow>
          audit env DriverInstall SevError ''rollback_failed'' caller
            (''Rollback failed: no saved state found for operation '' @ quoted correlation_id) w)"

section \<open>The operations\<close>

text \<open>Once the state is saved every operation ends the same way: the effect on the
  inventory, a completion event and the release of the saved state, or the rollback.\<close>

definition verify_step ::
  "'k exec_env \<Rightarrow> engine \<Rightarrow> driver_entry \<Rightarrow> 'k world \<Rightarrow> string option \<times> 'k world" where
  "verify_step env en driver w =
     (if di_module_type (de_id driver) = KernelModule \<or> di_module_type (de_id driver) = Firmware then
        (let (r, l) = verify_package (xe_crypto env) (en_verifier en) (xe_now env) (w_fs w)
               (find_package_path en (w_fs w) driver) (read_package_signature en (w_fs w) driver)
               None True (w_log w)
         in (if \<not> vo_is_valid (sg_outcome r) \<and> \<not> en_allow_unsigned en
             then Some (sg_description r) else None, w\<lparr>w_log := l\<rparr>))
      else (None, w))"

definition install_commit ::
  "'k exec_env \<Rightarrow> engine \<Rightarrow> driver_entry \<Rightarrow> string \<Rightarrow> 'k world \<Rightarrow> operation_result \<times> 'k world" where
  "install_commit env en driver caller w =
     (let (corr_id, w1) = save_state env driver w;
          (r, w2) = run_on (execute_install env en driver) w1;
          n = di_name (de_id driver)
      in case r of
           Inr _ \<Rightarrow>
             (operation_success n (''Driver '' @ quoted n @ '' installed successfully''),
              remove_state corr_id
                (audit env DriverInstall SevInfo ''driver_install_completed'' caller
                  (''Driver '' @ quoted n @ '' installed successfully'')
                  (update_driver_status env (de_id driver) Installed w2)))
         | Inl e \<Rightarrow>
             (operation_failed n ''Installation failed and was rolled back'' (show_service_error e),
              rollback_operation env en corr_id caller w2))"

definition install_driver ::
  "'k exec_env \<Rightarrow> engine \<Rightarrow> install_request \<Rightarrow> string \<Rightarrow> hardware_device list \<Rightarrow> 'k world
     \<Rightarrow> operation_result \<times> 'k world" where
  "install_driver env en req caller hw w =
     (let (allowed, w1) = begin_operation env en InstallDriver DriverInstall
            ''driver_install_requested''
            (''Installation of '' @ quoted (ir_driver_name req) @ '' from ''
               @ quoted (ir_provider req) @ '' requested'') caller w;
          fail = (\<lambda>msg err. fail_operation env (ir_driver_name req) msg err caller DriverInstall)
      in if \<not> allowed then
           fail ''Installation not authorized'' ''Permission denied by authorization policy'' w1
         else (case install_request_validate req of
             Inl e \<Rightarrow> fail ''Invalid installation request'' (show_service_error e) w1
           | Inr _ \<Rightarrow>
               (case find_driver (w_inventory w1) (ir_driver_name req) (ir_provider req) of
                  None \<Rightarrow> fail ''Driver not found'' (''Driver '' @ quoted (ir_provider req @ ''/''
                            @ ir_driver_name req) @ '' not found in inventory'') w1
                | Some driver \<Rightarrow>
                    (let conflicts = check_install (en_system en) driver
                           (inv_drivers (w_inventory w1)) (get_loaded_modules env w1) hw
                     in if cr_has_conflicts conflicts \<and> \<not> ir_force req then
                          fail ''Installation blocked by conflicts'' (conflict_details conflicts) w1
                        else (case verify_step env en driver w1 of
                            (Some description, w2) \<Rightarrow>
                              fail ''Package verification failed'' description w2
                          | (None, w2) \<Rightarrow> install_commit env en driver caller w2)))))"

definition remove_commit ::
  "'k exec_env \<Rightarrow> engine \<Rightarrow> driver_entry \<Rightarrow> bool \<Rightarrow> string \<Rightarrow> 'k world
     \<Rightarrow> operation_result \<times> 'k world" where
  "remove_commit env en driver force caller w =
     (let (corr_id, w1) = save_state env driver w;
          (r, w2) = run_on (execute_remove env driver force) w1;
          n = di_name (de_id driver)
      in case r of
           Inr _ \<Rightarrow>
             (operation_success n (''Driver '' @ quoted n @ '' removed successfully''),
              remove_state corr_id
                (audit env DriverRemove SevInfo ''driver_remove_completed'' caller
                  (''Driver '' @ quoted n @ '' removed successfully'')
                  (update_driver_status env (de_id driver) Removed w2)))
         | Inl e \<Rightarrow>
             (operation_failed n ''Removal failed and was rolled back'' (show_service_error e),
              rollback_operation env en corr_id caller w2))"

definition remove_driver ::
  "'k exec_env \<Rightarrow> engine \<Rightarrow> remove_request \<Rightarrow> string \<Rightarrow> 'k world
     \<Rightarrow> operation_result \<times> 'k world" where
  "remove_driver env en req caller w =
     (let (allowed, w1) = begin_operation env en RemoveDriver DriverRemove
            ''driver_remove_requested''
            (''Removal of '' @ quoted (rr_driver_name req) @ '' requested'') caller w;
          fail = (\<lambda>msg err. fail_operation env (rr_driver_name req) msg err caller DriverRemove)
      in if \<not> allowed then
           fail ''Removal not authorized'' ''Permission denied by authorization policy'' w1
         else (case remove_request_validate req of
             Inl e \<Rightarrow> fail ''Invalid removal request'' (show_service_error e) w1
           | Inr _ \<Rightarrow>
               (case List.find (\<lambda>d. eq_ignore_ascii_case (di_name (de_id d)) (rr_driver_name req))
                  (inv_drivers (w_inventory w1)) of
                  None \<Rightarrow> fail ''Driver not found'' (''Driver '' @ quoted (rr_driver_name req)
                            @ '' not found in inventory'') w1
                | Some driver \<Rightarrow>
                    (let conflicts = check_remove driver (get_loaded_modules env w1)
                           (inv_drivers (w_inventory w1))
                     in if cr_has_conflicts conflicts \<and> \<not> rr_force req then
                          fail ''Removal blocked by conflicts'' (conflict_details conflicts) w1
                        else remove_commit env en driver (rr_force req) caller w1))))"

text \<open>The completed update writes back the entry it started from, with status active.\<close>

definition mark_updated :: "string \<Rightarrow> driver_entry \<Rightarrow> 'k world \<Rightarrow> 'k world" where
  "mark_updated requested current w =
     w\<lparr>w_inventory := (w_inventory w)\<lparr>inv_drivers := update_first
        (\<lambda>d. eq_ignore_ascii_case (di_name (de_id d)) requested
           \<and> di_provider (de_id d) = di_provider (de_id current))
        (\<lambda>_. current\<lparr>de_status := Active\<rparr>) (inv_drivers (w_inventory w))\<rparr>\<rparr>"

definition update_commit ::
  "'k exec_env \<Rightarrow> engine \<Rightarrow> string \<Rightarrow> driver_entry \<Rightarrow> string \<Rightarrow> 'k world
     \<Rightarrow> operation_result \<times> 'k world" where
  "update_commit env en requested current caller w =
     (let (corr_id, w1) = save_state env current w;
          (r, w2) = run_on (execute_update env en current) w1
      in case r of
           Inr _ \<Rightarrow>
             (operation_success requested (''Driver '' @ quoted requested @ '' updated successfully''),
              remove_state corr_id
                (audit env DriverUpdate SevInfo ''driver_update_completed'' caller
                  (''Driver '' @ quoted requested @ '' updated successfully'')
                  (mark_updated requested current w2)))
         | Inl e \<Rightarrow>
             (operation_failed requested ''Update failed and was rolled back'' (show_service_error e),
              rollback_operation env en corr_id caller w2))"

definition downgrade_message :: "driver_version \<Rightarrow> driver_version \<Rightarrow> string" where
  "downgrade_message installed requested =
     ''installed version '' @ show_driver_version installed @ '' is newer than requested version ''
       @ show_driver_version requested
       @ ''; downgrade is not permitted without explicit policy override''"

definition update_driver ::
  "'k exec_env \<Rightarrow> engine \<Rightarrow> update_request \<Rightarrow> string \<Rightarrow> 'k world
     \<Rightarrow> operation_result \<times> 'k world" where
  "update_driver env en req caller w =
     (let (allowed, w1) = begin_operation env en UpdateDriver DriverUpdate
            ''driver_update_requested''
            (''Update of '' @ quoted (ur_driver_name req) @ '' to ''
               @ (case ur_target_version req of None \<Rightarrow> ''None''
                  | Some v \<Rightarrow> ''Some('' @ show_debug v @ '')'') @ '' requested'') caller w;
          fail = (\<lambda>msg err. fail_operation env (ur_driver_name req) msg err caller DriverUpdate)
      in if \<not> allowed then
           fail ''Update not authorized'' ''Permission denied by authorization policy'' w1
         else (case update_request_validate req of
             Inl e \<Rightarrow> fail ''Invalid update request'' (show_service_error e) w1
           | Inr _ \<Rightarrow>
               (case List.find (\<lambda>d. eq_ignore_ascii_case (di_name (de_id d)) (ur_driver_name req))
                  (inv_drivers (w_inventory w1)) of
                  None \<Rightarrow> fail ''Driver not found for update'' (''Driver '' @ quoted (ur_driver_name req)
                            @ '' not found in inventory'') w1
                | Some current \<Rightarrow>
                    (case ur_target_version req of
                       None \<Rightarrow> update_commit env en (ur_driver_name req) current caller w1
                     | Some target \<Rightarrow>
                         (case driver_version_parse target of
                            Inl e \<Rightarrow> fail ''Invalid target version'' (show_service_error e) w1
                          | Inr requested \<Rightarrow>
                              if di_version (de_id current) > requested \<and> \<not> ur_allow_downgrade req then
                                (let msg = downgrade_message (di_version (de_id current)) requested
                                 in fail ''Downgrade rejected'' msg
                                      (audit env DriverUpdate SevWarning ''downgrade_rejected'' caller
                                         msg w1))
                              else update_commit env en (ur_driver_name req) current caller w1)))))"


text \<open>After a kernel update the engine detects the system again.\<close>

definition refresh_system_info :: "system_info \<Rightarrow> engine \<Rightarrow> engine" where
  "refresh_system_info detected en = en\<lparr>en_system := detected\<rparr>"


end
