(* ===== verification/Execution_Contract.thy ===== *)
theory Execution_Contract
  imports Execution
begin

text \<open>
  What the three operations of the execution engine promise: the contract they share as
  a locale, its interpretation on the model of each operation, the exact conditions under
  which each completes, and runs of arbitrary operations interleaved with changes of the
  environment.
\<close>

section \<open>Lists\<close>

lemma find_refine:
  "List.find Q xs = Some x \<Longrightarrow> P x \<Longrightarrow> (\<And>y. P y \<Longrightarrow> Q y) \<Longrightarrow> List.find P xs = Some x"
  by (induction xs) (auto split: if_splits)

lemma update_first_None: "List.find P xs = None \<Longrightarrow> update_first P f xs = xs"
  by (induction xs) (auto split: if_splits)

lemma update_first_Some:
  "List.find P xs = Some x \<Longrightarrow> \<exists>i<length xs. xs ! i = x \<and> update_first P f xs = xs[i := f x]"
proof (induction xs)
  case (Cons y ys)
  show ?case
  proof (cases "P y")
    case True
    then show ?thesis using Cons.prems by (auto intro!: exI [of _ 0])
  next
    case False
    then obtain i where "i < length ys" "ys ! i = x" "update_first P f ys = ys[i := f x]"
      using Cons by auto
    then show ?thesis using False by (auto intro!: exI [of _ "Suc i"])
  qed
qed simp

lemma update_first_same: "List.find P xs = Some x \<Longrightarrow> update_first P (\<lambda>_. x) xs = xs"
  using update_first_Some [of P xs x "\<lambda>_. x"] by auto

section \<open>Small changes of the world\<close>

text \<open>Nothing but the log and the sequence counter has changed.\<close>

definition only_logged :: "'k world \<Rightarrow> 'k world \<Rightarrow> bool" where
  "only_logged w w' =
     (w_fs w' = w_fs w \<and> w_kernel w' = w_kernel w \<and> w_tracker w' = w_tracker w
      \<and> w_inventory w' = w_inventory w \<and> log_extends (w_log w) (w_log w'))"

text \<open>At most one entry has changed, and only in its status.\<close>

definition status_step :: "driver_entry list \<Rightarrow> driver_entry list \<Rightarrow> bool" where
  "status_step ds ds' =
     (ds' = ds \<or> (\<exists>i st. i < length ds \<and> ds' = ds[i := (ds ! i)\<lparr>de_status := st\<rparr>]))"

named_theorems world_simps "the fields of the world after a step"

lemma only_logged_refl [simp]: "only_logged w w"
  by (simp add: only_logged_def)

lemma only_logged_trans: "only_logged a b \<Longrightarrow> only_logged b c \<Longrightarrow> only_logged a c"
  by (auto simp: only_logged_def intro: log_extends_trans)

lemma audit_fields [simp, world_simps]:
  "w_fs (audit env c s a u d w) = w_fs w" "w_kernel (audit env c s a u d w) = w_kernel w"
  "w_tracker (audit env c s a u d w) = w_tracker w" "w_seq (audit env c s a u d w) = w_seq w"
  "w_inventory (audit env c s a u d w) = w_inventory w"
  "log_extends (w_log w) (w_log (audit env c s a u d w))"
  by (simp_all add: audit_def)

lemma remove_state_fields [simp, world_simps]:
  "w_fs (remove_state i w) = w_fs w" "w_kernel (remove_state i w) = w_kernel w"
  "w_seq (remove_state i w) = w_seq w" "w_inventory (remove_state i w) = w_inventory w"
  "w_log (remove_state i w) = w_log w"
  by (simp_all add: remove_state_def)

lemma only_logged_audit: "only_logged w (audit env c s a u d w)"
  by (simp add: only_logged_def)

lemma fail_operation_simps [simp, world_simps]:
  "or_status (fst (fail_operation env n m e c cat w)) = OpFailed"
  "only_logged w (snd (fail_operation env n m e c cat w))"
  by (simp_all add: fail_operation_def operation_failed_def only_logged_audit)

lemma status_step_refl [simp]: "status_step ds ds"
  by (simp add: status_step_def)

lemma status_step_ids: "status_step ds ds' \<Longrightarrow> map de_id ds' = map de_id ds"
  by (auto simp: status_step_def map_update intro!: nth_equalityI simp: nth_list_update)

lemma status_step_update_first:
  "status_step ds (update_first P (\<lambda>d. d\<lparr>de_status := st\<rparr>) ds)"
proof (cases "List.find P ds")
  case (Some d)
  from update_first_Some [OF this, of "\<lambda>d. d\<lparr>de_status := st\<rparr>"] show ?thesis
    by (auto simp: status_step_def)
qed (simp add: update_first_None)

section \<open>Authorization and verification\<close>

definition permitted :: "'k exec_env \<Rightarrow> engine \<Rightarrow> driver_action \<Rightarrow> string \<Rightarrow> bool" where
  "permitted env en act caller =
     is_authorized (fst (authorize (xe_runtime env) (en_authorizer en) (xe_now env) act caller []))"

lemma begin_operation_facts:
  assumes "begin_operation env en act cat event details caller w = (b, w1)"
  shows "b = permitted env en act caller" "only_logged w w1" "w_seq w1 = w_seq w + 1"
proof -
  let ?l = "w_log (audit env cat SevInfo event caller details (snd (next_sequence w)))"
  let ?a = "authorize (xe_runtime env) (en_authorizer en) (xe_now env) act caller ?l"
  have e: "log_extends (w_log w) ?l" by (simp add: audit_def next_sequence_def)
  have x: "log_extends ?l (snd ?a)" by (rule driverd_auth.auth_extends)
  have b: "b = is_authorized (fst ?a)"
    "w1 = (audit env cat SevInfo event caller details (snd (next_sequence w)))\<lparr>w_log := snd ?a\<rparr>"
    using assms by (auto simp: begin_operation_def next_sequence_def Let_def split: prod.splits)
  show "b = permitted env en act caller"
    unfolding b permitted_def using driverd_auth.verdict_log_free by metis
  show "only_logged w w1"
    using log_extends_trans [OF e x] unfolding b only_logged_def
    by (simp add: audit_def next_sequence_def)
  show "w_seq w1 = w_seq w + 1" unfolding b by (simp add: audit_def next_sequence_def)
qed

text \<open>The package of a driver passes: it has a valid signature, or the engine's flag waives
  every verdict, or its module type is not verified at all.\<close>

definition package_passes :: "'k exec_env \<Rightarrow> engine \<Rightarrow> fs \<Rightarrow> driver_entry \<Rightarrow> bool" where
  "package_passes env en s d =
     (di_module_type (de_id d) = Userspace \<or> di_module_type (de_id d) = DeviceTreeOverlay \<or>
      en_allow_unsigned en \<or>
      sg_outcome (check_package (xe_crypto env) (en_verifier en) s (find_package_path en s d)
        (read_package_signature en s d) None) = VValid)"

lemma audit_verification_extends: "log_extends l (audit_verification t r cb l)"
  by (simp add: audit_verification_def split: verification_outcome.split)

lemma verify_step_facts:
  assumes "verify_step env en d w = (v, w1)"
  shows "v = None \<longleftrightarrow> package_passes env en (w_fs w) d" "only_logged w w1"
proof -
  let ?c = "check_package (xe_crypto env) (en_verifier en) (w_fs w)
     (find_package_path en (w_fs w) d) (read_package_signature en (w_fs w) d) None"
  have x: "log_extends (w_log w) (audit_verification (xe_now env) ?c True (w_log w))"
    by (rule audit_verification_extends)
  show "v = None \<longleftrightarrow> package_passes env en (w_fs w) d"
    using assms
    by (cases "di_module_type (de_id d)")
      (auto simp: verify_step_def verify_package_def package_passes_def vo_is_valid_def Let_def
        split: if_splits)
  show "only_logged w w1"
    using assms x by (auto simp: verify_step_def verify_package_def only_logged_def Let_def
        split: if_splits)
qed

section \<open>Commit and rollback\<close>

definition exact_entry :: "driver_entry \<Rightarrow> driver_entry \<Rightarrow> bool" where
  "exact_entry saved d = (di_name (de_id d) = di_name (de_id saved)
     \<and> di_provider (de_id d) = di_provider (de_id saved))"

lemma exact_entry_refl [simp]: "exact_entry d d"
  by (simp add: exact_entry_def)

lemma restore_found:
  assumes "List.find (exact_entry d) (inv_drivers iv) = Some d"
  shows "restore_driver d iv = iv"
  using update_first_same [OF assms] unfolding restore_driver_def exact_entry_def [abs_def] by simp

lemma rollback_extends: "log_extends (w_log w) (w_log (rollback_operation env en i caller w))"
  by (auto simp: rollback_operation_def Let_def audit_def log_intros split: option.split)

lemma rollback_saved:
  assumes "w_tracker w = [\<lparr>sv_driver = d, sv_was_loaded = b, sv_correlation_id = i\<rparr>]"
  shows "w_inventory (rollback_operation env en i caller w) = restore_driver d (w_inventory w)"
    "w_tracker (rollback_operation env en i caller w) = []"
    "w_fs (rollback_operation env en i caller w) = w_fs w"
    "w_kernel (rollback_operation env en i caller w) =
      (if b then snd (load_module (xe_api env) (w_fs w) (di_name (de_id d))
         (find_package_path en (w_fs w) d) [] (w_kernel w)) else w_kernel w)"
  using assms
  by (simp_all add: rollback_operation_def find_state_def Let_def remove_state_def audit_def)

text \<open>The common shape of the three commits.\<close>

definition commit_with ::
  "'k exec_env \<Rightarrow> engine \<Rightarrow> driver_entry \<Rightarrow> string \<Rightarrow> (fs \<times> 'k \<Rightarrow> unit result \<times> fs \<times> 'k) \<Rightarrow>
     ('k world \<Rightarrow> 'k world) \<Rightarrow> operation_result \<Rightarrow> (service_error \<Rightarrow> operation_result) \<Rightarrow> 'k world
     \<Rightarrow> operation_result \<times> 'k world" where
  "commit_with env en d caller exec finish ok bad w =
     (let (corr_id, w1) = save_state env d w; (r, w2) = run_on exec w1
      in case r of
           Inr _ \<Rightarrow> (ok, remove_state corr_id (finish w2))
         | Inl e \<Rightarrow> (bad e, rollback_operation env en corr_id caller w2))"

definition gentle :: "('k world \<Rightarrow> 'k world) \<Rightarrow> bool" where
  "gentle f = (\<forall>w. w_tracker (f w) = w_tracker w \<and> log_extends (w_log w) (w_log (f w)))"

lemma save_state_fields:
  assumes "save_state env d w = (i, w1)"
  shows "i = ''op-'' @ show_u64 (w_seq w)" "w_fs w1 = w_fs w" "w_kernel w1 = w_kernel w"
    "w_inventory w1 = w_inventory w" "w_log w1 = w_log w" "w_seq w1 = w_seq w + 1"
    "w_tracker w1 = w_tracker w @ [\<lparr>sv_driver = d,
       sv_was_loaded = is_loaded (xe_api env) (w_kernel w) (di_name (de_id d)),
       sv_correlation_id = i\<rparr>]"
  using assms by (auto simp: save_state_def next_sequence_def Let_def)

lemma commit_with_unfold:
  assumes s: "save_state env d w = (i, w1)" and x: "exec (w_fs w, w_kernel w) = (r, s', k')"
  shows "commit_with env en d caller exec finish ok bad w =
    (case r of Inr _ \<Rightarrow> (ok, remove_state i (finish (w1\<lparr>w_fs := s', w_kernel := k'\<rparr>)))
     | Inl e \<Rightarrow> (bad e, rollback_operation env en i caller (w1\<lparr>w_fs := s', w_kernel := k'\<rparr>)))"
  using x save_state_fields(2,3) [OF s] by (simp add: commit_with_def s run_on_def)

lemma commit_with_extends:
  assumes g: "gentle finish"
  shows "log_extends (w_log w) (w_log (snd (commit_with env en d caller exec finish ok bad w)))"
proof -
  obtain i w1 where s: "save_state env d w = (i, w1)" by (cases "save_state env d w")
  obtain r s' k' where x: "exec (w_fs w, w_kernel w) = (r, s', k')"
    by (cases "exec (w_fs w, w_kernel w)")
  let ?w2 = "w1\<lparr>w_fs := s', w_kernel := k'\<rparr>"
  have l: "w_log ?w2 = w_log w" using save_state_fields(5) [OF s] by simp
  show ?thesis
  proof (cases r)
    case (Inl e)
    then show ?thesis using rollback_extends [of ?w2 env en i caller] unfolding l
      by (simp add: commit_with_unfold [where exec = exec, OF s x])
  next
    case (Inr u)
    have "log_extends (w_log ?w2) (w_log (finish ?w2))" using g unfolding gentle_def by blast
    then show ?thesis using Inr unfolding l
      by (simp add: commit_with_unfold [where exec = exec, OF s x])
  qed
qed

text \<open>From an empty tracker: a success runs the effect on the inventory, a failure leaves
  the inventory as it was, and both leave the tracker empty.\<close>

lemma commit_with_facts:
  assumes g: "gentle finish" and t: "w_tracker w = []"
    and f: "List.find (exact_entry d) (inv_drivers (w_inventory w)) = Some d"
    and x: "exec (w_fs w, w_kernel w) = (r, s', k')"
    and c: "commit_with env en d caller exec finish ok bad w = (res, w')"
  shows "w_tracker w' = []"
    "r = Inl e \<Longrightarrow> res = bad e \<and> w_inventory w' = w_inventory w \<and> w_fs w' = s'"
    "r = Inl e \<Longrightarrow> w_kernel w' = (if is_loaded (xe_api env) (w_kernel w) (di_name (de_id d))
       then snd (load_module (xe_api env) s' (di_name (de_id d)) (find_package_path en s' d) [] k')
       else k')"
    "r = Inr u \<Longrightarrow> res = ok \<and> (\<exists>w2. w_fs w2 = s' \<and> w_kernel w2 = k' \<and>
       w_inventory w2 = w_inventory w \<and> w_inventory w' = w_inventory (finish w2) \<and>
       w_fs w' = w_fs (finish w2) \<and> w_kernel w' = w_kernel (finish w2))"
proof -
  obtain i w1 where s: "save_state env d w = (i, w1)" by (cases "save_state env d w")
  note sf = save_state_fields [OF s]
  let ?w2 = "w1\<lparr>w_fs := s', w_kernel := k'\<rparr>"
  have tr: "w_tracker ?w2 = [\<lparr>sv_driver = d,
       sv_was_loaded = is_loaded (xe_api env) (w_kernel w) (di_name (de_id d)),
       sv_correlation_id = i\<rparr>]" using sf(7) t by simp
  note c = c [unfolded commit_with_unfold [where exec = exec, OF s x]]
  note rb = rollback_saved [OF tr]
  have inv2: "w_inventory ?w2 = w_inventory w" using sf by simp
  have res: "restore_driver d (w_inventory w) = w_inventory w" by (rule restore_found [OF f])
  have fin: "w_tracker (finish ?w2) = w_tracker ?w2" using g unfolding gentle_def by blast
  show "w_tracker w' = []"
  proof (cases r)
    case (Inl e)
    then show ?thesis using c rb(2) [of env en caller] by auto
  next
    case (Inr u)
    then show ?thesis using c fin tr by (auto simp: remove_state_def)
  qed
  show "r = Inl e \<Longrightarrow> res = bad e \<and> w_inventory w' = w_inventory w \<and> w_fs w' = s'"
    using c rb(1,3) [of env en caller] res inv2 by auto
  show "r = Inl e \<Longrightarrow> w_kernel w' = (if is_loaded (xe_api env) (w_kernel w) (di_name (de_id d))
       then snd (load_module (xe_api env) s' (di_name (de_id d)) (find_package_path en s' d) [] k')
       else k')"
    using c rb(4) [of env en caller] by auto
  show "r = Inr u \<Longrightarrow> res = ok \<and> (\<exists>w2. w_fs w2 = s' \<and> w_kernel w2 = k' \<and>
       w_inventory w2 = w_inventory w \<and> w_inventory w' = w_inventory (finish w2) \<and>
       w_fs w' = w_fs (finish w2) \<and> w_kernel w' = w_kernel (finish w2))"
    using c inv2 by (auto intro!: exI [of _ ?w2])
qed

lemma commits:
  "install_commit env en d caller w = commit_with env en d caller (execute_install env en d)
     (\<lambda>w. audit env DriverInstall SevInfo ''driver_install_completed'' caller
        (''Driver '' @ quoted (di_name (de_id d)) @ '' installed successfully'')
        (update_driver_status env (de_id d) Installed w))
     (operation_success (di_name (de_id d))
        (''Driver '' @ quoted (di_name (de_id d)) @ '' installed successfully''))
     (\<lambda>e. operation_failed (di_name (de_id d)) ''Installation failed and was rolled back''
        (show_service_error e)) w"
  "remove_commit env en d force caller w = commit_with env en d caller (execute_remove env d force)
     (\<lambda>w. audit env DriverRemove SevInfo ''driver_remove_completed'' caller
        (''Driver '' @ quoted (di_name (de_id d)) @ '' removed successfully'')
        (update_driver_status env (de_id d) Removed w))
     (operation_success (di_name (de_id d))
        (''Driver '' @ quoted (di_name (de_id d)) @ '' removed successfully''))
     (\<lambda>e. operation_failed (di_name (de_id d)) ''Removal failed and was rolled back''
        (show_service_error e)) w"
  "update_commit env en nm d caller w = commit_with env en d caller (execute_update env en d)
     (\<lambda>w. audit env DriverUpdate SevInfo ''driver_update_completed'' caller
        (''Driver '' @ quoted nm @ '' updated successfully'') (mark_updated nm d w))
     (operation_success nm (''Driver '' @ quoted nm @ '' updated successfully''))
     (\<lambda>e. operation_failed nm ''Update failed and was rolled back'' (show_service_error e)) w"
  unfolding install_commit_def remove_commit_def update_commit_def commit_with_def Let_def
  by (rule refl)+

lemma gentle_finishes:
  "gentle (\<lambda>w. audit env c s a u t (update_driver_status env i st w))"
  "gentle (\<lambda>w. audit env c s a u t (mark_updated nm d w))"
  by (simp_all add: gentle_def audit_def update_driver_status_def mark_updated_def)


section \<open>When an operation is admitted\<close>

definition install_admitted ::
  "'k exec_env \<Rightarrow> engine \<Rightarrow> install_request \<Rightarrow> string \<Rightarrow> hardware_device list \<Rightarrow> 'k world
     \<Rightarrow> driver_entry \<Rightarrow> bool" where
  "install_admitted env en req caller hw w d =
     (permitted env en InstallDriver caller \<and> install_request_validate req = Ok () \<and>
      find_driver (w_inventory w) (ir_driver_name req) (ir_provider req) = Some d \<and>
      (cr_has_conflicts (check_install (en_system en) d (inv_drivers (w_inventory w))
         (get_loaded_modules env w) hw) \<longrightarrow> ir_force req) \<and>
      package_passes env en (w_fs w) d)"

definition by_name :: "string \<Rightarrow> driver_entry \<Rightarrow> bool" where
  "by_name n d = eq_ignore_ascii_case (di_name (de_id d)) n"

definition remove_admitted ::
  "'k exec_env \<Rightarrow> engine \<Rightarrow> remove_request \<Rightarrow> string \<Rightarrow> 'k world \<Rightarrow> driver_entry \<Rightarrow> bool" where
  "remove_admitted env en req caller w d =
     (permitted env en RemoveDriver caller \<and> remove_request_validate req = Ok () \<and>
      List.find (by_name (rr_driver_name req)) (inv_drivers (w_inventory w)) = Some d \<and>
      (cr_has_conflicts (check_remove d (get_loaded_modules env w) (inv_drivers (w_inventory w)))
         \<longrightarrow> rr_force req))"

definition update_admitted ::
  "'k exec_env \<Rightarrow> engine \<Rightarrow> update_request \<Rightarrow> string \<Rightarrow> 'k world \<Rightarrow> driver_entry \<Rightarrow> bool" where
  "update_admitted env en req caller w d =
     (permitted env en UpdateDriver caller \<and> update_request_validate req = Ok () \<and>
      List.find (by_name (ur_driver_name req)) (inv_drivers (w_inventory w)) = Some d \<and>
      (\<forall>target. ur_target_version req = Some target \<longrightarrow>
         (\<exists>v. driver_version_parse target = Ok v \<and> (di_version (de_id d) > v \<longrightarrow> ur_allow_downgrade req))))"

text \<open>A refused operation fails and changes nothing but the log and the counter.\<close>

definition refused :: "'k world \<Rightarrow> operation_result \<times> 'k world \<Rightarrow> bool" where
  "refused w r = (or_status (fst r) = OpFailed \<and> only_logged w (snd r))"

lemma refused_fail:
  "only_logged w w1 \<Longrightarrow> refused w (fail_operation env n m e c cat w1)"
  unfolding refused_def by (auto intro: only_logged_trans)

lemma loaded_modules_cong: "only_logged w w1 \<Longrightarrow> get_loaded_modules env w1 = get_loaded_modules env w"
  by (simp add: get_loaded_modules_def only_logged_def)

lemma by_name_abs: "(\<lambda>d. eq_ignore_ascii_case (di_name (de_id d)) n) = by_name n"
  by (simp add: by_name_def fun_eq_iff)

lemma install_shape:
  "if \<exists>d. install_admitted env en req caller hw w d
   then \<exists>d w1. install_admitted env en req caller hw w d \<and> only_logged w w1 \<and>
     install_driver env en req caller hw w = install_commit env en d caller w1
   else refused w (install_driver env en req caller hw w)"
proof -
  obtain b w1 where g: "begin_operation env en InstallDriver DriverInstall ''driver_install_requested''
      (''Installation of '' @ quoted (ir_driver_name req) @ '' from ''
         @ quoted (ir_provider req) @ '' requested'') caller w = (b, w1)"
    by (cases "begin_operation env en InstallDriver DriverInstall ''driver_install_requested''
      (''Installation of '' @ quoted (ir_driver_name req) @ '' from ''
         @ quoted (ir_provider req) @ '' requested'') caller w")
  note bf = begin_operation_facts [OF g]
  have same: "w_inventory w1 = w_inventory w" "w_fs w1 = w_fs w"
    "get_loaded_modules env w1 = get_loaded_modules env w"
    using bf(2) loaded_modules_cong by (auto simp: only_logged_def)
  note def = install_driver_def [of env en req caller hw w, unfolded g Let_def prod.case same]
  let ?conf = "\<lambda>d. cr_has_conflicts (check_install (en_system en) d
      (inv_drivers (w_inventory w)) (get_loaded_modules env w) hw)"
  show ?thesis
  proof (cases "b \<and> install_request_validate req = Ok ()")
    case False
    then have "\<not> (\<exists>d. install_admitted env en req caller hw w d)"
      using bf(1) by (auto simp: install_admitted_def)
    moreover have "refused w (install_driver env en req caller hw w)"
      using False refused_fail [OF bf(2)]
      by (cases "install_request_validate req") (auto simp: def)
    ultimately show ?thesis by simp
  next
    case True
    show ?thesis
    proof (cases "find_driver (w_inventory w) (ir_driver_name req) (ir_provider req)")
      case None
      then have "\<not> (\<exists>d. install_admitted env en req caller hw w d)" by (simp add: install_admitted_def)
      moreover have "refused w (install_driver env en req caller hw w)"
        using True None refused_fail [OF bf(2)] by (simp add: def)
      ultimately show ?thesis by simp
    next
      case (Some d)
      obtain v w2 where v: "verify_step env en d w1 = (v, w2)" by (cases "verify_step env en d w1")
      note vf = verify_step_facts [OF v, unfolded same]
      have l2: "only_logged w w2" by (rule only_logged_trans [OF bf(2) vf(2)])
      have adm: "install_admitted env en req caller hw w e \<longleftrightarrow>
          e = d \<and> (?conf d \<longrightarrow> ir_force req) \<and> v = None" for e
        using True bf(1) Some vf(1) by (auto simp: install_admitted_def)
      show ?thesis
      proof (cases "(?conf d \<longrightarrow> ir_force req) \<and> v = None")
        case ok: True
        then have "install_driver env en req caller hw w = install_commit env en d caller w2"
          using True Some v by (auto simp: def)
        then show ?thesis using ok adm l2 by auto
      next
        case bad: False
        then have "refused w (install_driver env en req caller hw w)"
          using True Some v refused_fail [OF bf(2)] refused_fail [OF l2]
          by (cases v) (auto simp: def)
        then show ?thesis using bad adm by auto
      qed
    qed
  qed
qed


lemma remove_shape:
  "if \<exists>d. remove_admitted env en req caller w d
   then \<exists>d w1. remove_admitted env en req caller w d \<and> only_logged w w1 \<and>
     remove_driver env en req caller w = remove_commit env en d (rr_force req) caller w1
   else refused w (remove_driver env en req caller w)"
proof -
  obtain b w1 where g: "begin_operation env en RemoveDriver DriverRemove ''driver_remove_requested''
      (''Removal of '' @ quoted (rr_driver_name req) @ '' requested'') caller w = (b, w1)"
    by (cases "begin_operation env en RemoveDriver DriverRemove ''driver_remove_requested''
      (''Removal of '' @ quoted (rr_driver_name req) @ '' requested'') caller w")
  note bf = begin_operation_facts [OF g]
  have same: "w_inventory w1 = w_inventory w"
    "get_loaded_modules env w1 = get_loaded_modules env w"
    using bf(2) loaded_modules_cong by (auto simp: only_logged_def)
  note def = remove_driver_def [of env en req caller w, unfolded g Let_def prod.case same by_name_abs]
  show ?thesis
  proof (cases "b \<and> remove_request_validate req = Ok ()")
    case False
    then have "\<not> (\<exists>d. remove_admitted env en req caller w d)"
      using bf(1) by (auto simp: remove_admitted_def)
    moreover have "refused w (remove_driver env en req caller w)"
      using False refused_fail [OF bf(2)]
      by (cases "remove_request_validate req") (auto simp: def)
    ultimately show ?thesis by simp
  next
    case True
    show ?thesis
    proof (cases "List.find (by_name (rr_driver_name req)) (inv_drivers (w_inventory w))")
      case None
      then have "\<not> (\<exists>d. remove_admitted env en req caller w d)" by (simp add: remove_admitted_def)
      moreover have "refused w (remove_driver env en req caller w)"
        using True None refused_fail [OF bf(2)] by (simp add: def)
      ultimately show ?thesis by simp
    next
      case (Some d)
      then show ?thesis
        using True bf(1,2) refused_fail [OF bf(2)] by (auto simp: def remove_admitted_def)
    qed
  qed
qed

lemma update_shape:
  "if \<exists>d. update_admitted env en req caller w d
   then \<exists>d w1. update_admitted env en req caller w d \<and> only_logged w w1 \<and>
     update_driver env en req caller w = update_commit env en (ur_driver_name req) d caller w1
   else refused w (update_driver env en req caller w)"
proof -
  let ?text = "''Update of '' @ quoted (ur_driver_name req) @ '' to ''
     @ (case ur_target_version req of None \<Rightarrow> ''None''
        | Some v \<Rightarrow> ''Some('' @ show_debug v @ '')'') @ '' requested''"
  obtain b w1 where g: "begin_operation env en UpdateDriver DriverUpdate ''driver_update_requested''
      ?text caller w = (b, w1)"
    by (cases "begin_operation env en UpdateDriver DriverUpdate ''driver_update_requested''
      ?text caller w")
  note bf = begin_operation_facts [OF g]
  have same: "w_inventory w1 = w_inventory w" using bf(2) by (auto simp: only_logged_def)
  note def = update_driver_def [of env en req caller w, unfolded g Let_def prod.case same by_name_abs]
  show ?thesis
  proof (cases "b \<and> update_request_validate req = Ok ()")
    case False
    then have "\<not> (\<exists>d. update_admitted env en req caller w d)"
      using bf(1) by (auto simp: update_admitted_def)
    moreover have "refused w (update_driver env en req caller w)"
      using False refused_fail [OF bf(2)]
      by (cases "update_request_validate req") (auto simp: def)
    ultimately show ?thesis by simp
  next
    case True
    show ?thesis
    proof (cases "List.find (by_name (ur_driver_name req)) (inv_drivers (w_inventory w))")
      case None
      then have "\<not> (\<exists>d. update_admitted env en req caller w d)" by (simp add: update_admitted_def)
      moreover have "refused w (update_driver env en req caller w)"
        using True None refused_fail [OF bf(2)] by (simp add: def)
      ultimately show ?thesis by simp
    next
      case (Some d)
      have adm: "update_admitted env en req caller w e \<longleftrightarrow> e = d \<and>
          (case ur_target_version req of None \<Rightarrow> True | Some t \<Rightarrow>
            (case driver_version_parse t of Inl _ \<Rightarrow> False
             | Inr v \<Rightarrow> di_version (de_id d) > v \<longrightarrow> ur_allow_downgrade req))" for e
        using True bf(1) Some by (auto simp: update_admitted_def split: option.splits sum.splits)
      show ?thesis
        using True Some bf(2) refused_fail [OF bf(2)]
          refused_fail [OF only_logged_trans [OF bf(2) only_logged_audit]]
        unfolding def adm
        by (auto split: option.splits sum.splits)
    qed
  qed
qed

section \<open>The contract of an operation\<close>

locale driver_operation =
  fixes op :: "'k world \<Rightarrow> operation_result \<times> 'k world" and allowed :: bool
  assumes extends: "log_extends (w_log w) (w_log (snd (op w)))"
    and denied: "\<not> allowed \<Longrightarrow> refused w (op w)"
    and releases: "w_tracker w = [] \<Longrightarrow> w_tracker (snd (op w)) = []"
    and outcome: "or_status (fst (op w)) \<in> {OpCompleted, OpFailed}"
    and failure_keeps: "w_tracker w = [] \<Longrightarrow> or_status (fst (op w)) = OpFailed
      \<Longrightarrow> w_inventory (snd (op w)) = w_inventory w"
    and one_status: "w_tracker w = [] \<Longrightarrow>
      status_step (inv_drivers (w_inventory w)) (inv_drivers (w_inventory (snd (op w))))"
begin

lemma keeps_ids: "w_tracker w = [] \<Longrightarrow>
  map de_id (inv_drivers (w_inventory (snd (op w)))) = map de_id (inv_drivers (w_inventory w))"
  by (rule status_step_ids [OF one_status])

lemma change_needs_completion:
  "w_tracker w = [] \<Longrightarrow> w_inventory (snd (op w)) \<noteq> w_inventory w
     \<Longrightarrow> or_status (fst (op w)) = OpCompleted \<and> allowed"
  using failure_keeps [of w] outcome [of w] denied [of w] by (auto simp: refused_def only_logged_def)

end

text \<open>A commit after a harmless prefix meets the contract as far as the log, the tracker
  and the inventory are concerned.\<close>

lemma commit_contract:
  assumes g: "gentle finish" and o: "only_logged w w1"
    and f: "List.find (exact_entry d) (inv_drivers (w_inventory w)) = Some d"
    and n: "\<And>w2. w_inventory w2 = w_inventory w \<Longrightarrow>
      status_step (inv_drivers (w_inventory w)) (inv_drivers (w_inventory (finish w2)))"
    and st: "or_status ok = OpCompleted" "\<And>e. or_status (bad e) = OpFailed"
    and c: "commit_with env en d caller exec finish ok bad w1 = (res, w')"
  shows "log_extends (w_log w) (w_log w')"
    "or_status res \<in> {OpCompleted, OpFailed}"
    "or_status res = OpCompleted \<longleftrightarrow> is_ok (fst (exec (w_fs w, w_kernel w)))"
    "w_tracker w = [] \<Longrightarrow> w_tracker w' = []"
    "w_tracker w = [] \<Longrightarrow> or_status res = OpFailed \<Longrightarrow> w_inventory w' = w_inventory w"
    "w_tracker w = [] \<Longrightarrow> status_step (inv_drivers (w_inventory w)) (inv_drivers (w_inventory w'))"
proof -
  have same: "w_fs w1 = w_fs w" "w_kernel w1 = w_kernel w" "w_tracker w1 = w_tracker w"
    "w_inventory w1 = w_inventory w" "log_extends (w_log w) (w_log w1)"
    using o by (auto simp: only_logged_def)
  obtain r s' k' where x: "exec (w_fs w1, w_kernel w1) = (r, s', k')"
    by (cases "exec (w_fs w1, w_kernel w1)")
  have x': "exec (w_fs w, w_kernel w) = (r, s', k')" using x same by simp
  obtain i w2 where sv: "save_state env d w1 = (i, w2)" by (cases "save_state env d w1")
  have "log_extends (w_log w1) (w_log w')"
    using commit_with_extends [OF g, of w1 env en d caller exec ok bad] c by simp
  then show "log_extends (w_log w) (w_log w')" using same(5) log_extends_trans by blast
  have res: "res = (case r of Inr _ \<Rightarrow> ok | Inl e \<Rightarrow> bad e)"
    using c unfolding commit_with_unfold [where exec = exec, OF sv x] by (cases r) simp_all
  show "or_status res \<in> {OpCompleted, OpFailed}" using res st by (cases r) simp_all
  show ok: "or_status res = OpCompleted \<longleftrightarrow> is_ok (fst (exec (w_fs w, w_kernel w)))"
    unfolding x' using res st by (cases r) simp_all
  assume t: "w_tracker w = []"
  note facts = commit_with_facts [where exec = exec and d = d and w = w1, OF g _ _ x c,
      unfolded same, OF t f]
  show "w_tracker w' = []" by (rule facts(1))
  show "or_status res = OpFailed \<Longrightarrow> w_inventory w' = w_inventory w"
    using facts(2) ok x' by (cases r) auto
  show "status_step (inv_drivers (w_inventory w)) (inv_drivers (w_inventory w'))"
  proof (cases r)
    case (Inl e)
    then show ?thesis using facts(2) [OF Inl] by simp
  next
    case (Inr u)
    then show ?thesis using facts(4) [OF Inr] n by auto
  qed
qed


text \<open>An operation that either refuses or commits to the entry it admits.\<close>

locale committed_operation =
  fixes op :: "'k world \<Rightarrow> operation_result \<times> 'k world" and allowed :: bool
    and admits :: "'k world \<Rightarrow> driver_entry \<Rightarrow> bool"
    and env :: "'k exec_env" and en :: engine and caller :: string
    and exec :: "driver_entry \<Rightarrow> fs \<times> 'k \<Rightarrow> unit result \<times> fs \<times> 'k"
    and finish :: "driver_entry \<Rightarrow> 'k world \<Rightarrow> 'k world"
    and ok :: "driver_entry \<Rightarrow> operation_result"
    and bad :: "driver_entry \<Rightarrow> service_error \<Rightarrow> operation_result"
  assumes shape: "if \<exists>d. admits w d
      then \<exists>d w1. admits w d \<and> only_logged w w1 \<and>
        op w = commit_with env en d caller (exec d) (finish d) (ok d) (bad d) w1
      else refused w (op w)"
    and admits_allowed: "admits w d \<Longrightarrow> allowed"
    and admits_entry: "admits w d \<Longrightarrow> List.find (exact_entry d) (inv_drivers (w_inventory w)) = Some d"
    and admits_unique: "admits w d \<Longrightarrow> admits w d' \<Longrightarrow> d = d'"
    and gentle_finish: "gentle (finish d)"
    and finish_status: "admits w d \<Longrightarrow> w_inventory w2 = w_inventory w \<Longrightarrow>
      status_step (inv_drivers (w_inventory w)) (inv_drivers (w_inventory (finish d w2)))"
    and result_status: "or_status (ok d) = OpCompleted" "or_status (bad d e) = OpFailed"
begin

lemma committed:
  assumes "admits w d"
  obtains w1 where "only_logged w w1"
    "op w = commit_with env en d caller (exec d) (finish d) (ok d) (bad d) w1"
proof -
  from assms have "\<exists>d. admits w d" by blast
  then obtain d' w1 where "admits w d'" "only_logged w w1"
    "op w = commit_with env en d' caller (exec d') (finish d') (ok d') (bad d') w1"
    using shape [of w] by (simp only: if_True) blast
  moreover from this(1) assms have "d' = d" by (rule admits_unique)
  ultimately show ?thesis using that by blast
qed

lemma not_admitted: "\<nexists>d. admits w d \<Longrightarrow> refused w (op w)"
  using shape [of w] by simp

lemma admitted_facts:
  assumes a: "admits w d"
  shows "log_extends (w_log w) (w_log (snd (op w)))"
    "or_status (fst (op w)) \<in> {OpCompleted, OpFailed}"
    "or_status (fst (op w)) = OpCompleted \<longleftrightarrow> is_ok (fst (exec d (w_fs w, w_kernel w)))"
    "w_tracker w = [] \<Longrightarrow> w_tracker (snd (op w)) = []"
    "w_tracker w = [] \<Longrightarrow> or_status (fst (op w)) = OpFailed \<Longrightarrow>
       w_inventory (snd (op w)) = w_inventory w"
    "w_tracker w = [] \<Longrightarrow>
       status_step (inv_drivers (w_inventory w)) (inv_drivers (w_inventory (snd (op w))))"
proof -
  obtain w1 where o: "only_logged w w1"
    and c: "op w = commit_with env en d caller (exec d) (finish d) (ok d) (bad d) w1"
    by (rule committed [OF a])
  have c': "commit_with env en d caller (exec d) (finish d) (ok d) (bad d) w1
      = (fst (op w), snd (op w))" unfolding c by simp
  note k = commit_contract [where exec = "exec d" and d = d, OF gentle_finish o admits_entry [OF a]
      finish_status [OF a] result_status c']
  show "log_extends (w_log w) (w_log (snd (op w)))"
    "or_status (fst (op w)) \<in> {OpCompleted, OpFailed}"
    "or_status (fst (op w)) = OpCompleted \<longleftrightarrow> is_ok (fst (exec d (w_fs w, w_kernel w)))"
    "w_tracker w = [] \<Longrightarrow> w_tracker (snd (op w)) = []"
    "w_tracker w = [] \<Longrightarrow> or_status (fst (op w)) = OpFailed \<Longrightarrow>
       w_inventory (snd (op w)) = w_inventory w"
    "w_tracker w = [] \<Longrightarrow>
       status_step (inv_drivers (w_inventory w)) (inv_drivers (w_inventory (snd (op w))))"
    by (rule k; assumption)+
qed

lemma completed_iff:
  "or_status (fst (op w)) = OpCompleted \<longleftrightarrow>
     (\<exists>d. admits w d \<and> is_ok (fst (exec d (w_fs w, w_kernel w))))"
proof (cases "\<exists>d. admits w d")
  case True
  then obtain d where "admits w d" by blast
  then show ?thesis using admitted_facts(3) admits_unique by blast
next
  case False
  then show ?thesis using not_admitted [of w] by (auto simp: refused_def)
qed

text \<open>A completed operation has run its effect on the files, the kernel and the inventory.\<close>

lemma completed_effect:
  assumes "w_tracker w = []" "or_status (fst (op w)) = OpCompleted"
  shows "\<exists>d w2. admits w d \<and> exec d (w_fs w, w_kernel w) = (Ok (), w_fs w2, w_kernel w2) \<and>
    w_inventory w2 = w_inventory w \<and> w_inventory (snd (op w)) = w_inventory (finish d w2) \<and>
    w_fs (snd (op w)) = w_fs (finish d w2) \<and> w_kernel (snd (op w)) = w_kernel (finish d w2)"
proof -
  obtain d where a: "admits w d" and r: "is_ok (fst (exec d (w_fs w, w_kernel w)))"
    using assms completed_iff by blast
  obtain w1 where o: "only_logged w w1"
    and c: "op w = commit_with env en d caller (exec d) (finish d) (ok d) (bad d) w1"
    by (rule committed [OF a])
  have same: "w_fs w1 = w_fs w" "w_kernel w1 = w_kernel w" "w_tracker w1 = w_tracker w"
    "w_inventory w1 = w_inventory w" using o by (auto simp: only_logged_def)
  from r obtain s' k' where x: "exec d (w_fs w, w_kernel w) = (Ok (), s', k')"
    by (cases "exec d (w_fs w, w_kernel w)") (auto simp: is_ok_iff)
  have c': "commit_with env en d caller (exec d) (finish d) (ok d) (bad d) w1
      = (fst (op w), snd (op w))" unfolding c by simp
  from commit_with_facts(4) [where exec = "exec d" and d = d and w = w1, unfolded same,
      OF gentle_finish assms(1) admits_entry [OF a] x c' refl] a x
  show ?thesis by auto
qed

end

sublocale committed_operation \<subseteq> driver_operation op allowed
proof -
  have split: "P (op w)"
    if "\<And>d. admits w d \<Longrightarrow> P (op w)" "refused w (op w) \<Longrightarrow> P (op w)" for P w
    using that not_admitted [of w] by blast
  show "driver_operation op allowed"
  proof (unfold_locales, goal_cases)
    case (1 w)
    show ?case
      by (rule split [of w]) (rule admitted_facts, assumption, simp add: refused_def only_logged_def)
  next
    case (2 w)
    then show ?case using not_admitted [of w] admits_allowed [of w] by blast
  next
    case (3 w)
    show ?case
      by (rule split [of w]) (rule admitted_facts, assumption, rule 3,
        simp add: refused_def only_logged_def 3)
  next
    case (4 w)
    show ?case by (rule split [of w]) (rule admitted_facts, assumption, simp add: refused_def)
  next
    case (5 w)
    show ?case
      by (rule split [of w]) (rule admitted_facts, assumption, rule 5, rule 5,
        simp add: refused_def only_logged_def)
  next
    case (6 w)
    show ?case
      by (rule split [of w]) (rule admitted_facts, assumption, rule 6,
        simp add: refused_def only_logged_def)
  qed
qed


section \<open>The operations meet the contract\<close>

lemma operation_status [simp]:
  "or_status (operation_success n m) = OpCompleted" "or_status (operation_failed n m e) = OpFailed"
  by (simp_all add: operation_success_def operation_failed_def)

lemma exact_case_insensitive:
  "exact_entry d e \<Longrightarrow> eq_ignore_ascii_case (di_name (de_id d)) n
     \<Longrightarrow> eq_ignore_ascii_case (di_name (de_id e)) n"
  "exact_entry d e \<Longrightarrow> eq_ignore_ascii_case (di_provider (de_id d)) n
     \<Longrightarrow> eq_ignore_ascii_case (di_provider (de_id e)) n"
  by (simp_all add: exact_entry_def)

lemma by_name_exact:
  assumes "List.find (by_name n) ds = Some d" shows "List.find (exact_entry d) ds = Some d"
proof (rule find_refine [OF assms exact_entry_refl])
  fix y assume "exact_entry d y"
  moreover have "by_name n d" using assms by (auto simp: find_Some_iff)
  ultimately show "by_name n y" unfolding by_name_def by (rule exact_case_insensitive)
qed

lemma find_driver_exact:
  assumes "find_driver iv n p = Some d" shows "List.find (exact_entry d) (inv_drivers iv) = Some d"
proof (rule find_refine [OF assms [unfolded find_driver_def] exact_entry_refl])
  fix y assume "exact_entry d y"
  with find_driver_Some [OF assms]
  show "eq_ignore_ascii_case (di_name (de_id y)) n \<and> eq_ignore_ascii_case (di_provider (de_id y)) p"
    using exact_case_insensitive by blast
qed

lemma status_step_finish:
  assumes "w_inventory w2 = iv"
  shows "status_step (inv_drivers iv)
    (inv_drivers (w_inventory (audit env c s a u t (update_driver_status env i st w2))))"
  using status_step_update_first assms by (simp add: update_driver_status_def)

lemma status_step_mark_updated:
  assumes "List.find (by_name nm) (inv_drivers iv) = Some d" "w_inventory w2 = iv"
  shows "status_step (inv_drivers iv) (inv_drivers (w_inventory (audit env c s a u t (mark_updated nm d w2))))"
proof -
  let ?P = "\<lambda>e. eq_ignore_ascii_case (di_name (de_id e)) nm \<and>
      di_provider (de_id e) = di_provider (de_id d)"
  have "by_name nm d" using assms(1) by (auto simp: find_Some_iff)
  then have "List.find ?P (inv_drivers iv) = Some d"
    by (intro find_refine [OF assms(1)]) (simp_all add: by_name_def)
  from update_first_Some [OF this, of "\<lambda>_. d\<lparr>de_status := Active\<rparr>"] obtain i where
    "i < length (inv_drivers iv)" "inv_drivers iv ! i = d"
    "update_first ?P (\<lambda>_. d\<lparr>de_status := Active\<rparr>) (inv_drivers iv)
      = (inv_drivers iv)[i := d\<lparr>de_status := Active\<rparr>]" by blast
  then show ?thesis using assms(2) by (auto simp: mark_updated_def status_step_def)
qed

interpretation install: committed_operation "install_driver env en req caller hw"
  "permitted env en InstallDriver caller" "install_admitted env en req caller hw" env en caller
  "execute_install env en"
  "\<lambda>d w. audit env DriverInstall SevInfo ''driver_install_completed'' caller
     (''Driver '' @ quoted (di_name (de_id d)) @ '' installed successfully'')
     (update_driver_status env (de_id d) Installed w)"
  "\<lambda>d. operation_success (di_name (de_id d))
     (''Driver '' @ quoted (di_name (de_id d)) @ '' installed successfully'')"
  "\<lambda>d e. operation_failed (di_name (de_id d)) ''Installation failed and was rolled back''
     (show_service_error e)"
  for env en req caller hw
proof (unfold_locales, goal_cases)
  case (1 w)
  show ?case using install_shape [of env en req caller hw w] unfolding commits .
next
  case (2 w d)
  then show ?case by (simp add: install_admitted_def)
next
  case (3 w d)
  then show ?case unfolding install_admitted_def by (elim conjE, intro find_driver_exact)
next
  case (4 w d d')
  then show ?case by (simp add: install_admitted_def)
next
  case (5 d)
  show ?case by (rule gentle_finishes)
next
  case (6 w d w2)
  then show ?case by (intro status_step_finish)
qed simp_all

interpretation remove: committed_operation "remove_driver env en req caller"
  "permitted env en RemoveDriver caller" "remove_admitted env en req caller" env en caller
  "\<lambda>d. execute_remove env d (rr_force req)"
  "\<lambda>d w. audit env DriverRemove SevInfo ''driver_remove_completed'' caller
     (''Driver '' @ quoted (di_name (de_id d)) @ '' removed successfully'')
     (update_driver_status env (de_id d) Removed w)"
  "\<lambda>d. operation_success (di_name (de_id d))
     (''Driver '' @ quoted (di_name (de_id d)) @ '' removed successfully'')"
  "\<lambda>d e. operation_failed (di_name (de_id d)) ''Removal failed and was rolled back''
     (show_service_error e)"
  for env en req caller
proof (unfold_locales, goal_cases)
  case (1 w)
  show ?case using remove_shape [of env en req caller w] unfolding commits .
next
  case (2 w d)
  then show ?case by (simp add: remove_admitted_def)
next
  case (3 w d)
  then show ?case unfolding remove_admitted_def by (elim conjE, intro by_name_exact)
next
  case (4 w d d')
  then show ?case by (simp add: remove_admitted_def)
next
  case (5 d)
  show ?case by (rule gentle_finishes)
next
  case (6 w d w2)
  then show ?case by (intro status_step_finish)
qed simp_all

interpretation update: committed_operation "update_driver env en req caller"
  "permitted env en UpdateDriver caller" "update_admitted env en req caller" env en caller
  "execute_update env en"
  "\<lambda>d w. audit env DriverUpdate SevInfo ''driver_update_completed'' caller
     (''Driver '' @ quoted (ur_driver_name req) @ '' updated successfully'')
     (mark_updated (ur_driver_name req) d w)"
  "\<lambda>d. operation_success (ur_driver_name req)
     (''Driver '' @ quoted (ur_driver_name req) @ '' updated successfully'')"
  "\<lambda>d e. operation_failed (ur_driver_name req) ''Update failed and was rolled back''
     (show_service_error e)"
  for env en req caller
proof (unfold_locales, goal_cases)
  case (1 w)
  show ?case using update_shape [of env en req caller w] unfolding commits .
next
  case (2 w d)
  then show ?case by (simp add: update_admitted_def)
next
  case (3 w d)
  then show ?case unfolding update_admitted_def by (elim conjE, intro by_name_exact)
next
  case (4 w d d')
  then show ?case by (simp add: update_admitted_def)
next
  case (5 d)
  show ?case by (rule gentle_finishes)
next
  case (6 w d w2)
  then show ?case by (intro status_step_mark_updated) (simp_all add: update_admitted_def)
qed simp_all


end
