(* ===== verification/Execution_Properties.thy ===== *)
theory Execution_Properties
  imports Execution_Contract
begin

text \<open>
  The properties of the execution engine over the interpretations of its contract, on a
  small concrete kernel for the witnesses, and the runs of many operations.
\<close>

section \<open>A concrete kernel and engine\<close>

text \<open>A kernel that is the list of its loaded modules and grants every call.\<close>

definition sample_api :: "string list kernel_api" where
  "sample_api =
     \<lparr>ka_read = (\<lambda>k p. if p = ''/proc/modules'' then Ok [] else Err enoent),
      ka_exists = (\<lambda>k p. p = ''/lib/modules/kernel'' \<or> p \<in> set (map (\<lambda>n. ''/sys/module/'' @ n) k)),
      ka_tree = (\<lambda>k p. Some [DFile ''e1000e.ko'']),
      ka_init_module = (\<lambda>d ps k. (0, ''loaded'' # k)),
      ka_delete_module = (\<lambda>n flags k. (0, removeAll n k))\<rparr>"

definition sample_env :: "string list exec_env" where
  "sample_env = \<lparr>xe_api = sample_api, xe_crypto = sample_prims, xe_runtime = True, xe_now = 5\<rparr>"

definition sample_engine :: "bool \<Rightarrow> engine" where
  "sample_engine bypass =
     engine_new \<lparr>az_allow_unauthorized = bypass, az_polkit = None\<rparr> sample_package_store
       \<lparr>vf_key_store = \<lparr>ks_keys = [], ks_store_path = ''/k''\<rparr>, vf_allow_unsigned = False\<rparr> True
       \<lparr>si_kernel_version = ''6.1'', si_architecture = ''x86_64'', si_kernel_features = []\<rparr>"

definition sample_entry :: driver_entry where
  "sample_entry =
     \<lparr>de_id = \<lparr>di_name = ''e1000e'', di_provider = ''intel'', di_version = DriverVersion 2 0 0 None,
        di_arch = ''x86_64'', di_kernel_compat = \<lparr>kc_min_version = ''5.0'', kc_max_version = None,
          kc_required_features = []\<rparr>, di_module_type = KernelModule\<rparr>,
      de_status = Installed, de_supported_hardware = [], de_compatibility = None, de_sources = [],
      de_metadata = [], de_description = '''', de_package_size_bytes = None\<rparr>"

definition sample_world :: "string list world" where
  "sample_world = \<lparr>w_fs = sample_fs [], w_kernel = [''e1000e''], w_seq = 0, w_tracker = [],
     w_inventory = \<lparr>inv_drivers = [sample_entry], inv_devices = [], inv_last_scan_timestamp = 0\<rparr>,
     w_log = []\<rparr>"

lemmas sample_defs = sample_api_def sample_env_def sample_engine_def engine_new_def sample_entry_def
  sample_world_def sample_package_store_def sample_fs_def

lemma sample_permitted: "permitted sample_env (sample_engine b) a caller \<longleftrightarrow> is_read_only a \<or> b"
  by (simp add: permitted_def fst_authorize sample_engine_def engine_new_def is_authorized_def
      sample_env_def)

section \<open>When an operation completes\<close>

text \<open>C4: An installation completes exactly when the caller is permitted, the request is
  valid, the inventory has the driver, conflicts are absent or forced, the package passes
  verification, and the execution itself succeeds. The engine's flag waives any verdict,
  so a package whose signature was found invalid is then installed as well.\<close>

theorem install_completes_iff:
  "or_status (fst (install_driver env en req caller hw w)) = OpCompleted \<longleftrightarrow>
     permitted env en InstallDriver caller \<and> install_request_validate req = Ok () \<and>
     (\<exists>d. find_driver (w_inventory w) (ir_driver_name req) (ir_provider req) = Some d \<and>
        (if cr_has_conflicts (check_install (en_system en) d (inv_drivers (w_inventory w))
            (get_loaded_modules env w) hw) then ir_force req else True) \<and>
        (di_module_type (de_id d) \<in> {Userspace, DeviceTreeOverlay} \<or> en_allow_unsigned en \<or>
         sg_outcome (check_package (xe_crypto env) (en_verifier en) (w_fs w)
            (find_package_path en (w_fs w) d) (read_package_signature en (w_fs w) d) None) = VValid) \<and>
        is_ok (fst (execute_install env en d (w_fs w, w_kernel w))))"
  unfolding install.completed_iff install_admitted_def package_passes_def by auto

text \<open>C5: An operation its caller is not permitted to request is reported as failed and
  changes neither the files, nor the kernel, nor the tracker, nor the inventory; it only
  adds to the audit log. This holds for all three operations.\<close>

theorem denied_operations_change_nothing:
  "(\<not> permitted env en InstallDriver caller \<longrightarrow> refused w (install_driver env en ireq caller hw w)) \<and>
   (\<not> permitted env en RemoveDriver caller \<longrightarrow> refused w (remove_driver env en rreq caller w)) \<and>
   (\<not> permitted env en UpdateDriver caller \<longrightarrow> refused w (update_driver env en ureq caller w))"
  using install.denied remove.denied update.denied by blast

lemma denied_operations_change_nothing_witness:
  "refused sample_world (remove_driver sample_env (sample_engine False)
     \<lparr>rr_driver_name = ''e1000e'', rr_force = True\<rparr> '':1.5'' sample_world)"
  using denied_operations_change_nothing [of sample_env "sample_engine False" "'':1.5''" sample_world
      undefined undefined "\<lparr>rr_driver_name = ''e1000e'', rr_force = True\<rparr>"]
  by (simp add: sample_permitted is_read_only_def)

text \<open>C6: From an empty tracker, an operation that does not complete leaves the inventory
  exactly as it was, whether it was refused or was rolled back after a partial
  execution.\<close>

theorem failed_operation_restores_inventory:
  assumes "w_tracker w = []"
  shows "(or_status (fst (install_driver env en ireq caller hw w)) \<noteq> OpCompleted \<longrightarrow>
      w_inventory (snd (install_driver env en ireq caller hw w)) = w_inventory w) \<and>
    (or_status (fst (remove_driver env en rreq caller w)) \<noteq> OpCompleted \<longrightarrow>
      w_inventory (snd (remove_driver env en rreq caller w)) = w_inventory w) \<and>
    (or_status (fst (update_driver env en ureq caller w)) \<noteq> OpCompleted \<longrightarrow>
      w_inventory (snd (update_driver env en ureq caller w)) = w_inventory w)"
  using install.change_needs_completion [OF assms] remove.change_needs_completion [OF assms]
    update.change_needs_completion [OF assms] by blast

lemma failed_operation_restores_inventory_witness:
  "or_status (fst (update_driver sample_env (sample_engine False)
      \<lparr>ur_driver_name = ''e1000e'', ur_target_version = None, ur_allow_downgrade = False\<rparr> '':1.5''
      sample_world)) \<noteq> OpCompleted \<and>
   w_inventory (snd (update_driver sample_env (sample_engine False)
      \<lparr>ur_driver_name = ''e1000e'', ur_target_version = None, ur_allow_downgrade = False\<rparr> '':1.5''
      sample_world)) = w_inventory sample_world"
proof -
  let ?r = "\<lparr>ur_driver_name = ''e1000e'', ur_target_version = None, ur_allow_downgrade = False\<rparr>"
  have "\<not> permitted sample_env (sample_engine False) UpdateDriver '':1.5''"
    by (simp add: sample_permitted is_read_only_def)
  then have "or_status (fst (update_driver sample_env (sample_engine False) ?r '':1.5'' sample_world))
      \<noteq> OpCompleted"
    using update.denied [of sample_env "sample_engine False" "'':1.5''" sample_world ?r]
    by (simp add: refused_def)
  moreover have "w_tracker sample_world = []" by (simp add: sample_world_def)
  ultimately show ?thesis
    using failed_operation_restores_inventory [of sample_world sample_env "sample_engine False"
        undefined "'':1.5''" undefined undefined ?r] by blast
qed

section \<open>Updates\<close>

text \<open>C8: A completed update was asked for a version that is not below the installed one,
  unless downgrades were explicitly allowed, and it records no new version: every driver
  keeps its identity, version included, whatever version was requested.\<close>

theorem update_respects_versions:
  assumes "w_tracker w = []"
    and "or_status (fst (update_driver env en req caller w)) = OpCompleted"
  shows "\<exists>d. List.find (by_name (ur_driver_name req)) (inv_drivers (w_inventory w)) = Some d \<and>
      (case ur_target_version req of None \<Rightarrow> True
       | Some target \<Rightarrow> (\<exists>v. driver_version_parse target = Ok v \<and>
           (di_version (de_id d) \<le> v \<or> ur_allow_downgrade req))) \<and>
    map de_id (inv_drivers (w_inventory (snd (update_driver env en req caller w)))) =
      map de_id (inv_drivers (w_inventory w))"
proof -
  obtain d where "update_admitted env en req caller w d"
    using assms(2) unfolding update.completed_iff by blast
  then show ?thesis
    using update.keeps_ids [OF assms(1), of env en req caller]
    by (intro conjI exI [of _ d]) (auto simp: update_admitted_def not_less split: option.split)
qed

definition sample_update :: update_request where
  "sample_update =
     \<lparr>ur_driver_name = ''e1000e'', ur_target_version = Some ''9.0.0'', ur_allow_downgrade = False\<rparr>"

lemma sample_update_admitted:
  "update_admitted sample_env (sample_engine True) sample_update '':1.5'' sample_world sample_entry"
proof -
  have v: "driver_version_parse ''9.0.0'' = Ok (DriverVersion 9 0 0 None)"
    by (simp add: driver_version_parse_def parse_component_def parse_eval)
  have le: "\<not> DriverVersion 9 0 0 None < DriverVersion 2 0 0 None"
    by (simp add: less_driver_version_def driver_version_cmp_def cmp_lin_def then_cmp_def)
  show ?thesis
    using v le sample_permitted [of True UpdateDriver "'':1.5''"]
    by (simp add: update_admitted_def update_request_validate_def sample_world_def by_name_def
        sample_entry_def sample_update_def parse_eval)
qed

lemma sample_calls:
  "is_loaded (xe_api sample_env) (w_kernel sample_world) ''e1000e''"
  "unload_module (xe_api sample_env) ''e1000e'' False (w_kernel sample_world) = (Ok (), [])"
  "module_available (xe_api sample_env) [] ''e1000e''"
  by code_simp+

lemma sample_no_files: "\<not> fs_exists (w_fs sample_world) p"
  by (simp add: sample_world_def sample_fs_def fs_exists_def fs_lookup_def)

lemma sample_fields:
  "w_tracker sample_world = []" "di_module_type (de_id sample_entry) = KernelModule"
  "di_name (de_id sample_entry) = ''e1000e''"
  by (simp_all add: sample_world_def sample_entry_def)

lemma update_respects_versions_witness:
  "or_status (fst (update_driver sample_env (sample_engine True) sample_update '':1.5'' sample_world))
     = OpCompleted \<and>
   map de_id (inv_drivers (w_inventory (snd (update_driver sample_env (sample_engine True)
     sample_update '':1.5'' sample_world)))) = map de_id (inv_drivers (w_inventory sample_world))"
proof -
  have "fst (execute_update sample_env (sample_engine True) sample_entry
      (w_fs sample_world, w_kernel sample_world)) = Ok ()"
    using sample_calls sample_no_files sample_fields
    by (simp add: execute_update_def execute_install_def Let_def)
  then have c: "or_status (fst (update_driver sample_env (sample_engine True) sample_update '':1.5''
      sample_world)) = OpCompleted"
    unfolding update.completed_iff using sample_update_admitted by (auto simp: is_ok_iff)
  from update_respects_versions [OF sample_fields(1) c] c show ?thesis by blast
qed

lemma find_package_path_absent:
  assumes "\<not> fs_exists s (staged_path (en_package_store en) (di_name (de_id d) @ ''.ko''))"
    and "\<not> fs_exists s (staged_path (en_package_store en) (di_name (de_id d)))"
  shows "\<not> fs_exists s (find_package_path en s d)"
  using assms by (simp add: find_package_path_def)

text \<open>C9: Updating a loaded kernel module that is on disk but has no staged package unloads it
  and does not load it again, yet the update is reported as completed and the driver is
  recorded as active.\<close>

theorem update_without_package_only_unloads:
  assumes "w_tracker w = []" and "update_admitted env en req caller w d"
    and "di_module_type (de_id d) = KernelModule"
    and "is_loaded (xe_api env) (w_kernel w) (di_name (de_id d))"
    and "unload_module (xe_api env) (di_name (de_id d)) False (w_kernel w) = (Ok (), k1)"
    and "\<not> fs_exists (w_fs w) (staged_path (en_package_store en) (di_name (de_id d) @ ''.ko''))"
    and "\<not> fs_exists (w_fs w) (staged_path (en_package_store en) (di_name (de_id d)))"
    and "module_available (xe_api env) k1 (di_name (de_id d))"
  shows "or_status (fst (update_driver env en req caller w)) = OpCompleted \<and>
    w_kernel (snd (update_driver env en req caller w)) = k1 \<and>
    d\<lparr>de_status := Active\<rparr> \<in> set (inv_drivers (w_inventory (snd (update_driver env en req caller w))))"
proof -
  have x: "execute_update env en d (w_fs w, w_kernel w) = (Ok (), w_fs w, k1)"
    using assms(3-5,8) find_package_path_absent [OF assms(6,7)]
    by (simp add: execute_update_def execute_install_def Let_def)
  then have ok: "or_status (fst (update_driver env en req caller w)) = OpCompleted"
    unfolding update.completed_iff using assms(2) by auto
  from update.completed_effect [OF assms(1) ok] obtain d' w2 where a: "update_admitted env en req caller w d'"
    and e: "execute_update env en d' (w_fs w, w_kernel w) = (Ok (), w_fs w2, w_kernel w2)"
    "w_inventory w2 = w_inventory w"
    "w_inventory (snd (update_driver env en req caller w)) =
       w_inventory (mark_updated (ur_driver_name req) d' w2)"
    "w_kernel (snd (update_driver env en req caller w)) =
       w_kernel (mark_updated (ur_driver_name req) d' w2)" by auto
  have d: "d' = d" by (rule update.admits_unique [OF a assms(2)])
  have f: "List.find (by_name (ur_driver_name req)) (inv_drivers (w_inventory w)) = Some d"
    using assms(2) by (simp add: update_admitted_def)
  let ?P = "\<lambda>x. eq_ignore_ascii_case (di_name (de_id x)) (ur_driver_name req)
      \<and> di_provider (de_id x) = di_provider (de_id d)"
  have "by_name (ur_driver_name req) d" using f by (auto simp: find_Some_iff)
  then have "List.find ?P (inv_drivers (w_inventory w)) = Some d"
    by (intro find_refine [OF f]) (simp_all add: by_name_def)
  from update_first_Some [OF this, of "\<lambda>_. d\<lparr>de_status := Active\<rparr>"]
  have m: "d\<lparr>de_status := Active\<rparr> \<in> set (update_first ?P (\<lambda>_. d\<lparr>de_status := Active\<rparr>)
      (inv_drivers (w_inventory w)))" by (auto simp: set_update_memI)
  have k: "w_kernel w2 = k1" using e(1) x d by simp
  show ?thesis using ok e(2-4) m k d by (simp add: mark_updated_def)
qed

lemma update_without_package_only_unloads_witness:
  "or_status (fst (update_driver sample_env (sample_engine True) sample_update '':1.5'' sample_world))
     = OpCompleted \<and>
   w_kernel (snd (update_driver sample_env (sample_engine True) sample_update '':1.5'' sample_world)) = []"
  using update_without_package_only_unloads [OF sample_fields(1) sample_update_admitted sample_fields(2),
      unfolded sample_fields(3), OF sample_calls(1,2) sample_no_files sample_no_files sample_calls(3)]
  by blast

section \<open>Runs\<close>

datatype command =
    CmdInstall install_request string "hardware_device list"
  | CmdRemove remove_request string
  | CmdUpdate update_request string

fun run_command :: "'k exec_env \<Rightarrow> engine \<Rightarrow> command \<Rightarrow> 'k world \<Rightarrow> operation_result \<times> 'k world" where
  "run_command env en (CmdInstall req caller hw) w = install_driver env en req caller hw w"
| "run_command env en (CmdRemove req caller) w = remove_driver env en req caller w"
| "run_command env en (CmdUpdate req caller) w = update_driver env en req caller w"

text \<open>Between operations the rest of the system may change the files and the kernel at will,
  and each operation may see another clock, another kernel interface and another
  detection of the system.\<close>

inductive engine_step :: "'k world \<Rightarrow> 'k world \<Rightarrow> bool" where
  command: "engine_step w (snd (run_command env en c w))"
| environment: "engine_step w (w\<lparr>w_fs := s, w_kernel := k\<rparr>)"

inductive engine_run :: "'k world \<Rightarrow> 'k world \<Rightarrow> bool" where
  none: "engine_run w w"
| step: "engine_run w w1 \<Longrightarrow> engine_step w1 w2 \<Longrightarrow> engine_run w w2"

lemma run_command_contract:
  "driver_operation (run_command env en c) (case c of
     CmdInstall r caller hw \<Rightarrow> permitted env en InstallDriver caller
   | CmdRemove r caller \<Rightarrow> permitted env en RemoveDriver caller
   | CmdUpdate r caller \<Rightarrow> permitted env en UpdateDriver caller)"
  using install.driver_operation_axioms remove.driver_operation_axioms
    update.driver_operation_axioms by (cases c) (simp_all add: driver_operation_def)

interpretation engine: driver_operation "run_command env en c"
  "case c of CmdInstall r caller hw \<Rightarrow> permitted env en InstallDriver caller
   | CmdRemove r caller \<Rightarrow> permitted env en RemoveDriver caller
   | CmdUpdate r caller \<Rightarrow> permitted env en UpdateDriver caller"
  for env en c
  by (rule run_command_contract)

definition run_invariant :: "'k world \<Rightarrow> 'k world \<Rightarrow> bool" where
  "run_invariant w w' =
     (w_tracker w' = [] \<and> log_extends (w_log w) (w_log w') \<and>
      map de_id (inv_drivers (w_inventory w')) = map de_id (inv_drivers (w_inventory w)))"

lemma engine_step_invariant:
  assumes "engine_step w1 w2" "run_invariant w w1" shows "run_invariant w w2"
  using assms
proof (cases rule: engine_step.cases)
  case (command env en c)
  then show ?thesis
    using assms(2) engine.extends [of w1 env en c] engine.releases [of w1 env en c]
      engine.keeps_ids [of w1 env en c]
    by (auto simp: run_invariant_def intro: log_extends_trans)
next
  case (environment s k)
  then show ?thesis using assms(2) by (simp add: run_invariant_def)
qed

text \<open>C7: Whatever operations run, in whatever order, with whatever changes of files and kernel
  in between, the tracker is empty again after each of them, the audit log is only ever
  extended, and the inventory keeps its drivers with their identities in place.\<close>

theorem engine_run_safe:
  assumes "engine_run w w'" and "w_tracker w = []"
  shows "w_tracker w' = [] \<and> log_extends (w_log w) (w_log w') \<and>
    map de_id (inv_drivers (w_inventory w')) = map de_id (inv_drivers (w_inventory w))"
proof -
  have "run_invariant w w'"
    using assms
  proof (induction rule: engine_run.induct)
    case (none w)
    then show ?case by (simp add: run_invariant_def)
  next
    case (step w w1 w2)
    then show ?case by (blast intro: engine_step_invariant)
  qed
  then show ?thesis by (simp add: run_invariant_def)
qed

lemma engine_run_safe_witness:
  "\<exists>w'. engine_run sample_world w' \<and> w_tracker w' = []"
proof -
  have r: "engine_run sample_world (snd (run_command sample_env (sample_engine True)
      (CmdRemove \<lparr>rr_driver_name = ''e1000e'', rr_force = True\<rparr> '':1.5'') sample_world))"
    by (rule engine_run.step [OF engine_run.none engine_step.command])
  have "w_tracker sample_world = []" by (simp add: sample_world_def)
  from engine_run_safe [OF r this] r show ?thesis by blast
qed


end
