(* ===== verification/Hwdetect.thy ===== *)
theory Hwdetect
  imports Matching Fs
begin

text \<open>
  Hardware detection (hwdetect.rs): uevent files, vendor and device ids cut from a
  modalias, the enumeration of the bus subsystems and the polling monitor. sysfs is the
  kernel's and is the record \<open>sysfs\<close>: directory listings, link resolution, file contents
  and modification times. Modaliases are ASCII, as the kernel writes them, so slicing by
  byte never splits a character.
\<close>

section \<open>uevent files\<close>

text \<open>\<open>str::lines\<close> up to the carriage returns and the empty last line, which trimming and
  skipping empty lines make irrelevant here.\<close>

definition uevent_line :: "string \<Rightarrow> (string \<times> string) option" where
  "uevent_line raw =
     (let line = trim raw in
      if line = [] \<or> starts_with line ''#'' then None
      else map_option (\<lambda>(k, v). (trim k, trim v)) (split_once CHR ''='' line))"

type_synonym uevent_data = "string \<rightharpoonup> string"

definition uevent_parse :: "string \<Rightarrow> uevent_data" where
  "uevent_parse content =
     fold (\<lambda>raw m. case uevent_line raw of None \<Rightarrow> m | Some (k, v) \<Rightarrow> m(k \<mapsto> v))
       (split_on CHR 0x0A content) (\<lambda>_. None)"

section \<open>Identifiers in a modalias\<close>

definition all_hex :: "string \<Rightarrow> bool" where
  "all_hex s = list_all is_ascii_hexdigit s"

definition extract_vendor_from_modalias :: "string \<Rightarrow> string option" where
  "extract_vendor_from_modalias m =
     (case find_subslice m ''v0000'' of
        Some i \<Rightarrow>
          (let rest = drop i m;
               vendor = take 4 (drop 5 rest)
           in if 9 \<le> length rest \<and> all_hex vendor then Some (''0x'' @ vendor) else Some ''0x0000'')
      | None \<Rightarrow>
          (case find_subslice m ''v'' of
             Some i \<Rightarrow>
               (let rest = drop (i + 1) m; vendor = take 4 rest
                in if 4 \<le> length rest \<and> all_hex vendor then Some (''0x'' @ vendor) else None)
           | None \<Rightarrow> None))"

definition extract_device_from_modalias :: "string \<Rightarrow> string option" where
  "extract_device_from_modalias m =
     (case find_subslice m ''d0000'' of
        Some i \<Rightarrow>
          if i + 9 \<le> length m then Some (''0x'' @ take 4 (drop (i + 5) m)) else None
      | None \<Rightarrow>
          (case find_subslice m ''p'' of
             Some i \<Rightarrow>
               (let rest = drop (i + 1) m; device = take 4 rest
                in if 4 \<le> length rest \<and> all_hex device then Some (''0x'' @ device) else None)
           | None \<Rightarrow> None))"

section \<open>sysfs\<close>

record sysfs =
  sf_read_dir :: "path \<Rightarrow> (io_error_kind \<times> string) + path list"
  sf_canonicalize :: "path \<Rightarrow> path option"
  sf_read :: "path \<Rightarrow> string option"
  sf_exists :: "path \<Rightarrow> bool"
  sf_mtime :: "path \<Rightarrow> u64 option"

definition bus_subsystems :: "string list" where
  "bus_subsystems = [''pci'', ''usb'', ''virtio'', ''i2c'', ''spi'', ''sdio'']"

definition devices_path :: "string \<Rightarrow> path" where
  "devices_path subsystem = path_push (path_push (path_push ''/sys'' ''bus'') subsystem) ''devices''"

definition bus_type_of :: "string \<Rightarrow> bus_type" where
  "bus_type_of s =
     (if s = ''pci'' then Pci else if s = ''usb'' then Usb else if s = ''virtio'' then Virtio
      else if s = ''i2c'' then I2c else if s = ''spi'' then Spi else if s = ''sdio'' then Sdio
      else OtherBus s)"

definition first_some :: "'a option \<Rightarrow> 'a option \<Rightarrow> 'a option" where
  "first_some a b = (case a of Some x \<Rightarrow> Some x | None \<Rightarrow> b)"

definition some_or :: "'a option \<Rightarrow> 'a \<Rightarrow> 'a" where
  "some_or a d = (case a of Some x \<Rightarrow> x | None \<Rightarrow> d)"

text \<open>\<open>None\<close> is a device that is skipped. No branch of the reader fails.\<close>

definition read_device :: "sysfs \<Rightarrow> path \<Rightarrow> string \<Rightarrow> hardware_device option" where
  "read_device sf sysfs_path subsystem =
     (case sf_read sf (path_push sysfs_path ''modalias'') of
        None \<Rightarrow> None
      | Some content \<Rightarrow>
     (let modalias = trim content in
      if modalias = [] then None
      else
       (let uevent = (case sf_read sf (path_push sysfs_path ''uevent'') of
              Some c \<Rightarrow> uevent_parse c | None \<Rightarrow> (\<lambda>_. None));
            vendor_id = some_or (first_some (uevent ''VENDOR_ID'')
              (extract_vendor_from_modalias modalias)) ''unknown'';
            device_id = some_or (first_some (uevent ''DEVICE_ID'')
              (extract_device_from_modalias modalias)) ''unknown'';
            device_name = some_or (first_some (uevent ''DEVNAME'')
              (first_some (uevent ''DRIVER'') (path_file_name sysfs_path))) ''Unknown Device'';
            driver_path = path_push sysfs_path ''driver'';
            current_driver = (if sf_exists sf driver_path
              then (case sf_canonicalize sf driver_path of
                  Some p \<Rightarrow> path_file_name p | None \<Rightarrow> None) else None);
            hardware_id =
              \<lparr>hw_modalias = modalias, hw_vendor_id = vendor_id, hw_device_id = device_id,
               hw_subsystem_vendor_id = uevent ''SUBVENDOR_ID'',
               hw_subsystem_device_id = uevent ''SUBDEVICE_ID'',
               hw_class_code = uevent ''PCI_CLASS'', hw_bus = subsystem,
               hw_current_driver = current_driver\<rparr>
        in case hardware_id_validate hardware_id of
             Inl _ \<Rightarrow> None
           | Inr _ \<Rightarrow> Some
               \<lparr>hd_hardware_id = hardware_id, hd_device_name = device_name,
                hd_vendor_name = uevent ''VENDOR'', hd_bus_type = bus_type_of subsystem,
                hd_bound_driver = current_driver, hd_operational = (current_driver \<noteq> None),
                hd_matched_drivers = []\<rparr>)))"

definition enumerate_subsystem :: "sysfs \<Rightarrow> path \<Rightarrow> string \<Rightarrow> hardware_device list result" where
  "enumerate_subsystem sf dir subsystem =
     (case sf_read_dir sf dir of
        Inl (IoNotFound, _) \<Rightarrow> Err (BackendUnavailable (''subsystem '' @ subsystem @ '' not found''))
      | Inl (_, e) \<Rightarrow> Err (Internal (''cannot read '' @ show_debug dir @ '': '' @ e))
      | Inr entries \<Rightarrow> Ok (List.map_filter (\<lambda>device_path.
            case sf_canonicalize sf device_path of
              None \<Rightarrow> None
            | Some real_path \<Rightarrow> read_device sf real_path subsystem) entries))"

definition enumerate_all :: "sysfs \<Rightarrow> hardware_device list result" where
  "enumerate_all sf =
     Ok (concat (map (\<lambda>subsystem.
        case enumerate_subsystem sf (devices_path subsystem) subsystem of
          Inr devices \<Rightarrow> devices
        | Inl (BackendUnavailable _) \<Rightarrow> []
        | Inl _ \<Rightarrow> []) bus_subsystems))"

section \<open>The monitor\<close>

datatype udev_event =
    DeviceAdded hardware_device | DeviceRemoved string | DeviceChanged hardware_device

text \<open>The monitor is its one field: the time of the last poll per subsystem.\<close>

type_synonym udev_monitor = "string \<rightharpoonup> u64"

definition udev_monitor_new :: udev_monitor where
  "udev_monitor_new = (\<lambda>_. None)"

definition blank_device :: "string \<Rightarrow> hardware_device" where
  "blank_device subsystem =
     \<lparr>hd_hardware_id = \<lparr>hw_modalias = '''', hw_vendor_id = '''', hw_device_id = '''',
        hw_subsystem_vendor_id = None, hw_subsystem_device_id = None, hw_class_code = None,
        hw_bus = subsystem, hw_current_driver = None\<rparr>,
      hd_device_name = '''', hd_vendor_name = None, hd_bus_type = bus_type_of subsystem,
      hd_bound_driver = None, hd_operational = False, hd_matched_drivers = []\<rparr>"

definition poll_subsystem :: "sysfs \<Rightarrow> string \<Rightarrow> udev_monitor \<Rightarrow> udev_event list \<times> udev_monitor" where
  "poll_subsystem sf subsystem mon =
     (case sf_mtime sf (devices_path subsystem) of
        None \<Rightarrow> ([], mon)
      | Some mtime \<Rightarrow>
          (let last_seen = some_or (mon subsystem) 0
           in (if last_seen < mtime then
                 (case enumerate_subsystem sf (devices_path subsystem) subsystem of
                    Inr (d # _) \<Rightarrow> [DeviceChanged d]
                  | Inr [] \<Rightarrow> [DeviceChanged (blank_device subsystem)]
                  | Inl _ \<Rightarrow> [])
               else [],
               mon(subsystem \<mapsto> mtime))))"

fun poll_all :: "sysfs \<Rightarrow> string list \<Rightarrow> udev_monitor \<Rightarrow> udev_event list \<times> udev_monitor" where
  "poll_all sf [] mon = ([], mon)"
| "poll_all sf (s # ss) mon =
     (let (e1, m1) = poll_subsystem sf s mon; (e2, m2) = poll_all sf ss m1 in (e1 @ e2, m2))"

definition poll_events :: "sysfs \<Rightarrow> udev_monitor \<Rightarrow> udev_event list \<times> udev_monitor" where
  "poll_events sf mon = poll_all sf bus_subsystems mon"

section \<open>What is detected\<close>

lemma read_device_Some:
  "read_device sf p sub = Some d \<Longrightarrow>
     hardware_id_validate (hd_hardware_id d) = Ok () \<and> hw_bus (hd_hardware_id d) = sub
     \<and> hd_bus_type d = bus_type_of sub \<and> hd_matched_drivers d = []
     \<and> hd_operational d = (hd_bound_driver d \<noteq> None)
     \<and> hw_current_driver (hd_hardware_id d) = hd_bound_driver d"
  by (auto simp: read_device_def Let_def split: option.splits sum.splits if_splits)

lemma enumerate_subsystem_mem:
  "enumerate_subsystem sf dir sub = Ok ds \<Longrightarrow> d \<in> set ds \<Longrightarrow>
     \<exists>p. read_device sf p sub = Some d"
  by (auto simp: enumerate_subsystem_def List.map_filter_def split: sum.splits prod.splits
      option.splits io_error_kind.splits) blast+

lemma enumerate_all_mem:
  assumes "enumerate_all sf = Ok ds" and "d \<in> set ds"
  shows "\<exists>p sub. sub \<in> set bus_subsystems \<and> read_device sf p sub = Some d"
proof -
  from assms obtain sub where sub: "sub \<in> set bus_subsystems" and
    d: "d \<in> set (case enumerate_subsystem sf (devices_path sub) sub of
          Inr devices \<Rightarrow> devices | Inl (BackendUnavailable _) \<Rightarrow> [] | Inl _ \<Rightarrow> [])"
    by (auto simp: enumerate_all_def)
  from d obtain es where "enumerate_subsystem sf (devices_path sub) sub = Ok es" "d \<in> set es"
    by (auto split: sum.splits service_error.splits)
  then show ?thesis using enumerate_subsystem_mem sub by blast
qed

lemma enumerate_all_Ok: "\<exists>ds. enumerate_all sf = Ok ds"
  by (simp add: enumerate_all_def)

text \<open>Enumeration never fails, and every device it reports is well formed: its identity
  validates, it lies on one of the six scanned buses with the matching bus type, no driver
  is matched yet, and it counts as operational exactly when a driver is bound.\<close>

theorem enumerate_all_well_formed:
  "case enumerate_all sf of
     Inl _ \<Rightarrow> False
   | Inr ds \<Rightarrow> list_all (\<lambda>d. hardware_id_validate (hd_hardware_id d) = Ok ()
       \<and> hw_bus (hd_hardware_id d) \<in> set bus_subsystems
       \<and> hd_bus_type d = bus_type_of (hw_bus (hd_hardware_id d)) \<and> hd_matched_drivers d = []
       \<and> hd_operational d = (hd_bound_driver d \<noteq> None)) ds"
proof -
  obtain ds where ds: "enumerate_all sf = Ok ds" using enumerate_all_Ok by blast
  have "hardware_id_validate (hd_hardware_id d) = Ok ()
       \<and> hw_bus (hd_hardware_id d) \<in> set bus_subsystems
       \<and> hd_bus_type d = bus_type_of (hw_bus (hd_hardware_id d)) \<and> hd_matched_drivers d = []
       \<and> hd_operational d = (hd_bound_driver d \<noteq> None)" if "d \<in> set ds" for d
    using enumerate_all_mem [OF ds that] read_device_Some by auto
  then show ?thesis by (simp add: ds list_all_iff)
qed

section \<open>Identifiers of PCI and USB devices\<close>

lemma length_4: "length s = 4 \<longleftrightarrow> (\<exists>a b c d. s = [a, b, c, d])"
  by (auto simp: length_Suc_conv numeral_eq_Suc)

lemma find_subslice_ne: "n \<noteq> [] \<Longrightarrow> find_subslice h n = find_window h n"
  by (simp add: find_subslice_def)

lemma pci_ids:
  assumes "length v = 4" "all_hex v" "length d = 4"
  shows "extract_vendor_from_modalias (''pci:v0000'' @ v @ ''d0000'' @ d @ rest) = Some (''0x'' @ v)"
    and "extract_device_from_modalias (''pci:v0000'' @ v @ ''d0000'' @ d @ rest) = Some (''0x'' @ d)"
proof -
  obtain a b c e where v: "v = [a, b, c, e]" using length_4 [THEN iffD1, OF assms(1)] by blast
  obtain f g h i where d: "d = [f, g, h, i]" using length_4 [THEN iffD1, OF assms(3)] by blast
  show "extract_vendor_from_modalias (''pci:v0000'' @ v @ ''d0000'' @ d @ rest) = Some (''0x'' @ v)"
    using assms(2) by (simp add: extract_vendor_from_modalias_def find_subslice_ne v d Let_def)
  show "extract_device_from_modalias (''pci:v0000'' @ v @ ''d0000'' @ d @ rest) = Some (''0x'' @ d)"
    by (simp add: extract_device_from_modalias_def find_subslice_ne v d)
qed

lemma hex_char_ne: "is_ascii_hexdigit c \<Longrightarrow> c \<noteq> CHR ''p'' \<and> c \<noteq> CHR ''v''"
  by (auto simp: is_ascii_hexdigit_def is_ascii_digit_def byte_of_def)

lemma find_window_absent: "hd n \<notin> set h \<Longrightarrow> n \<noteq> [] \<Longrightarrow> find_window h n = None"
proof -
  assume n: "hd n \<notin> set h" "n \<noteq> []"
  obtain a as where as: "n = a # as" using n(2) by (cases n) auto
  have "a \<notin> set h" using n(1) as by simp
  then show ?thesis unfolding as by (induction h) auto
qed

lemma usb_ids:
  assumes v: "length v = 4" "all_hex v" and p: "length p = 4" "all_hex p"
    and b: "length b = 4" "all_hex b" and rest: "CHR ''v'' \<notin> set rest" "find_window rest ''d0000'' = None"
      "4 \<le> length rest" "hd rest \<noteq> CHR ''0''"
  shows "extract_vendor_from_modalias (''usb:v'' @ v @ ''p'' @ p @ ''d'' @ b @ rest) = Some (''0x'' @ v)"
    and "extract_device_from_modalias (''usb:v'' @ v @ ''p'' @ p @ ''d'' @ b @ rest) =
      Some (''0x'' @ (if b = ''0000'' then take 4 rest else p))"
proof -
  obtain v1 v2 v3 v4 where v': "v = [v1, v2, v3, v4]" using length_4 [THEN iffD1, OF v(1)] by blast
  obtain p1 p2 p3 p4 where p': "p = [p1, p2, p3, p4]" using length_4 [THEN iffD1, OF p(1)] by blast
  obtain b1 b2 b3 b4 where b': "b = [b1, b2, b3, b4]" using length_4 [THEN iffD1, OF b(1)] by blast
  have hex: "is_ascii_hexdigit v1" "is_ascii_hexdigit v2" "is_ascii_hexdigit v3" "is_ascii_hexdigit v4"
    "is_ascii_hexdigit p1" "is_ascii_hexdigit p2" "is_ascii_hexdigit p3" "is_ascii_hexdigit p4"
    "is_ascii_hexdigit b1" "is_ascii_hexdigit b2" "is_ascii_hexdigit b3" "is_ascii_hexdigit b4"
    using v(2) p(2) b(2) by (simp_all add: v' p' b' all_hex_def)
  note ne = hex [THEN hex_char_ne]
  obtain r rs where r: "rest = r # rs" using rest(3) by (cases rest) auto
  have no_v: "find_window rest ''v0000'' = None" by (rule find_window_absent) (use rest(1) in simp_all)
  have p_hex: "\<not> is_ascii_hexdigit CHR ''p''" by (simp add: is_ascii_hexdigit_def is_ascii_digit_def byte_of_def)
  show "extract_vendor_from_modalias (''usb:v'' @ v @ ''p'' @ p @ ''d'' @ b @ rest) = Some (''0x'' @ v)"
    using ne no_v hex p_hex
    by (auto simp: extract_vendor_from_modalias_def find_subslice_ne v' p' b' all_hex_def Let_def)
  show "extract_device_from_modalias (''usb:v'' @ v @ ''p'' @ p @ ''d'' @ b @ rest) =
      Some (''0x'' @ (if b = ''0000'' then take 4 rest else p))"
    using ne rest(2-4) hex
    by (auto simp: extract_device_from_modalias_def find_subslice_ne v' p' b' r all_hex_def Let_def)
qed

text \<open>From a PCI modalias the vendor and device numbers are cut out exactly. From a USB modalias
  the vendor is, and the product is unless the device release is 0000: then the digits
  after the release are reported as the product.\<close>

theorem modalias_ids:
  assumes "length v = 4" "all_hex v" "length p = 4" "all_hex p" "length b = 4" "all_hex b"
    and "CHR ''v'' \<notin> set rest" "find_window rest ''d0000'' = None" "4 \<le> length rest"
      "hd rest \<noteq> CHR ''0''"
  shows "extract_vendor_from_modalias (''pci:v0000'' @ v @ ''d0000'' @ p @ any) = Some (''0x'' @ v)
    \<and> extract_device_from_modalias (''pci:v0000'' @ v @ ''d0000'' @ p @ any) = Some (''0x'' @ p)
    \<and> extract_vendor_from_modalias (''usb:v'' @ v @ ''p'' @ p @ ''d'' @ b @ rest) = Some (''0x'' @ v)
    \<and> extract_device_from_modalias (''usb:v'' @ v @ ''p'' @ p @ ''d'' @ b @ rest) =
        Some (''0x'' @ (if b = ''0000'' then take 4 rest else p))"
  using pci_ids [OF assms(1,2,3)] usb_ids [OF assms] by blast

lemma modalias_ids_witness:
  "extract_device_from_modalias ''usb:v046DpC52Bd1211dc00dsc00'' = Some ''0xC52B''
   \<and> extract_device_from_modalias ''usb:v046DpC52Bd0000dc00dsc00'' = Some ''0xdc00''"
  using modalias_ids [of "''046D''" "''C52B''" "''1211''" "''dc00dsc00''" "[]"]
    modalias_ids [of "''046D''" "''C52B''" "''0000''" "''dc00dsc00''" "[]"]
  by (simp add: all_hex_def is_ascii_hexdigit_def is_ascii_digit_def byte_of_def)

text \<open>The monitor reports changes only, at most one per bus and poll, and none when nothing
  was modified since.\<close>

lemma poll_subsystem_events:
  "list_all (\<lambda>e. \<exists>d. e = DeviceChanged d) (fst (poll_subsystem sf s m))"
  by (simp add: poll_subsystem_def Let_def split: option.split sum.split list.split)

lemma poll_all_events: "list_all (\<lambda>e. \<exists>d. e = DeviceChanged d) (fst (poll_all sf ss m))"
  by (induction ss arbitrary: m) (simp_all add: split_beta Let_def poll_subsystem_events)

lemma poll_subsystem_again:
  "fst (poll_subsystem sf s (snd (poll_subsystem sf s m))) = []"
  by (auto simp: poll_subsystem_def Let_def some_or_def split: option.splits)


end
