(* ===== verification/Scanner.thy ===== *)
theory Scanner
  imports Hwdetect Kmod
begin

text \<open>
  The inventory scanner (inventory.rs): the scan that enumerates the hardware and fills in
  the built-in driver table, the compatibility query and the matching of drivers to
  devices. The module list of the kernel, sysfs, the detected system and the clock are
  arguments. A scan writes the table from scratch.
\<close>

section \<open>The built-in drivers\<close>

definition in_tree_source :: driver_source where
  "in_tree_source = \<lparr>ds_id = ''linux'', ds_name = ''Linux Kernel'', ds_source_type = LinuxSrc,
     ds_available = True, ds_priority = 10\<rparr>"

definition loaded_status :: "string list \<Rightarrow> string \<Rightarrow> driver_status" where
  "loaded_status loaded n = (if n \<in> set loaded then Active else Available)"

definition e1000e_entry :: "string list \<Rightarrow> driver_entry" where
  "e1000e_entry loaded =
     \<lparr>de_id = \<lparr>di_name = ''e1000e'', di_provider = ''linux'', di_version = driver_version_new 6 8 0,
        di_arch = ''amd64'',
        di_kernel_compat = \<lparr>kc_min_version = ''2.6.32'', kc_max_version = None,
          kc_required_features = []\<rparr>,
        di_module_type = KernelModule\<rparr>,
      de_status = loaded_status loaded ''e1000e'',
      de_supported_hardware = [''pci:v00008086d*''],
      de_compatibility = Some (compatible_info ''In-tree kernel driver''),
      de_sources = [in_tree_source], de_metadata = [],
      de_description = ''Intel PRO/1000 PCIe Gigabit Ethernet driver'',
      de_package_size_bytes = None\<rparr>"

definition iwlwifi_entry :: "string list \<Rightarrow> driver_entry" where
  "iwlwifi_entry loaded =
     \<lparr>de_id = \<lparr>di_name = ''iwlwifi'', di_provider = ''linux'', di_version = driver_version_new 6 8 0,
        di_arch = ''amd64'',
        di_kernel_compat = \<lparr>kc_min_version = ''2.6.32'', kc_max_version = None,
          kc_required_features = [''CONFIG_IWLMVM'']\<rparr>,
        di_module_type = KernelModule\<rparr>,
      de_status = loaded_status loaded ''iwlwifi'',
      de_supported_hardware = [''pci:v00008086d*''],
      de_compatibility = Some (compatible_info ''In-tree kernel driver''),
      de_sources = [in_tree_source], de_metadata = [],
      de_description = ''Intel Wireless WiFi driver (iwlwifi)'',
      de_package_size_bytes = None\<rparr>"

definition nvidia_entry :: driver_entry where
  "nvidia_entry =
     \<lparr>de_id = \<lparr>di_name = ''nvidia'', di_provider = ''nvidia'', di_version = driver_version_new 550 120 0,
        di_arch = ''amd64'',
        di_kernel_compat = \<lparr>kc_min_version = ''5.4.0'', kc_max_version = Some ''6.8.0'',
          kc_required_features = [''CONFIG_DRM'']\<rparr>,
        di_module_type = KernelModule\<rparr>,
      de_status = Available,
      de_supported_hardware = [''pci:v000010DEd*''],
      de_compatibility = Some (with_signature
        (compatible_info ''Proprietary NVIDIA driver available'') True),
      de_sources = [\<lparr>ds_id = ''nvidia'', ds_name = ''NVIDIA Corporation'', ds_source_type = VendorSrc,
        ds_available = True, ds_priority = 50\<rparr>],
      de_metadata = [(''license'', ''proprietary'')],
      de_description = ''NVIDIA proprietary GPU driver'',
      de_package_size_bytes = Some 350000000\<rparr>"

definition loaded_names :: "'k kernel_api \<Rightarrow> 'k \<Rightarrow> string list" where
  "loaded_names api k = (case list_modules api k of Inr ms \<Rightarrow> map mi_name ms | Inl _ \<Rightarrow> [])"

definition populate_builtin_drivers :: "string list \<Rightarrow> driver_inventory \<Rightarrow> driver_inventory" where
  "populate_builtin_drivers loaded iv =
     iv\<lparr>inv_drivers := [e1000e_entry loaded, iwlwifi_entry loaded, nvidia_entry]\<rparr>"

section \<open>The scanner\<close>

definition scan_system ::
  "sysfs \<Rightarrow> 'k kernel_api \<Rightarrow> 'k \<Rightarrow> u64 \<Rightarrow> driver_inventory \<Rightarrow> unit result \<times> driver_inventory" where
  "scan_system sf api k now iv =
     (let iv1 = iv\<lparr>inv_devices := (case enumerate_all sf of Inr devices \<Rightarrow> devices | Inl e \<Rightarrow> [])\<rparr>;
          iv2 = populate_builtin_drivers (loaded_names api k) iv1
      in (Ok (), iv2\<lparr>inv_last_scan_timestamp := now\<rparr>))"

fun first_compatible :: "system_info \<Rightarrow> driver_entry \<Rightarrow> hardware_device list \<Rightarrow> compatibility_info option" where
  "first_compatible system driver [] = None"
| "first_compatible system driver (d # ds) =
     (let compat_info = evaluate_compatibility system driver d
      in if ci_compatible compat_info then Some compat_info else first_compatible system driver ds)"

definition scanner_check_compatibility ::
  "system_info \<Rightarrow> driver_inventory \<Rightarrow> string \<Rightarrow> string \<Rightarrow> compatibility_info result" where
  "scanner_check_compatibility system iv driver_name provider =
     (case find_driver iv driver_name provider of
        None \<Rightarrow> Err (NotFound (''driver '' @ quoted (provider @ ''/'' @ driver_name) @ '' not found''))
      | Some driver \<Rightarrow>
          (case first_compatible system driver (inv_devices iv) of
             Some compat_info \<Rightarrow> Ok compat_info
           | None \<Rightarrow>
               (case de_compatibility driver of
                  Some stored \<Rightarrow> Ok stored
                | None \<Rightarrow> Ok (incompatible_info ''No compatible hardware found for this driver''
                    [''No hardware device matches this driver'' @ [CHR 0x27]
                     @ ''s supported device list'']))))"

definition match_drivers_to_hardware :: "system_info \<Rightarrow> driver_inventory \<Rightarrow> driver_inventory" where
  "match_drivers_to_hardware system iv =
     iv\<lparr>inv_devices := map (\<lambda>d. d\<lparr>hd_matched_drivers :=
         map (\<lambda>(drv, _). di_name (de_id drv)) (find_matching_drivers system d (inv_drivers iv))\<rparr>)
       (inv_devices iv)\<rparr>"

section \<open>What a scan forgets\<close>

text \<open>A scan always succeeds and always ends in the same three drivers, whatever the inventory
  held: an installed, failed or removed driver loses its status, a driver from elsewhere
  disappears, and the vendor driver is listed as available even while its module is
  loaded.\<close>

theorem scan_resets_drivers:
  "fst (scan_system sf api k now iv) = Ok ()
   \<and> (let iv' = snd (scan_system sf api k now iv)
      in map (\<lambda>d. di_name (de_id d)) (inv_drivers iv') = [''e1000e'', ''iwlwifi'', ''nvidia'']
       \<and> inv_drivers iv' = inv_drivers (snd (scan_system sf api k now inventory_new))
       \<and> failed_driver_count iv' = 0
       \<and> map_option de_status (find_driver iv' ''nvidia'' ''nvidia'') = Some Available
       \<and> inv_last_scan_timestamp iv' = now)"
proof -
  have low: "eq_ignore_ascii_case ''e1000e'' ''nvidia'' = False"
    "eq_ignore_ascii_case ''iwlwifi'' ''nvidia'' = False"
    by (simp_all add: eq_ignore_ascii_case_def to_lowercase_def to_lower_char_def byte_of_def)
  show ?thesis
    by (simp add: scan_system_def populate_builtin_drivers_def e1000e_entry_def iwlwifi_entry_def
        nvidia_entry_def Let_def failed_driver_count_def is_error_def loaded_status_def find_driver_def low)
qed

lemma scan_devices:
  "inv_devices (snd (scan_system sf api k now iv)) =
     (case enumerate_all sf of Inr ds \<Rightarrow> ds | Inl _ \<Rightarrow> [])"
  by (simp add: scan_system_def populate_builtin_drivers_def Let_def)

text \<open>The stored verdict of the table answers for hardware that is not there.\<close>

lemma stored_compatibility_wins:
  "find_driver iv n p = Some d \<Longrightarrow> inv_devices iv = [] \<Longrightarrow> de_compatibility d = Some c \<Longrightarrow>
     scanner_check_compatibility system iv n p = Ok c"
  by (simp add: scanner_check_compatibility_def)

lemma first_compatible_iff:
  "(\<exists>c. first_compatible system driver ds = Some c) \<longleftrightarrow>
     (\<exists>d\<in>set ds. ci_compatible (evaluate_compatibility system driver d))"
  by (induction ds) (auto simp: Let_def)

end
