(* ===== verification/Driverd_Config.thy ===== *)
theory Driverd_Config
  imports Package
begin

text \<open>
  The configuration of driverd (config.rs). The package store section is in the theory of
  the package store. The TOML reader is an argument: it fills a missing field from the
  default functions below, as the \<open>serde(default)\<close> attributes say, or reports an error.
  Loading never fails: whatever goes wrong, the defaults are used.
\<close>

record driver_audit_config =
  dac_enabled :: bool
  dac_max_size_bytes :: u64
  dac_max_files :: u32
  dac_syslog_forward :: bool

definition default_audit_enabled :: bool where "default_audit_enabled = True"
definition default_audit_max_size :: u64 where "default_audit_max_size = 10 * 1024 * 1024"
definition default_audit_max_files :: u32 where "default_audit_max_files = 5"

definition driver_audit_config_default :: driver_audit_config where
  "driver_audit_config_default = \<lparr>dac_enabled = default_audit_enabled,
     dac_max_size_bytes = default_audit_max_size, dac_max_files = default_audit_max_files,
     dac_syslog_forward = False\<rparr>"

record inventory_config =
  ic_scan_interval_secs :: u64
  ic_auto_detect_on_start :: bool

definition default_scan_interval :: u64 where "default_scan_interval = 300"
definition default_auto_detect :: bool where "default_auto_detect = True"

definition inventory_config_default :: inventory_config where
  "inventory_config_default = \<lparr>ic_scan_interval_secs = default_scan_interval,
     ic_auto_detect_on_start = default_auto_detect\<rparr>"

record legacy_source_config =
  ls_enabled_sources :: "string list"
  ls_allow_unsigned_drivers :: bool

definition legacy_source_config_default :: legacy_source_config where
  "legacy_source_config_default =
     \<lparr>ls_enabled_sources = [''mission''], ls_allow_unsigned_drivers = False\<rparr>"

record verification_config =
  vc_key_store_path :: path
  vc_require_signature :: bool
  vc_allow_unsigned :: bool

definition default_key_store_path :: path where
  "default_key_store_path = ''/etc/mission/driverd/trusted-keys''"

definition default_require_signature :: bool where "default_require_signature = True"

definition verification_config_default :: verification_config where
  "verification_config_default = \<lparr>vc_key_store_path = default_key_store_path,
     vc_require_signature = default_require_signature, vc_allow_unsigned = False\<rparr>"

record driver_config =
  dc_dbus_name :: string
  dc_audit :: driver_audit_config
  dc_inventory :: inventory_config
  dc_legacy_sources :: legacy_source_config
  dc_package_store :: package_store_config
  dc_verification :: verification_config

definition default_dbus_name :: string where "default_dbus_name = ''org.mission.Driver1''"

definition driver_config_default :: driver_config where
  "driver_config_default = \<lparr>dc_dbus_name = default_dbus_name,
     dc_audit = driver_audit_config_default, dc_inventory = inventory_config_default,
     dc_legacy_sources = legacy_source_config_default,
     dc_package_store = package_store_config_default,
     dc_verification = verification_config_default\<rparr>"

definition load_config ::
  "(string \<Rightarrow> string + driver_config) \<Rightarrow> io_error_kind + string \<Rightarrow> driver_config" where
  "load_config toml read =
     (case read of
        Inr content \<Rightarrow>
          (case toml content of Inr cfg \<Rightarrow> cfg | Inl e \<Rightarrow> driver_config_default)
      | Inl IoNotFound \<Rightarrow> driver_config_default
      | Inl _ \<Rightarrow> driver_config_default)"

lemma load_config_cases:
  "load_config toml read =
     (case read of Inr c \<Rightarrow> (case toml c of Inr cfg \<Rightarrow> cfg | Inl _ \<Rightarrow> driver_config_default)
      | Inl _ \<Rightarrow> driver_config_default)"
  by (simp add: load_config_def split: sum.split io_error_kind.split)

text \<open>A file that cannot be used never loosens the verification of packages.\<close>

lemma load_config_strict:
  "\<not> (\<exists>c cfg. read = Inr c \<and> toml c = Inr cfg) \<Longrightarrow>
     vc_require_signature (dc_verification (load_config toml read))
     \<and> \<not> vc_allow_unsigned (dc_verification (load_config toml read))
     \<and> dac_enabled (dc_audit (load_config toml read))"
  by (auto simp: load_config_cases driver_config_default_def verification_config_default_def
      default_require_signature_def driver_audit_config_default_def default_audit_enabled_def
      split: sum.split)

end
