(* ===== verification/Dbus.thy ===== *)
theory Dbus
  imports Errors
begin

text \<open>
  The D-Bus side both services share: the errors of \<open>zbus::fdo\<close> a method can return, and
  the contract of a privileged method as a locale. A method takes its arguments, the
  caller and the state of the service; arguments are decoded and validated first, then the
  caller is authorized, then the method acts. zbus and serde are external: decoding is an
  argument of the handlers, a reply is the text of the answer.
\<close>

datatype fdo_error =
    FdoAccessDenied string | FdoInvalidArgs string | FdoFileNotFound string
  | FdoNotSupported string | FdoFailed string

type_synonym reply = "fdo_error + string"

section \<open>The contract of a privileged method\<close>

locale guarded_method =
  fixes handle :: "'a \<Rightarrow> string \<Rightarrow> 's \<Rightarrow> reply \<times> 's"
    and well_formed :: "'a \<Rightarrow> bool"
    and permitted :: "'a \<Rightarrow> string \<Rightarrow> bool"
    and protected :: "'s \<Rightarrow> 'x"
    and trail :: "'s \<Rightarrow> 'e list"
  assumes malformed: "\<not> well_formed a \<Longrightarrow> \<exists>m. handle a c s = (Err (FdoInvalidArgs m), s)"
    and denied: "well_formed a \<Longrightarrow> \<not> permitted a c \<Longrightarrow>
      \<exists>m. fst (handle a c s) = Err (FdoAccessDenied m)"
    and denied_effect: "well_formed a \<Longrightarrow> \<not> permitted a c \<Longrightarrow> protected (snd (handle a c s)) = protected s"
    and denied_logged: "well_formed a \<Longrightarrow> \<not> permitted a c \<Longrightarrow>
      \<exists>evs. evs \<noteq> [] \<and> trail (snd (handle a c s)) = trail s @ evs"
    and trail_grows: "\<exists>evs. trail (snd (handle a c s)) = trail s @ evs"
begin

lemma refused:
  assumes "\<not> (well_formed a \<and> permitted a c)"
  shows "\<exists>e. fst (handle a c s) = Err e" and "protected (snd (handle a c s)) = protected s"
proof -
  show "\<exists>e. fst (handle a c s) = Err e"
    using malformed [of a c s] denied [of a c s] assms by (cases "well_formed a") auto
  show "protected (snd (handle a c s)) = protected s"
    using malformed [of a c s] denied_effect [of a c s] assms by (cases "well_formed a") auto
qed

lemma succeeds_only_if:
  "fst (handle a c s) = Ok r \<Longrightarrow> well_formed a \<and> permitted a c"
  using refused(1) [of a c s] by auto

text \<open>A sequence of calls.\<close>

fun calls :: "('a \<times> string) list \<Rightarrow> 's \<Rightarrow> reply list \<times> 's" where
  "calls [] s = ([], s)"
| "calls ((a, c) # cs) s =
     (let t = snd (handle a c s)
      in (fst (handle a c s) # fst (calls cs t), snd (calls cs t)))"

lemma calls_refused:
  "(\<forall>(a, c)\<in>set cs. \<not> (well_formed a \<and> permitted a c)) \<Longrightarrow>
     (\<forall>r\<in>set (fst (calls cs s)). \<not> is_ok r) \<and> protected (snd (calls cs s)) = protected s"
proof (induction cs arbitrary: s)
  case (Cons ac cs)
  obtain a c where ac: "ac = (a, c)" by (cases ac)
  then have not: "\<not> (well_formed a \<and> permitted a c)" using Cons.prems by simp
  obtain e where "fst (handle a c s) = Err e" using refused(1) [OF not, of s] by blast
  moreover have "\<forall>(a, c)\<in>set cs. \<not> (well_formed a \<and> permitted a c)" using Cons.prems by simp
  ultimately show ?case
    using ac Cons.IH [of "snd (handle a c s)"] refused(2) [OF not, of s] by (simp add: Let_def)
qed simp

lemma calls_trail: "\<exists>evs. trail (snd (calls cs s)) = trail s @ evs"
proof (induction cs arbitrary: s)
  case (Cons ac cs)
  obtain a c where ac: "ac = (a, c)" by (cases ac)
  obtain e1 where "trail (snd (handle a c s)) = trail s @ e1" using trail_grows by blast
  moreover obtain e2 where "trail (snd (calls cs (snd (handle a c s)))) =
      trail (snd (handle a c s)) @ e2"
    using Cons by blast
  ultimately show ?case by (simp add: ac Let_def)
qed simp

end

section \<open>Start-up\<close>

text \<open>The steps of a \<open>main\<close> against the bus: each succeeds or ends the process. The steps
  done and whether all were.\<close>

fun run_startup :: "('b \<Rightarrow> bool) \<Rightarrow> 'b list \<Rightarrow> 'b list \<times> bool" where
  "run_startup bus [] = ([], True)"
| "run_startup bus (t # ts) =
     (if bus t then (let (done_steps, ok) = run_startup bus ts in (t # done_steps, ok)) else ([], False))"

lemma run_startup_iff: "snd (run_startup bus ts) \<longleftrightarrow> (\<forall>t\<in>set ts. bus t)"
  by (induction ts) (auto simp: split_beta)

lemma run_startup_prefix: "fst (run_startup bus ts) = takeWhile bus ts"
  by (induction ts) (auto simp: split_beta)


end
