(* ===== verification/Driverd.thy ===== *)
theory Driverd
  imports Execution Scanner Cache Source Download Driverd_Config Dbus
begin

text \<open>
  The driver service: the three D-Bus interfaces with their signals (dbus.rs, signals.rs),
  the start-up and the two periodic tasks (main.rs). The state of the service is the world
  of the execution engine (files, kernel, counter, tracker, inventory, audit trail), the
  hardware monitor and the signals handed to the bus. A handler is a function of that state
  here, as if it ran alone; \<open>Driverd_Tasks\<close> cuts the same handlers at their locks and
  awaits, and \<open>Driverd_Interleaving\<close> runs the pieces of many in any order. serde, the TOML reader, sysfs, the detected
  system, the package version and the clock reading of a call are arguments.
\<close>

section \<open>What the service is given\<close>

record source_status =
  ss_id :: string
  ss_name :: string
  ss_source_type :: source_type
  ss_enabled :: bool
  ss_priority :: u32
  ss_base_url :: string
  ss_has_metadata_url :: bool
  ss_trusted_key_count :: nat
  ss_mirror_count :: nat

record cache_status_info =
  cs_cache_path :: path
  cs_current_size_bytes :: nat
  cs_entry_count :: nat
  cs_max_size_bytes :: u64
  cs_max_entries :: nat

record inventory_snapshot =
  sn_driver_count :: nat
  sn_active_drivers :: nat
  sn_failed_drivers :: nat
  sn_device_count :: nat
  sn_last_scan_timestamp :: u64

text \<open>What a handler serializes as its answer.\<close>

datatype driverd_answer =
    StatusAnswer string inventory_snapshot bool
  | ResultAnswer operation_result
  | DriversAnswer "driver_entry list"
  | DevicesAnswer "hardware_device list"
  | DriverAnswer driver_entry
  | CompatibilityAnswer compatibility_info
  | SourcesAnswer "source_status list"
  | RefreshAnswer nat
  | CacheAnswer cache_status_info
  | ClearedAnswer nat

record 'k driverd_env =
  dn_exec :: "'k exec_env"
  dn_sysfs :: "'k \<Rightarrow> sysfs"
  dn_system :: "'k \<Rightarrow> system_info"
  dn_version :: string
  dn_parse_install :: "string \<Rightarrow> string + install_request"
  dn_parse_remove :: "string \<Rightarrow> string + remove_request"
  dn_parse_update :: "string \<Rightarrow> string + update_request"
  dn_json :: "driverd_answer \<Rightarrow> string + string"

text \<open>The shared application state that no handler changes. The repository and download
  managers are built at start-up and no handler uses them.\<close>

record driverd_app =
  ap_config :: driver_config
  ap_authorizer :: authorizer
  ap_sources :: source_registry
  ap_engine :: engine
  ap_cache :: cache_config
  ap_freshness :: freshness_policy
  ap_download :: download_manager

section \<open>Signals and state\<close>

definition driverd_service_name :: string where
  "driverd_service_name = ''org.mission.Driver1''"

definition driverd_object_path :: string where
  "driverd_object_path = ''/org/mission/Driver1''"

definition driverd_interface_core :: string where
  "driverd_interface_core = ''org.mission.Driver1''"

definition driverd_interface_inventory :: string where
  "driverd_interface_inventory = ''org.mission.Driver1.Inventory''"

definition driverd_interface_management :: string where
  "driverd_interface_management = ''org.mission.Driver1.Management''"

datatype driverd_body =
    DriverEventBody u64 u64 string string string string string
  | DriverHealthBody u64 u64 bool string
  | InventoryChangedBody u64 u64

record driverd_signal =
  dg_path :: string
  dg_interface :: string
  dg_member :: string
  dg_body :: driverd_body

record 'k driverd_state =
  dv_world :: "'k world"
  dv_monitor :: udev_monitor
  dv_sent :: "driverd_signal list"

definition on_world :: "('k world \<Rightarrow> 'k world) \<Rightarrow> 'k driverd_state \<Rightarrow> 'k driverd_state" where
  "on_world f s = s\<lparr>dv_world := f (dv_world s)\<rparr>"

text \<open>The object path is well formed, so the early return of the emitters is never taken;
  a failing send is ignored.\<close>

definition driverd_emit ::
  "string \<Rightarrow> string \<Rightarrow> (u64 \<Rightarrow> driverd_body) \<Rightarrow> 'k driverd_state \<Rightarrow> 'k driverd_state" where
  "driverd_emit interface member body s =
     (let (seq, w) = next_sequence (dv_world s)
      in s\<lparr>dv_world := w, dv_sent := dv_sent s @
           [\<lparr>dg_path = driverd_object_path, dg_interface = interface, dg_member = member,
             dg_body = body seq\<rparr>]\<rparr>)"

definition emit_driver_event ::
  "'k driverd_env \<Rightarrow> audit_event \<Rightarrow> 'k driverd_state \<Rightarrow> 'k driverd_state" where
  "emit_driver_event env e =
     driverd_emit driverd_interface_core ''DriverEvent''
       (\<lambda>seq. DriverEventBody seq (xe_now (dn_exec env)) (show_event_category (ev_category e))
          (show_event_severity (ev_severity e)) (ev_action e) (ev_subject e) (ev_details e))"

definition emit_health_changed ::
  "'k driverd_env \<Rightarrow> bool \<Rightarrow> string \<Rightarrow> 'k driverd_state \<Rightarrow> 'k driverd_state" where
  "emit_health_changed env healthy status =
     driverd_emit driverd_interface_core ''HealthChanged''
       (\<lambda>seq. DriverHealthBody seq (xe_now (dn_exec env)) healthy status)"

definition emit_inventory_changed :: "'k driverd_env \<Rightarrow> 'k driverd_state \<Rightarrow> 'k driverd_state" where
  "emit_inventory_changed env =
     driverd_emit driverd_interface_inventory ''InventoryChanged''
       (\<lambda>seq. InventoryChangedBody seq (xe_now (dn_exec env)))"

text \<open>Recording an event returns it; the handlers that signal it do so at once.\<close>

definition app_audit ::
  "'k driverd_env \<Rightarrow> event_category \<Rightarrow> event_severity \<Rightarrow> string \<Rightarrow> string \<Rightarrow> string
     \<Rightarrow> 'k driverd_state \<Rightarrow> audit_event \<times> 'k driverd_state" where
  "app_audit env cat sev action subject details s =
     (let e = audit_event_new (xe_now (dn_exec env)) cat sev action subject details
      in (e, on_world (\<lambda>w. w\<lparr>w_log := record_event e (w_log w)\<rparr>) s))"

definition audit_emit ::
  "'k driverd_env \<Rightarrow> event_category \<Rightarrow> string \<Rightarrow> string \<Rightarrow> string
     \<Rightarrow> 'k driverd_state \<Rightarrow> 'k driverd_state" where
  "audit_emit env cat action subject details s =
     (let (e, s1) = app_audit env cat SevInfo action subject details s
      in emit_driver_event env e s1)"

definition check_caller ::
  "'k driverd_env \<Rightarrow> driverd_app \<Rightarrow> driver_action \<Rightarrow> string \<Rightarrow> 'k driverd_state
     \<Rightarrow> bool \<times> 'k driverd_state" where
  "check_caller env app act caller s =
     (let (auth, l) = authorize (xe_runtime (dn_exec env)) (ap_authorizer app)
            (xe_now (dn_exec env)) act caller (w_log (dv_world s))
      in (is_authorized auth, on_world (\<lambda>w. w\<lparr>w_log := l\<rparr>) s))"

definition answer :: "'k driverd_env \<Rightarrow> string \<Rightarrow> driverd_answer \<Rightarrow> reply" where
  "answer env what a =
     map_err (\<lambda>e. FdoFailed (what @ ''serialization failed: '' @ e)) (dn_json env a)"

fun map_service_error :: "service_error \<Rightarrow> fdo_error" where
  "map_service_error (PermissionDenied m) = FdoAccessDenied m"
| "map_service_error (InvalidArgument m) = FdoInvalidArgs m"
| "map_service_error (NotFound m) = FdoFileNotFound m"
| "map_service_error (AlreadyExists m) = FdoFailed (''already exists: '' @ m)"
| "map_service_error (NotSupported m) = FdoNotSupported m"
| "map_service_error (BackendUnavailable m) = FdoFailed m"
| "map_service_error (Busy m) = FdoFailed m"
| "map_service_error (Conflict m) = FdoFailed m"
| "map_service_error (VerificationFailed m) = FdoFailed m"
| "map_service_error (RollbackFailed m) = FdoFailed m"
| "map_service_error (PackageError m) = FdoFailed m"
| "map_service_error (DownloadFailed m) = FdoFailed m"
| "map_service_error (SourceError m) = FdoFailed m"
| "map_service_error (MetadataError m) = FdoInvalidArgs m"
| "map_service_error (DowngradeRejected m) = FdoInvalidArgs m"
| "map_service_error (Internal m) = FdoFailed m"

section \<open>Views of the state\<close>

definition snapshot_inventory :: "driver_inventory \<Rightarrow> inventory_snapshot" where
  "snapshot_inventory iv =
     \<lparr>sn_driver_count = length (inv_drivers iv), sn_active_drivers = active_driver_count iv,
      sn_failed_drivers = failed_driver_count iv, sn_device_count = length (inv_devices iv),
      sn_last_scan_timestamp = inv_last_scan_timestamp iv\<rparr>"

definition source_status_list :: "driverd_app \<Rightarrow> source_status list" where
  "source_status_list app =
     map (\<lambda>s. \<lparr>ss_id = sc_id s, ss_name = sc_name s, ss_source_type = sc_source_type s,
        ss_enabled = sc_enabled s, ss_priority = sc_priority s, ss_base_url = sc_base_url s,
        ss_has_metadata_url = (sc_metadata_url s \<noteq> None),
        ss_trusted_key_count = length (sc_trusted_key_ids s),
        ss_mirror_count = length (sc_mirrors s)\<rparr>) (sr_sources (ap_sources app))"

definition cache_status :: "driverd_app \<Rightarrow> fs \<Rightarrow> cache_status_info" where
  "cache_status app s =
     \<lparr>cs_cache_path = cc_cache_path (ap_cache app),
      cs_current_size_bytes = current_cache_size (ap_cache app) s,
      cs_entry_count = cache_entry_count (ap_cache app) s,
      cs_max_size_bytes = cc_max_size_bytes (ap_cache app),
      cs_max_entries = cc_max_entries (ap_cache app)\<rparr>"

text \<open>A scan of the hardware, and the matching of the drivers to it, on the inventory of
  the world.\<close>

definition scan_world :: "'k driverd_env \<Rightarrow> 'k world \<Rightarrow> unit result \<times> 'k world" where
  "scan_world env w =
     (let (r, iv) = scan_system (dn_sysfs env (w_kernel w)) (xe_api (dn_exec env)) (w_kernel w)
            (xe_now (dn_exec env)) (w_inventory w)
      in (r, w\<lparr>w_inventory := iv\<rparr>))"

definition match_world :: "'k driverd_env \<Rightarrow> 'k world \<Rightarrow> 'k world" where
  "match_world env w =
     w\<lparr>w_inventory := match_drivers_to_hardware (dn_system env (w_kernel w)) (w_inventory w)\<rparr>"

section \<open>The core interface\<close>

definition get_version :: "'k driverd_env \<Rightarrow> 'k driverd_state \<Rightarrow> reply \<times> 'k driverd_state" where
  "get_version env s = (Ok (dn_version env), s)"

definition get_status ::
  "'k driverd_env \<Rightarrow> driverd_app \<Rightarrow> string \<Rightarrow> 'k driverd_state \<Rightarrow> reply \<times> 'k driverd_state" where
  "get_status env app caller s =
     (let (ok, s1) = check_caller env app ViewStatus caller s
      in if \<not> ok then (Err (FdoAccessDenied ''not authorized to view driver service status''), s1)
         else
           (answer env ''status '' (StatusAnswer (dn_version env)
              (snapshot_inventory (w_inventory (dv_world s1))) (dac_enabled (dc_audit (ap_config app)))),
            audit_emit env System ''get_status'' caller ''Driver service status requested'' s1))"

section \<open>The inventory interface\<close>

definition scan_hardware ::
  "'k driverd_env \<Rightarrow> driverd_app \<Rightarrow> string \<Rightarrow> 'k driverd_state \<Rightarrow> reply \<times> 'k driverd_state" where
  "scan_hardware env app caller s =
     (let (ok, s1) = check_caller env app ScanHardware caller s
      in if \<not> ok then (Err (FdoAccessDenied ''not authorized to trigger hardware scan''), s1)
         else (case scan_world env (dv_world s1) of
             (Inl e, w) \<Rightarrow> (Err (map_service_error e), s1\<lparr>dv_world := w\<rparr>)
           | (Inr _, w) \<Rightarrow>
               (let op_result = operation_success ''system''
                      (''Scan complete: '' @ show_nat (length (inv_drivers (w_inventory w)))
                        @ '' drivers in inventory'');
                    s2 = audit_emit env HardwareDetection ''hardware_scan'' caller
                      (''Hardware scan completed: '' @ or_message op_result) (s1\<lparr>dv_world := w\<rparr>)
                in (answer env ''result '' (ResultAnswer op_result), emit_inventory_changed env s2))))"

definition list_drivers ::
  "'k driverd_env \<Rightarrow> driverd_app \<Rightarrow> string \<Rightarrow> 'k driverd_state \<Rightarrow> reply \<times> 'k driverd_state" where
  "list_drivers env app caller s =
     (let (ok, s1) = check_caller env app ListDrivers caller s
      in if \<not> ok then (Err (FdoAccessDenied ''not authorized to list drivers''), s1)
         else (answer env '''' (DriversAnswer (inv_drivers (w_inventory (dv_world s1)))), s1))"

definition list_devices ::
  "'k driverd_env \<Rightarrow> driverd_app \<Rightarrow> string \<Rightarrow> 'k driverd_state \<Rightarrow> reply \<times> 'k driverd_state" where
  "list_devices env app caller s =
     (let (ok, s1) = check_caller env app ListDrivers caller s
      in if \<not> ok then (Err (FdoAccessDenied ''not authorized to list devices''), s1)
         else (answer env '''' (DevicesAnswer (inv_devices (w_inventory (dv_world s1)))), s1))"

definition query_driver ::
  "'k driverd_env \<Rightarrow> driverd_app \<Rightarrow> string \<Rightarrow> string \<Rightarrow> string \<Rightarrow> 'k driverd_state
     \<Rightarrow> reply \<times> 'k driverd_state" where
  "query_driver env app caller driver_name provider s =
     (let (ok, s1) = check_caller env app QueryDriver caller s
      in if \<not> ok then (Err (FdoAccessDenied ''not authorized to query drivers''), s1)
         else ((case find_driver (w_inventory (dv_world s1)) driver_name provider of
                  None \<Rightarrow> Err (FdoFileNotFound (''driver '' @ quoted (provider @ ''/'' @ driver_name)
                            @ '' not found''))
                | Some d \<Rightarrow> answer env '''' (DriverAnswer d)), s1))"

definition check_compatibility ::
  "'k driverd_env \<Rightarrow> driverd_app \<Rightarrow> string \<Rightarrow> string \<Rightarrow> string \<Rightarrow> 'k driverd_state
     \<Rightarrow> reply \<times> 'k driverd_state" where
  "check_compatibility env app caller driver_name provider s =
     (let (ok, s1) = check_caller env app CheckCompatibility caller s
      in if \<not> ok then (Err (FdoAccessDenied ''not authorized to check compatibility''), s1)
         else ((case scanner_check_compatibility (dn_system env (w_kernel (dv_world s1)))
                    (w_inventory (dv_world s1)) driver_name provider of
                  Inl (NotFound m) \<Rightarrow> Err (FdoFileNotFound m)
                | Inl e \<Rightarrow> Err (map_service_error e)
                | Inr c \<Rightarrow> answer env '''' (CompatibilityAnswer c)), s1))"

section \<open>The management interface\<close>

definition handle_install ::
  "'k driverd_env \<Rightarrow> driverd_app \<Rightarrow> string \<Rightarrow> string \<Rightarrow> 'k driverd_state
     \<Rightarrow> reply \<times> 'k driverd_state" where
  "handle_install env app request_json caller s =
     (case dn_parse_install env request_json of
        Inl e \<Rightarrow> (Err (FdoInvalidArgs (''invalid install request: '' @ e)), s)
      | Inr request \<Rightarrow>
     (case install_request_validate request of
        Inl e \<Rightarrow> (Err (FdoInvalidArgs (''invalid install request: '' @ show_service_error e)), s)
      | Inr _ \<Rightarrow>
     (let (ok, s1) = check_caller env app InstallDriver caller s
      in if \<not> ok then (Err (FdoAccessDenied ''not authorized to install drivers''), s1)
         else
     (let s2 = audit_emit env DriverInstall ''driver_install_requested'' caller
            (''Driver '' @ quoted (ir_driver_name request) @ '' installation requested from ''
               @ quoted (ir_provider request)) s1;
          devices = inv_devices (w_inventory (dv_world s2));
          (result, w) = install_driver (dn_exec env) (ap_engine app) request caller devices
            (dv_world s2);
          s3 = emit_inventory_changed env (s2\<lparr>dv_world := w\<rparr>);
          s4 = (if or_status result = OpCompleted
            then audit_emit env DriverInstall ''driver_install_completed'' caller (or_message result) s3
            else s3)
      in (answer env ''result '' (ResultAnswer result), s4)))))"

definition handle_remove ::
  "'k driverd_env \<Rightarrow> driverd_app \<Rightarrow> string \<Rightarrow> string \<Rightarrow> 'k driverd_state
     \<Rightarrow> reply \<times> 'k driverd_state" where
  "handle_remove env app request_json caller s =
     (case dn_parse_remove env request_json of
        Inl e \<Rightarrow> (Err (FdoInvalidArgs (''invalid remove request: '' @ e)), s)
      | Inr request \<Rightarrow>
     (case remove_request_validate request of
        Inl e \<Rightarrow> (Err (FdoInvalidArgs (''invalid remove request: '' @ show_service_error e)), s)
      | Inr _ \<Rightarrow>
     (let (ok, s1) = check_caller env app RemoveDriver caller s
      in if \<not> ok then (Err (FdoAccessDenied ''not authorized to remove drivers''), s1)
         else
     (let s2 = audit_emit env DriverRemove ''driver_remove_requested'' caller
            (''Driver '' @ quoted (rr_driver_name request) @ '' removal requested'') s1;
          (result, w) = remove_driver (dn_exec env) (ap_engine app) request caller (dv_world s2)
      in (answer env ''result '' (ResultAnswer result),
          emit_inventory_changed env (s2\<lparr>dv_world := w\<rparr>))))))"

definition debug_option :: "string option \<Rightarrow> string" where
  "debug_option t = (case t of None \<Rightarrow> ''None'' | Some v \<Rightarrow> ''Some('' @ show_debug v @ '')'')"

definition handle_update ::
  "'k driverd_env \<Rightarrow> driverd_app \<Rightarrow> string \<Rightarrow> string \<Rightarrow> 'k driverd_state
     \<Rightarrow> reply \<times> 'k driverd_state" where
  "handle_update env app request_json caller s =
     (case dn_parse_update env request_json of
        Inl e \<Rightarrow> (Err (FdoInvalidArgs (''invalid update request: '' @ e)), s)
      | Inr request \<Rightarrow>
     (case update_request_validate request of
        Inl e \<Rightarrow> (Err (FdoInvalidArgs (''invalid update request: '' @ show_service_error e)), s)
      | Inr _ \<Rightarrow>
     (let (ok, s1) = check_caller env app UpdateDriver caller s
      in if \<not> ok then (Err (FdoAccessDenied ''not authorized to update drivers''), s1)
         else
     (let s2 = audit_emit env DriverUpdate ''driver_update_requested'' caller
            (''Driver '' @ quoted (ur_driver_name request) @ '' update requested to ''
               @ debug_option (ur_target_version request)) s1;
          (result, w) = update_driver (dn_exec env) (ap_engine app) request caller (dv_world s2)
      in (answer env ''result '' (ResultAnswer result),
          emit_inventory_changed env (s2\<lparr>dv_world := w\<rparr>))))))"

definition list_sources ::
  "'k driverd_env \<Rightarrow> driverd_app \<Rightarrow> string \<Rightarrow> 'k driverd_state \<Rightarrow> reply \<times> 'k driverd_state" where
  "list_sources env app caller s =
     (let (ok, s1) = check_caller env app ListDrivers caller s
      in if \<not> ok then (Err (FdoAccessDenied ''not authorized to list sources''), s1)
         else (answer env '''' (SourcesAnswer (source_status_list app)), s1))"

definition refresh_metadata ::
  "'k driverd_env \<Rightarrow> driverd_app \<Rightarrow> string \<Rightarrow> 'k driverd_state \<Rightarrow> reply \<times> 'k driverd_state" where
  "refresh_metadata env app caller s =
     (let (ok, s1) = check_caller env app ConfigureSources caller s
      in if \<not> ok then (Err (FdoAccessDenied ''not authorized to refresh metadata''), s1)
         else (answer env '''' (RefreshAnswer (source_count (ap_sources app))),
               snd (app_audit env Configuration SevInfo ''metadata_refresh_requested'' caller
                 ''Repository metadata refresh requested'' s1)))"

definition get_cache_status ::
  "'k driverd_env \<Rightarrow> driverd_app \<Rightarrow> string \<Rightarrow> 'k driverd_state \<Rightarrow> reply \<times> 'k driverd_state" where
  "get_cache_status env app caller s =
     (let (ok, s1) = check_caller env app ViewStatus caller s
      in if \<not> ok then (Err (FdoAccessDenied ''not authorized to view cache status''), s1)
         else (answer env '''' (CacheAnswer (cache_status app (w_fs (dv_world s1)))), s1))"

text \<open>Clearing the cache never fails, so the handler has no error branch to take.\<close>

definition clear_cache ::
  "'k driverd_env \<Rightarrow> driverd_app \<Rightarrow> string \<Rightarrow> 'k driverd_state \<Rightarrow> reply \<times> 'k driverd_state" where
  "clear_cache env app caller s =
     (let (ok, s1) = check_caller env app ConfigureSources caller s
      in if \<not> ok then (Err (FdoAccessDenied ''not authorized to clear cache''), s1)
         else
     (let (removed, f) = cache_clear (ap_cache app) (w_fs (dv_world s1));
          s2 = on_world (\<lambda>w. w\<lparr>w_fs := f\<rparr>) s1
      in (answer env '''' (ClearedAnswer removed),
          snd (app_audit env Configuration SevInfo ''cache_cleared'' caller
            (''Cache cleared: '' @ show_nat removed @ '' entries removed'') s2))))"

section \<open>The periodic tasks\<close>

definition health_tick :: "'k driverd_env \<Rightarrow> 'k driverd_state \<Rightarrow> 'k driverd_state" where
  "health_tick env s = emit_health_changed env True ''Service healthy'' s"

definition poll_hardware_events ::
  "'k driverd_env \<Rightarrow> 'k driverd_state \<Rightarrow> udev_event list \<times> 'k driverd_state" where
  "poll_hardware_events env s =
     (let (events, m) = poll_events (dn_sysfs env (w_kernel (dv_world s))) (dv_monitor s)
      in (events, s\<lparr>dv_monitor := m\<rparr>))"

definition poll_tick :: "'k driverd_env \<Rightarrow> 'k driverd_state \<Rightarrow> 'k driverd_state" where
  "poll_tick env s =
     (let (events, s1) = poll_hardware_events env s
      in if events = [] then s1
         else emit_inventory_changed env
                (on_world (\<lambda>w. match_world env (snd (scan_world env w))) s1))"

section \<open>Start-up\<close>

datatype driverd_startup =
    ConnectSystemBus | RegisterDriver | RegisterInventory | RegisterManagement
  | RequestDriverName string

definition driverd_registration_steps :: "driverd_startup list" where
  "driverd_registration_steps = [RegisterDriver, RegisterInventory, RegisterManagement,
     RequestDriverName driverd_service_name]"

definition driverd_startup_steps :: "driverd_startup list" where
  "driverd_startup_steps = ConnectSystemBus # driverd_registration_steps"

text \<open>The application state \<open>main\<close> builds from the configuration, the bypass flag of the
  environment and the PolKit connection. \<open>parse\<close> reads a key file.\<close>

definition driverd_app_new ::
  "(bytes \<Rightarrow> json option) \<Rightarrow> polkit_conn \<Rightarrow> bool \<Rightarrow> driver_config \<Rightarrow> system_info \<Rightarrow> fs
     \<Rightarrow> driverd_app" where
  "driverd_app_new parse conn allow_unauthorized config detected s =
     (let polkit = \<lparr>pk_conn = Some conn, pk_allow_unauthorized = allow_unauthorized\<rparr>;
          authorizer = \<lparr>az_allow_unauthorized = allow_unauthorized, az_polkit = Some polkit\<rparr>;
          package_store = package_store_new (dc_package_store config);
          key_store = key_store_new parse s (vc_key_store_path (dc_verification config));
          verifier = \<lparr>vf_key_store = key_store,
            vf_allow_unsigned = vc_allow_unsigned (dc_verification config)\<rparr>
      in \<lparr>ap_config = config, ap_authorizer = authorizer,
          ap_sources = (case registry_from_configs default_sources of
              Inr r \<Rightarrow> r | Inl _ \<Rightarrow> registry_empty),
          ap_engine = engine_new (clone_audit authorizer) package_store verifier
            allow_unauthorized detected,
          ap_cache = cache_config_new ''/var/cache/mission/drivers'',
          ap_freshness = freshness_default,
          ap_download = \<lparr>dm_fetch = download_config_default, dm_policy = retry_default,
            dm_partial_dir = ''/var/cache/mission/drivers/partials''\<rparr>\<rparr>)"

definition driverd_boot ::
  "'k driverd_env \<Rightarrow> driver_config \<Rightarrow> fs \<Rightarrow> 'k \<Rightarrow> 'k driverd_state" where
  "driverd_boot env config s k =
     (let w = \<lparr>w_fs = s, w_kernel = k, w_seq = 0, w_tracker = [], w_inventory = inventory_new,
               w_log = []\<rparr>;
          w1 = (if ic_auto_detect_on_start (dc_inventory config) then
                  (case scan_world env w of
                     (Inr _, v) \<Rightarrow> match_world env v
                   | (Inl _, v) \<Rightarrow> v)
                else w)
      in \<lparr>dv_world = w1, dv_monitor = udev_monitor_new, dv_sent = []\<rparr>)"

text \<open>The scan lies between connecting and registering. The result is the state at the first
  announcement; calls that arrive between the registration and the announcement are not
  among the runs that start from it.\<close>

definition driverd_main ::
  "(driverd_startup \<Rightarrow> bool) \<Rightarrow> 'k driverd_env \<Rightarrow> driver_config \<Rightarrow> fs \<Rightarrow> 'k
     \<Rightarrow> (int + 'k driverd_state) \<times> driverd_startup list" where
  "driverd_main bus env config s k =
     (if \<not> bus ConnectSystemBus then (Inl 1, [])
      else
     (let s1 = driverd_boot env config s k;
          (done_steps, ok) = run_startup bus driverd_registration_steps
      in (if ok then Inr (emit_health_changed env True ''Service started successfully'' s1)
          else Inl 1, ConnectSystemBus # done_steps)))"

text \<open>The scan changes neither the bus nor the outcome: the service is up after all steps.\<close>

lemma driverd_main_eq:
  "driverd_main bus env config s k =
     (if snd (run_startup bus driverd_startup_steps)
      then Inr (emit_health_changed env True ''Service started successfully''
        (driverd_boot env config s k))
      else Inl 1, fst (run_startup bus driverd_startup_steps))"
  by (simp add: driverd_main_def driverd_startup_steps_def split_beta Let_def)

end
