(* ===== verification/Driverd_Properties.thy ===== *)
theory Driverd_Properties
  imports Driverd Execution_Properties
begin

text \<open>
  What the driver service promises: its privileged methods meet the contract of a guarded
  method, its signals follow the operations, and whatever sequence of calls, ticks and
  outside changes it sees, the tracker is empty between requests, the driver table is the
  built-in one, the signals are numbered upwards and the trail only grows.
\<close>

section \<open>The fields of the state\<close>

lemma on_world_simps [simp]:
  "dv_world (on_world f s) = f (dv_world s)" "dv_monitor (on_world f s) = dv_monitor s"
  "dv_sent (on_world f s) = dv_sent s"
  by (simp_all add: on_world_def)

lemma driverd_emit_simps [simp]:
  "dv_world (driverd_emit i m b s) = (dv_world s)\<lparr>w_seq := w_seq (dv_world s) + 1\<rparr>"
  "dv_monitor (driverd_emit i m b s) = dv_monitor s"
  "dv_sent (driverd_emit i m b s) = dv_sent s @ [\<lparr>dg_path = driverd_object_path,
     dg_interface = i, dg_member = m, dg_body = b (w_seq (dv_world s))\<rparr>]"
  by (simp_all add: driverd_emit_def next_sequence_def)

lemma app_audit_simps [simp]:
  "dv_world (snd (app_audit env cat sev a c d s)) = (dv_world s)\<lparr>w_log :=
     record_event (audit_event_new (xe_now (dn_exec env)) cat sev a c d) (w_log (dv_world s))\<rparr>"
  "dv_monitor (snd (app_audit env cat sev a c d s)) = dv_monitor s"
  "dv_sent (snd (app_audit env cat sev a c d s)) = dv_sent s"
  by (simp_all add: app_audit_def Let_def)

definition app_permits ::
  "'k driverd_env \<Rightarrow> driverd_app \<Rightarrow> driver_action \<Rightarrow> string \<Rightarrow> bool" where
  "app_permits env app act caller =
     is_authorized (fst (authorize (xe_runtime (dn_exec env)) (ap_authorizer app)
       (xe_now (dn_exec env)) act caller []))"

lemma check_caller_facts:
  assumes "check_caller env app act caller s = (b, s1)"
  shows "b = app_permits env app act caller"
    "\<exists>evs. evs \<noteq> [] \<and> s1 = on_world (\<lambda>w. w\<lparr>w_log := w_log w @ evs\<rparr>) s"
proof -
  let ?a = "authorize (xe_runtime (dn_exec env)) (ap_authorizer app) (xe_now (dn_exec env)) act
    caller (w_log (dv_world s))"
  have b: "b = is_authorized (fst ?a)" "s1 = on_world (\<lambda>w. w\<lparr>w_log := snd ?a\<rparr>) s"
    using assms by (auto simp: check_caller_def Let_def split: prod.splits)
  show "b = app_permits env app act caller"
    unfolding b app_permits_def using driverd_auth.verdict_log_free by metis
  obtain evs where "snd ?a = w_log (dv_world s) @ evs" "evs \<noteq> []"
    using driverd_auth.decision_logged by blast
  then show "\<exists>evs. evs \<noteq> [] \<and> s1 = on_world (\<lambda>w. w\<lparr>w_log := w_log w @ evs\<rparr>) s"
    unfolding b by (intro exI [of _ evs]) (simp add: on_world_def)
qed

lemma read_only_permitted: "is_read_only a \<Longrightarrow> app_permits env app a c"
  using driverd_auth.read_only_allowed by (simp add: app_permits_def is_authorized_def)

section \<open>The privileged methods\<close>

datatype driverd_privileged =
    ScanCall | InstallCall string | RemoveCall string | UpdateCall string | RefreshCall | ClearCall

fun privileged_action :: "driverd_privileged \<Rightarrow> driver_action" where
  "privileged_action ScanCall = ScanHardware"
| "privileged_action (InstallCall j) = InstallDriver"
| "privileged_action (RemoveCall j) = RemoveDriver"
| "privileged_action (UpdateCall j) = UpdateDriver"
| "privileged_action RefreshCall = ConfigureSources"
| "privileged_action ClearCall = ConfigureSources"

fun privileged_call ::
  "'k driverd_env \<Rightarrow> driverd_app \<Rightarrow> driverd_privileged \<Rightarrow> string \<Rightarrow> 'k driverd_state
     \<Rightarrow> reply \<times> 'k driverd_state" where
  "privileged_call env app ScanCall c s = scan_hardware env app c s"
| "privileged_call env app (InstallCall j) c s = handle_install env app j c s"
| "privileged_call env app (RemoveCall j) c s = handle_remove env app j c s"
| "privileged_call env app (UpdateCall j) c s = handle_update env app j c s"
| "privileged_call env app RefreshCall c s = refresh_metadata env app c s"
| "privileged_call env app ClearCall c s = clear_cache env app c s"

definition parses :: "(string \<Rightarrow> string + 'a) \<Rightarrow> ('a \<Rightarrow> unit result) \<Rightarrow> string \<Rightarrow> bool" where
  "parses f v j = (case f j of Inl _ \<Rightarrow> False | Inr r \<Rightarrow> is_ok (v r))"

fun accepts :: "'k driverd_env \<Rightarrow> driverd_privileged \<Rightarrow> bool" where
  "accepts env (InstallCall j) = parses (dn_parse_install env) install_request_validate j"
| "accepts env (RemoveCall j) = parses (dn_parse_remove env) remove_request_validate j"
| "accepts env (UpdateCall j) = parses (dn_parse_update env) update_request_validate j"
| "accepts env _ = True"

lemma parses_iff: "parses f v j \<longleftrightarrow> (\<exists>r. f j = Inr r \<and> v r = Ok ())"
  by (auto simp: parses_def is_ok_def split: sum.splits)

lemma privileged_malformed:
  "\<not> accepts env p \<Longrightarrow> \<exists>m. privileged_call env app p c s = (Err (FdoInvalidArgs m), s)"
  by (cases p) (auto simp: parses_def is_ok_def handle_install_def handle_remove_def
      handle_update_def split: sum.splits)

lemma privileged_denied:
  assumes "accepts env p" and "check_caller env app (privileged_action p) c s = (False, s1)"
  shows "\<exists>m. privileged_call env app p c s = (Err (FdoAccessDenied m), s1)"
  using assms by (cases p) (auto simp: parses_iff scan_hardware_def handle_install_def
      handle_remove_def handle_update_def refresh_metadata_def clear_cache_def)

section \<open>The trail\<close>

abbreviation trail_of :: "'k driverd_state \<Rightarrow> audit_log" where
  "trail_of s \<equiv> w_log (dv_world s)"

lemma trail_check: "log_extends (trail_of s) (trail_of (snd (check_caller env app a c s)))"
proof -
  obtain b s1 where k: "check_caller env app a c s = (b, s1)"
    by (cases "check_caller env app a c s")
  obtain evs where "s1 = on_world (\<lambda>w. w\<lparr>w_log := w_log w @ evs\<rparr>) s"
    using check_caller_facts(2) [OF k] by blast
  then show ?thesis by (simp add: k log_extends_def)
qed

lemma trail_audit_emit [simp]:
  "trail_of (audit_emit env cat a c d s) =
     record_event (audit_event_new (xe_now (dn_exec env)) cat SevInfo a c d) (trail_of s)"
  by (simp add: audit_emit_def emit_driver_event_def app_audit_def Let_def)

lemma trail_inventory_changed [simp]: "trail_of (emit_inventory_changed env s) = trail_of s"
  by (simp add: emit_inventory_changed_def)

lemma trail_health [simp]: "trail_of (emit_health_changed env b t s) = trail_of s"
  by (simp add: emit_health_changed_def)

lemma scan_world_fields:
  assumes "scan_world env w = (r, w')"
  shows "r = Ok ()" "w_log w' = w_log w" "w_seq w' = w_seq w" "w_tracker w' = w_tracker w"
    "w_fs w' = w_fs w" "w_kernel w' = w_kernel w"
  using assms by (auto simp: scan_world_def scan_system_def Let_def)

lemma match_world_fields [simp]:
  "w_log (match_world env w) = w_log w" "w_seq (match_world env w) = w_seq w"
  "w_tracker (match_world env w) = w_tracker w" "w_fs (match_world env w) = w_fs w"
  "w_kernel (match_world env w) = w_kernel w"
  "inv_drivers (w_inventory (match_world env w)) = inv_drivers (w_inventory w)"
  by (simp_all add: match_world_def match_drivers_to_hardware_def)

lemma audit_emit_simps [simp]:
  "dv_monitor (audit_emit env cat a c d s) = dv_monitor s"
  "w_seq (dv_world (audit_emit env cat a c d s)) = w_seq (dv_world s) + 1"
  "w_tracker (dv_world (audit_emit env cat a c d s)) = w_tracker (dv_world s)"
  "w_inventory (dv_world (audit_emit env cat a c d s)) = w_inventory (dv_world s)"
  "w_fs (dv_world (audit_emit env cat a c d s)) = w_fs (dv_world s)"
  "w_kernel (dv_world (audit_emit env cat a c d s)) = w_kernel (dv_world s)"
  by (simp_all add: audit_emit_def emit_driver_event_def app_audit_def Let_def)

lemma log_extends_step: "log_extends (record_event e a) b \<Longrightarrow> log_extends a b"
  by (rule log_extends_trans [OF log_extends_record])

text \<open>What a permitted request does, per method.\<close>

lemma install_allowed:
  assumes "dn_parse_install env j = Inr q" "install_request_validate q = Ok ()"
    and "check_caller env app InstallDriver c s = (True, s1)"
    and "s2 = audit_emit env DriverInstall ''driver_install_requested'' c
      (''Driver '' @ quoted (ir_driver_name q) @ '' installation requested from ''
        @ quoted (ir_provider q)) s1"
    and "install_driver (dn_exec env) (ap_engine app) q c (inv_devices (w_inventory (dv_world s1)))
      (dv_world s2) = (r, w)"
    and "s3 = emit_inventory_changed env (s2\<lparr>dv_world := w\<rparr>)"
  shows "handle_install env app j c s = (answer env ''result '' (ResultAnswer r),
    if or_status r = OpCompleted
    then audit_emit env DriverInstall ''driver_install_completed'' c (or_message r) s3 else s3)"
  using assms by (simp add: handle_install_def Let_def)

lemma remove_allowed:
  assumes "dn_parse_remove env j = Inr q" "remove_request_validate q = Ok ()"
    and "check_caller env app RemoveDriver c s = (True, s1)"
    and "s2 = audit_emit env DriverRemove ''driver_remove_requested'' c
      (''Driver '' @ quoted (rr_driver_name q) @ '' removal requested'') s1"
    and "remove_driver (dn_exec env) (ap_engine app) q c (dv_world s2) = (r, w)"
  shows "handle_remove env app j c s = (answer env ''result '' (ResultAnswer r),
    emit_inventory_changed env (s2\<lparr>dv_world := w\<rparr>))"
  using assms by (simp add: handle_remove_def Let_def)

lemma update_allowed:
  assumes "dn_parse_update env j = Inr q" "update_request_validate q = Ok ()"
    and "check_caller env app UpdateDriver c s = (True, s1)"
    and "s2 = audit_emit env DriverUpdate ''driver_update_requested'' c
      (''Driver '' @ quoted (ur_driver_name q) @ '' update requested to ''
        @ debug_option (ur_target_version q)) s1"
    and "update_driver (dn_exec env) (ap_engine app) q c (dv_world s2) = (r, w)"
  shows "handle_update env app j c s = (answer env ''result '' (ResultAnswer r),
    emit_inventory_changed env (s2\<lparr>dv_world := w\<rparr>))"
  using assms by (simp add: handle_update_def Let_def)

lemma scan_allowed:
  assumes "check_caller env app ScanHardware c s = (True, s1)"
    and "scan_world env (dv_world s1) = (u, w)"
    and "r = operation_success ''system'' (''Scan complete: ''
      @ show_nat (length (inv_drivers (w_inventory w))) @ '' drivers in inventory'')"
  shows "scan_hardware env app c s = (answer env ''result '' (ResultAnswer r),
    emit_inventory_changed env (audit_emit env HardwareDetection ''hardware_scan'' c
      (''Hardware scan completed: '' @ or_message r) (s1\<lparr>dv_world := w\<rparr>)))"
  using assms scan_world_fields(1) [OF assms(2)] by (simp add: scan_hardware_def Let_def)

lemma refresh_allowed:
  "check_caller env app ConfigureSources c s = (True, s1) \<Longrightarrow>
     refresh_metadata env app c s = (answer env '''' (RefreshAnswer (source_count (ap_sources app))),
       snd (app_audit env Configuration SevInfo ''metadata_refresh_requested'' c
         ''Repository metadata refresh requested'' s1))"
  by (simp add: refresh_metadata_def)

lemma clear_allowed:
  "check_caller env app ConfigureSources c s = (True, s1) \<Longrightarrow>
     cache_clear (ap_cache app) (w_fs (dv_world s1)) = (n, f) \<Longrightarrow>
     clear_cache env app c s = (answer env '''' (ClearedAnswer n),
       snd (app_audit env Configuration SevInfo ''cache_cleared'' c
         (''Cache cleared: '' @ show_nat n @ '' entries removed'')
         (on_world (\<lambda>w. w\<lparr>w_fs := f\<rparr>) s1)))"
  by (simp add: clear_cache_def)

text \<open>The command a request hands to the engine.\<close>

fun asks ::
  "'k driverd_env \<Rightarrow> driverd_privileged \<Rightarrow> string \<Rightarrow> driver_inventory \<Rightarrow> command \<Rightarrow> bool" where
  "asks env (InstallCall j) c iv cmd =
     (\<exists>q. dn_parse_install env j = Inr q \<and> cmd = CmdInstall q c (inv_devices iv))"
| "asks env (RemoveCall j) c iv cmd = (\<exists>q. dn_parse_remove env j = Inr q \<and> cmd = CmdRemove q c)"
| "asks env (UpdateCall j) c iv cmd = (\<exists>q. dn_parse_update env j = Inr q \<and> cmd = CmdUpdate q c)"
| "asks env _ c iv cmd = False"

text \<open>So a permitted request relates the state before its body to the state after it by any
  relation that the engine operations, a scan and the small steps respect.\<close>

lemma privileged_allowed_cases:
  assumes "accepts env p" and "check_caller env app (privileged_action p) c s = (True, s1)"
  obtains (engine) cmd r w cat a d s2 where
      "run_command (dn_exec env) (ap_engine app) cmd (dv_world s2) = (r, w)"
      "s2 = audit_emit env cat a c d s1"
      "snd (privileged_call env app p c s) \<in>
         {emit_inventory_changed env (s2\<lparr>dv_world := w\<rparr>),
          audit_emit env DriverInstall ''driver_install_completed'' c (or_message r)
            (emit_inventory_changed env (s2\<lparr>dv_world := w\<rparr>))}"
      "asks env p c (w_inventory (dv_world s1)) cmd"
  | (scan) u w d where "p = ScanCall" "scan_world env (dv_world s1) = (u, w)"
      "snd (privileged_call env app p c s) = emit_inventory_changed env
         (audit_emit env HardwareDetection ''hardware_scan'' c d (s1\<lparr>dv_world := w\<rparr>))"
  | (other) f a d where "snd (privileged_call env app p c s) =
      snd (app_audit env Configuration SevInfo a c d (on_world (\<lambda>w. w\<lparr>w_fs := f\<rparr>) s1))"
proof (cases p)
  case ScanCall
  obtain u w where "scan_world env (dv_world s1) = (u, w)"
    by (cases "scan_world env (dv_world s1)")
  from scan_allowed [OF _ this refl] this show thesis
    using assms ScanCall by (intro scan) auto
next
  case (InstallCall j)
  then obtain q where q: "dn_parse_install env j = Inr q" "install_request_validate q = Ok ()"
    using assms(1) by (auto simp: parses_iff)
  define s2 where "s2 = audit_emit env DriverInstall ''driver_install_requested'' c
      (''Driver '' @ quoted (ir_driver_name q) @ '' installation requested from ''
        @ quoted (ir_provider q)) s1"
  obtain r w where i: "install_driver (dn_exec env) (ap_engine app) q c
      (inv_devices (w_inventory (dv_world s1))) (dv_world s2) = (r, w)"
    by (cases "install_driver (dn_exec env) (ap_engine app) q c
      (inv_devices (w_inventory (dv_world s1))) (dv_world s2)")
  show thesis
  proof (rule engine [of "CmdInstall q c (inv_devices (w_inventory (dv_world s1)))", OF _ s2_def])
    show "run_command (dn_exec env) (ap_engine app)
      (CmdInstall q c (inv_devices (w_inventory (dv_world s1)))) (dv_world s2) = (r, w)"
      using i by simp
    show "snd (privileged_call env app p c s) \<in>
         {emit_inventory_changed env (s2\<lparr>dv_world := w\<rparr>),
          audit_emit env DriverInstall ''driver_install_completed'' c (or_message r)
            (emit_inventory_changed env (s2\<lparr>dv_world := w\<rparr>))}"
      using install_allowed [OF q _ s2_def i refl] assms(2) InstallCall by simp
    show "asks env p c (w_inventory (dv_world s1))
      (CmdInstall q c (inv_devices (w_inventory (dv_world s1))))" using InstallCall q by simp
  qed
next
  case (RemoveCall j)
  then obtain q where q: "dn_parse_remove env j = Inr q" "remove_request_validate q = Ok ()"
    using assms(1) by (auto simp: parses_iff)
  define s2 where "s2 = audit_emit env DriverRemove ''driver_remove_requested'' c
      (''Driver '' @ quoted (rr_driver_name q) @ '' removal requested'') s1"
  obtain r w where i: "remove_driver (dn_exec env) (ap_engine app) q c (dv_world s2) = (r, w)"
    by (cases "remove_driver (dn_exec env) (ap_engine app) q c (dv_world s2)")
  show thesis
    by (rule engine [of "CmdRemove q c", OF _ s2_def])
      (use i q remove_allowed [OF q _ s2_def i] assms(2) RemoveCall in auto)
next
  case (UpdateCall j)
  then obtain q where q: "dn_parse_update env j = Inr q" "update_request_validate q = Ok ()"
    using assms(1) by (auto simp: parses_iff)
  define s2 where "s2 = audit_emit env DriverUpdate ''driver_update_requested'' c
      (''Driver '' @ quoted (ur_driver_name q) @ '' update requested to ''
        @ debug_option (ur_target_version q)) s1"
  obtain r w where i: "update_driver (dn_exec env) (ap_engine app) q c (dv_world s2) = (r, w)"
    by (cases "update_driver (dn_exec env) (ap_engine app) q c (dv_world s2)")
  show thesis
    by (rule engine [of "CmdUpdate q c", OF _ s2_def])
      (use i q update_allowed [OF q _ s2_def i] assms(2) UpdateCall in auto)
next
  case RefreshCall
  have "on_world (\<lambda>w. w\<lparr>w_fs := w_fs (dv_world s1)\<rparr>) s1 = s1" by (simp add: on_world_def)
  then have "snd (privileged_call env app p c s) =
      snd (app_audit env Configuration SevInfo ''metadata_refresh_requested'' c
        ''Repository metadata refresh requested''
        (on_world (\<lambda>w. w\<lparr>w_fs := w_fs (dv_world s1)\<rparr>) s1))"
    using assms RefreshCall refresh_allowed [of env app c s s1] by simp
  then show thesis by (rule other)
next
  case ClearCall
  obtain n f where "cache_clear (ap_cache app) (w_fs (dv_world s1)) = (n, f)"
    by (cases "cache_clear (ap_cache app) (w_fs (dv_world s1))")
  then have "snd (privileged_call env app p c s) =
      snd (app_audit env Configuration SevInfo ''cache_cleared'' c
        (''Cache cleared: '' @ show_nat n @ '' entries removed'')
        (on_world (\<lambda>w. w\<lparr>w_fs := f\<rparr>) s1))"
    using assms ClearCall clear_allowed [of env app c s s1] by simp
  then show thesis by (rule other)
qed


lemma privileged_trail:
  "log_extends (trail_of s) (trail_of (snd (privileged_call env app p c s)))"
proof (cases "accepts env p")
  case False
  then show ?thesis using privileged_malformed [of env p app c s] by auto
next
  case acc: True
  obtain b s1 where k: "check_caller env app (privileged_action p) c s = (b, s1)"
    by (cases "check_caller env app (privileged_action p) c s")
  have pre: "log_extends (trail_of s) (trail_of s1)"
    using trail_check [of s env app "privileged_action p" c] k by simp
  show ?thesis
  proof (cases b)
    case False
    then show ?thesis using privileged_denied [OF acc, of app c s s1] k pre by auto
  next
    case True
    then have k: "check_caller env app (privileged_action p) c s = (True, s1)" using k by simp
    from acc k have "log_extends (trail_of s1) (trail_of (snd (privileged_call env app p c s)))"
    proof (cases rule: privileged_allowed_cases)
      case (engine cmd r w cat a d s2)
      have "log_extends (w_log (dv_world s2)) (w_log w)"
        using engine.extends [of "dv_world s2" "dn_exec env" "ap_engine app" cmd] engine(1) by simp
      then have "log_extends (trail_of s1) (w_log w)"
        unfolding engine(2) trail_audit_emit by (rule log_extends_step)
      then show ?thesis using engine(3) by (auto intro: log_extends_record_step)
    next
      case (scan u w d)
      then show ?thesis using scan_world_fields(2) [OF scan(2)] by simp
    next
      case (other f a d)
      then show ?thesis by simp
    qed
    with pre show ?thesis by (rule log_extends_trans)
  qed
qed

interpretation drv: guarded_method "privileged_call env app" "accepts env"
  "\<lambda>p c. app_permits env app (privileged_action p) c"
  "\<lambda>s. ((dv_world s)\<lparr>w_log := []\<rparr>, dv_monitor s, dv_sent s)" "\<lambda>s. w_log (dv_world s)" for env app
proof (unfold_locales, goal_cases)
  case (1 p c s)
  then show ?case by (rule privileged_malformed)
next
  case (2 p c s)
  obtain b s1 where k: "check_caller env app (privileged_action p) c s = (b, s1)"
    by (cases "check_caller env app (privileged_action p) c s")
  then have "\<not> b" using 2 check_caller_facts(1) by blast
  then show ?case using privileged_denied [OF 2(1), of app c s s1] k by auto
next
  case (3 p c s)
  obtain b s1 where k: "check_caller env app (privileged_action p) c s = (b, s1)"
    by (cases "check_caller env app (privileged_action p) c s")
  then have "\<not> b" using 3 check_caller_facts(1) by blast
  then show ?case
    using privileged_denied [OF 3(1), of app c s s1] k check_caller_facts(2) [OF k] by auto
next
  case (4 p c s)
  obtain b s1 where k: "check_caller env app (privileged_action p) c s = (b, s1)"
    by (cases "check_caller env app (privileged_action p) c s")
  then have "\<not> b" using 4 check_caller_facts(1) by blast
  then show ?case
    using privileged_denied [OF 4(1), of app c s s1] k check_caller_facts(2) [OF k] by auto
next
  case (5 p c s)
  show ?case using privileged_trail [of s env app p c] by (simp add: log_extends_def)
qed

text \<open>C33: No sequence of management requests that are malformed or whose callers are not permitted
  achieves anything: every answer is an error, and files, kernel, inventory, tracker,
  sequence counter, monitor and signals are as before. Only the trail has grown.\<close>

theorem driverd_fails_closed:
  assumes "\<forall>(p, c)\<in>set cs. \<not> (accepts env p \<and> app_permits env app (privileged_action p) c)"
  shows "(\<forall>r\<in>set (fst (drv.calls env app cs s)). \<not> is_ok r)
     \<and> (let s' = snd (drv.calls env app cs s)
        in (dv_world s')\<lparr>w_log := []\<rparr> = (dv_world s)\<lparr>w_log := []\<rparr>
         \<and> dv_monitor s' = dv_monitor s \<and> dv_sent s' = dv_sent s
         \<and> log_extends (trail_of s) (trail_of s'))"
  using drv.calls_refused [OF assms, of s] drv.calls_trail [of env app cs s]
  by (auto simp: log_extends_def Let_def)


section \<open>A concrete service\<close>

definition sample_driverd_env :: "string list driverd_env" where
  "sample_driverd_env =
     \<lparr>dn_exec = sample_env,
      dn_sysfs = (\<lambda>k. \<lparr>sf_read_dir = (\<lambda>p. Err (IoNotFound, ''not found'')), sf_canonicalize = Map.empty,
        sf_read = Map.empty, sf_exists = (\<lambda>p. False), sf_mtime = (\<lambda>p. None)\<rparr>),
      dn_system = (\<lambda>k. \<lparr>si_kernel_version = ''6.1'', si_architecture = ''x86_64'',
        si_kernel_features = []\<rparr>),
      dn_version = ''0.1.0'',
      dn_parse_install = (\<lambda>j. if j = ''{e1000e}''
        then Ok \<lparr>ir_driver_name = ''e1000e'', ir_provider = ''intel'', ir_version_constraint = None,
          ir_force = False\<rparr>
        else Err ''expected value''),
      dn_parse_remove = (\<lambda>j. Err ''expected value''),
      dn_parse_update = (\<lambda>j. Err ''expected value''),
      dn_json = (\<lambda>a. Ok ''{}'')\<rparr>"

definition sample_app :: "bool \<Rightarrow> driverd_app" where
  "sample_app bypass =
     \<lparr>ap_config = driver_config_default,
      ap_authorizer = \<lparr>az_allow_unauthorized = bypass, az_polkit = None\<rparr>,
      ap_sources = registry_empty, ap_engine = sample_engine bypass,
      ap_cache = cache_config_new ''/var/cache/mission/drivers'', ap_freshness = freshness_default,
      ap_download = \<lparr>dm_fetch = download_config_default, dm_policy = retry_default,
        dm_partial_dir = ''/var/cache/mission/drivers/partials''\<rparr>\<rparr>"

definition sample_state :: "string list driverd_state" where
  "sample_state = \<lparr>dv_world = sample_world, dv_monitor = udev_monitor_new, dv_sent = []\<rparr>"

lemma sample_app_permits [simp]:
  "app_permits sample_driverd_env (sample_app b) a c \<longleftrightarrow> is_read_only a \<or> b"
  by (simp add: app_permits_def fst_authorize sample_app_def is_authorized_def)

lemma driverd_fails_closed_witness:
  "dv_sent (snd (drv.calls sample_driverd_env (sample_app False)
     [(InstallCall ''{e1000e}'', '':1.9''), (RemoveCall ''{'', '':1.9''), (ClearCall, '':1.4'')]
     sample_state)) = []"
  using driverd_fails_closed [of "[(InstallCall ''{e1000e}'', '':1.9''), (RemoveCall ''{'', '':1.9''),
      (ClearCall, '':1.4'')]" sample_driverd_env "sample_app False" sample_state]
  by (simp add: is_read_only_def sample_state_def Let_def del: drv.calls.simps)

section \<open>What an installation announces\<close>

lemma audit_emit_sent [simp]:
  "map dg_member (dv_sent (audit_emit env cat a c d s)) = map dg_member (dv_sent s) @ [''DriverEvent'']"
  by (simp add: audit_emit_def emit_driver_event_def app_audit_def Let_def)

lemma inventory_changed_sent [simp]:
  "map dg_member (dv_sent (emit_inventory_changed env s)) =
     map dg_member (dv_sent s) @ [''InventoryChanged'']"
  by (simp add: emit_inventory_changed_def)

lemma inventory_changed_world [simp]:
  "w_inventory (dv_world (emit_inventory_changed env s)) = w_inventory (dv_world s)"
  by (simp add: emit_inventory_changed_def)

text \<open>A valid installation request of a permitted caller is always answered with the result of
  the operation, never with a D-Bus error of its own. It signals the request, then a change
  of the inventory whether there was one or not, and the completion only if the operation
  completed; otherwise the inventory is as before.\<close>

theorem install_announced:
  assumes "accepts env (InstallCall j)" and "app_permits env app InstallDriver c"
    and "w_tracker (dv_world s) = []"
  shows "\<exists>r s'. handle_install env app j c s = (answer env ''result '' (ResultAnswer r), s')
    \<and> map dg_member (dv_sent s') = map dg_member (dv_sent s) @ [''DriverEvent'', ''InventoryChanged'']
        @ (if or_status r = OpCompleted then [''DriverEvent''] else [])
    \<and> (if or_status r = OpCompleted then permitted (dn_exec env) (ap_engine app) InstallDriver c
       else w_inventory (dv_world s') = w_inventory (dv_world s))"
proof -
  obtain q where q: "dn_parse_install env j = Inr q" "install_request_validate q = Ok ()"
    using assms(1) by (auto simp: parses_iff)
  obtain b s1 where b: "check_caller env app InstallDriver c s = (b, s1)"
    by (cases "check_caller env app InstallDriver c s")
  with assms(2) have k: "check_caller env app InstallDriver c s = (True, s1)"
    using check_caller_facts(1) [OF b] by simp
  define s2 where "s2 = audit_emit env DriverInstall ''driver_install_requested'' c
      (''Driver '' @ quoted (ir_driver_name q) @ '' installation requested from ''
        @ quoted (ir_provider q)) s1"
  obtain r w where i: "install_driver (dn_exec env) (ap_engine app) q c
      (inv_devices (w_inventory (dv_world s1))) (dv_world s2) = (r, w)"
    by (cases "install_driver (dn_exec env) (ap_engine app) q c
      (inv_devices (w_inventory (dv_world s1))) (dv_world s2)")
  have s1: "w_inventory (dv_world s1) = w_inventory (dv_world s)" "dv_sent s1 = dv_sent s"
    "w_tracker (dv_world s1) = []"
    using check_caller_facts(2) [OF k] assms(3) by auto
  have t: "w_tracker (dv_world s2) = []" "w_inventory (dv_world s2) = w_inventory (dv_world s)"
    "map dg_member (dv_sent s2) = map dg_member (dv_sent s) @ [''DriverEvent'']"
    using s1 unfolding s2_def by simp_all
  have keep: "or_status r \<noteq> OpCompleted \<Longrightarrow> w_inventory w = w_inventory (dv_world s2)"
    using install.change_needs_completion [OF t(1), of "dn_exec env" "ap_engine app" q c
        "inv_devices (w_inventory (dv_world s1))"] i by auto
  have perm: "or_status r = OpCompleted \<Longrightarrow> permitted (dn_exec env) (ap_engine app) InstallDriver c"
    using install.denied [of "dn_exec env" "ap_engine app" c "dv_world s2" q
        "inv_devices (w_inventory (dv_world s1))"] i by (auto simp: refused_def)
  show ?thesis
    unfolding install_allowed [OF q k s2_def i refl]
    using keep perm t by (cases "or_status r = OpCompleted"; intro exI [of _ r]) simp_all
qed

lemma sample_state_simps [simp]:
  "w_tracker (dv_world sample_state) = []" "dv_sent sample_state = []"
  "answer sample_driverd_env t a = Ok ''{}''"
  by (simp_all add: sample_state_def sample_world_def answer_def sample_driverd_env_def)

lemma install_announced_witness:
  "\<exists>r s'. handle_install sample_driverd_env (sample_app True) ''{e1000e}'' '':1.9'' sample_state
     = (Ok ''{}'', s')
   \<and> (map dg_member (dv_sent s') = [''DriverEvent'', ''InventoryChanged''] @ r)"
proof -
  have a: "accepts sample_driverd_env (InstallCall ''{e1000e}'')"
    by (simp add: parses_iff sample_driverd_env_def install_request_validate_def trim_def trim_start_def
        trim_end_def is_ws_def)
  from install_announced [OF a, of "sample_app True" "'':1.9''" sample_state] show ?thesis
    by auto
qed

section \<open>What a scan forgets\<close>

definition fresh_table :: "'k driverd_env \<Rightarrow> 'k world \<Rightarrow> driver_entry list" where
  "fresh_table env w = (let l = loaded_names (xe_api (dn_exec env)) (w_kernel w)
     in [e1000e_entry l, iwlwifi_entry l, nvidia_entry])"

lemma scan_world_table:
  "inv_drivers (w_inventory (snd (scan_world env w))) = fresh_table env w"
  by (simp add: scan_world_def scan_system_def populate_builtin_drivers_def fresh_table_def Let_def)

lemma scan_unmatched:
  "list_all (\<lambda>d. hd_matched_drivers d = []) (inv_devices (w_inventory (snd (scan_world env w))))"
proof -
  obtain ds where ds: "enumerate_all (dn_sysfs env (w_kernel w)) = Ok ds"
    using enumerate_all_Ok by blast
  then have "list_all (\<lambda>d. hd_matched_drivers d = []) ds"
    using enumerate_all_mem read_device_Some unfolding list_all_iff by blast
  then show ?thesis
    by (simp add: scan_world_def Let_def split_beta scan_devices ds)
qed

text \<open>A hardware scan, on request or because the poll saw a change, replaces the driver table
  by the built-in one, in which a driver is active or available and nothing else: what was
  installed, removed or failed before is forgotten. A scan on request also leaves every
  device without its matched drivers, which the poll fills in again.\<close>

theorem scans_forget:
  "(if app_permits env app ScanHardware c then
      (let iv = w_inventory (dv_world (snd (scan_hardware env app c s)))
       in inv_drivers iv = fresh_table env (dv_world s)
        \<and> list_all (\<lambda>d. hd_matched_drivers d = []) (inv_devices iv))
    else w_inventory (dv_world (snd (scan_hardware env app c s))) = w_inventory (dv_world s))
   \<and> (if fst (poll_hardware_events env s) \<noteq> [] then
        inv_drivers (w_inventory (dv_world (poll_tick env s))) = fresh_table env (dv_world s)
      else w_inventory (dv_world (poll_tick env s)) = w_inventory (dv_world s))
   \<and> list_all (\<lambda>d. de_status d \<in> {Active, Available}) (fresh_table env (dv_world s))"
proof -
  obtain b s1 where k: "check_caller env app ScanHardware c s = (b, s1)"
    by (cases "check_caller env app ScanHardware c s")
  have s1: "w_inventory (dv_world s1) = w_inventory (dv_world s)"
    "w_kernel (dv_world s1) = w_kernel (dv_world s)"
    using check_caller_facts(2) [OF k] by auto
  obtain u w where w: "scan_world env (dv_world s1) = (u, w)"
    by (cases "scan_world env (dv_world s1)")
  have same: "fresh_table env (dv_world s1) = fresh_table env (dv_world s)"
    using s1 by (simp add: fresh_table_def)
  have scan: "b \<Longrightarrow> w_inventory (dv_world (snd (scan_hardware env app c s))) = w_inventory w"
    using scan_allowed [OF _ w refl, of app c s] k by simp
  have refused: "\<not> b \<Longrightarrow> w_inventory (dv_world (snd (scan_hardware env app c s))) =
      w_inventory (dv_world s)"
    using privileged_denied [of env ScanCall app c s s1] k s1 by auto
  have poll: "w_inventory (dv_world (poll_tick env s)) =
      (if fst (poll_hardware_events env s) = [] then w_inventory (dv_world s)
       else w_inventory (match_world env (snd (scan_world env (dv_world s)))))"
    by (simp add: poll_tick_def poll_hardware_events_def split_beta)
  show ?thesis
    using scan refused scan_world_table [of env "dv_world s1"] scan_unmatched [of env "dv_world s1"] w
      same check_caller_facts(1) [OF k] poll scan_world_table [of env "dv_world s"]
    by (cases b) (simp_all add: Let_def fresh_table_def e1000e_entry_def iwlwifi_entry_def
        nvidia_entry_def loaded_status_def)
qed


end
