(* ===== verification/Driverd_Numbering.thy ===== *)
theory Driverd_Numbering
  imports Driverd_Properties
begin

text \<open>
  The numbering of signals. Operations and signals draw from one counter, so the numbers
  of the signals have gaps: an operation takes one number when it is requested and a
  second one when it saves the state of a driver. Every operation is followed by a signal, so
  a service that has sent so many signals has drawn at most three times as many numbers.
\<close>

section \<open>Numbers an operation takes\<close>

lemma seq_fail [simp]: "w_seq (snd (fail_operation env n m e c cat w)) = w_seq w"
  by (simp add: fail_operation_def)

lemma seq_verify: "verify_step env en d w = (v, w1) \<Longrightarrow> w_seq w1 = w_seq w"
  by (auto simp: verify_step_def verify_package_def Let_def split: if_splits)

lemma seq_rollback [simp]: "w_seq (rollback_operation env en i c w) = w_seq w"
  by (simp add: rollback_operation_def Let_def split: option.split)

lemma seq_commit:
  assumes "\<And>w. w_seq (finish w) = w_seq w"
  shows "w_seq (snd (commit_with env en d c exec finish ok bad w)) = w_seq w + 1"
proof -
  obtain i w1 where s: "save_state env d w = (i, w1)" by (cases "save_state env d w")
  obtain r s' k' where x: "exec (w_fs w, w_kernel w) = (r, s', k')"
    by (cases "exec (w_fs w, w_kernel w)")
  show ?thesis
    using save_state_fields(6) [OF s] assms
    by (cases r) (simp_all add: commit_with_unfold [where exec = exec, OF s x])
qed

lemma seq_commits [simp]:
  "w_seq (snd (install_commit env en d c w)) = w_seq w + 1"
  "w_seq (snd (remove_commit env en d force c w)) = w_seq w + 1"
  "w_seq (snd (update_commit env en n d c w)) = w_seq w + 1"
  unfolding commits
  by (rule seq_commit; simp add: update_driver_status_def mark_updated_def)+

definition takes_numbers :: "'k world \<Rightarrow> 'k world \<Rightarrow> bool" where
  "takes_numbers w w' = (w_seq w' = w_seq w + 1 \<or> w_seq w' = w_seq w + 2)"

lemma seq_install: "takes_numbers w (snd (install_driver env en q c hw w))"
proof -
  obtain b w1 where g: "begin_operation env en InstallDriver DriverInstall
      ''driver_install_requested'' (''Installation of '' @ quoted (ir_driver_name q) @ '' from ''
        @ quoted (ir_provider q) @ '' requested'') c w = (b, w1)"
    by (cases "begin_operation env en InstallDriver DriverInstall
      ''driver_install_requested'' (''Installation of '' @ quoted (ir_driver_name q) @ '' from ''
        @ quoted (ir_provider q) @ '' requested'') c w")
  note n = begin_operation_facts(3) [OF g]
  show ?thesis
    using n unfolding install_driver_def g Let_def prod.case
    by (auto simp: takes_numbers_def seq_verify split: sum.split option.split prod.split)
qed

lemma seq_remove: "takes_numbers w (snd (remove_driver env en q c w))"
proof -
  obtain b w1 where g: "begin_operation env en RemoveDriver DriverRemove ''driver_remove_requested''
      (''Removal of '' @ quoted (rr_driver_name q) @ '' requested'') c w = (b, w1)"
    by (cases "begin_operation env en RemoveDriver DriverRemove ''driver_remove_requested''
      (''Removal of '' @ quoted (rr_driver_name q) @ '' requested'') c w")
  note n = begin_operation_facts(3) [OF g]
  show ?thesis
    using n unfolding remove_driver_def g Let_def prod.case
    by (auto simp: takes_numbers_def split: sum.split option.split)
qed

lemma seq_update: "takes_numbers w (snd (update_driver env en q c w))"
proof -
  let ?text = "''Update of '' @ quoted (ur_driver_name q) @ '' to ''
     @ (case ur_target_version q of None \<Rightarrow> ''None''
        | Some v \<Rightarrow> ''Some('' @ show_debug v @ '')'') @ '' requested''"
  obtain b w1 where g: "begin_operation env en UpdateDriver DriverUpdate ''driver_update_requested''
      ?text c w = (b, w1)"
    by (cases "begin_operation env en UpdateDriver DriverUpdate ''driver_update_requested''
      ?text c w")
  note n = begin_operation_facts(3) [OF g]
  show ?thesis
    using n unfolding update_driver_def g Let_def prod.case
    by (auto simp: takes_numbers_def split: sum.split option.split)
qed

lemma seq_command: "takes_numbers w (snd (run_command env en cmd w))"
  by (cases cmd) (simp_all add: seq_install seq_remove seq_update)

section \<open>The service reacts to events\<close>

datatype 'k driverd_event =
    CallVersion | CallStatus string | CallListDrivers string | CallListDevices string
  | CallQuery string string string | CallCheck string string string | CallSources string
  | CallCacheStatus string | CallPrivileged driverd_privileged string
  | TickHealth | TickPoll | Outside fs 'k

fun driverd_step ::
  "driverd_app \<Rightarrow> 'k driverd_env \<times> 'k driverd_event \<Rightarrow> 'k driverd_state \<Rightarrow> 'k driverd_state" where
  "driverd_step app (env, CallVersion) s = snd (get_version env s)"
| "driverd_step app (env, CallStatus c) s = snd (get_status env app c s)"
| "driverd_step app (env, CallListDrivers c) s = snd (list_drivers env app c s)"
| "driverd_step app (env, CallListDevices c) s = snd (list_devices env app c s)"
| "driverd_step app (env, CallQuery c n p) s = snd (query_driver env app c n p s)"
| "driverd_step app (env, CallCheck c n p) s = snd (check_compatibility env app c n p s)"
| "driverd_step app (env, CallSources c) s = snd (list_sources env app c s)"
| "driverd_step app (env, CallCacheStatus c) s = snd (get_cache_status env app c s)"
| "driverd_step app (env, CallPrivileged p c) s = snd (privileged_call env app p c s)"
| "driverd_step app (env, TickHealth) s = health_tick env s"
| "driverd_step app (env, TickPoll) s = poll_tick env s"
| "driverd_step app (env, Outside f k) s = on_world (\<lambda>w. w\<lparr>w_fs := f, w_kernel := k\<rparr>) s"

definition driverd_run ::
  "driverd_app \<Rightarrow> ('k driverd_env \<times> 'k driverd_event) list \<Rightarrow> 'k driverd_state
     \<Rightarrow> 'k driverd_state" where
  "driverd_run app = fold (driverd_step app)"

fun driverd_body_seq :: "driverd_body \<Rightarrow> u64" where
  "driverd_body_seq (DriverEventBody n _ _ _ _ _ _) = n"
| "driverd_body_seq (DriverHealthBody n _ _ _) = n"
| "driverd_body_seq (InventoryChangedBody n _) = n"

text \<open>The driver table is either empty, before the first scan, or the built-in one.\<close>

definition builtin_ids :: "driver_id list" where
  "builtin_ids = map de_id [e1000e_entry [], iwlwifi_entry [], nvidia_entry]"

definition known_table :: "driver_inventory \<Rightarrow> bool" where
  "known_table iv = (map de_id (inv_drivers iv) = [] \<or> map de_id (inv_drivers iv) = builtin_ids)"

text \<open>The numbers sent go upwards from zero on, below the counter, and the counter is at most
  three times their number. The counter is a u64: the bound is what makes this say something
  of its values, as long as it cannot have wrapped.\<close>

definition sent_numbers :: "'k driverd_state \<Rightarrow> u64 list" where
  "sent_numbers s = map (driverd_body_seq \<circ> dg_body) (dv_sent s)"

definition numbered_below :: "nat \<Rightarrow> 'k driverd_state \<Rightarrow> bool" where
  "numbered_below n s = (n \<le> 3 * length (dv_sent s) \<and> w_seq (dv_world s) = of_nat n
     \<and> (\<exists>ks. sent_numbers s = map of_nat ks \<and> sorted_wrt (<) (ks @ [n])))"

lemma numbered_below_sorted:
  assumes "numbered_below n s" and "3 * length (dv_sent s) < 2 ^ 64"
  shows "sorted_wrt (<) (sent_numbers s @ [w_seq (dv_world s)])"
    "unat (w_seq (dv_world s)) \<le> 3 * length (dv_sent s)"
proof -
  obtain ks where k: "sent_numbers s = map of_nat ks" "sorted_wrt (<) (ks @ [n])"
    and n: "n \<le> 3 * length (dv_sent s)" "w_seq (dv_world s) = of_nat n"
    using assms(1) by (auto simp: numbered_below_def)
  have small: "k < 2 ^ 64" if "k \<in> set (ks @ [n])" for k
    using that k(2) n(1) assms(2) by (fastforce simp: sorted_wrt_append)
  have word_less: "(of_nat a :: u64) < of_nat b" if "a < b" "b < 2 ^ 64" for a b
    using that by (simp add: word_less_nat_alt unat_of_nat take_bit_nat_eq_self)
  have "sorted_wrt (\<lambda>a b. (of_nat a :: u64) < of_nat b) (ks @ [n])"
    using k(2) by (rule sorted_wrt_mono_rel [rotated]) (use word_less small in blast)
  then show "sorted_wrt (<) (sent_numbers s @ [w_seq (dv_world s)])"
    using sorted_wrt_map [of "(<)" "of_nat :: nat \<Rightarrow> u64" "ks @ [n]"] by (simp add: k(1) n(2))
  show "unat (w_seq (dv_world s)) \<le> 3 * length (dv_sent s)"
    using n small [of n] by (simp add: unat_of_nat take_bit_nat_eq_self)
qed

definition driverd_inv :: "'k driverd_state \<Rightarrow> 'k driverd_state \<Rightarrow> bool" where
  "driverd_inv s0 s = (w_tracker (dv_world s) = [] \<and> known_table (w_inventory (dv_world s))
     \<and> (\<exists>n. numbered_below n s) \<and> log_extends (trail_of s0) (trail_of s)
     \<and> (\<exists>later. dv_sent s = dv_sent s0 @ later))"

section \<open>The invariant\<close>

lemma inv_step:
  assumes "driverd_inv s0 s" and "dv_sent s' = dv_sent s" and "w_tracker (dv_world s') = []"
    and "known_table (w_inventory (dv_world s'))"
    and "w_seq (dv_world s') = w_seq (dv_world s)"
    and "log_extends (trail_of s) (trail_of s')"
  shows "driverd_inv s0 s'"
proof -
  from assms(1) obtain n later where n: "numbered_below n s" and
    l: "log_extends (trail_of s0) (trail_of s)" "dv_sent s = dv_sent s0 @ later"
    by (auto simp: driverd_inv_def)
  have "numbered_below n s'"
    using n assms(2,5) by (simp add: numbered_below_def sent_numbers_def)
  then show ?thesis
    using assms l log_extends_trans [OF l(1) assms(6)] unfolding driverd_inv_def by auto
qed

text \<open>A signal may follow an operation, which has drawn up to two numbers.\<close>

lemma numbers_emitted:
  assumes "numbered_below n s" and "w_seq w = w_seq (dv_world s) + of_nat j" "j \<le> 2"
    and "\<And>n. driverd_body_seq (b n) = n"
  shows "numbered_below (Suc (n + j)) (driverd_emit i m b (s\<lparr>dv_world := w\<rparr>))"
proof -
  obtain ks where k: "sent_numbers s = map of_nat ks" "sorted_wrt (<) (ks @ [n])"
    and n: "n \<le> 3 * length (dv_sent s)" "w_seq (dv_world s) = of_nat n"
    using assms(1) by (auto simp: numbered_below_def)
  have "sorted_wrt (<) ((ks @ [n + j]) @ [Suc (n + j)])"
    using k(2) by (fastforce simp: sorted_wrt_append)
  then show ?thesis
    using n k(1) assms(2-4) unfolding numbered_below_def sent_numbers_def
    by (intro conjI exI [of _ "ks @ [n + j]"]) (simp_all add: add_ac)
qed

lemma inv_emit:
  assumes "driverd_inv s0 s" and "\<And>n. driverd_body_seq (b n) = n"
  shows "driverd_inv s0 (driverd_emit i m b s)"
proof -
  from assms(1) obtain n where "numbered_below n s" by (auto simp: driverd_inv_def)
  from numbers_emitted [OF this, of "dv_world s" 0 b i m] assms(2)
  have "numbered_below (Suc n) (driverd_emit i m b s)" by simp
  then show ?thesis using assms(1) unfolding driverd_inv_def by auto
qed

named_theorems inv_intros "steps that keep the invariant of the service"

lemma inv_emits [inv_intros]:
  "driverd_inv s0 s \<Longrightarrow> driverd_inv s0 (emit_driver_event env e s)"
  "driverd_inv s0 s \<Longrightarrow> driverd_inv s0 (emit_health_changed env b t s)"
  "driverd_inv s0 s \<Longrightarrow> driverd_inv s0 (emit_inventory_changed env s)"
  unfolding emit_driver_event_def emit_health_changed_def emit_inventory_changed_def
  by (rule inv_emit; simp)+

lemma inv_parts: "driverd_inv s0 s \<Longrightarrow> w_tracker (dv_world s) = []"
  "driverd_inv s0 s \<Longrightarrow> known_table (w_inventory (dv_world s))"
  by (simp_all add: driverd_inv_def)

lemma inv_app_audit [inv_intros]:
  "driverd_inv s0 s \<Longrightarrow> driverd_inv s0 (snd (app_audit env cat sev a c d s))"
  by (rule inv_step [of s0 s]) (simp_all add: inv_parts)

lemma inv_audit_emit [inv_intros]:
  "driverd_inv s0 s \<Longrightarrow> driverd_inv s0 (audit_emit env cat a c d s)"
  using inv_emits(1) [OF inv_app_audit [of s0 s env cat SevInfo a c d]]
  by (simp add: audit_emit_def split_beta)

lemma inv_check [inv_intros]:
  assumes "driverd_inv s0 s" shows "driverd_inv s0 (snd (check_caller env app a c s))"
proof (rule inv_step [of s0 s])
  obtain b s1 where k: "check_caller env app a c s = (b, s1)"
    by (cases "check_caller env app a c s")
  obtain evs where "s1 = on_world (\<lambda>w. w\<lparr>w_log := w_log w @ evs\<rparr>) s"
    using check_caller_facts(2) [OF k] by blast
  then show "dv_sent (snd (check_caller env app a c s)) = dv_sent s"
    "w_tracker (dv_world (snd (check_caller env app a c s))) = []"
    "known_table (w_inventory (dv_world (snd (check_caller env app a c s))))"
    "w_seq (dv_world (snd (check_caller env app a c s))) = w_seq (dv_world s)"
    using assms by (simp_all add: k inv_parts)
qed (use assms trail_check in auto)

lemma inv_outside [inv_intros]:
  "driverd_inv s0 s \<Longrightarrow> driverd_inv s0 (on_world (\<lambda>w. w\<lparr>w_fs := f, w_kernel := k\<rparr>) s)"
  "driverd_inv s0 s \<Longrightarrow> driverd_inv s0 (on_world (\<lambda>w. w\<lparr>w_fs := f\<rparr>) s)"
  by (rule inv_step [of s0 s]; simp add: inv_parts)+

lemma inv_monitor [inv_intros]: "driverd_inv s0 s \<Longrightarrow> driverd_inv s0 (s\<lparr>dv_monitor := m\<rparr>)"
  by (rule inv_step [of s0 s]) (simp_all add: inv_parts)

lemma scan_table:
  "map de_id (inv_drivers (w_inventory (snd (scan_world env w)))) = builtin_ids"
  by (simp add: scan_world_def scan_system_def populate_builtin_drivers_def builtin_ids_def Let_def
      e1000e_entry_def iwlwifi_entry_def nvidia_entry_def)

lemma inv_scan:
  assumes "driverd_inv s0 s" and "scan_world env (dv_world s) = (u, w)"
  shows "driverd_inv s0 (s\<lparr>dv_world := w\<rparr>)" "driverd_inv s0 (s\<lparr>dv_world := match_world env w\<rparr>)"
proof -
  note f = scan_world_fields [OF assms(2)]
  have t: "known_table (w_inventory w)" "known_table (w_inventory (match_world env w))"
    using scan_table [of env "dv_world s"] assms(2) by (simp_all add: known_table_def)
  show "driverd_inv s0 (s\<lparr>dv_world := w\<rparr>)" "driverd_inv s0 (s\<lparr>dv_world := match_world env w\<rparr>)"
    using f inv_parts(1) [OF assms(1)] t
    by (intro inv_step [OF assms(1)]; simp)+
qed

lemma inv_command_signalled:
  assumes "driverd_inv s0 s" and "run_command (dn_exec env) en cmd (dv_world s) = (r, w)"
  shows "driverd_inv s0 (emit_inventory_changed env (s\<lparr>dv_world := w\<rparr>))"
proof -
  note p = inv_parts [OF assms(1)]
  obtain j where j: "w_seq w = w_seq (dv_world s) + of_nat j" "j \<le> 2"
    using seq_command [of "dv_world s" "dn_exec env" en cmd] assms(2)
    by (auto simp: takes_numbers_def intro: that [of 1] that [of 2])
  from assms(1) obtain n where n: "numbered_below n s" by (auto simp: driverd_inv_def)
  have "numbered_below (Suc (n + j)) (emit_inventory_changed env (s\<lparr>dv_world := w\<rparr>))"
    unfolding emit_inventory_changed_def by (rule numbers_emitted [OF n j]) simp
  moreover have "log_extends (trail_of s0) (w_log w)"
    using engine.extends [of "dv_world s" "dn_exec env" en cmd] assms log_extends_trans
    by (fastforce simp: driverd_inv_def)
  ultimately show ?thesis
    using p engine.releases [OF p(1), of "dn_exec env" en cmd] assms
      engine.keeps_ids [OF p(1), of "dn_exec env" en cmd]
    by (auto simp: driverd_inv_def known_table_def emit_inventory_changed_def)
qed

lemma inv_privileged:
  assumes "driverd_inv s0 s" shows "driverd_inv s0 (snd (privileged_call env app p c s))"
proof (cases "accepts env p")
  case False
  then show ?thesis using privileged_malformed [of env p app c s] assms by auto
next
  case acc: True
  obtain b s1 where k: "check_caller env app (privileged_action p) c s = (b, s1)"
    by (cases "check_caller env app (privileged_action p) c s")
  have i1: "driverd_inv s0 s1" using inv_check [OF assms, of env app "privileged_action p" c] k by simp
  show ?thesis
  proof (cases b)
    case False
    then show ?thesis using privileged_denied [OF acc, of app c s s1] k i1 by auto
  next
    case True
    then have "check_caller env app (privileged_action p) c s = (True, s1)" using k by simp
    with acc show ?thesis
    proof (cases rule: privileged_allowed_cases)
      case (engine cmd r w cat a d s2)
      have i3: "driverd_inv s0 (emit_inventory_changed env (s2\<lparr>dv_world := w\<rparr>))"
        using inv_command_signalled [OF _ engine(1)] i1 unfolding engine(2) by (blast intro: inv_intros)
      show ?thesis
        using engine(3) i3 inv_audit_emit [OF i3, of env DriverInstall "''driver_install_completed''" c
            "or_message r"] by auto
    next
      case (scan u w d)
      then show ?thesis using inv_scan(1) [OF i1 scan(2)] by (auto intro: inv_intros)
    next
      case (other f a d)
      then show ?thesis using i1 by (auto intro: inv_intros)
    qed
  qed
qed


lemma inv_if_check:
  "driverd_inv s0 s \<Longrightarrow> check_caller env app a c s = (b, s1) \<Longrightarrow> driverd_inv s0 s1"
  using inv_check [of s0 s env app a c] by simp

lemma inv_reads:
  assumes "driverd_inv s0 s"
  shows "driverd_inv s0 (snd (get_status env app c s))" "driverd_inv s0 (snd (list_drivers env app c s))"
    "driverd_inv s0 (snd (list_devices env app c s))" "driverd_inv s0 (snd (query_driver env app c n p s))"
    "driverd_inv s0 (snd (check_compatibility env app c n p s))"
    "driverd_inv s0 (snd (list_sources env app c s))" "driverd_inv s0 (snd (get_cache_status env app c s))"
  using inv_if_check [OF assms]
  by (auto simp: get_status_def list_drivers_def list_devices_def query_driver_def
      check_compatibility_def list_sources_def get_cache_status_def split: prod.split
      intro!: inv_audit_emit)

lemma inv_poll:
  assumes "driverd_inv s0 s" shows "driverd_inv s0 (poll_tick env s)"
proof -
  obtain ev m where e: "poll_events (dn_sysfs env (w_kernel (dv_world s))) (dv_monitor s) = (ev, m)"
    by (cases "poll_events (dn_sysfs env (w_kernel (dv_world s))) (dv_monitor s)")
  let ?s = "s\<lparr>dv_monitor := m\<rparr>"
  obtain u w where w: "scan_world env (dv_world ?s) = (u, w)" by (cases "scan_world env (dv_world ?s)")
  have i: "driverd_inv s0 ?s" using assms by (rule inv_monitor)
  have "driverd_inv s0 (emit_inventory_changed env (?s\<lparr>dv_world := match_world env w\<rparr>))"
    by (rule inv_emits(3) [OF inv_scan(2) [OF i w]])
  then show ?thesis
    using i w by (simp add: poll_tick_def poll_hardware_events_def e on_world_def)
qed

lemma inv_run:
  "driverd_inv s0 s \<Longrightarrow> driverd_inv s0 (driverd_run app evs s)"
proof (induction evs arbitrary: s)
  case (Cons e es)
  have "driverd_inv s0 (driverd_step app e s)"
    using Cons.prems
    by (cases "(app, e, s)" rule: driverd_step.cases)
      (simp_all add: get_version_def inv_reads inv_privileged inv_poll health_tick_def inv_emits
        inv_outside)
  from Cons.IH [OF this] show ?case by (simp add: driverd_run_def)
qed (simp add: driverd_run_def)

lemma inv_boot: "driverd_inv (driverd_boot env config f k) (driverd_boot env config f k)"
proof -
  let ?w = "\<lparr>w_fs = f, w_kernel = k, w_seq = 0, w_tracker = [], w_inventory = inventory_new,
    w_log = []\<rparr>"
  let ?s = "\<lparr>dv_world = ?w, dv_monitor = udev_monitor_new, dv_sent = []\<rparr>"
  have i: "driverd_inv ?s ?s"
    by (auto simp: driverd_inv_def known_table_def inventory_new_def numbered_below_def
        sent_numbers_def intro!: exI [of _ "0::nat"])
  obtain u v where s: "scan_world env ?w = (u, v)" by (cases "scan_world env ?w")
  have "u = Ok ()" by (rule scan_world_fields(1) [OF s])
  then have b: "driverd_boot env config f k =
      (if ic_auto_detect_on_start (dc_inventory config) then ?s\<lparr>dv_world := match_world env v\<rparr>
       else ?s)"
    using s by (simp add: driverd_boot_def Let_def)
  have "driverd_inv ?s (?s\<lparr>dv_world := match_world env v\<rparr>)" by (rule inv_scan(2) [OF i]) (simp add: s)
  then have "driverd_inv (?s\<lparr>dv_world := match_world env v\<rparr>) (?s\<lparr>dv_world := match_world env v\<rparr>)"
    by (simp add: driverd_inv_def)
  with i show ?thesis unfolding b by (simp only: split: if_split) blast
qed

text \<open>C34: The service comes up exactly when every step on the bus succeeds and exits with 1
  otherwise. Whatever calls, ticks and outside changes of files and kernel follow, with
  whatever configuration of callers and engine: no operation is left half done, the
  inventory lists nothing or the three built-in drivers, and the trail and the signals only
  grow. As long as fewer than a third of all u64 numbers of signals have been sent, their
  numbers are strictly increasing 64-bit values below the counter, and the counter is at most
  three times the number of signals: it never goes back and never runs away.\<close>

theorem driverd_runs:
  "case fst (driverd_main bus env config f k) of
     Inl code \<Rightarrow> code = 1 \<and> \<not> list_all bus driverd_startup_steps
   | Inr s0 \<Rightarrow> list_all bus driverd_startup_steps
      \<and> (let s = driverd_run app evs s0
         in w_tracker (dv_world s) = []
          \<and> map de_id (inv_drivers (w_inventory (dv_world s))) \<in> {[], builtin_ids}
          \<and> (3 * length (dv_sent s) < 2 ^ 64 \<longrightarrow>
               sorted_wrt (<) (map (driverd_body_seq \<circ> dg_body) (dv_sent s) @ [w_seq (dv_world s)])
               \<and> unat (w_seq (dv_world s)) \<le> 3 * length (dv_sent s))
          \<and> (\<exists>later. w_log (dv_world s) = w_log (dv_world s0) @ later)
          \<and> (\<exists>later. dv_sent s = dv_sent s0 @ later))"
proof (cases "snd (run_startup bus driverd_startup_steps)")
  case False
  then show ?thesis
    using run_startup_iff [of bus driverd_startup_steps]
    by (auto simp: driverd_main_eq split_beta list_all_iff)
next
  case True
  let ?b = "driverd_boot env config f k"
  let ?s0 = "emit_health_changed env True ''Service started successfully'' ?b"
  let ?last = "driverd_run app evs ?s0"
  have "driverd_inv ?b ?s0" by (rule inv_emits(2) [OF inv_boot])
  then have "driverd_inv ?s0 ?s0" by (auto simp: driverd_inv_def)
  from inv_run [OF this, of app evs] have i: "driverd_inv ?s0 ?last" .
  have m: "fst (driverd_main bus env config f k) = Inr ?s0"
    using True by (simp add: driverd_main_eq split_beta)
  have a: "list_all bus driverd_startup_steps"
    using True run_startup_iff [of bus driverd_startup_steps] by (simp add: list_all_iff)
  obtain n where "numbered_below n ?last" using i by (auto simp: driverd_inv_def)
  note num = numbered_below_sorted [OF this, unfolded sent_numbers_def]
  show ?thesis
    using i a num unfolding m driverd_inv_def known_table_def log_extends_def
    by (simp add: Let_def)
qed

lemma driverd_runs_witness:
  "case fst (driverd_main (\<lambda>_. True) sample_driverd_env driver_config_default (sample_fs []) []) of
     Inl code \<Rightarrow> False
   | Inr s0 \<Rightarrow> (let s = driverd_run (sample_app False)
         [(sample_driverd_env, TickHealth), (sample_driverd_env, TickHealth)] s0
       in length (dv_sent s) = 3 \<and>
         sorted_wrt (<) (map (driverd_body_seq \<circ> dg_body) (dv_sent s) @ [w_seq (dv_world s)]))"
proof -
  let ?evs = "[(sample_driverd_env, TickHealth), (sample_driverd_env, TickHealth)]"
  let ?s0 = "emit_health_changed sample_driverd_env True ''Service started successfully''
    (driverd_boot sample_driverd_env driver_config_default (sample_fs []) [])"
  have ok: "snd (run_startup (\<lambda>_. True) driverd_startup_steps)"
    by (simp add: run_startup_iff list_all_iff)
  have m: "fst (driverd_main (\<lambda>_. True) sample_driverd_env driver_config_default (sample_fs []) [])
      = Inr ?s0"
    using ok by (simp add: driverd_main_eq split_beta)
  have boot: "dv_sent (driverd_boot sample_driverd_env driver_config_default (sample_fs []) []) = []"
    by (simp add: driverd_boot_def Let_def split: prod.split sum.split)
  have len: "length (dv_sent (driverd_run (sample_app False) ?evs ?s0)) = 3"
    by (simp add: driverd_run_def health_tick_def emit_health_changed_def boot)
  show ?thesis
    using driverd_runs [where bus = "\<lambda>_. True" and env = sample_driverd_env
        and config = driver_config_default and f = "sample_fs []" and k = "[]"
        and app = "sample_app False" and evs = ?evs] len
    unfolding m by (simp add: Let_def)
qed

end
