(* ===== verification/Driverd_Polling.thy ===== *)
theory Driverd_Polling
  imports Driverd_Properties
begin

text \<open>
  The hardware monitor as the service drives it: a change that sysfs shows is announced by
  the next poll, a poll without a change is idle, and a change whose enumeration fails is
  never announced.
\<close>

section \<open>One poll over all buses\<close>

lemma poll_subsystem_cong:
  "m s = m' s \<Longrightarrow> fst (poll_subsystem sf s m) = fst (poll_subsystem sf s m')
     \<and> snd (poll_subsystem sf s m) s = snd (poll_subsystem sf s m') s"
  by (simp add: poll_subsystem_def Let_def split: option.split)

lemma poll_subsystem_frame: "s \<noteq> s' \<Longrightarrow> snd (poll_subsystem sf s m) s' = m s'"
  by (simp add: poll_subsystem_def Let_def split: option.split)

lemma poll_all_spec:
  "distinct ss \<Longrightarrow>
     fst (poll_all sf ss m) = concat (map (\<lambda>s. fst (poll_subsystem sf s m)) ss)
   \<and> (\<forall>s. snd (poll_all sf ss m) s = (if s \<in> set ss then snd (poll_subsystem sf s m) s else m s))"
proof (induction ss arbitrary: m)
  case (Cons a ss)
  obtain e1 m1 where p: "poll_subsystem sf a m = (e1, m1)" by (cases "poll_subsystem sf a m")
  have same: "m1 s = m s" if "s \<noteq> a" for s
    using poll_subsystem_frame [of a s sf m] that p by simp
  have "fst (poll_subsystem sf s m1) = fst (poll_subsystem sf s m)"
    "snd (poll_subsystem sf s m1) s = snd (poll_subsystem sf s m) s"
    if s: "s \<in> set ss" for s
  proof -
    have "s \<noteq> a" using s Cons.prems by auto
    then have "m1 s = m s" by (rule same)
    from poll_subsystem_cong [of m1 s m sf, OF this]
    show "fst (poll_subsystem sf s m1) = fst (poll_subsystem sf s m)"
      "snd (poll_subsystem sf s m1) s = snd (poll_subsystem sf s m) s" by simp_all
  qed
  then have c: "map (\<lambda>s. fst (poll_subsystem sf s m1)) ss = map (\<lambda>s. fst (poll_subsystem sf s m)) ss"
    and n: "\<And>s. s \<in> set ss \<Longrightarrow> snd (poll_subsystem sf s m1) s = snd (poll_subsystem sf s m) s"
    by simp_all
  have ih: "fst (poll_all sf ss m1) = concat (map (\<lambda>s. fst (poll_subsystem sf s m1)) ss)"
    "\<And>s. snd (poll_all sf ss m1) s = (if s \<in> set ss then snd (poll_subsystem sf s m1) s else m1 s)"
    using Cons by auto
  have r: "poll_all sf (a # ss) m = (e1 @ fst (poll_all sf ss m1), snd (poll_all sf ss m1))"
    by (simp add: p split_beta)
  show ?case
  proof (intro conjI allI)
    show "fst (poll_all sf (a # ss) m) = concat (map (\<lambda>s. fst (poll_subsystem sf s m)) (a # ss))"
      unfolding r using ih(1) c p by simp
    fix s
    show "snd (poll_all sf (a # ss) m) s =
        (if s \<in> set (a # ss) then snd (poll_subsystem sf s m) s else m s)"
      unfolding r using ih(2) [of s] n [of s] same [of s] p Cons.prems by auto
  qed
qed simp

lemma distinct_buses: "distinct bus_subsystems"
  by (simp add: bus_subsystems_def)

lemmas poll_events_spec = poll_all_spec [OF distinct_buses, folded poll_events_def]

text \<open>A second poll of the same directories is idle and changes nothing, whatever the first
  one found and even if enumeration behaves differently now.\<close>

lemma poll_subsystem_idle:
  assumes "\<And>s. sf_mtime sf' (devices_path s) = sf_mtime sf (devices_path s)"
    and "m' s = snd (poll_subsystem sf s m) s"
  shows "fst (poll_subsystem sf' s m') = []" "snd (poll_subsystem sf' s m') s = m' s"
  using assms by (auto simp: poll_subsystem_def Let_def some_or_def split: option.splits)

lemma poll_events_idle:
  assumes "\<And>s. sf_mtime sf' (devices_path s) = sf_mtime sf (devices_path s)"
  shows "poll_events sf' (snd (poll_events sf m)) = ([], snd (poll_events sf m))"
proof -
  let ?m = "snd (poll_events sf m)"
  have at: "?m s = snd (poll_subsystem sf s m) s" if "s \<in> set bus_subsystems" for s
    using poll_events_spec [of sf m] that by simp
  have idle: "fst (poll_subsystem sf' s ?m) = []" "snd (poll_subsystem sf' s ?m) s = ?m s"
    if "s \<in> set bus_subsystems" for s
    using poll_subsystem_idle [of sf' sf ?m s m, OF assms at [OF that]] by simp_all
  have "fst (poll_events sf' ?m) = []"
    using poll_events_spec [of sf' ?m] idle(1) by simp
  moreover have "snd (poll_events sf' ?m) s = ?m s" for s
    using poll_events_spec [of sf' ?m] idle(2) [of s] by simp
  ultimately show ?thesis by (simp add: prod_eq_iff fun_eq_iff)
qed

section \<open>The poll of the service\<close>

lemma poll_tick_world:
  "w_kernel (dv_world (poll_tick env s)) = w_kernel (dv_world s)"
  "dv_monitor (poll_tick env s) =
     snd (poll_events (dn_sysfs env (w_kernel (dv_world s))) (dv_monitor s))"
proof -
  obtain u w where w: "scan_world env (dv_world s) = (u, w)" by (cases "scan_world env (dv_world s)")
  note f = scan_world_fields [OF w]
  show "w_kernel (dv_world (poll_tick env s)) = w_kernel (dv_world s)"
    "dv_monitor (poll_tick env s) =
       snd (poll_events (dn_sysfs env (w_kernel (dv_world s))) (dv_monitor s))"
    using f w by (simp_all add: poll_tick_def poll_hardware_events_def split_beta
        emit_inventory_changed_def)
qed

lemma poll_tick_idle:
  assumes "\<And>k p. sf_mtime (dn_sysfs env' k) (devices_path p) = sf_mtime (dn_sysfs env k) (devices_path p)"
  shows "poll_tick env' (poll_tick env s) = poll_tick env s"
  using poll_events_idle [of "dn_sysfs env' (w_kernel (dv_world s))"
      "dn_sysfs env (w_kernel (dv_world s))" "dv_monitor s"] assms
  by (simp add: poll_tick_def [of env' "poll_tick env s"] poll_hardware_events_def poll_tick_world)

text \<open>C38: When the device directory of a bus is newer than the monitor remembers and can be
  enumerated, the next poll announces it: one InventoryChanged is sent, the devices are
  those of a fresh enumeration with their drivers matched, and every further poll is idle
  until a directory changes again.\<close>

theorem hardware_change_announced:
  fixes env :: "'k driverd_env" and s :: "'k driverd_state"
  defines "sf \<equiv> dn_sysfs env (w_kernel (dv_world s))"
  assumes "sub \<in> set bus_subsystems" and "sf_mtime sf (devices_path sub) = Some t"
    and "some_or (dv_monitor s sub) 0 < t"
    and "enumerate_subsystem sf (devices_path sub) sub = Ok ds"
    and "enumerate_all sf = Ok all"
  shows "map dg_member (dv_sent (poll_tick env s)) = map dg_member (dv_sent s) @ [''InventoryChanged'']
    \<and> inv_devices (w_inventory (dv_world (poll_tick env s))) =
        map (\<lambda>d. d\<lparr>hd_matched_drivers := map (\<lambda>(drv, _). di_name (de_id drv))
            (find_matching_drivers (dn_system env (w_kernel (dv_world s))) d
              (fresh_table env (dv_world s)))\<rparr>) all
    \<and> poll_tick env (poll_tick env s) = poll_tick env s"
proof -
  have "fst (poll_subsystem sf sub (dv_monitor s)) \<noteq> []"
    using assms(3-5) by (simp add: poll_subsystem_def Let_def split: list.split)
  then have ev: "fst (poll_events sf (dv_monitor s)) \<noteq> []"
    using poll_events_spec [of sf "dv_monitor s"] assms(2) by auto
  have tick: "poll_tick env s = emit_inventory_changed env
      (on_world (\<lambda>w. match_world env (snd (scan_world env w)))
        (s\<lparr>dv_monitor := snd (poll_events sf (dv_monitor s))\<rparr>))"
    using ev by (simp add: poll_tick_def poll_hardware_events_def split_beta sf_def)
  obtain u w where w: "scan_world env (dv_world s) = (u, w)" by (cases "scan_world env (dv_world s)")
  note f = scan_world_fields [OF w]
  have "inv_devices (w_inventory w) = all"
    using w assms(6) scan_devices [of sf] by (auto simp: scan_world_def Let_def sf_def split_beta)
  then have "inv_devices (w_inventory (dv_world (poll_tick env s))) =
        map (\<lambda>d. d\<lparr>hd_matched_drivers := map (\<lambda>(drv, _). di_name (de_id drv))
            (find_matching_drivers (dn_system env (w_kernel (dv_world s))) d
              (fresh_table env (dv_world s)))\<rparr>) all"
    using w f scan_world_table [of env "dv_world s"]
    by (simp add: tick match_world_def match_drivers_to_hardware_def)
  moreover have "poll_tick env (poll_tick env s) = poll_tick env s"
    by (rule poll_tick_idle) simp
  ultimately show ?thesis by (simp add: tick)
qed

definition sample_change_env :: "string list driverd_env" where
  "sample_change_env = sample_driverd_env\<lparr>dn_sysfs := (\<lambda>k. \<lparr>
     sf_read_dir = (\<lambda>p. if p = devices_path ''usb'' then Ok [] else Err (IoNotFound, ''not found'')),
     sf_canonicalize = Map.empty, sf_read = Map.empty, sf_exists = (\<lambda>p. False),
     sf_mtime = (\<lambda>p. if p = devices_path ''usb'' then Some 9 else None)\<rparr>)\<rparr>"

lemma hardware_change_announced_witness:
  "map dg_member (dv_sent (poll_tick sample_change_env sample_state)) = [''InventoryChanged'']"
proof -
  let ?sf = "dn_sysfs sample_change_env (w_kernel (dv_world sample_state))"
  obtain all where a: "enumerate_all ?sf = Ok all" using enumerate_all_Ok by blast
  have "''usb'' \<in> set bus_subsystems" by (simp add: bus_subsystems_def)
  moreover have "sf_mtime ?sf (devices_path ''usb'') = Some 9"
    "enumerate_subsystem ?sf (devices_path ''usb'') ''usb'' = Ok []"
    by (simp_all add: sample_change_env_def enumerate_subsystem_def List.map_filter_def)
  moreover have "some_or (dv_monitor sample_state ''usb'') 0 < (9 :: u64)"
    by (simp add: sample_state_def udev_monitor_new_def some_or_def)
  ultimately show ?thesis
    using hardware_change_announced [of "''usb''" sample_change_env sample_state 9 "[]" all] a by simp
qed

text \<open>A change whose enumeration fails is lost: the time is remembered, so a later poll of the same
  directories announces nothing even when enumeration works again.\<close>

lemma failed_change_lost:
  assumes "fst (poll_hardware_events env s) = []"
    and "\<And>k p. sf_mtime (dn_sysfs env' k) (devices_path p) = sf_mtime (dn_sysfs env k) (devices_path p)"
  shows "dv_sent (poll_tick env' (poll_tick env s)) = dv_sent s"
  using poll_tick_idle [OF assms(2), of s] assms(1)
  by (simp add: poll_tick_def [of env s] poll_hardware_events_def split_beta)

end
