(* ===== verification/Driverd_Kernel.thy ===== *)
theory Driverd_Kernel
  imports Driverd_Numbering
begin

text \<open>
  From the bus to the kernel: what must have been asked, by whom and for which driver, when
  a step of the service touches the kernel. It joins the D-Bus handlers, the authorizer
  with PolKit, the inventory, the package verification and the execution engine.
\<close>

section \<open>Steps that leave the kernel alone\<close>

abbreviation kernel_of :: "'k driverd_state \<Rightarrow> 'k" where
  "kernel_of s \<equiv> w_kernel (dv_world s)"

lemma kernel_emit [simp]:
  "kernel_of (emit_driver_event env e s) = kernel_of s"
  "kernel_of (emit_health_changed env b t s) = kernel_of s"
  "kernel_of (emit_inventory_changed env s) = kernel_of s"
  "kernel_of (audit_emit env cat a c d s) = kernel_of s"
  by (simp_all add: emit_driver_event_def emit_health_changed_def emit_inventory_changed_def
      audit_emit_def app_audit_def Let_def)

lemma kernel_check:
  assumes "check_caller env app a c s = (b, s1)"
  shows "kernel_of s1 = kernel_of s" "w_inventory (dv_world s1) = w_inventory (dv_world s)"
    "w_fs (dv_world s1) = w_fs (dv_world s)"
  using check_caller_facts(2) [OF assms] by auto

lemma kernel_reads:
  "kernel_of (snd (get_status env app c s)) = kernel_of s"
  "kernel_of (snd (list_drivers env app c s)) = kernel_of s"
  "kernel_of (snd (list_devices env app c s)) = kernel_of s"
  "kernel_of (snd (query_driver env app c n p s)) = kernel_of s"
  "kernel_of (snd (check_compatibility env app c n p s)) = kernel_of s"
  "kernel_of (snd (list_sources env app c s)) = kernel_of s"
  "kernel_of (snd (get_cache_status env app c s)) = kernel_of s"
  by (auto simp: get_status_def list_drivers_def list_devices_def query_driver_def
      check_compatibility_def list_sources_def get_cache_status_def dest: kernel_check
      split: prod.split)

section \<open>What the engine needs before it touches the kernel\<close>

text \<open>The driver a command is about, as the inventory knows it, when the engine admits it.\<close>

fun admitted :: "'k exec_env \<Rightarrow> engine \<Rightarrow> command \<Rightarrow> 'k world \<Rightarrow> driver_entry \<Rightarrow> bool" where
  "admitted env en (CmdInstall q c hw) w d = install_admitted env en q c hw w d"
| "admitted env en (CmdRemove q c) w d = remove_admitted env en q c w d"
| "admitted env en (CmdUpdate q c) w d = update_admitted env en q c w d"

lemma command_needs_admission:
  assumes "w_kernel (snd (run_command env en cmd w)) \<noteq> w_kernel w"
  shows "\<exists>d. admitted env en cmd w d"
proof (rule ccontr)
  assume "\<not> ?thesis"
  then have "refused w (run_command env en cmd w)"
    using install.not_admitted remove.not_admitted update.not_admitted
    by (cases cmd) (simp_all, blast+)
  with assms show False by (simp add: refused_def only_logged_def)
qed

lemma admitted_local:
  assumes "w_inventory w' = w_inventory w" "w_fs w' = w_fs w" "w_kernel w' = w_kernel w"
  shows "admitted env en cmd w' d = admitted env en cmd w d"
  using assms by (cases cmd) (simp_all add: install_admitted_def remove_admitted_def
      update_admitted_def get_loaded_modules_def)

lemma privileged_kernel:
  assumes "kernel_of (snd (privileged_call env app p c s)) \<noteq> kernel_of s"
  shows "accepts env p \<and> app_permits env app (privileged_action p) c
    \<and> (\<exists>cmd d. asks env p c (w_inventory (dv_world s)) cmd
        \<and> admitted (dn_exec env) (ap_engine app) cmd (dv_world s) d)"
proof -
  have acc: "accepts env p"
  proof (rule ccontr)
    assume "\<not> accepts env p"
    then obtain m where "privileged_call env app p c s = (Err (FdoInvalidArgs m), s)"
      using privileged_malformed by blast
    with assms show False by simp
  qed
  obtain b s1 where k: "check_caller env app (privileged_action p) c s = (b, s1)"
    by (cases "check_caller env app (privileged_action p) c s")
  note same = kernel_check [OF k]
  have b: b using privileged_denied [OF acc, of app c s s1] k same assms by (cases b) auto
  then have k: "check_caller env app (privileged_action p) c s = (True, s1)" using k by simp
  have "\<exists>cmd d. asks env p c (w_inventory (dv_world s)) cmd
      \<and> admitted (dn_exec env) (ap_engine app) cmd (dv_world s) d"
    using acc k
  proof (cases rule: privileged_allowed_cases)
    case (engine cmd r w cat a d s2)
    have "w_kernel w \<noteq> w_kernel (dv_world s2)" using engine(2,3) assms same by auto
    then obtain d' where "admitted (dn_exec env) (ap_engine app) cmd (dv_world s2) d'"
      using command_needs_admission [of "dn_exec env" "ap_engine app" cmd "dv_world s2"] engine(1) by auto
    then have "admitted (dn_exec env) (ap_engine app) cmd (dv_world s) d'"
      using admitted_local [of "dv_world s2" "dv_world s"] same unfolding engine(2) by simp
    then show ?thesis using engine(4) same by auto
  next
    case (scan u w d)
    then show ?thesis using scan_world_fields(6) [OF scan(2)] assms same by auto
  next
    case (other f a d)
    then show ?thesis using assms same by auto
  qed
  then show ?thesis using acc check_caller_facts(1) [OF k] by auto
qed

lemma step_kernel:
  assumes "kernel_of (driverd_step app (env, e) s) \<noteq> kernel_of s"
  shows "(\<exists>g k. e = Outside g k)
    \<or> (\<exists>p c. e = CallPrivileged p c \<and> kernel_of (snd (privileged_call env app p c s)) \<noteq> kernel_of s)"
proof -
  have poll: "kernel_of (poll_tick env s) = kernel_of s"
    by (simp add: poll_tick_def poll_hardware_events_def split_beta
        scan_world_fields(6) [OF surjective_pairing])
  show ?thesis
    using assms by (cases e) (simp_all add: get_version_def kernel_reads health_tick_def poll)
qed

section \<open>The service as it is built by main\<close>

lemma app_new_simps [simp]:
  "ap_authorizer (driverd_app_new parse conn bypass config detected f) =
     \<lparr>az_allow_unauthorized = bypass,
      az_polkit = Some \<lparr>pk_conn = Some conn, pk_allow_unauthorized = bypass\<rparr>\<rparr>"
  "en_allow_unsigned (ap_engine (driverd_app_new parse conn bypass config detected f)) = bypass"
  by (simp_all add: driverd_app_new_def engine_new_def Let_def)

lemma app_new_permits:
  "\<not> is_read_only a \<Longrightarrow>
     app_permits env (driverd_app_new parse conn bypass config detected f) a c \<longleftrightarrow>
       bypass \<or> xe_runtime (dn_exec env) \<and> (\<exists>ch. conn (polkit_request_for a c) = Reply True ch)"
  by (auto simp: app_permits_def is_authorized_def fst_authorize fst_check_authorization_sync
      call_polkit_check_True)

lemma privileged_not_read_only [simp]: "\<not> is_read_only (privileged_action p)"
  by (cases p) (simp_all add: is_read_only_def)

section \<open>A removal that is let through\<close>

definition sample_remove :: remove_request where
  "sample_remove = \<lparr>rr_driver_name = ''e1000e'', rr_force = True\<rparr>"

definition sample_remove_env :: "string list driverd_env" where
  "sample_remove_env = sample_driverd_env\<lparr>dn_parse_remove := (\<lambda>j. Ok sample_remove)\<rparr>"

text \<open>A PolKit that grants everything to the caller 1.7.\<close>

abbreviation sample_main_app :: driverd_app where
  "sample_main_app \<equiv> driverd_app_new (\<lambda>_. None) (answering_conn '':1.7'') False driver_config_default
     \<lparr>si_kernel_version = ''6.1'', si_architecture = ''x86_64'', si_kernel_features = []\<rparr> (sample_fs [])"

lemma sample_answer [simp]: "\<exists>ch. answering_conn c (polkit_request_for a c) = Reply True ch"
  by (simp add: answering_conn_def polkit_request_for_def exI [of _ False])

lemma sample_main_engine: "permitted sample_env (ap_engine sample_main_app) RemoveDriver '':1.7''"
  by (simp add: permitted_def driverd_app_new_def engine_new_def clone_audit_def is_authorized_def
      fst_authorize fst_check_authorization_sync call_polkit_check_True sample_env_def Let_def)

lemma sample_main_removes:
  assumes "w_fs w = w_fs sample_world" "w_kernel w = w_kernel sample_world"
    "w_inventory w = w_inventory sample_world" "w_tracker w = []"
  shows "w_kernel (snd (remove_driver sample_env (ap_engine sample_main_app) sample_remove '':1.7'' w)) = []"
proof -
  have a: "remove_admitted sample_env (ap_engine sample_main_app) sample_remove '':1.7'' w sample_entry"
    using sample_main_engine
    by (simp add: remove_admitted_def sample_remove_def remove_request_validate_def by_name_def
        parse_eval assms(3) sample_world_def sample_entry_def)
  have u: "unload_module (xe_api sample_env) ''e1000e'' True (w_kernel sample_world) = (Ok (), [])"
    by code_simp
  have x: "execute_remove sample_env sample_entry True (w_fs w, w_kernel w) = (Ok (), w_fs w, [])"
    using sample_calls(1) sample_fields u by (simp add: execute_remove_def Let_def assms)
  then have ok: "or_status (fst (remove_driver sample_env (ap_engine sample_main_app) sample_remove
      '':1.7'' w)) = OpCompleted"
    unfolding remove.completed_iff using a by (auto simp: sample_remove_def)
  from remove.completed_effect [OF assms(4) ok] obtain d w2 where
    d: "remove_admitted sample_env (ap_engine sample_main_app) sample_remove '':1.7'' w d"
    and e: "execute_remove sample_env d (rr_force sample_remove) (w_fs w, w_kernel w)
        = (Ok (), w_fs w2, w_kernel w2)"
    and k: "w_kernel (snd (remove_driver sample_env (ap_engine sample_main_app) sample_remove '':1.7'' w))
        = w_kernel (update_driver_status sample_env (de_id d) Removed w2)"
    by (elim exE conjE, unfold audit_fields) blast
  have "d = sample_entry" by (rule remove.admits_unique [OF d a])
  then show ?thesis using e x k by (simp add: sample_remove_def update_driver_status_def)
qed

end
