(* ===== verification/Driverd_Tasks.thy ===== *)
theory Driverd_Tasks
  imports Driverd_Numbering
begin

text \<open>
  The service with its calls running at the same time. zbus runs each call, and tokio each
  periodic task, on its own; the locks only make their pieces atomic: a decision with its
  audit event, a recorded event, a section under the mutex of the inventory, a number from
  the counter, a signal given to the bus. A task is the rest of such a run, as in
  dbus.rs and main.rs, cut at these pieces.
\<close>

section \<open>Tasks\<close>

datatype 'k task =
    Finished "reply option"
  | Atomic "'k driverd_state \<Rightarrow> 'k driverd_state" "'k driverd_state \<Rightarrow> 'k task"
  | Number "u64 \<Rightarrow> 'k task"
  | Send driverd_signal "'k task"

text \<open>One piece of a task. The continuation of an atomic piece sees the state before it.\<close>

fun task_step :: "'k task \<Rightarrow> 'k driverd_state \<Rightarrow> 'k task \<times> 'k driverd_state" where
  "task_step (Finished r) s = (Finished r, s)"
| "task_step (Atomic f g) s = (g s, f s)"
| "task_step (Number h) s =
     (let (seq, w) = next_sequence (dv_world s) in (h seq, s\<lparr>dv_world := w\<rparr>))"
| "task_step (Send sg t) s = (t, s\<lparr>dv_sent := dv_sent s @ [sg]\<rparr>)"

text \<open>A task that runs alone.\<close>

primrec run_task :: "'k task \<Rightarrow> 'k driverd_state \<Rightarrow> reply option \<times> 'k driverd_state" where
  "run_task (Finished r) s = (r, s)"
| "run_task (Atomic f g) s = run_task (g s) (f s)"
| "run_task (Number h) s =
     run_task (h (fst (next_sequence (dv_world s)))) (s\<lparr>dv_world := snd (next_sequence (dv_world s))\<rparr>)"
| "run_task (Send sg t) s = run_task t (s\<lparr>dv_sent := dv_sent s @ [sg]\<rparr>)"

definition emit_then ::
  "string \<Rightarrow> string \<Rightarrow> (u64 \<Rightarrow> driverd_body) \<Rightarrow> 'k task \<Rightarrow> 'k task" where
  "emit_then interface member body t =
     Number (\<lambda>seq. Send \<lparr>dg_path = driverd_object_path, dg_interface = interface,
       dg_member = member, dg_body = body seq\<rparr> t)"

definition event_then :: "'k driverd_env \<Rightarrow> audit_event \<Rightarrow> 'k task \<Rightarrow> 'k task" where
  "event_then env e = emit_then driverd_interface_core ''DriverEvent''
     (\<lambda>seq. DriverEventBody seq (xe_now (dn_exec env)) (show_event_category (ev_category e))
        (show_event_severity (ev_severity e)) (ev_action e) (ev_subject e) (ev_details e))"

definition health_then :: "'k driverd_env \<Rightarrow> bool \<Rightarrow> string \<Rightarrow> 'k task \<Rightarrow> 'k task" where
  "health_then env healthy status = emit_then driverd_interface_core ''HealthChanged''
     (\<lambda>seq. DriverHealthBody seq (xe_now (dn_exec env)) healthy status)"

definition inventory_changed_then :: "'k driverd_env \<Rightarrow> 'k task \<Rightarrow> 'k task" where
  "inventory_changed_then env = emit_then driverd_interface_inventory ''InventoryChanged''
     (\<lambda>seq. InventoryChangedBody seq (xe_now (dn_exec env)))"

text \<open>The authorization every call begins with, and the recording of an event.\<close>

definition authorized_then ::
  "'k driverd_env \<Rightarrow> driverd_app \<Rightarrow> driver_action \<Rightarrow> string \<Rightarrow> string \<Rightarrow> 'k task \<Rightarrow> 'k task" where
  "authorized_then env app act caller refusal t =
     Atomic (\<lambda>s. snd (check_caller env app act caller s))
       (\<lambda>s. if fst (check_caller env app act caller s) then t
            else Finished (Some (Err (FdoAccessDenied refusal))))"

definition audit_then ::
  "'k driverd_env \<Rightarrow> event_category \<Rightarrow> string \<Rightarrow> string \<Rightarrow> string
     \<Rightarrow> (audit_event \<Rightarrow> 'k task) \<Rightarrow> 'k task" where
  "audit_then env cat action subject details k =
     Atomic (\<lambda>s. snd (app_audit env cat SevInfo action subject details s))
       (\<lambda>s. k (fst (app_audit env cat SevInfo action subject details s)))"

text \<open>A section under a mutex that only reads, and one that runs an operation on the world.\<close>

definition reading :: "('k driverd_state \<Rightarrow> 'k task) \<Rightarrow> 'k task" where
  "reading g = Atomic (\<lambda>s. s) g"

definition locked :: "('k world \<Rightarrow> 'a \<times> 'k world) \<Rightarrow> ('a \<Rightarrow> 'k task) \<Rightarrow> 'k task" where
  "locked f k = Atomic (on_world (\<lambda>w. snd (f w))) (\<lambda>s. k (fst (f (dv_world s))))"

section \<open>The calls\<close>

definition get_status_task :: "'k driverd_env \<Rightarrow> driverd_app \<Rightarrow> string \<Rightarrow> 'k task" where
  "get_status_task env app caller =
     authorized_then env app ViewStatus caller ''not authorized to view driver service status''
     (reading (\<lambda>s. let snapshot = snapshot_inventory (w_inventory (dv_world s)) in
        audit_then env System ''get_status'' caller ''Driver service status requested'' (\<lambda>e.
        event_then env e
        (Finished (Some (answer env ''status '' (StatusAnswer (dn_version env) snapshot
           (dac_enabled (dc_audit (ap_config app))))))))))"

definition scan_task :: "'k driverd_env \<Rightarrow> driverd_app \<Rightarrow> string \<Rightarrow> 'k task" where
  "scan_task env app caller =
     authorized_then env app ScanHardware caller ''not authorized to trigger hardware scan''
     (locked (\<lambda>w. let (r, w1) = scan_world env w
                  in (case r of Inl e \<Rightarrow> Inl e | Inr _ \<Rightarrow> Inr (length (inv_drivers (w_inventory w1))),
                      w1)) (\<lambda>r.
        case r of
          Inl e \<Rightarrow> Finished (Some (Err (map_service_error e)))
        | Inr n \<Rightarrow>
            (let op_result = operation_success ''system''
                   (''Scan complete: '' @ show_nat n @ '' drivers in inventory'')
             in audit_then env HardwareDetection ''hardware_scan'' caller
                  (''Hardware scan completed: '' @ or_message op_result) (\<lambda>e.
                event_then env e
                (inventory_changed_then env
                (Finished (Some (answer env ''result '' (ResultAnswer op_result)))))))))"

definition list_drivers_task :: "'k driverd_env \<Rightarrow> driverd_app \<Rightarrow> string \<Rightarrow> 'k task" where
  "list_drivers_task env app caller =
     authorized_then env app ListDrivers caller ''not authorized to list drivers''
     (reading (\<lambda>s. Finished (Some (answer env '''' (DriversAnswer (inv_drivers (w_inventory (dv_world s))))))))"

definition list_devices_task :: "'k driverd_env \<Rightarrow> driverd_app \<Rightarrow> string \<Rightarrow> 'k task" where
  "list_devices_task env app caller =
     authorized_then env app ListDrivers caller ''not authorized to list devices''
     (reading (\<lambda>s. Finished (Some (answer env '''' (DevicesAnswer (inv_devices (w_inventory (dv_world s))))))))"

definition query_driver_task ::
  "'k driverd_env \<Rightarrow> driverd_app \<Rightarrow> string \<Rightarrow> string \<Rightarrow> string \<Rightarrow> 'k task" where
  "query_driver_task env app caller driver_name provider =
     authorized_then env app QueryDriver caller ''not authorized to query drivers''
     (reading (\<lambda>s. Finished (Some
        (case find_driver (w_inventory (dv_world s)) driver_name provider of
           None \<Rightarrow> Err (FdoFileNotFound (''driver '' @ quoted (provider @ ''/'' @ driver_name)
                     @ '' not found''))
         | Some d \<Rightarrow> answer env '''' (DriverAnswer d)))))"

definition check_compatibility_task ::
  "'k driverd_env \<Rightarrow> driverd_app \<Rightarrow> string \<Rightarrow> string \<Rightarrow> string \<Rightarrow> 'k task" where
  "check_compatibility_task env app caller driver_name provider =
     authorized_then env app CheckCompatibility caller ''not authorized to check compatibility''
     (reading (\<lambda>s. Finished (Some
        (case scanner_check_compatibility (dn_system env (w_kernel (dv_world s)))
             (w_inventory (dv_world s)) driver_name provider of
           Inl (NotFound m) \<Rightarrow> Err (FdoFileNotFound m)
         | Inl e \<Rightarrow> Err (map_service_error e)
         | Inr c \<Rightarrow> answer env '''' (CompatibilityAnswer c)))))"

definition install_task :: "'k driverd_env \<Rightarrow> driverd_app \<Rightarrow> string \<Rightarrow> string \<Rightarrow> 'k task" where
  "install_task env app request_json caller =
     (case dn_parse_install env request_json of
        Inl e \<Rightarrow> Finished (Some (Err (FdoInvalidArgs (''invalid install request: '' @ e))))
      | Inr request \<Rightarrow>
     (case install_request_validate request of
        Inl e \<Rightarrow> Finished (Some (Err (FdoInvalidArgs
                   (''invalid install request: '' @ show_service_error e))))
      | Inr _ \<Rightarrow>
     authorized_then env app InstallDriver caller ''not authorized to install drivers''
     (audit_then env DriverInstall ''driver_install_requested'' caller
        (''Driver '' @ quoted (ir_driver_name request) @ '' installation requested from ''
           @ quoted (ir_provider request)) (\<lambda>e.
      event_then env e
     (locked (\<lambda>w. install_driver (dn_exec env) (ap_engine app) request caller
        (inv_devices (w_inventory w)) w) (\<lambda>result.
      inventory_changed_then env
     (let answered = Finished (Some (answer env ''result '' (ResultAnswer result)))
      in if or_status result = OpCompleted then
           audit_then env DriverInstall ''driver_install_completed'' caller (or_message result)
             (\<lambda>e. event_then env e answered)
         else answered)))))))"

definition remove_task :: "'k driverd_env \<Rightarrow> driverd_app \<Rightarrow> string \<Rightarrow> string \<Rightarrow> 'k task" where
  "remove_task env app request_json caller =
     (case dn_parse_remove env request_json of
        Inl e \<Rightarrow> Finished (Some (Err (FdoInvalidArgs (''invalid remove request: '' @ e))))
      | Inr request \<Rightarrow>
     (case remove_request_validate request of
        Inl e \<Rightarrow> Finished (Some (Err (FdoInvalidArgs
                   (''invalid remove request: '' @ show_service_error e))))
      | Inr _ \<Rightarrow>
     authorized_then env app RemoveDriver caller ''not authorized to remove drivers''
     (audit_then env DriverRemove ''driver_remove_requested'' caller
        (''Driver '' @ quoted (rr_driver_name request) @ '' removal requested'') (\<lambda>e.
      event_then env e
     (locked (remove_driver (dn_exec env) (ap_engine app) request caller) (\<lambda>result.
      inventory_changed_then env
     (Finished (Some (answer env ''result '' (ResultAnswer result))))))))))"

definition update_task :: "'k driverd_env \<Rightarrow> driverd_app \<Rightarrow> string \<Rightarrow> string \<Rightarrow> 'k task" where
  "update_task env app request_json caller =
     (case dn_parse_update env request_json of
        Inl e \<Rightarrow> Finished (Some (Err (FdoInvalidArgs (''invalid update request: '' @ e))))
      | Inr request \<Rightarrow>
     (case update_request_validate request of
        Inl e \<Rightarrow> Finished (Some (Err (FdoInvalidArgs
                   (''invalid update request: '' @ show_service_error e))))
      | Inr _ \<Rightarrow>
     authorized_then env app UpdateDriver caller ''not authorized to update drivers''
     (audit_then env DriverUpdate ''driver_update_requested'' caller
        (''Driver '' @ quoted (ur_driver_name request) @ '' update requested to ''
           @ debug_option (ur_target_version request)) (\<lambda>e.
      event_then env e
     (locked (update_driver (dn_exec env) (ap_engine app) request caller) (\<lambda>result.
      inventory_changed_then env
     (Finished (Some (answer env ''result '' (ResultAnswer result))))))))))"

definition list_sources_task :: "'k driverd_env \<Rightarrow> driverd_app \<Rightarrow> string \<Rightarrow> 'k task" where
  "list_sources_task env app caller =
     authorized_then env app ListDrivers caller ''not authorized to list sources''
     (Finished (Some (answer env '''' (SourcesAnswer (source_status_list app)))))"

definition refresh_task :: "'k driverd_env \<Rightarrow> driverd_app \<Rightarrow> string \<Rightarrow> 'k task" where
  "refresh_task env app caller =
     authorized_then env app ConfigureSources caller ''not authorized to refresh metadata''
     (audit_then env Configuration ''metadata_refresh_requested'' caller
        ''Repository metadata refresh requested'' (\<lambda>_.
      Finished (Some (answer env '''' (RefreshAnswer (source_count (ap_sources app)))))))"

definition cache_status_task :: "'k driverd_env \<Rightarrow> driverd_app \<Rightarrow> string \<Rightarrow> 'k task" where
  "cache_status_task env app caller =
     authorized_then env app ViewStatus caller ''not authorized to view cache status''
     (reading (\<lambda>s. Finished (Some (answer env '''' (CacheAnswer (cache_status app (w_fs (dv_world s))))))))"

definition clear_cache_task :: "'k driverd_env \<Rightarrow> driverd_app \<Rightarrow> string \<Rightarrow> 'k task" where
  "clear_cache_task env app caller =
     authorized_then env app ConfigureSources caller ''not authorized to clear cache''
     (locked (\<lambda>w. let (removed, f) = cache_clear (ap_cache app) (w_fs w)
                  in (removed, w\<lparr>w_fs := f\<rparr>)) (\<lambda>removed.
      audit_then env Configuration ''cache_cleared'' caller
        (''Cache cleared: '' @ show_nat removed @ '' entries removed'') (\<lambda>_.
      Finished (Some (answer env '''' (ClearedAnswer removed))))))"

section \<open>The periodic tasks\<close>

definition health_task :: "'k driverd_env \<Rightarrow> 'k task" where
  "health_task env = health_then env True ''Service healthy'' (Finished None)"

definition poll_task :: "'k driverd_env \<Rightarrow> 'k task" where
  "poll_task env =
     Atomic (\<lambda>s. snd (poll_hardware_events env s)) (\<lambda>s.
       if fst (poll_hardware_events env s) = [] then Finished None
       else locked (\<lambda>w. ((), match_world env (snd (scan_world env w)))) (\<lambda>_.
            inventory_changed_then env (Finished None)))"

section \<open>A task alone is its handler\<close>

text \<open>An outside change is a task of its own, of one piece.\<close>

fun event_task :: "driverd_app \<Rightarrow> 'k driverd_env \<times> 'k driverd_event \<Rightarrow> 'k task" where
  "event_task app (env, CallVersion) = Finished (Some (Ok (dn_version env)))"
| "event_task app (env, CallStatus c) = get_status_task env app c"
| "event_task app (env, CallListDrivers c) = list_drivers_task env app c"
| "event_task app (env, CallListDevices c) = list_devices_task env app c"
| "event_task app (env, CallQuery c n p) = query_driver_task env app c n p"
| "event_task app (env, CallCheck c n p) = check_compatibility_task env app c n p"
| "event_task app (env, CallSources c) = list_sources_task env app c"
| "event_task app (env, CallCacheStatus c) = cache_status_task env app c"
| "event_task app (env, CallPrivileged p c) = (case p of
     ScanCall \<Rightarrow> scan_task env app c
   | InstallCall j \<Rightarrow> install_task env app j c
   | RemoveCall j \<Rightarrow> remove_task env app j c
   | UpdateCall j \<Rightarrow> update_task env app j c
   | RefreshCall \<Rightarrow> refresh_task env app c
   | ClearCall \<Rightarrow> clear_cache_task env app c)"
| "event_task app (env, TickHealth) = health_task env"
| "event_task app (env, TickPoll) = poll_task env"
| "event_task app (env, Outside f k) =
     Atomic (on_world (\<lambda>w. w\<lparr>w_fs := f, w_kernel := k\<rparr>)) (\<lambda>_. Finished None)"

text \<open>The answer of the sequential handlers.\<close>

fun driverd_reply ::
  "driverd_app \<Rightarrow> 'k driverd_env \<times> 'k driverd_event \<Rightarrow> 'k driverd_state \<Rightarrow> reply option" where
  "driverd_reply app (env, CallVersion) s = Some (fst (get_version env s))"
| "driverd_reply app (env, CallStatus c) s = Some (fst (get_status env app c s))"
| "driverd_reply app (env, CallListDrivers c) s = Some (fst (list_drivers env app c s))"
| "driverd_reply app (env, CallListDevices c) s = Some (fst (list_devices env app c s))"
| "driverd_reply app (env, CallQuery c n p) s = Some (fst (query_driver env app c n p s))"
| "driverd_reply app (env, CallCheck c n p) s = Some (fst (check_compatibility env app c n p s))"
| "driverd_reply app (env, CallSources c) s = Some (fst (list_sources env app c s))"
| "driverd_reply app (env, CallCacheStatus c) s = Some (fst (get_cache_status env app c s))"
| "driverd_reply app (env, CallPrivileged p c) s = Some (fst (privileged_call env app p c s))"
| "driverd_reply app (env, _) s = None"

named_theorems run_then "running the building blocks of a task"

lemma run_emit_then [run_then]:
  "run_task (event_then env e t) s = run_task t (emit_driver_event env e s)"
  "run_task (health_then env b m t) s = run_task t (emit_health_changed env b m s)"
  "run_task (inventory_changed_then env t) s = run_task t (emit_inventory_changed env s)"
  by (simp_all add: event_then_def health_then_def inventory_changed_then_def emit_then_def
      emit_driver_event_def emit_health_changed_def emit_inventory_changed_def driverd_emit_def
      split_beta)

lemma run_authorized_then [run_then]:
  "run_task (authorized_then env app act c m t) s =
     (case check_caller env app act c s of
        (True, s1) \<Rightarrow> run_task t s1 | (False, s1) \<Rightarrow> (Some (Err (FdoAccessDenied m)), s1))"
  by (simp add: authorized_then_def split_beta split: bool.split)

lemma run_audit_then [run_then]:
  "run_task (audit_then env cat act c d k) s =
     run_task (k (fst (app_audit env cat SevInfo act c d s))) (snd (app_audit env cat SevInfo act c d s))"
  by (simp add: audit_then_def)

lemma run_sections [run_then]:
  "run_task (reading g) s = run_task (g s) s"
  "run_task (locked f k) s =
     run_task (k (fst (f (dv_world s)))) (s\<lparr>dv_world := snd (f (dv_world s))\<rparr>)"
  by (simp_all add: reading_def locked_def on_world_def)

lemma reads_alone:
  "run_task (get_status_task env app c) s = map_prod Some id (get_status env app c s)"
  "run_task (list_drivers_task env app c) s = map_prod Some id (list_drivers env app c s)"
  "run_task (list_devices_task env app c) s = map_prod Some id (list_devices env app c s)"
  "run_task (query_driver_task env app c n p) s = map_prod Some id (query_driver env app c n p s)"
  "run_task (check_compatibility_task env app c n p) s =
     map_prod Some id (check_compatibility env app c n p s)"
  "run_task (list_sources_task env app c) s = map_prod Some id (list_sources env app c s)"
  "run_task (cache_status_task env app c) s = map_prod Some id (get_cache_status env app c s)"
  by (simp_all add: get_status_task_def get_status_def list_drivers_task_def list_drivers_def
      list_devices_task_def list_devices_def query_driver_task_def query_driver_def
      check_compatibility_task_def check_compatibility_def list_sources_task_def list_sources_def
      cache_status_task_def get_cache_status_def run_then audit_emit_def split_beta Let_def
      split: prod.split bool.split)

lemma scan_alone: "run_task (scan_task env app c) s = map_prod Some id (scan_hardware env app c s)"
  by (auto simp: scan_task_def scan_hardware_def run_then audit_emit_def split_beta Let_def
      split: prod.split bool.split sum.split)

lemma install_alone: "run_task (install_task env app j c) s = map_prod Some id (handle_install env app j c s)"
  by (simp add: install_task_def handle_install_def run_then audit_emit_def split_beta Let_def
      emit_inventory_changed_def driverd_emit_def
      split: prod.split bool.split sum.split)

lemma remove_alone: "run_task (remove_task env app j c) s = map_prod Some id (handle_remove env app j c s)"
  by (simp add: remove_task_def handle_remove_def run_then audit_emit_def split_beta Let_def
      split: prod.split bool.split sum.split)

lemma update_alone: "run_task (update_task env app j c) s = map_prod Some id (handle_update env app j c s)"
  by (simp add: update_task_def handle_update_def run_then audit_emit_def split_beta Let_def
      split: prod.split bool.split sum.split)

lemma configuration_alone:
  "run_task (refresh_task env app c) s = map_prod Some id (refresh_metadata env app c s)"
  "run_task (clear_cache_task env app c) s = map_prod Some id (clear_cache env app c s)"
  by (simp_all add: refresh_task_def refresh_metadata_def clear_cache_task_def clear_cache_def
      run_then split_beta Let_def on_world_def split: prod.split bool.split)

lemma ticks_alone:
  "run_task (health_task env) s = (None, health_tick env s)"
  "run_task (poll_task env) s = (None, poll_tick env s)"
  by (simp_all add: health_task_def health_tick_def poll_task_def poll_tick_def run_then split_beta
      Let_def on_world_def)

text \<open>A call or tick that runs without others in between is exactly the handler of the
  sequential model: the same answer and the same state, for every event and state.\<close>

lemma task_alone:
  "run_task (event_task app (env, ev)) s = (driverd_reply app (env, ev) s, driverd_step app (env, ev) s)"
proof (cases ev)
  case (CallPrivileged p c)
  then show ?thesis
    by (cases p) (simp_all add: scan_alone install_alone remove_alone update_alone configuration_alone
        map_prod_def split_beta)
qed (simp_all add: reads_alone ticks_alone get_version_def map_prod_def split_beta)

end
