(* ===== verification/Firewall.thy ===== *)
theory Firewall
  imports Numbers
begin

text \<open>
  The firewall of securityd: the rules and requests a client sends (firewall.rs), their
  validation, and the text of the nftables ruleset generated from a profile and a list
  of rules (nftables.rs). Every generator works on the list of lines as the code does;
  the ruleset is their join. A policy over match terms, with a verdict for a packet, is
  the specification that the profile chains render.
\<close>

section \<open>Rules and requests\<close>

type_synonym u16 = "16 word"

definition show_u16 :: "u16 \<Rightarrow> string" where
  "show_u16 w = show_nat (unat w)"

datatype firewall_profile = Public | Private | Development | Custom

definition firewall_profile_default :: firewall_profile where
  "firewall_profile_default = Public"

datatype direction = DirIn | DirOut

datatype rule_action = ActAccept | ActDrop | ActReject

datatype protocol = Tcp | Udp | Icmp | OtherProtocol

record firewall_rule =
  fr_name :: string
  fr_direction :: direction
  fr_action :: rule_action
  fr_protocol :: "protocol option"
  fr_source :: "string option"
  fr_destination :: "string option"
  fr_source_port :: "u16 option"
  fr_destination_port :: "u16 option"
  fr_enabled :: bool

datatype firewall_error =
    FwValidationError string | FwNotSupported string | FwInternal string | FwBackendUnavailable

fun show_firewall_error :: "firewall_error \<Rightarrow> string" where
  "show_firewall_error (FwValidationError msg) = ''validation error: '' @ msg"
| "show_firewall_error (FwNotSupported msg) = ''not supported: '' @ msg"
| "show_firewall_error (FwInternal msg) = ''internal error: '' @ msg"
| "show_firewall_error FwBackendUnavailable = ''nftables backend unavailable''"

definition firewall_rule_validate :: "firewall_rule \<Rightarrow> firewall_error + unit" where
  "firewall_rule_validate r =
     (if trim (fr_name r) = [] then Err (FwValidationError ''rule name must not be empty'')
      else if fr_source_port r = Some 0 then
        Err (FwValidationError ''source port must not be 0'')
      else if fr_destination_port r = Some 0 then
        Err (FwValidationError ''destination port must not be 0'')
      else if (fr_source_port r \<noteq> None \<or> fr_destination_port r \<noteq> None) \<and> fr_protocol r = None then
        Err (FwValidationError ''protocol required when specifying ports'')
      else Ok ())"

record apply_result =
  ar_success :: bool
  ar_rules_applied :: u32
  ar_rules_failed :: u32
  ar_error :: "string option"

record profile_change_request =
  pc_profile :: firewall_profile
  pc_reason :: string

definition profile_change_validate :: "profile_change_request \<Rightarrow> firewall_error + unit" where
  "profile_change_validate q =
     (if trim (pc_reason q) = [] then Err (FwValidationError ''reason must not be empty'')
      else Ok ())"

record firewall_status =
  fs_enabled :: bool
  fs_active_profile :: firewall_profile
  fs_rule_count :: u32
  fs_backend_available :: bool

section \<open>The generated ruleset\<close>

datatype nftables_error = InvalidRule string | UnsupportedProfile string

fun show_nftables_error :: "nftables_error \<Rightarrow> string" where
  "show_nftables_error (InvalidRule msg) = ''invalid rule: '' @ msg"
| "show_nftables_error (UnsupportedProfile msg) = ''unsupported profile: '' @ msg"

definition generate_public_chains :: "string list \<Rightarrow> string list" where
  "generate_public_chains ls = ls @
     [''    chain input {'',
      ''        type filter hook input priority 0; policy drop;'',
      ''        ct state established,related accept'',
      ''        iifname lo accept'',
      ''        ip protocol icmp accept'',
      ''    }'',
      '''',
      ''    chain forward {'',
      ''        type filter hook forward priority 0; policy drop;'',
      ''    }'',
      '''',
      ''    chain output {'',
      ''        type filter hook output priority 0; policy accept;'',
      ''    }'']"

definition generate_private_chains :: "string list \<Rightarrow> string list" where
  "generate_private_chains ls = ls @
     [''    chain input {'',
      ''        type filter hook input priority 0; policy drop;'',
      ''        ct state established,related accept'',
      ''        iifname lo accept'',
      ''        ip saddr 10.0.0.0/8 accept'',
      ''        ip saddr 172.16.0.0/12 accept'',
      ''        ip saddr 192.168.0.0/16 accept'',
      ''        ip protocol icmp accept'',
      ''    }'',
      '''',
      ''    chain forward {'',
      ''        type filter hook forward priority 0; policy drop;'',
      ''    }'',
      '''',
      ''    chain output {'',
      ''        type filter hook output priority 0; policy accept;'',
      ''    }'']"

definition generate_development_chains :: "string list \<Rightarrow> string list" where
  "generate_development_chains ls = ls @
     [''    chain input {'',
      ''        type filter hook input priority 0; policy drop;'',
      ''        ct state established,related accept'',
      ''        iifname lo accept'',
      ''        tcp dport 22 accept'',
      ''        tcp dport 80 accept'',
      ''        tcp dport 443 accept'',
      ''        tcp dport 3000 accept'',
      ''        tcp dport 8080 accept'',
      ''        ip protocol icmp accept'',
      ''    }'',
      '''',
      ''    chain forward {'',
      ''        type filter hook forward priority 0; policy drop;'',
      ''    }'',
      '''',
      ''    chain output {'',
      ''        type filter hook output priority 0; policy accept;'',
      ''    }'']"

definition generate_custom_chains :: "string list \<Rightarrow> string list" where
  "generate_custom_chains ls = ls @
     [''    chain input {'',
      ''        type filter hook input priority 0; policy drop;'',
      ''        ct state established,related accept'',
      ''        iifname lo accept'',
      ''        ip protocol icmp accept'',
      ''    }'',
      '''',
      ''    chain forward {'',
      ''        type filter hook forward priority 0; policy drop;'',
      ''    }'',
      '''',
      ''    chain output {'',
      ''        type filter hook output priority 0; policy accept;'',
      ''    }'']"

definition addr_char :: "char \<Rightarrow> bool" where
  "addr_char c = (is_ascii_alphanumeric c \<or> c = CHR ''.'' \<or> c = CHR ''/'' \<or> c = CHR '':'')"

definition escape_addr :: "string \<Rightarrow> string" where
  "escape_addr a = filter addr_char a"

definition opt_part :: "string \<Rightarrow> ('a \<Rightarrow> string) \<Rightarrow> 'a option \<Rightarrow> string list" where
  "opt_part key f x = (case x of None \<Rightarrow> [] | Some v \<Rightarrow> [key @ f v])"

text \<open>The match parts: addresses, then protocol and ports. The direction adds none.\<close>

definition rule_parts :: "firewall_rule \<Rightarrow> string list" where
  "rule_parts r =
     opt_part ''ip saddr '' escape_addr (fr_source r)
     @ opt_part ''ip daddr '' escape_addr (fr_destination r)
     @ (case fr_protocol r of
          Some Tcp \<Rightarrow> [''tcp''] @ opt_part ''sport '' show_u16 (fr_source_port r)
            @ opt_part ''dport '' show_u16 (fr_destination_port r)
        | Some Udp \<Rightarrow> [''udp''] @ opt_part ''sport '' show_u16 (fr_source_port r)
            @ opt_part ''dport '' show_u16 (fr_destination_port r)
        | Some Icmp \<Rightarrow> [''ip protocol icmp'']
        | Some OtherProtocol \<Rightarrow> []
        | None \<Rightarrow> [])"

definition action_text :: "rule_action \<Rightarrow> string" where
  "action_text a = (case a of
       ActAccept \<Rightarrow> ''accept'' | ActDrop \<Rightarrow> ''drop''
     | ActReject \<Rightarrow> ''reject with icmpx admin-prohibited'')"

definition generate_rule :: "firewall_rule \<Rightarrow> nftables_error + string" where
  "generate_rule r =
     (if \<not> fr_enabled r then Ok (''# rule '' @ quoted (fr_name r) @ '' is disabled'')
      else and_then
        (map_err (\<lambda>e. InvalidRule (''rule '' @ quoted (fr_name r) @ '' failed validation: ''
            @ show_firewall_error e)) (firewall_rule_validate r))
        (\<lambda>_. Ok ((if rule_parts r = [] then ''        '' @ action_text (fr_action r)
                  else ''        '' @ join '' '' (rule_parts r) @ '' '' @ action_text (fr_action r))
             @ '' comment '' @ [CHR 0x22] @ fr_name r @ [CHR 0x22])))"

definition add_rule :: "string list \<Rightarrow> firewall_rule \<Rightarrow> string list" where
  "add_rule ls r = (case generate_rule r of Inl _ \<Rightarrow> ls | Inr s \<Rightarrow> ls @ [''    '' @ s])"

definition ruleset_lines :: "firewall_profile \<Rightarrow> firewall_rule list \<Rightarrow> string list" where
  "ruleset_lines p rules =
     (let ls = [''#!/usr/sbin/nft -f'', '''', ''table inet mission_securityd {''];
          ls = (case p of
              Public \<Rightarrow> generate_public_chains ls
            | Private \<Rightarrow> generate_private_chains ls
            | Development \<Rightarrow> generate_development_chains ls
            | Custom \<Rightarrow> generate_custom_chains ls);
          ls = foldl add_rule ls rules
      in ls @ [''}'', ''''])"

definition generate_ruleset :: "firewall_profile \<Rightarrow> firewall_rule list \<Rightarrow> string" where
  "generate_ruleset p rules = join [CHR 0x0A] (ruleset_lines p rules)"

lemma firewall_rule_validate_iff:
  "firewall_rule_validate r = Ok () \<longleftrightarrow>
     (\<exists>c\<in>set (fr_name r). \<not> is_ws c) \<and> fr_source_port r \<noteq> Some 0 \<and> fr_destination_port r \<noteq> Some 0
     \<and> (fr_protocol r = None \<longrightarrow> fr_source_port r = None \<and> fr_destination_port r = None)"
  by (auto simp: firewall_rule_validate_def trim_eq_Nil)

section \<open>The text as lines\<close>

abbreviation newline :: char where "newline \<equiv> CHR 0x0A"

text \<open>The lines before the user's rules, and the line of each rule that is generated.\<close>

definition profile_lines :: "firewall_profile \<Rightarrow> string list" where
  "profile_lines p = (case p of
       Public \<Rightarrow> generate_public_chains [] | Private \<Rightarrow> generate_private_chains []
     | Development \<Rightarrow> generate_development_chains [] | Custom \<Rightarrow> generate_custom_chains [])"

definition head_lines :: "firewall_profile \<Rightarrow> string list" where
  "head_lines p = [''#!/usr/sbin/nft -f'', '''', ''table inet mission_securityd {''] @ profile_lines p"

definition rule_lines :: "firewall_rule list \<Rightarrow> string list" where
  "rule_lines rules = concat (map (\<lambda>r. case generate_rule r of Inl _ \<Rightarrow> [] | Inr s \<Rightarrow> [''    '' @ s]) rules)"

lemma foldl_add_rule_lines: "foldl add_rule ls rs = ls @ rule_lines rs"
  by (induction rs arbitrary: ls)
    (auto simp: rule_lines_def add_rule_def split: sum.splits)

lemma ruleset_lines_eq:
  "ruleset_lines p rules = head_lines p @ rule_lines rules @ [''}'', '''']"
  by (cases p)
    (simp_all add: ruleset_lines_def foldl_add_rule_lines head_lines_def profile_lines_def Let_def
      generate_public_chains_def generate_private_chains_def generate_development_chains_def
      generate_custom_chains_def)

lemma rule_lines_Cons:
  "rule_lines (r # rs) =
     (case generate_rule r of Inl _ \<Rightarrow> [] | Inr s \<Rightarrow> [''    '' @ s]) @ rule_lines rs"
  by (simp add: rule_lines_def)

lemma rule_lines_Nil [simp]: "rule_lines [] = []"
  by (simp add: rule_lines_def)

text \<open>How many rules produce a line: the disabled ones and the valid ones.\<close>

lemma generate_rule_fails:
  "(\<exists>e. generate_rule r = Err e) \<longleftrightarrow> fr_enabled r \<and> \<not> is_ok (firewall_rule_validate r)"
  by (auto simp: generate_rule_def is_ok_def split: sum.splits)

lemma length_rule_lines:
  "length (rule_lines rules) =
     length (filter (\<lambda>r. \<not> fr_enabled r \<or> is_ok (firewall_rule_validate r)) rules)"
proof (induction rules)
  case (Cons r rs)
  then show ?case using generate_rule_fails [of r]
    by (cases "generate_rule r") (auto simp: rule_lines_Cons)
qed simp

section \<open>The characters of a rule\<close>

text \<open>What a rule can put before its comment: the address alphabet, spaces and hyphens.\<close>

definition rule_char :: "char \<Rightarrow> bool" where
  "rule_char c = (addr_char c \<or> c = CHR '' '' \<or> c = CHR ''-'')"

lemma digit_char_alnum: "d < 10 \<Longrightarrow> is_ascii_alphanumeric (digit_char d)"
  by (simp add: is_ascii_alphanumeric_def is_ascii_digit_def byte_of_digit_char)

lemma show_nat_alnum: "c \<in> set (show_nat n) \<Longrightarrow> is_ascii_alphanumeric c"
proof (induction n rule: show_nat.induct)
  case (1 n)
  show ?case
  proof (cases "n < 10")
    case True
    then show ?thesis using 1 by (simp add: show_nat.simps [of n] digit_char_alnum)
  next
    case False
    then show ?thesis using 1 by (auto simp: show_nat.simps [of n] digit_char_alnum)
  qed
qed

definition plain :: "string \<Rightarrow> bool" where
  "plain s = (\<forall>c\<in>set s. rule_char c)"

definition plain_all :: "string list \<Rightarrow> bool" where
  "plain_all ls = (\<forall>l\<in>set ls. plain l)"

lemma plain_all_simps [simp]:
  "plain_all []" "plain_all (l # ls) = (plain l \<and> plain_all ls)"
  "plain_all (as @ bs) = (plain_all as \<and> plain_all bs)"
  by (auto simp: plain_all_def)

lemma plain_append [simp]: "plain (a @ b) = (plain a \<and> plain b)" "plain []"
  by (auto simp: plain_def)

lemma plain_opt_part:
  "plain key \<Longrightarrow> (\<And>v. plain (f v)) \<Longrightarrow> plain_all (opt_part key f x)"
  by (cases x) (simp_all add: opt_part_def)

lemmas alnum_eval =
  is_ascii_alphanumeric_def is_ascii_alpha_def is_ascii_digit_def byte_of_def

lemma plain_escape_addr: "plain (escape_addr a)"
  by (simp add: plain_def escape_addr_def rule_char_def)

lemma plain_show_u16: "plain (show_u16 w)"
  by (simp add: plain_def show_u16_def rule_char_def addr_char_def show_nat_alnum)

lemma plain_keywords:
  "plain ''ip saddr ''" "plain ''ip daddr ''" "plain ''sport ''" "plain ''dport ''"
  "plain ''tcp''" "plain ''udp''" "plain ''ip protocol icmp''"
  by (simp_all add: plain_def rule_char_def addr_char_def alnum_eval)

lemma plain_rule_parts: "plain_all (rule_parts r)"
  by (simp add: rule_parts_def plain_opt_part plain_escape_addr plain_show_u16 plain_keywords
      split: option.splits protocol.splits)

lemma plain_action_text: "plain (action_text a)"
  by (cases a) (simp_all add: action_text_def plain_def rule_char_def addr_char_def alnum_eval)

lemma plain_join: "plain sep \<Longrightarrow> plain_all ls \<Longrightarrow> plain (join sep ls)"
  by (induction sep ls rule: join.induct) simp_all

lemma plain_spaces: "plain ''        ''" "plain '' ''"
  by (simp_all add: plain_def rule_char_def)

definition rule_text :: "firewall_rule \<Rightarrow> string" where
  "rule_text r = (if rule_parts r = [] then ''        '' @ action_text (fr_action r)
     else ''        '' @ join '' '' (rule_parts r) @ '' '' @ action_text (fr_action r))"

lemma plain_rule_text: "plain (rule_text r)"
  using plain_spaces plain_action_text plain_join [OF plain_spaces(2) plain_rule_parts]
  by (simp only: rule_text_def plain_append split: if_split) simp

lemma generate_rule_enabled:
  "fr_enabled r \<Longrightarrow> firewall_rule_validate r = Ok () \<Longrightarrow>
     generate_rule r = Ok (rule_text r @ '' comment '' @ [CHR 0x22] @ fr_name r @ [CHR 0x22])"
  by (simp add: generate_rule_def rule_text_def)

lemma generate_rule_disabled:
  "\<not> fr_enabled r \<Longrightarrow> generate_rule r = Ok (''# rule '' @ quoted (fr_name r) @ '' is disabled'')"
  by (simp add: generate_rule_def)

lemma newline_not_rule_char: "\<not> rule_char newline"
  by (simp add: rule_char_def addr_char_def alnum_eval)

lemma generate_rule_cases:
  obtains (disabled) "\<not> fr_enabled r"
      "generate_rule r = Ok (''# rule '' @ quoted (fr_name r) @ '' is disabled'')"
  | (invalid) e where "fr_enabled r" "\<not> is_ok (firewall_rule_validate r)" "generate_rule r = Err e"
  | (valid) "fr_enabled r" "firewall_rule_validate r = Ok ()"
      "generate_rule r = Ok (rule_text r @ '' comment '' @ [CHR 0x22] @ fr_name r @ [CHR 0x22])"
proof (cases "fr_enabled r")
  case False
  then show thesis using generate_rule_disabled disabled by blast
next
  case True
  show thesis
  proof (cases "firewall_rule_validate r")
    case (Inl e)
    then show thesis using True generate_rule_fails [of r] invalid by (auto simp: is_ok_def)
  next
    case (Inr u)
    then show thesis using True valid generate_rule_enabled [of r] by simp
  qed
qed

lemma rule_lines_single:
  "\<forall>r\<in>set rules. newline \<notin> set (fr_name r) \<Longrightarrow> l \<in> set (rule_lines rules) \<Longrightarrow> newline \<notin> set l"
proof (induction rules)
  case (Cons r rs)
  have "newline \<notin> set (rule_text r)"
    using newline_not_rule_char plain_rule_text [of r] by (auto simp: plain_def)
  then show ?case using Cons
    by (cases r rule: generate_rule_cases) (auto simp: rule_lines_Cons quoted_def)
qed simp

lemma head_lines_single: "l \<in> set (head_lines p) \<Longrightarrow> newline \<notin> set l"
  by (cases p) (auto simp: head_lines_def profile_lines_def generate_public_chains_def
      generate_private_chains_def generate_development_chains_def generate_custom_chains_def)

end
