(* ===== verification/Firewall_Policy.thy ===== *)
theory Firewall_Policy
  imports Firewall
begin

text \<open>
  What the generated ruleset means. A policy is three chains of match terms with a
  default verdict; the chains of every profile are the rendering of a policy, whose
  verdict for a packet is computed term by term. The user's rules are lines after the
  last chain: where they stand, what they keep of the rule, and what a name can do.
\<close>

section \<open>Policies and their rendering\<close>

datatype match_term =
    CtEstablished | IifLo | SrcNet nat nat nat nat nat | TcpDport nat | IpIcmp

record packet =
  pkt_established :: bool
  pkt_loopback :: bool
  pkt_src4 :: "u32 option"
  pkt_icmp4 :: bool
  pkt_tcp_dport :: "u16 option"

definition addr4 :: "nat \<Rightarrow> nat \<Rightarrow> nat \<Rightarrow> nat \<Rightarrow> u32" where
  "addr4 a b c d = of_nat (((a * 256 + b) * 256 + c) * 256 + d)"

fun term_matches :: "match_term \<Rightarrow> packet \<Rightarrow> bool" where
  "term_matches CtEstablished k = pkt_established k"
| "term_matches IifLo k = pkt_loopback k"
| "term_matches (SrcNet a b c d n) k =
     (case pkt_src4 k of None \<Rightarrow> False
      | Some s \<Rightarrow> drop_bit (32 - n) s = drop_bit (32 - n) (addr4 a b c d))"
| "term_matches (TcpDport p) k =
     (case pkt_tcp_dport k of None \<Rightarrow> False | Some q \<Rightarrow> unat q = p)"
| "term_matches IpIcmp k = pkt_icmp4 k"

fun render_term :: "match_term \<Rightarrow> string" where
  "render_term CtEstablished = ''ct state established,related''"
| "render_term IifLo = ''iifname lo''"
| "render_term (SrcNet a b c d n) = ''ip saddr '' @ show_nat a @ ''.'' @ show_nat b @ ''.''
     @ show_nat c @ ''.'' @ show_nat d @ ''/'' @ show_nat n"
| "render_term (TcpDport p) = ''tcp dport '' @ show_nat p"
| "render_term IpIcmp = ''ip protocol icmp''"

datatype hook = HookInput | HookForward | HookOutput

fun hook_name :: "hook \<Rightarrow> string" where
  "hook_name HookInput = ''input''"
| "hook_name HookForward = ''forward''"
| "hook_name HookOutput = ''output''"

text \<open>A chain: its hook, whether its policy accepts, and the terms it accepts.\<close>

type_synonym chain = "hook \<times> bool \<times> match_term list"

definition render_chain :: "chain \<Rightarrow> string list" where
  "render_chain = (\<lambda>(h, acc, terms).
     [''    chain '' @ hook_name h @ '' {'',
      ''        type filter hook '' @ hook_name h @ '' priority 0; policy ''
        @ (if acc then ''accept'' else ''drop'') @ '';'']
     @ map (\<lambda>t. ''        '' @ render_term t @ '' accept'') terms @ [''    }''])"

fun render_chains :: "chain list \<Rightarrow> string list" where
  "render_chains [] = []"
| "render_chains [c] = render_chain c"
| "render_chains (c # d # cs) = render_chain c @ [''''] @ render_chains (d # cs)"

definition profile_terms :: "firewall_profile \<Rightarrow> match_term list" where
  "profile_terms p = [CtEstablished, IifLo] @
     (case p of
        Public \<Rightarrow> []
      | Private \<Rightarrow> [SrcNet 10 0 0 0 8, SrcNet 172 16 0 0 12, SrcNet 192 168 0 0 16]
      | Development \<Rightarrow> map TcpDport [22, 80, 443, 3000, 8080]
      | Custom \<Rightarrow> []) @ [IpIcmp]"

definition profile_policy :: "firewall_profile \<Rightarrow> chain list" where
  "profile_policy p =
     [(HookInput, False, profile_terms p), (HookForward, False, []), (HookOutput, True, [])]"

text \<open>The verdict of a policy at a hook: a matching term or else the chain's default.\<close>

fun verdict :: "chain list \<Rightarrow> hook \<Rightarrow> packet \<Rightarrow> bool" where
  "verdict [] h k = True"
| "verdict ((g, acc, ts) # cs) h k =
     (if g = h then acc \<or> list_ex (\<lambda>t. term_matches t k) ts else verdict cs h k)"

section \<open>The profile chains render the profile policy\<close>

lemma show_nat_literals:
  "show_nat 0 = ''0''" "show_nat 8 = ''8''" "show_nat 10 = ''10''" "show_nat 12 = ''12''"
  "show_nat 16 = ''16''" "show_nat 22 = ''22''" "show_nat 80 = ''80''" "show_nat 168 = ''168''"
  "show_nat 172 = ''172''" "show_nat 192 = ''192''" "show_nat 443 = ''443''"
  "show_nat 3000 = ''3000''" "show_nat 8080 = ''8080''"
  by (simp_all add: show_nat.simps digit_char_def char_of_def bit_0)

lemma profile_lines_render: "profile_lines p = render_chains (profile_policy p)"
  by (cases p) (simp_all add: profile_lines_def profile_policy_def profile_terms_def
      generate_public_chains_def generate_private_chains_def generate_development_chains_def
      generate_custom_chains_def render_chain_def show_nat_literals)

lemma port_eq:
  "unat (q :: u16) = numeral n \<longleftrightarrow> q = numeral n" if "(numeral n :: nat) < 65536"
proof -
  have "unat (numeral n :: u16) = (numeral n :: nat)"
    unfolding unsigned_numeral of_nat_id by (rule take_bit_nat_eq_self) (use that in simp)
  then show ?thesis by (metis unsigned_word_eqI)
qed

definition in_private_net :: "u32 \<Rightarrow> bool" where
  "in_private_net s = (drop_bit 24 s = 10 \<or> drop_bit 20 s = 0xAC1 \<or> drop_bit 16 s = 0xC0A8)"

definition dev_ports :: "u16 set" where
  "dev_ports = {22, 80, 443, 3000, 8080}"

lemma verdict_input:
  "verdict (profile_policy p) HookInput k \<longleftrightarrow>
     pkt_established k \<or> pkt_loopback k \<or> pkt_icmp4 k
     \<or> (p = Private \<and> (\<exists>s. pkt_src4 k = Some s \<and> in_private_net s))
     \<or> (p = Development \<and> (\<exists>q. pkt_tcp_dport k = Some q \<and> q \<in> dev_ports))"
proof (cases p)
  case Private
  then show ?thesis
    by (simp add: profile_policy_def profile_terms_def addr4_def in_private_net_def
        split: option.splits) blast
next
  case Development
  then show ?thesis
    by (simp add: profile_policy_def profile_terms_def dev_ports_def port_eq split: option.splits)
      blast
qed (auto simp: profile_policy_def profile_terms_def)

text \<open>C28: Without user rules the generated file is the table that renders the profile's policy, and
  under that policy a new inbound packet is accepted exactly when it belongs to an
  established connection, comes over loopback, is ICMP over IPv4, or the profile opens its
  source network or TCP port; nothing is forwarded and everything may leave.\<close>

theorem profile_ruleset_refines:
  "generate_ruleset p [] = join [newline]
       ([''#!/usr/sbin/nft -f'', '''', ''table inet mission_securityd {'']
        @ render_chains (profile_policy p) @ [''}'', ''''])
   \<and> verdict (profile_policy p) HookInput k =
       (pkt_established k \<or> pkt_loopback k \<or> pkt_icmp4 k
        \<or> (p = Private \<and> (\<exists>s. pkt_src4 k = Some s \<and> in_private_net s))
        \<or> (p = Development \<and> (\<exists>q. pkt_tcp_dport k = Some q \<and> q \<in> dev_ports)))
   \<and> \<not> verdict (profile_policy p) HookForward k \<and> verdict (profile_policy p) HookOutput k"
  unfolding generate_ruleset_def ruleset_lines_eq verdict_input
  by (simp add: head_lines_def profile_lines_render profile_policy_def)

section \<open>The user's rules in the ruleset\<close>

text \<open>The nesting depth of a text: opening minus closing braces.\<close>

definition brace_depth :: "string \<Rightarrow> int" where
  "brace_depth s = int (count_list s CHR ''{'') - int (count_list s CHR ''}'')"

lemma brace_depth_append: "brace_depth (a @ b) = brace_depth a + brace_depth b"
  by (simp add: brace_depth_def)

lemma brace_depth_concat: "brace_depth (concat ls) = sum_list (map brace_depth ls)"
  by (induction ls) (simp_all add: brace_depth_append, simp add: brace_depth_def)

lemma brace_depth_plain: "plain s \<Longrightarrow> brace_depth s = 0"
proof -
  assume "plain s"
  moreover have "\<not> rule_char CHR ''{''" "\<not> rule_char CHR ''}''"
    by (simp_all add: rule_char_def addr_char_def alnum_eval)
  ultimately have "CHR ''{'' \<notin> set s" "CHR ''}'' \<notin> set s"
    by (auto simp: plain_def)
  then show ?thesis by (simp add: brace_depth_def count_list_0_iff)
qed

lemma plain_show_nat: "plain (show_nat n)"
  by (simp add: plain_def rule_char_def addr_char_def show_nat_alnum)

lemma brace_depth_term: "brace_depth (''        '' @ render_term t @ '' accept'') = 0"
proof -
  have "brace_depth (render_term t) = 0"
    using brace_depth_plain [OF plain_show_nat] by (cases t) (simp_all add: brace_depth_def)
  moreover have "brace_depth ''        '' = 0" "brace_depth '' accept'' = 0"
    by (simp_all add: brace_depth_def)
  ultimately show ?thesis by (simp only: brace_depth_append)
qed

lemma brace_depth_chain: "brace_depth (concat (render_chain c)) = 0"
proof -
  obtain h acc ts where c: "c = (h, acc, ts)" by (cases c)
  have terms: "sum_list (map (brace_depth \<circ> (\<lambda>t. ''        '' @ render_term t @ '' accept'')) ts) = 0"
    by (induction ts) (simp_all only: comp_def brace_depth_term sum_list.Cons sum_list.Nil
        list.map add_0)
  have line: "brace_depth (''    chain '' @ hook_name h @ '' {'') = 1"
    "brace_depth (''        type filter hook '' @ hook_name h @ '' priority 0; policy ''
        @ (if acc then ''accept'' else ''drop'') @ '';'') = 0"
    by (cases h; simp add: brace_depth_def)+
  have "brace_depth ''    }'' = - 1" by (simp add: brace_depth_def)
  then show ?thesis
    by (simp only: c render_chain_def brace_depth_concat prod.case map_append list.map map_map
        sum_list_append sum_list.Cons sum_list.Nil terms line)
qed

lemma brace_depth_chains: "brace_depth (concat (render_chains cs)) = 0"
  by (induction cs rule: render_chains.induct)
    (simp_all add: brace_depth_append brace_depth_chain, simp add: brace_depth_def)

lemma head_depth: "brace_depth (concat (head_lines p)) = 1"
proof -
  have "brace_depth (concat [''#!/usr/sbin/nft -f'', '''', ''table inet mission_securityd {'']) = 1"
    by (simp add: brace_depth_def)
  then show ?thesis
    by (simp only: head_lines_def profile_lines_render concat_append brace_depth_append
        brace_depth_chains add_0_right)
qed

text \<open>When no rule name holds a newline, the file consists of the profile's lines, one line per
  rule that is disabled or valid, and the closing brace: the invalid ones are left out
  without a trace. Every rule line stands where one brace is open, the table's, hence
  outside every chain.\<close>

theorem ruleset_structure:
  assumes "\<forall>r\<in>set rules. newline \<notin> set (fr_name r)"
  shows "split_on newline (generate_ruleset p rules) =
       head_lines p @ rule_lines rules @ [''}'', '''']
     \<and> length (rule_lines rules) =
         length (filter (\<lambda>r. \<not> fr_enabled r \<or> is_ok (firewall_rule_validate r)) rules)
     \<and> brace_depth (concat (head_lines p)) = 1"
proof -
  have "split_on newline (generate_ruleset p rules) = ruleset_lines p rules"
    unfolding generate_ruleset_def
  proof (rule split_on_join)
    fix l assume "l \<in> set (ruleset_lines p rules)"
    then consider "l \<in> set (head_lines p)" | "l \<in> set (rule_lines rules)" | "l = ''}''" | "l = ''''"
      by (auto simp: ruleset_lines_eq)
    then show "newline \<notin> set l"
      by cases (use head_lines_single rule_lines_single [OF assms] in auto)
  qed (simp add: ruleset_lines_eq)
  then show ?thesis by (simp add: ruleset_lines_eq length_rule_lines head_depth)
qed

definition ssh_rule :: firewall_rule where
  "ssh_rule = \<lparr>fr_name = ''allow-ssh'', fr_direction = DirIn, fr_action = ActAccept,
     fr_protocol = Some Tcp, fr_source = None, fr_destination = None, fr_source_port = None,
     fr_destination_port = Some 22, fr_enabled = True\<rparr>"

lemma ruleset_structure_witness:
  "length (rule_lines [ssh_rule, ssh_rule\<lparr>fr_protocol := None\<rparr>]) = 1"
  using ruleset_structure [of "[ssh_rule, ssh_rule\<lparr>fr_protocol := None\<rparr>]" Public]
  by (simp add: ssh_rule_def firewall_rule_validate_def trim_def trim_end_def trim_start_def is_ws_def)

text \<open>Of an enabled, valid rule everything but the name is reduced to letters, digits, dot,
  slash, colon, hyphen and spaces: no brace, quote, semicolon or newline of an address
  reaches the file. A disabled rule is one comment around its name, which nothing checks.\<close>

theorem generate_rule_sanitized:
  "case generate_rule r of
     Inl e \<Rightarrow> fr_enabled r \<and> \<not> is_ok (firewall_rule_validate r)
   | Inr s \<Rightarrow>
       (if fr_enabled r
        then (\<exists>pre. s = pre @ '' comment '' @ [CHR 0x22] @ fr_name r @ [CHR 0x22]
               \<and> (list_all rule_char pre) \<and> ends_with pre (action_text (fr_action r)))
        else s = ''# rule '' @ quoted (fr_name r) @ '' is disabled'')"
proof (cases r rule: generate_rule_cases)
  case valid
  have "ends_with (rule_text r) (action_text (fr_action r))"
    unfolding rule_text_def ends_with_iff by auto
  then show ?thesis
    using valid plain_rule_text [of r] by (auto simp: plain_def list_all_iff intro: exI [of _ "rule_text r"])
qed simp_all

lemma rule_lines_append: "rule_lines (rs @ ss) = rule_lines rs @ rule_lines ss"
  by (simp add: rule_lines_def)

lemma split_on_mid: "set (split_on d b) \<subseteq> set (split_on d (a @ d # b @ d # c))"
  by (auto simp: split_on_append_pieces)

text \<open>A rule whose name carries a line of its own.\<close>

definition injecting :: "string \<Rightarrow> firewall_rule \<Rightarrow> firewall_rule" where
  "injecting x r = r\<lparr>fr_name := ''x'' @ newline # x @ newline # ''#''\<rparr>"

lemma injecting_valid:
  "firewall_rule_validate r = Ok () \<Longrightarrow> firewall_rule_validate (injecting x r) = Ok ()"
  by (auto simp: firewall_rule_validate_iff injecting_def is_ws_def)

lemma join_mid:
  "\<exists>a b. join sep (as @ l # bs) = a @ l @ b"
proof (cases "as = [] \<or> bs = []")
  case True
  then show ?thesis
  proof
    assume "as = []"
    then show ?thesis by (cases bs) (auto intro: exI [of _ "[]"])
  next
    assume "bs = []"
    then have "join sep (as @ l # bs) = (if as = [] then [] else join sep as @ sep) @ l @ []"
      by (simp add: join_append)
    then show ?thesis by blast
  qed
next
  case False
  then have "join sep (as @ l # bs) = (join sep as @ sep) @ l @ (sep @ join sep bs)"
    by (cases bs) (simp_all add: join_append)
  then show ?thesis by blast
qed

text \<open>C27: The name is the gap: whatever line a client wants in the ruleset, adding it between
  newlines to the name of a valid rule, enabled or not, keeps the rule valid and makes the
  line a line of the file.\<close>

theorem rule_name_injects_lines:
  assumes "firewall_rule_validate r = Ok ()" and "newline \<notin> set x"
  shows "firewall_rule_validate (injecting x r) = Ok ()
     \<and> x \<in> set (split_on newline (generate_ruleset p (rs @ injecting x r # ss)))"
proof -
  let ?q = "injecting x r"
  obtain a b where ab: "rule_lines [?q] = [a @ newline # x @ newline # b]"
  proof (cases ?q rule: generate_rule_cases)
    case disabled
    then show thesis
      by (intro that [of "''    # rule '' @ [CHR 0x27] @ ''x''" "''#'' @ [CHR 0x27] @ '' is disabled''"])
        (simp add: rule_lines_def injecting_def quoted_def)
  next
    case invalid
    then show thesis using injecting_valid [OF assms(1)] by simp
  next
    case valid
    then have "rule_lines [?q] = [(''    '' @ rule_text ?q @ '' comment '' @ [CHR 0x22] @ ''x'')
        @ newline # x @ newline # (''#'' @ [CHR 0x22])]"
      by (simp add: rule_lines_def) (simp add: injecting_def)
    then show thesis by (rule that)
  qed
  have "ruleset_lines p (rs @ ?q # ss) =
      (head_lines p @ rule_lines rs) @ (a @ newline # x @ newline # b)
        # (rule_lines ss @ [''}'', ''''])"
    using ab rule_lines_append [of "[?q]" ss] by (simp add: ruleset_lines_eq rule_lines_append)
  then obtain u v where "generate_ruleset p (rs @ ?q # ss) = (u @ a) @ newline # x @ newline # (b @ v)"
    unfolding generate_ruleset_def using join_mid by (metis append.assoc append_Cons)
  then have "x \<in> set (split_on newline (generate_ruleset p (rs @ ?q # ss)))"
    using split_on_mid [of newline x "u @ a" "b @ v"] assms(2) by (simp add: split_on_none)
  then show ?thesis using injecting_valid [OF assms(1)] by simp
qed

lemma rule_name_injects_lines_witness:
  "''flush ruleset'' \<in> set (split_on newline
     (generate_ruleset Public [injecting ''flush ruleset'' ssh_rule]))"
  using rule_name_injects_lines [of ssh_rule "''flush ruleset''" Public "[]" "[]"]
  by (simp add: ssh_rule_def firewall_rule_validate_def trim_def trim_end_def trim_start_def is_ws_def)

text \<open>What the text loses: the direction of a rule never reaches it, and the ports of a rule
  for ICMP or another protocol are dropped, so such a rule reads as one for all ports.\<close>

theorem generate_rule_loses:
  "generate_rule (r\<lparr>fr_direction := d\<rparr>) = generate_rule r
   \<and> (if fr_protocol r \<in> {Some Icmp, Some OtherProtocol} \<and> sp \<noteq> Some 0 \<and> dp \<noteq> Some 0
      then rule_text (r\<lparr>fr_source_port := sp, fr_destination_port := dp\<rparr>)
             = rule_text (r\<lparr>fr_source_port := None, fr_destination_port := None\<rparr>)
         \<and> generate_rule (r\<lparr>fr_source_port := sp, fr_destination_port := dp\<rparr>)
             = generate_rule (r\<lparr>fr_source_port := None, fr_destination_port := None\<rparr>)
      else True)"
proof -
  have parts: "rule_parts (r\<lparr>fr_direction := d\<rparr>) = rule_parts r"
    by (simp add: rule_parts_def split: option.split protocol.split)
  have dir: "generate_rule (r\<lparr>fr_direction := d\<rparr>) = generate_rule r"
    unfolding generate_rule_def parts by (simp add: firewall_rule_validate_def)
  have ports: "rule_parts (r\<lparr>fr_source_port := sp, fr_destination_port := dp\<rparr>) =
      rule_parts (r\<lparr>fr_source_port := None, fr_destination_port := None\<rparr>)"
    if "fr_protocol r \<in> {Some Icmp, Some OtherProtocol}"
    using that by (auto simp: rule_parts_def)
  show ?thesis
    using dir ports
    by (auto simp: rule_text_def generate_rule_def firewall_rule_validate_def)
qed

end
