(* ===== verification/Securityd.thy ===== *)
theory Securityd
  imports Firewall_Policy Dbus Authz
begin

text \<open>
  The security service (securityd): its errors (error.rs), audit events (audit.rs),
  authorization boundary (authz.rs), configuration (config.rs), the three D-Bus
  interfaces with their signals (dbus.rs, signals.rs) and the start-up (main.rs). The
  service keeps no firewall of its own: its state is the configuration, the audit trail,
  the signal counter and the signals sent. Severities and authorization verdicts are the
  same enumerations as in driverd. The deserializers and serializers of serde, the TOML
  reader, the package version and the clock reading of a call are arguments.
\<close>

section \<open>Errors\<close>

datatype sec_service_error =
    SecPermissionDenied string | SecInvalidArgument string | SecNotFound string
  | SecInternal string | SecNotSupported string

fun show_sec_error :: "sec_service_error \<Rightarrow> string" where
  "show_sec_error (SecPermissionDenied m) = ''permission denied: '' @ m"
| "show_sec_error (SecInvalidArgument m) = ''invalid argument: '' @ m"
| "show_sec_error (SecNotFound m) = ''not found: '' @ m"
| "show_sec_error (SecInternal m) = ''internal error: '' @ m"
| "show_sec_error (SecNotSupported m) = ''not supported: '' @ m"

definition core_error_of_sec :: "sec_service_error \<Rightarrow> core_error" where
  "core_error_of_sec e = core_error_new
     (case e of
        SecPermissionDenied _ \<Rightarrow> EC_PermissionDenied
      | SecInvalidArgument _ \<Rightarrow> EC_InvalidArgument
      | SecNotFound _ \<Rightarrow> EC_NotFound
      | SecInternal _ \<Rightarrow> EC_InternalError
      | SecNotSupported _ \<Rightarrow> EC_NotSupported) (show_sec_error e)"

definition sec_error_of_core :: "core_error \<Rightarrow> sec_service_error" where
  "sec_error_of_core e = SecInternal (''core error: '' @ ce_message e)"

fun sec_map_service_error :: "sec_service_error \<Rightarrow> fdo_error" where
  "sec_map_service_error (SecPermissionDenied m) = FdoAccessDenied m"
| "sec_map_service_error (SecInvalidArgument m) = FdoInvalidArgs m"
| "sec_map_service_error (SecNotFound m) = FdoFileNotFound m"
| "sec_map_service_error (SecNotSupported m) = FdoNotSupported m"
| "sec_map_service_error (SecInternal m) = FdoFailed m"

section \<open>Audit events\<close>

datatype sec_category =
    SecAuthentication | SecPrivilege | SecSecurity | SecPrivacy | SecUpdate | SecDriver | SecSystem

fun show_sec_category :: "sec_category \<Rightarrow> string" where
  "show_sec_category SecAuthentication = ''authentication''"
| "show_sec_category SecPrivilege = ''privilege''"
| "show_sec_category SecSecurity = ''security''"
| "show_sec_category SecPrivacy = ''privacy''"
| "show_sec_category SecUpdate = ''update''"
| "show_sec_category SecDriver = ''driver''"
| "show_sec_category SecSystem = ''system''"

record sec_event =
  sx_timestamp :: u64
  sx_category :: sec_category
  sx_severity :: event_severity
  sx_action :: string
  sx_subject :: string
  sx_details :: string
  sx_correlation_id :: "string option"

definition sec_event_new ::
  "u64 \<Rightarrow> sec_category \<Rightarrow> event_severity \<Rightarrow> string \<Rightarrow> string \<Rightarrow> string \<Rightarrow> sec_event" where
  "sec_event_new now cat sev action subject details =
     \<lparr>sx_timestamp = now, sx_category = cat, sx_severity = sev, sx_action = action,
      sx_subject = subject, sx_details = details, sx_correlation_id = None\<rparr>"

definition sec_with_correlation :: "sec_event \<Rightarrow> string \<Rightarrow> sec_event" where
  "sec_with_correlation e i = e\<lparr>sx_correlation_id := Some i\<rparr>"

section \<open>Authorization\<close>

datatype security_action =
    ViewFirewallStatus | ConfigureFirewall | ViewAuditLog | ExportAuditLog
  | ChangeSecurityPolicy | ManageCertificates | ViewSecureBootStatus | ConfigureSecureBoot
  | ViewSandboxStatus | ConfigureSandbox

fun security_action_id :: "security_action \<Rightarrow> string" where
  "security_action_id ViewFirewallStatus = ''org.mission.security.view-firewall-status''"
| "security_action_id ConfigureFirewall = ''org.mission.security.configure-firewall''"
| "security_action_id ViewAuditLog = ''org.mission.security.view-audit-log''"
| "security_action_id ExportAuditLog = ''org.mission.security.export-audit-log''"
| "security_action_id ChangeSecurityPolicy = ''org.mission.security.change-policy''"
| "security_action_id ManageCertificates = ''org.mission.security.manage-certificates''"
| "security_action_id ViewSecureBootStatus = ''org.mission.security.view-secure-boot''"
| "security_action_id ConfigureSecureBoot = ''org.mission.security.configure-secure-boot''"
| "security_action_id ViewSandboxStatus = ''org.mission.security.view-sandbox-status''"
| "security_action_id ConfigureSandbox = ''org.mission.security.configure-sandbox''"

fun security_action_description :: "security_action \<Rightarrow> string" where
  "security_action_description ViewFirewallStatus = ''View firewall status and rules''"
| "security_action_description ConfigureFirewall = ''Modify firewall configuration''"
| "security_action_description ViewAuditLog = ''View security audit logs''"
| "security_action_description ExportAuditLog = ''Export or forward audit logs''"
| "security_action_description ChangeSecurityPolicy = ''Change security policy settings''"
| "security_action_description ManageCertificates = ''Manage certificate trust store''"
| "security_action_description ViewSecureBootStatus = ''View Secure Boot status''"
| "security_action_description ConfigureSecureBoot = ''Modify Secure Boot configuration''"
| "security_action_description ViewSandboxStatus = ''View sandbox/MAC policy status''"
| "security_action_description ConfigureSandbox = ''Modify sandbox/MAC policy''"

definition sec_is_read_only :: "security_action \<Rightarrow> bool" where
  "sec_is_read_only a =
     (a \<in> {ViewFirewallStatus, ViewAuditLog, ViewSecureBootStatus, ViewSandboxStatus})"

definition sec_audit_authorization ::
  "u64 \<Rightarrow> security_action \<Rightarrow> string \<Rightarrow> authorization \<Rightarrow> sec_event list \<Rightarrow> sec_event list" where
  "sec_audit_authorization now action subject res l =
     (let (sev, pre) = (case res of
            Authorized \<Rightarrow> (SevInfo, ''Authorized: '')
          | Denied \<Rightarrow> (SevWarning, ''Denied: '')
          | Indeterminate \<Rightarrow> (SevError, ''Authorization indeterminate: ''))
      in l @ [sec_event_new now SecPrivilege sev ''authorization_check'' subject
                (pre @ security_action_description action @ '' for '' @ subject)])"

definition sec_authorize ::
  "bool \<Rightarrow> u64 \<Rightarrow> security_action \<Rightarrow> string \<Rightarrow> sec_event list \<Rightarrow> authorization \<times> sec_event list" where
  "sec_authorize allow_unauthorized now action subject l =
     (if sec_is_read_only action then
        (Authorized, sec_audit_authorization now action subject Authorized l)
      else if allow_unauthorized then
        (Authorized, sec_audit_authorization now action subject Authorized l)
      else (Denied, sec_audit_authorization now action subject Denied l))"

section \<open>Configuration\<close>

record audit_config =
  ac_enabled :: bool
  ac_max_size_bytes :: u64
  ac_max_files :: u32
  ac_syslog_forward :: bool

definition audit_config_default :: audit_config where
  "audit_config_default = \<lparr>ac_enabled = True, ac_max_size_bytes = 10 * 1024 * 1024,
     ac_max_files = 5, ac_syslog_forward = False\<rparr>"

record security_config =
  sc_dbus_name :: string
  sc_default_firewall_profile :: firewall_profile
  sc_audit :: audit_config
  sc_firewall_enabled :: bool

definition security_config_default :: security_config where
  "security_config_default = \<lparr>sc_dbus_name = ''org.mission.Security1'',
     sc_default_firewall_profile = firewall_profile_default, sc_audit = audit_config_default,
     sc_firewall_enabled = True\<rparr>"

definition sec_load_config ::
  "(string \<Rightarrow> string + security_config) \<Rightarrow> io_error_kind + string \<Rightarrow> security_config" where
  "sec_load_config toml read =
     (case read of
        Inr content \<Rightarrow>
          (case toml content of Inr cfg \<Rightarrow> cfg | Inl e \<Rightarrow> security_config_default)
      | Inl IoNotFound \<Rightarrow> security_config_default
      | Inl _ \<Rightarrow> security_config_default)"

section \<open>The service state and its signals\<close>

definition sec_service_name :: string where "sec_service_name = ''org.mission.Security1''"
definition sec_object_path :: string where "sec_object_path = ''/org/mission/Security1''"
definition sec_interface_core :: string where "sec_interface_core = ''org.mission.Security1''"

definition sec_interface_firewall :: string where
  "sec_interface_firewall = ''org.mission.Security1.Firewall''"

definition sec_interface_audit :: string where
  "sec_interface_audit = ''org.mission.Security1.Audit''"

datatype sec_signal_body =
    SecurityEventBody u64 u64 string string string string string
  | HealthChangedBody u64 u64 bool string

record sec_signal =
  sg_path :: string
  sg_interface :: string
  sg_member :: string
  sg_body :: sec_signal_body

record sec_status =
  st_service :: string
  st_version :: string
  st_firewall_enabled :: bool
  st_firewall_profile :: firewall_profile
  st_audit_enabled :: bool

text \<open>What the service is given: configuration, bypass flag, clock, version, serde.\<close>

record sec_env =
  sn_config :: security_config
  sn_allow_unauthorized :: bool
  sn_now :: u64
  sn_version :: string
  sn_parse_profile :: "string \<Rightarrow> string + profile_change_request"
  sn_parse_rule :: "string \<Rightarrow> string + firewall_rule"
  sn_json_status :: "sec_status \<Rightarrow> string + string"
  sn_json_firewall :: "firewall_status \<Rightarrow> string + string"
  sn_json_result :: "apply_result \<Rightarrow> string + string"

text \<open>What changes: the audit trail, the signal counter, the signals handed to the bus.\<close>

record sec_state =
  ss_log :: "sec_event list"
  ss_seq :: u64
  ss_sent :: "sec_signal list"

definition sec_next_sequence :: "sec_state \<Rightarrow> u64 \<times> sec_state" where
  "sec_next_sequence s = (ss_seq s, s\<lparr>ss_seq := ss_seq s + 1\<rparr>)"

definition sec_emit :: "string \<Rightarrow> sec_signal_body \<Rightarrow> sec_state \<Rightarrow> sec_state" where
  "sec_emit member body s = s\<lparr>ss_sent := ss_sent s @
     [\<lparr>sg_path = sec_object_path, sg_interface = sec_interface_core, sg_member = member,
       sg_body = body\<rparr>]\<rparr>"

definition emit_security_event :: "sec_env \<Rightarrow> sec_event \<Rightarrow> sec_state \<Rightarrow> sec_state" where
  "emit_security_event env e s =
     (let (seq, s1) = sec_next_sequence s
      in sec_emit ''SecurityEvent''
           (SecurityEventBody seq (sn_now env) (show_sec_category (sx_category e))
              (show_event_severity (sx_severity e)) (sx_action e) (sx_subject e) (sx_details e)) s1)"

definition sec_emit_health_changed :: "sec_env \<Rightarrow> bool \<Rightarrow> string \<Rightarrow> sec_state \<Rightarrow> sec_state" where
  "sec_emit_health_changed env healthy status s =
     (let (seq, s1) = sec_next_sequence s
      in sec_emit ''HealthChanged'' (HealthChangedBody seq (sn_now env) healthy status) s1)"

definition sec_audit ::
  "sec_env \<Rightarrow> event_severity \<Rightarrow> string \<Rightarrow> string \<Rightarrow> string \<Rightarrow> sec_state \<Rightarrow> sec_event \<times> sec_state" where
  "sec_audit env sev action subject details s =
     (let e = sec_event_new (sn_now env) SecSecurity sev action subject details
      in (e, s\<lparr>ss_log := ss_log s @ [e]\<rparr>))"

text \<open>Audit an event and signal it: the two calls every handler makes in a row.\<close>

definition sec_audit_emit ::
  "sec_env \<Rightarrow> event_severity \<Rightarrow> string \<Rightarrow> string \<Rightarrow> string \<Rightarrow> sec_state \<Rightarrow> sec_state" where
  "sec_audit_emit env sev action subject details s =
     (let (e, s1) = sec_audit env sev action subject details s in emit_security_event env e s1)"

definition sec_check :: "sec_env \<Rightarrow> security_action \<Rightarrow> string \<Rightarrow> sec_state \<Rightarrow> bool \<times> sec_state" where
  "sec_check env action caller s =
     (let (auth, l) = sec_authorize (sn_allow_unauthorized env) (sn_now env) action caller (ss_log s)
      in (is_authorized auth, s\<lparr>ss_log := l\<rparr>))"

section \<open>The D-Bus methods\<close>

definition sec_get_version :: "sec_env \<Rightarrow> sec_state \<Rightarrow> reply \<times> sec_state" where
  "sec_get_version env s = (Ok (sn_version env), s)"

definition sec_get_status :: "sec_env \<Rightarrow> string \<Rightarrow> sec_state \<Rightarrow> reply \<times> sec_state" where
  "sec_get_status env caller s =
     (let s1 = sec_audit_emit env SevInfo ''get_status'' caller ''Security status requested'' s;
          status = \<lparr>st_service = ''mission-securityd'', st_version = sn_version env,
            st_firewall_enabled = sc_firewall_enabled (sn_config env),
            st_firewall_profile = sc_default_firewall_profile (sn_config env),
            st_audit_enabled = ac_enabled (sc_audit (sn_config env))\<rparr>
      in (map_err (\<lambda>e. FdoFailed (''status serialization failed: '' @ e))
            (sn_json_status env status), s1))"

definition get_firewall_status :: "sec_env \<Rightarrow> string \<Rightarrow> sec_state \<Rightarrow> reply \<times> sec_state" where
  "get_firewall_status env caller s =
     (let (ok, s1) = sec_check env ViewFirewallStatus caller s
      in if \<not> ok then (Err (FdoAccessDenied ''not authorized to view firewall status''), s1)
         else (map_err (\<lambda>e. FdoFailed (''firewall status serialization failed: '' @ e))
                (sn_json_firewall env
                   \<lparr>fs_enabled = sc_firewall_enabled (sn_config env),
                    fs_active_profile = sc_default_firewall_profile (sn_config env),
                    fs_rule_count = 0, fs_backend_available = False\<rparr>), s1))"

fun debug_profile :: "firewall_profile \<Rightarrow> string" where
  "debug_profile Public = ''Public''"
| "debug_profile Private = ''Private''"
| "debug_profile Development = ''Development''"
| "debug_profile Custom = ''Custom''"

definition set_firewall_profile :: "sec_env \<Rightarrow> string \<Rightarrow> string \<Rightarrow> sec_state \<Rightarrow> reply \<times> sec_state" where
  "set_firewall_profile env request_json caller s =
     (case sn_parse_profile env request_json of
        Inl e \<Rightarrow> (Err (FdoInvalidArgs (''invalid profile change request: '' @ e)), s)
      | Inr request \<Rightarrow>
          (case profile_change_validate request of
             Inl e \<Rightarrow> (Err (FdoInvalidArgs (''invalid profile change request: ''
                        @ show_firewall_error e)), s)
           | Inr _ \<Rightarrow>
               (let (ok, s1) = sec_check env ConfigureFirewall caller s
                in if \<not> ok then
                     (Err (FdoAccessDenied ''not authorized to change firewall profile''), s1)
                   else
                     (map_err (\<lambda>e. FdoFailed (''result serialization failed: '' @ e))
                        (sn_json_result env
                          \<lparr>ar_success = True, ar_rules_applied = 0, ar_rules_failed = 0,
                           ar_error = Some ''nftables backend not yet integrated; profile recorded but not applied''\<rparr>),
                      sec_audit_emit env SevInfo ''firewall_profile_changed'' caller
                        (''Firewall profile changed to '' @ debug_profile (pc_profile request)
                          @ '': '' @ pc_reason request) s1))))"

definition add_firewall_rule :: "sec_env \<Rightarrow> string \<Rightarrow> string \<Rightarrow> sec_state \<Rightarrow> reply \<times> sec_state" where
  "add_firewall_rule env rule_json caller s =
     (case sn_parse_rule env rule_json of
        Inl e \<Rightarrow> (Err (FdoInvalidArgs (''invalid firewall rule: '' @ e)), s)
      | Inr rule \<Rightarrow>
          (case firewall_rule_validate rule of
             Inl e \<Rightarrow> (Err (FdoInvalidArgs (''invalid firewall rule: '' @ show_firewall_error e)), s)
           | Inr _ \<Rightarrow>
               (let (ok, s1) = sec_check env ConfigureFirewall caller s
                in if \<not> ok then
                     (Err (FdoAccessDenied ''not authorized to add firewall rules''), s1)
                   else
                     (map_err (\<lambda>e. FdoFailed (''result serialization failed: '' @ e))
                        (sn_json_result env
                          \<lparr>ar_success = True, ar_rules_applied = 1, ar_rules_failed = 0,
                           ar_error = Some ''nftables backend not yet integrated; rule recorded but not applied''\<rparr>),
                      sec_audit_emit env SevInfo ''firewall_rule_added'' caller
                        (''Rule added: '' @ fr_name rule) s1))))"

definition export_audit_log :: "sec_env \<Rightarrow> string \<Rightarrow> sec_state \<Rightarrow> reply \<times> sec_state" where
  "export_audit_log env caller s =
     (let (ok, s1) = sec_check env ExportAuditLog caller s
      in if \<not> ok then (Err (FdoAccessDenied ''not authorized to export audit logs''), s1)
         else (Ok ''[]'', sec_audit_emit env SevInfo ''audit_log_export'' caller
                 ''Audit log export requested'' s1))"

section \<open>Start-up\<close>

text \<open>
  The steps of \<open>main\<close> against the bus: each either succeeds or ends the process with
  status 1. \<open>bus\<close> answers the steps in order; the first health signal follows the last.
\<close>

datatype startup_step =
    ConnectBus | RegisterCore | RegisterFirewall | RegisterAudit | RequestName string

definition startup_steps :: "startup_step list" where
  "startup_steps = [ConnectBus, RegisterCore, RegisterFirewall, RegisterAudit,
     RequestName sec_service_name]"


definition sec_main ::
  "(startup_step \<Rightarrow> bool) \<Rightarrow> sec_env \<Rightarrow> (int + sec_state) \<times> startup_step list" where
  "sec_main bus env =
     (let (done_steps, ok) = run_startup bus startup_steps
      in (if ok then Inr (sec_emit_health_changed env True ''Service started successfully''
                \<lparr>ss_log = [], ss_seq = 0, ss_sent = []\<rparr>)
          else Inl 1, done_steps))"

definition sec_health_tick :: "sec_env \<Rightarrow> sec_state \<Rightarrow> sec_state" where
  "sec_health_tick env s = sec_emit_health_changed env True ''Service healthy'' s"

end
