(* ===== verification/Core_Config.thy ===== *)
theory Core_Config
  imports Fs
begin

text \<open>
  The configuration files of the core library (config.rs): loading with its distinction of
  missing, empty, malformed and unreadable files, and the atomic save through a temporary
  file. The TOML reader and writer and the outcome of \<open>sync_all\<close> are arguments. The
  store holds bytes; a text is read back only when the bytes are UTF-8. A path ends in the
  name of a file.
\<close>

section \<open>Texts as bytes\<close>

definition bytes_of :: "string \<Rightarrow> bytes" where
  "bytes_of s = map (\<lambda>c. of_nat (byte_of c)) s"

definition text_of :: "bytes \<Rightarrow> string" where
  "text_of bs = map (\<lambda>b. char_of (unat b)) bs"

definition utf8_cont :: "nat \<Rightarrow> bool" where
  "utf8_cont c = (0x80 \<le> c \<and> c \<le> 0xBF)"

text \<open>Well-formed UTF-8: no overlong form, no surrogate, nothing above U+10FFFF.\<close>

fun utf8_ok :: "nat list \<Rightarrow> bool" where
  "utf8_ok [] = True"
| "utf8_ok (a # s) =
     (if a < 0x80 then utf8_ok s
      else if 0xC2 \<le> a \<and> a \<le> 0xDF then
        (case s of b # s1 \<Rightarrow> utf8_cont b \<and> utf8_ok s1 | _ \<Rightarrow> False)
      else if 0xE0 \<le> a \<and> a \<le> 0xEF then
        (case s of b # c # s1 \<Rightarrow> utf8_cont b \<and> utf8_cont c \<and> (a = 0xE0 \<longrightarrow> 0xA0 \<le> b)
            \<and> (a = 0xED \<longrightarrow> b \<le> 0x9F) \<and> utf8_ok s1 | _ \<Rightarrow> False)
      else if 0xF0 \<le> a \<and> a \<le> 0xF4 then
        (case s of b # c # d # s1 \<Rightarrow> utf8_cont b \<and> utf8_cont c \<and> utf8_cont d
            \<and> (a = 0xF0 \<longrightarrow> 0x90 \<le> b) \<and> (a = 0xF4 \<longrightarrow> b \<le> 0x8F) \<and> utf8_ok s1 | _ \<Rightarrow> False)
      else False)"

definition valid_text :: "string \<Rightarrow> bool" where
  "valid_text s = utf8_ok (map byte_of s)"

definition fs_read_to_string :: "fs \<Rightarrow> path \<Rightarrow> (io_error_kind \<times> string) + string" where
  "fs_read_to_string s p =
     (case fs_read s p of
        Inl e \<Rightarrow> Err (if fs_deny s IoOpen p = None \<and> \<not> fs_exists s p then IoNotFound else IoOther, e)
      | Inr bs \<Rightarrow> if valid_text (text_of bs) then Ok (text_of bs)
                 else Err (IoOther, ''stream did not contain valid UTF-8''))"

text \<open>\<open>Path::parent\<close> of a path that ends in a name.\<close>

definition path_parent :: "path \<Rightarrow> path" where
  "path_parent p =
     (let d = take (length p - length (file_name p)) p in if length d \<le> 1 then d else butlast d)"

section \<open>Loading and saving\<close>

record 'a config =
  cf_inner :: 'a
  cf_path :: path

type_synonym 'a toml_reader = "string \<Rightarrow> string + 'a"
type_synonym 'a toml_writer = "'a \<Rightarrow> string + string"

definition config_load :: "'a toml_reader \<Rightarrow> fs \<Rightarrow> path \<Rightarrow> core_error + 'a config" where
  "config_load toml s p =
     (case fs_read_to_string s p of
        Inl (IoNotFound, e) \<Rightarrow>
          Err (core_error_new EC_NotFound (''configuration file not found: '' @ p))
      | Inl (_, e) \<Rightarrow>
          Err (core_error_with_source EC_IoError (''failed to read configuration file: '' @ p) e)
      | Inr contents \<Rightarrow>
          if trim contents = [] then
            Err (core_error_new EC_ConfigError (''configuration file is empty: '' @ p))
          else
            and_then (map_err (core_error_with_source EC_ConfigError
                (''malformed configuration in '' @ p)) (toml contents))
              (\<lambda>v. Ok \<lparr>cf_inner = v, cf_path = p\<rparr>))"

definition config_load_or_default ::
  "'a toml_reader \<Rightarrow> 'a \<Rightarrow> fs \<Rightarrow> path \<Rightarrow> core_error + 'a config" where
  "config_load_or_default toml dflt s p =
     (case config_load toml s p of
        Inr cfg \<Rightarrow> Ok cfg
      | Inl e \<Rightarrow> if ce_code e = EC_NotFound then Ok \<lparr>cf_inner = dflt, cf_path = p\<rparr> else Err e)"

definition config_tmp :: "path \<Rightarrow> path" where
  "config_tmp p = with_extension p ''toml.tmp''"

definition io_fail :: "string \<Rightarrow> string \<Rightarrow> core_error" where
  "io_fail m e = core_error_with_source EC_IoError m e"

definition config_save_to ::
  "'a toml_writer \<Rightarrow> (path \<Rightarrow> string option) \<Rightarrow> 'a \<Rightarrow> path \<Rightarrow> fs \<Rightarrow> (core_error + unit) \<times> fs" where
  "config_save_to toml sync v p s =
     (case toml v of
        Inl e \<Rightarrow> (Err (core_error_with_source EC_ConfigError ''failed to serialize configuration'' e), s)
      | Inr body \<Rightarrow>
     (case (if path_parent p = [] then Ok () else fs_mkdir_all (path_parent p) s) of
        Inl e \<Rightarrow> (Err (io_fail (''failed to create config directory: '' @ path_parent p) e), s)
      | Inr _ \<Rightarrow>
     (case fs_create (config_tmp p) s of
        (Inl e, s1) \<Rightarrow>
          (Err (io_fail (''failed to create temporary config file: '' @ config_tmp p) e), s1)
      | (Inr _, s1) \<Rightarrow>
     (case fs_append (config_tmp p) (bytes_of body) s1 of
        (Inl e, s2) \<Rightarrow> (Err (io_fail ''failed to write configuration data'' e), s2)
      | (Inr _, s2) \<Rightarrow>
     (case sync (config_tmp p) of
        Some e \<Rightarrow> (Err (io_fail ''failed to sync configuration file'' e), s2)
      | None \<Rightarrow>
     (case fs_rename (config_tmp p) p s2 of
        (Inl e, s3) \<Rightarrow>
          (Err (io_fail (''failed to atomically rename config file: '' @ config_tmp p @ '' -> '' @ p) e), s3)
      | (Inr _, s3) \<Rightarrow> (Ok (), s3)))))))"

definition config_save ::
  "'a toml_writer \<Rightarrow> (path \<Rightarrow> string option) \<Rightarrow> 'a config \<Rightarrow> fs \<Rightarrow> (core_error + unit) \<times> fs" where
  "config_save toml sync c s = config_save_to toml sync (cf_inner c) (cf_path c) s"

definition config_from_str :: "'a toml_reader \<Rightarrow> string \<Rightarrow> core_error + 'a" where
  "config_from_str toml t =
     map_err (core_error_with_source EC_ConfigError ''failed to parse TOML configuration'') (toml t)"

definition config_to_string :: "'a toml_writer \<Rightarrow> 'a \<Rightarrow> core_error + string" where
  "config_to_string toml v =
     map_err (core_error_with_source EC_ConfigError ''failed to serialize configuration'') (toml v)"

section \<open>The core configuration\<close>

record logging_config =
  lg_level :: string
  lg_include_location :: bool

definition logging_config_default :: logging_config where
  "logging_config_default = \<lparr>lg_level = ''info'', lg_include_location = True\<rparr>"

record paths_config =
  pa_mission_root :: "string option"
  pa_config_dir :: "string option"

definition paths_config_default :: paths_config where
  "paths_config_default = \<lparr>pa_mission_root = None, pa_config_dir = None\<rparr>"

record core_config =
  cc_logging :: logging_config
  cc_paths :: paths_config

definition core_config_default :: core_config where
  "core_config_default = \<lparr>cc_logging = logging_config_default, cc_paths = paths_config_default\<rparr>"

section \<open>Atomicity\<close>

lemma bytes_text [simp]: "text_of (bytes_of s) = s"
proof -
  have "char_of (unat (of_nat (byte_of c) :: u8)) = c" for c
    using byte_of_bound [of c] by (simp add: unsigned_of_nat take_bit_nat_eq_self byte_of_def)
  then show ?thesis by (induction s) (simp_all add: bytes_of_def text_of_def)
qed

lemma stem_extension_cases:
  "fst (stem_extension n) = n \<or>
   (\<exists>e. n = fst (stem_extension n) @ CHR ''.'' # e \<and> CHR ''.'' \<notin> set e)"
proof (cases "split_once CHR ''.'' (rev n)")
  case None
  then show ?thesis by (simp add: stem_extension_def rsplit_once_def)
next
  case (Some ba)
  obtain b a where ba: "ba = (b, a)" by (cases ba)
  have b: "rev n = b @ CHR ''.'' # a" "CHR ''.'' \<notin> set b"
    using split_once_Some [of "CHR ''.''" "rev n" b a] Some ba by auto
  have "n = rev (b @ CHR ''.'' # a)" using b(1) by (metis rev_rev_ident)
  then have "n = rev a @ CHR ''.'' # rev b" by simp
  then show ?thesis using b(2) Some ba by (auto simp: stem_extension_def rsplit_once_def)
qed

lemma tmp_ne: "config_tmp p \<noteq> p"
proof
  assume eq: "config_tmp p = p"
  let ?n = "file_name p"
  let ?d = "take (length p - length ?n) p"
  have "\<exists>d. p = d @ ?n"
  proof -
    have "p = join ''/'' (split_on CHR ''/'' p)" by (simp add: join_split_on)
    also have "split_on CHR ''/'' p = butlast (split_on CHR ''/'' p) @ [?n]"
      by (simp add: file_name_def)
    finally show ?thesis
      by (cases "butlast (split_on CHR ''/'' p) = []") (metis append_Nil join.simps(2), metis append.assoc join_append join.simps(2) not_Cons_self2)
  qed
  then obtain d where d: "p = d @ ?n" by blast
  then have "?d = d" by (metis append_eq_conv_conj append_take_drop_id diff_add_inverse2 length_append)
  then have "p = d @ fst (stem_extension ?n) @ ''.toml.tmp''"
    using eq by (simp add: config_tmp_def with_extension_def)
  then have ext: "?n = fst (stem_extension ?n) @ ''.toml.tmp''" using d by (metis same_append_eq)
  show False
    using stem_extension_cases [of ?n]
  proof
    assume "fst (stem_extension ?n) = ?n"
    then show False using ext by (metis append_self_conv list.distinct(1))
  next
    assume "\<exists>e. ?n = fst (stem_extension ?n) @ CHR ''.'' # e \<and> CHR ''.'' \<notin> set e"
    then obtain e where e: "?n = fst (stem_extension ?n) @ CHR ''.'' # e" "CHR ''.'' \<notin> set e" by blast
    then have "CHR ''.'' # e = ''.toml.tmp''" using ext by (metis same_append_eq)
    then show False using e(2) by auto
  qed
qed

lemma append_created:
  "fst (fs_create q s) = Ok () \<Longrightarrow> fst (fs_append q bs (snd (fs_create q s))) = Ok () \<Longrightarrow>
     fs_lookup (snd (fs_append q bs (snd (fs_create q s)))) q = Some \<lparr>f_data = bs, f_modified = fs_time s\<rparr>"
  by (auto simp: fs_create_def fs_append_def split: option.splits)

lemma tmp_frame:
  "fs_same_except {config_tmp p} s (snd (fs_create (config_tmp p) s))"
  "fs_same_except {config_tmp p} s (snd (fs_append (config_tmp p) bs (snd (fs_create (config_tmp p) s))))"
  by (rule frame_create, simp) (rule fs_same_except_trans [OF frame_create frame_append], simp_all)

lemma rename_failed: "fst (fs_rename a b s) = Err e \<Longrightarrow> snd (fs_rename a b s) = s"
  by (auto simp: fs_rename_def split: option.splits)

text \<open>How a save can end: with the destination untouched and at most the temporary file
  changed, or complete.\<close>

lemma config_save_cases:
  obtains (failed) e where "fst (config_save_to toml sync v p s) = Err e"
      "ce_code e \<in> {EC_ConfigError, EC_IoError}"
      "fs_same_except {config_tmp p} s (snd (config_save_to toml sync v p s))"
  | (saved) body s2 where "fst (config_save_to toml sync v p s) = Ok ()" "toml v = Ok body"
      "fs_same_except {config_tmp p} s s2"
      "fs_lookup s2 (config_tmp p) = Some \<lparr>f_data = bytes_of body, f_modified = fs_time s\<rparr>"
      "fst (fs_rename (config_tmp p) p s2) = Ok ()"
      "snd (config_save_to toml sync v p s) = snd (fs_rename (config_tmp p) p s2)"
proof -
  let ?t = "config_tmp p"
  let ?s1 = "snd (fs_create ?t s)"
  show thesis
  proof (cases "toml v")
    case (Inl e)
    show thesis
      by (rule failed, simp add: config_save_to_def Inl, simp add: core_error_with_source_def)
        (simp add: config_save_to_def Inl)
  next
    case body: (Inr body)
    let ?s2 = "snd (fs_append ?t (bytes_of body) ?s1)"
    show thesis
    proof (cases "if path_parent p = [] then Ok () else fs_mkdir_all (path_parent p) s")
      case (Inl e)
      show thesis
        by (rule failed, simp add: config_save_to_def body Inl)
          (simp_all add: config_save_to_def body Inl core_error_with_source_def io_fail_def)
    next
      case dir: (Inr u)
      show thesis
      proof (cases "fst (fs_create ?t s)")
        case (Inl e)
        show thesis
          by (rule failed, simp add: config_save_to_def body dir Inl split_beta)
            (use tmp_frame in \<open>simp_all add: config_save_to_def body dir Inl
              core_error_with_source_def io_fail_def split_beta\<close>)
      next
        case cr: (Inr u)
        show thesis
        proof (cases "fst (fs_append ?t (bytes_of body) ?s1)")
          case (Inl e)
          show thesis
            by (rule failed, simp add: config_save_to_def body dir cr Inl split_beta)
            (use tmp_frame in \<open>simp_all add: config_save_to_def body dir cr Inl
              core_error_with_source_def io_fail_def split_beta\<close>)
        next
          case ap: (Inr u)
          show thesis
          proof (cases "sync ?t")
            case (Some e)
            show thesis
              by (rule failed, simp add: config_save_to_def body dir cr ap Some split_beta)
            (use tmp_frame in \<open>simp_all add: config_save_to_def body dir cr ap Some
              core_error_with_source_def io_fail_def split_beta\<close>)
          next
            case sy: None
            show thesis
            proof (cases "fst (fs_rename ?t p ?s2)")
              case (Inl e)
              show thesis
                by (rule failed, simp add: config_save_to_def body dir cr ap sy Inl split_beta)
                  (use tmp_frame rename_failed [OF Inl] in
                  \<open>simp_all add: config_save_to_def body dir cr ap sy Inl
                  core_error_with_source_def io_fail_def split_beta\<close>)
            next
              case rn: (Inr u)
              show thesis
                by (rule saved [of body ?s2]) (use tmp_frame append_created [of ?t s "bytes_of body"] in
                  \<open>simp_all add: config_save_to_def body dir cr ap sy rn split_beta\<close>)
            qed
          qed
        qed
      qed
    qed
  qed
qed

text \<open>C29: A save is all or nothing: when it fails, the configuration file is what it was and only
  the temporary file may have changed; when it succeeds, the file holds exactly the
  serialized bytes and the temporary file is gone. No other file is touched.\<close>

theorem config_save_atomic:
  "let (r, s') = config_save_to toml sync v p s
   in fs_same_except {p, config_tmp p} s s' \<and>
      (case r of
         Inl e \<Rightarrow> fs_lookup s' p = fs_lookup s p \<and> ce_code e \<in> {EC_ConfigError, EC_IoError}
       | Inr _ \<Rightarrow> (\<exists>body. toml v = Ok body \<and>
           fs_lookup s' p = Some \<lparr>f_data = bytes_of body, f_modified = fs_time s\<rparr> \<and>
           fs_lookup s' (config_tmp p) = None))"
proof (cases rule: config_save_cases [of toml sync v p s])
  case (failed e)
  have "fs_same_except {p, config_tmp p} s (snd (config_save_to toml sync v p s))"
    using failed(3) by (rule fs_same_except_mono) blast
  moreover have "fs_lookup (snd (config_save_to toml sync v p s)) p = fs_lookup s p"
    using failed(3) tmp_ne [of p] by (simp add: fs_same_except_def)
  ultimately show ?thesis using failed(1,2) by (simp add: split_beta)
next
  case (saved body s2)
  have "fs_same_except {p, config_tmp p} s (snd (config_save_to toml sync v p s))"
    unfolding saved(6)
    by (rule fs_same_except_trans [OF fs_same_except_mono [OF saved(3)]])
      (blast, rule frame_rename, simp_all)
  moreover have "fs_lookup (snd (config_save_to toml sync v p s)) p =
      Some \<lparr>f_data = bytes_of body, f_modified = fs_time s\<rparr>"
    "fs_lookup (snd (config_save_to toml sync v p s)) (config_tmp p) = None"
    using rename_Ok [OF saved(5)] saved(4,6) tmp_ne [of p] by simp_all
  ultimately show ?thesis using saved(1,2) by (simp add: split_beta)
qed

text \<open>C30: After a successful save, loading gives back the value that was saved exactly when the
  reader inverts the writer on it and the text is not blank: a value whose serialization is
  blank is saved and then refused as an empty file.\<close>

theorem config_save_load:
  assumes "fst (config_save_to w sync v p s) = Ok ()"
    and "w v = Ok body" and "valid_text body"
    and "fs_deny s IoOpen p = None" and "fs_deny s IoRead p = None"
  shows "config_load r (snd (config_save_to w sync v p s)) p =
     (if trim body = [] then Err (core_error_new EC_ConfigError (''configuration file is empty: '' @ p))
      else case r body of
          Inl e \<Rightarrow> Err (core_error_with_source EC_ConfigError (''malformed configuration in '' @ p) e)
        | Inr u \<Rightarrow> Ok \<lparr>cf_inner = u, cf_path = p\<rparr>)"
proof (cases rule: config_save_cases [of w sync v p s])
  case (failed e)
  then show ?thesis using assms(1) by simp
next
  case (saved body' s2)
  let ?s' = "snd (config_save_to w sync v p s)"
  have look: "fs_lookup ?s' p = Some \<lparr>f_data = bytes_of body, f_modified = fs_time s\<rparr>"
    using rename_Ok [OF saved(5)] saved(2,4,6) assms(2) by simp
  have "fs_same_except {p, config_tmp p} s s2"
    using saved(3) by (rule fs_same_except_mono) blast
  then have "fs_same_except {p, config_tmp p} s ?s'"
    unfolding saved(6) by (rule fs_same_except_trans) (rule frame_rename, simp_all)
  then have deny: "fs_deny ?s' = fs_deny s" by (simp add: fs_same_except_def)
  have "fs_read_to_string ?s' p = Ok body"
    using look deny assms(3-5) by (simp add: fs_read_to_string_def fs_read_def)
  then show ?thesis by (auto simp: config_load_def split: sum.splits)
qed

lemma config_save_succeeds:
  assumes allowed: "\<And>op q. fs_deny s op q = None" and sync: "\<And>q. sync q = None" and "is_ok (w v)"
  shows "fst (config_save_to w sync v p s) = Ok ()"
proof -
  obtain body where body: "w v = Ok body" using assms(3) by (auto simp: is_ok_iff)
  let ?s1 = "fs_put (config_tmp p) \<lparr>f_data = [], f_modified = fs_time s\<rparr> s"
  let ?s2 = "fs_put (config_tmp p) \<lparr>f_data = bytes_of body, f_modified = fs_time s\<rparr> ?s1"
  have "fs_create (config_tmp p) s = (Ok (), ?s1)" by (simp add: fs_create_def allowed)
  moreover have "fs_append (config_tmp p) (bytes_of body) ?s1 = (Ok (), ?s2)"
    by (simp add: fs_append_def allowed)
  moreover have "fst (fs_rename (config_tmp p) p ?s2) = Ok ()"
    by (simp add: fs_rename_def allowed)
  moreover have "(if path_parent p = [] then Ok () else fs_mkdir_all (path_parent p) s) = Ok ()"
    by (simp add: fs_mkdir_all_def allowed)
  ultimately show ?thesis by (simp add: config_save_to_def body sync split_beta)
qed

definition sample_writer :: "bool toml_writer" where
  "sample_writer b = Ok (if b then ''on = true'' else '''')"

definition sample_reader :: "bool toml_reader" where
  "sample_reader t = (if t = ''on = true'' then Ok True else Err ''expected a key'')"

lemma config_save_load_witness:
  "let s = \<lparr>fs_files = [], fs_deny = (\<lambda>_ _. None), fs_time = 4\<rparr>;
       s1 = snd (config_save_to sample_writer (\<lambda>_. None) True ''/etc/a.toml'' s);
       s2 = snd (config_save_to sample_writer (\<lambda>_. None) False ''/etc/a.toml'' s)
   in config_load sample_reader s1 ''/etc/a.toml'' = Ok \<lparr>cf_inner = True, cf_path = ''/etc/a.toml''\<rparr>
    \<and> \<not> is_ok (config_load sample_reader s2 ''/etc/a.toml'')"
proof -
  let ?s = "\<lparr>fs_files = [], fs_deny = (\<lambda>_ _. None), fs_time = 4\<rparr>"
  have ok: "fst (config_save_to sample_writer (\<lambda>_. None) b ''/etc/a.toml'' ?s) = Ok ()" for b
    by (rule config_save_succeeds) (simp_all add: sample_writer_def is_ok_def)
  show ?thesis
    using config_save_load [OF ok, of True "''on = true''" sample_reader]
      config_save_load [OF ok, of False "''''" sample_reader]
    by (simp add: sample_writer_def sample_reader_def valid_text_def byte_of_def trim_def trim_end_def
        trim_start_def is_ws_def is_ok_def)
qed

text \<open>A missing file, and nothing else, is replaced by the default.\<close>

lemma load_or_default_default:
  "config_load_or_default toml d s p = Ok c \<longleftrightarrow>
     config_load toml s p = Ok c \<or>
     (\<exists>e. config_load toml s p = Err e \<and> ce_code e = EC_NotFound) \<and> c = \<lparr>cf_inner = d, cf_path = p\<rparr>"
  by (auto simp: config_load_or_default_def split: sum.splits)

end
