(* ===== verification/Processes.thy ===== *)
theory Processes
  imports Driverd Securityd Core_Config
begin

text \<open>
  The two services as processes (the main.rs files): what they take from the environment
  variables and the file system before they start. \<open>var\<close> is \<open>std::env::var\<close>, with None
  for a variable that is not set or no text. The TOML and JSON readers, the PolKit
  connection, the bus and the detected system are arguments.
\<close>

section \<open>The environment\<close>

definition driverd_config_path :: path where
  "driverd_config_path = ''/etc/mission/driverd.toml''"

definition securityd_config_path :: path where
  "securityd_config_path = ''/etc/mission/securityd.toml''"

definition config_path_from :: "string \<Rightarrow> path \<Rightarrow> (string \<Rightarrow> string option) \<Rightarrow> path" where
  "config_path_from name fallback var = (case var name of Some p \<Rightarrow> p | None \<Rightarrow> fallback)"

text \<open>Any value sets the bypass.\<close>

definition allow_unauthorized :: "(string \<Rightarrow> string option) \<Rightarrow> bool" where
  "allow_unauthorized var = (var ''MISSION_ALLOW_UNAUTHORIZED'' \<noteq> None)"

definition read_config_file :: "fs \<Rightarrow> path \<Rightarrow> io_error_kind + string" where
  "read_config_file s p = map_sum fst id (fs_read_to_string s p)"

section \<open>The processes\<close>

definition driverd_config_at_start ::
  "(string \<Rightarrow> string + driver_config) \<Rightarrow> (string \<Rightarrow> string option) \<Rightarrow> fs \<Rightarrow> driver_config" where
  "driverd_config_at_start toml var s =
     load_config toml (read_config_file s
       (config_path_from ''MISSION_DRIVERD_CONFIG'' driverd_config_path var))"

definition driverd_process ::
  "(string \<Rightarrow> string + driver_config) \<Rightarrow> (bytes \<Rightarrow> json option) \<Rightarrow> (string \<Rightarrow> string option)
     \<Rightarrow> polkit_conn \<Rightarrow> (driverd_startup \<Rightarrow> bool) \<Rightarrow> system_info \<Rightarrow> 'k driverd_env \<Rightarrow> fs \<Rightarrow> 'k
     \<Rightarrow> int + driverd_app \<times> 'k driverd_state" where
  "driverd_process toml parse var conn bus detected env s k =
     (let config = driverd_config_at_start toml var s;
          app = driverd_app_new parse conn (allow_unauthorized var) config detected s
      in map_sum id (Pair app) (fst (driverd_main bus env config s k)))"

text \<open>What the clients send and the clock shows is the rest of the environment.\<close>

definition securityd_process ::
  "(string \<Rightarrow> string + security_config) \<Rightarrow> (string \<Rightarrow> string option)
     \<Rightarrow> (startup_step \<Rightarrow> bool) \<Rightarrow> sec_env \<Rightarrow> fs \<Rightarrow> int + sec_env \<times> sec_state" where
  "securityd_process toml var bus env s =
     (let env1 = env\<lparr>sn_config := sec_load_config toml (read_config_file s
            (config_path_from ''MISSION_SECURITYD_CONFIG'' securityd_config_path var)),
          sn_allow_unauthorized := allow_unauthorized var\<rparr>
      in map_sum id (Pair env1) (fst (sec_main bus env1)))"

section \<open>What the environment decides\<close>

text \<open>Even a variable that says no opens both services.\<close>

lemma any_value_bypasses:
  "allow_unauthorized [''MISSION_ALLOW_UNAUTHORIZED'' \<mapsto> v]"
  "\<not> allow_unauthorized Map.empty"
  by (simp_all add: allow_unauthorized_def)

lemma driverd_process_started:
  "driverd_process toml parse var conn bus detected env s k = Inr (app, st) \<longleftrightarrow>
     app = driverd_app_new parse conn (allow_unauthorized var)
       (driverd_config_at_start toml var s) detected s
   \<and> fst (driverd_main bus env (driverd_config_at_start toml var s) s k) = Inr st"
  by (cases "fst (driverd_main bus env (driverd_config_at_start toml var s) s k)")
    (auto simp: driverd_process_def Let_def)

text \<open>A missing, unreadable or malformed file means the strict defaults.\<close>

lemma driverd_config_at_start_defaults:
  assumes "fs_lookup s (config_path_from ''MISSION_DRIVERD_CONFIG'' driverd_config_path var) = None"
  shows "driverd_config_at_start toml var s = driver_config_default"
  using assms
  by (simp add: driverd_config_at_start_def read_config_file_def fs_read_to_string_def fs_read_def
      load_config_cases split: option.splits)

end
