(* ===== verification/Driverd_Interleaving.thy ===== *)
theory Driverd_Interleaving
  imports Driverd_Tasks Driverd_Kernel Processes
begin

text \<open>
  Calls, ticks and outside changes in any order, and their pieces interleaved in any way:
  what still holds then. The pool is the list of all tasks ever started; a move starts one,
  runs the next piece of one, or changes files and kernel from outside. It has more runs than
  the code: two ticks of one kind, which a loop starts one after the other, may overlap here.
\<close>

section \<open>The pool\<close>

datatype 'k move = Arrive "'k driverd_env \<times> 'k driverd_event" | Run nat | Change fs 'k

fun pool_step ::
  "driverd_app \<Rightarrow> 'k move \<Rightarrow> 'k task list \<times> 'k driverd_state \<Rightarrow> 'k task list \<times> 'k driverd_state" where
  "pool_step app (Arrive e) (ts, s) = (ts @ [event_task app e], s)"
| "pool_step app (Run i) (ts, s) =
     (if i < length ts then
        (let (t, s1) = task_step (ts ! i) s in (ts[i := t], s1))
      else (ts, s))"
| "pool_step app (Change f k) (ts, s) = (ts, on_world (\<lambda>w. w\<lparr>w_fs := f, w_kernel := k\<rparr>) s)"

definition pool_run ::
  "driverd_app \<Rightarrow> 'k move list \<Rightarrow> 'k task list \<times> 'k driverd_state \<Rightarrow> 'k task list \<times> 'k driverd_state" where
  "pool_run app = fold (pool_step app)"

lemma pool_run_simps [simp]:
  "pool_run app [] p = p" "pool_run app (m # ms) p = pool_run app ms (pool_step app m p)"
  by (simp_all add: pool_run_def)

section \<open>What a piece may do\<close>

text \<open>A piece outside the signalling sends nothing, draws at most two numbers, adds to the trail, keeps
  the inventory in order, and touches the kernel only when \<open>P\<close> holds.\<close>

definition quiet :: "bool \<Rightarrow> 'k driverd_state \<Rightarrow> 'k driverd_state \<Rightarrow> bool" where
  "quiet P s s' =
     (dv_sent s' = dv_sent s \<and> (\<exists>j\<le>2. w_seq (dv_world s') = w_seq (dv_world s) + of_nat j)
      \<and> log_extends (trail_of s) (trail_of s')
      \<and> (w_tracker (dv_world s) = [] \<and> known_table (w_inventory (dv_world s)) \<longrightarrow>
           w_tracker (dv_world s') = [] \<and> known_table (w_inventory (dv_world s')))
      \<and> (kernel_of s' = kernel_of s \<or> P))"

abbreviation signal_seq :: "driverd_signal \<Rightarrow> u64" where
  "signal_seq sg \<equiv> driverd_body_seq (dg_body sg)"

inductive well_behaved :: "bool \<Rightarrow> 'k task \<Rightarrow> bool" for P where
  finished: "well_behaved P (Finished r)"
| atomic: "(\<And>s. quiet P s (f s)) \<Longrightarrow> (\<And>s. well_behaved P (g s)) \<Longrightarrow> well_behaved P (Atomic f g)"
| number: "(\<And>n. \<exists>sg t. h n = Send sg t \<and> signal_seq sg = n \<and> well_behaved P t)
     \<Longrightarrow> well_behaved P (Number h)"

inductive_cases well_behaved_AtomicE: "well_behaved P (Atomic f g)"
inductive_cases well_behaved_NumberE: "well_behaved P (Number h)"
inductive_cases well_behaved_SendE: "well_behaved P (Send sg t)"

named_theorems task_intros "tasks that are well behaved"

lemmas [task_intros] = well_behaved.finished

lemma quiet_refl [simp]: "quiet P s s"
  by (auto simp: quiet_def intro: exI [of _ 0])

lemma quiet_check: "quiet P s (snd (check_caller env app a c s))"
proof -
  obtain b s1 where k: "check_caller env app a c s = (b, s1)" by (cases "check_caller env app a c s")
  show ?thesis
    using check_caller_facts(2) [OF k] by (auto simp: k quiet_def log_extends_def intro: exI [of _ 0])
qed

lemma quiet_audit: "quiet P s (snd (app_audit env cat sev a c d s))"
  by (auto simp: quiet_def intro: exI [of _ 0])

lemma emits_well_behaved [task_intros]:
  "well_behaved P t \<Longrightarrow> well_behaved P (event_then env e t)"
  "well_behaved P t \<Longrightarrow> well_behaved P (health_then env b m t)"
  "well_behaved P t \<Longrightarrow> well_behaved P (inventory_changed_then env t)"
  unfolding event_then_def health_then_def inventory_changed_then_def emit_then_def
  by (rule well_behaved.number; simp)+

lemma authorized_well_behaved [task_intros]:
  "well_behaved P t \<Longrightarrow> well_behaved P (authorized_then env app a c m t)"
  unfolding authorized_then_def
  by (intro well_behaved.atomic quiet_check) (simp add: well_behaved.finished)

lemma audit_well_behaved [task_intros]:
  "(\<And>e. well_behaved P (k e)) \<Longrightarrow> well_behaved P (audit_then env cat a c d k)"
  unfolding audit_then_def by (intro well_behaved.atomic quiet_audit)

lemma reading_well_behaved [task_intros]:
  "(\<And>s. well_behaved P (g s)) \<Longrightarrow> well_behaved P (reading g)"
  unfolding reading_def by (intro well_behaved.atomic) simp_all

lemma locked_well_behaved:
  assumes "\<And>r. well_behaved P (k r)" and "\<And>w. w_seq (snd (f w)) = w_seq w + of_nat (j w)"
    and "\<And>w. j w \<le> 2"
    and "\<And>w. log_extends (w_log w) (w_log (snd (f w)))"
    and "\<And>w. w_tracker w = [] \<Longrightarrow> w_tracker (snd (f w)) = []"
    and "\<And>w. w_tracker w = [] \<Longrightarrow> known_table (w_inventory w) \<Longrightarrow> known_table (w_inventory (snd (f w)))"
    and "\<And>w. w_kernel (snd (f w)) = w_kernel w \<or> P"
  shows "well_behaved P (locked f k)"
  unfolding locked_def
proof (rule well_behaved.atomic)
  fix s
  show "quiet P s (on_world (\<lambda>w. snd (f w)) s)"
    using assms(2-7) [of "dv_world s"] unfolding quiet_def by auto
qed (rule assms(1))

section \<open>The tasks of the service are well behaved\<close>

text \<open>The command may depend on the inventory, as the devices of an installation do.\<close>

lemma locked_command:
  assumes "\<And>r. well_behaved P (k r)" and "\<And>w d. admitted env en (cmd w) w d \<Longrightarrow> P"
    and "\<And>w. f w = run_command env en (cmd w) w"
  shows "well_behaved P (locked f k)"
proof (rule locked_well_behaved)
  fix w
  show "w_seq (snd (f w)) = w_seq w + of_nat (if w_seq (snd (f w)) = w_seq w + 1 then 1 else 2)"
    using seq_command [of w env en "cmd w"] by (auto simp: takes_numbers_def assms(3))
  show "(if w_seq (snd (f w)) = w_seq w + 1 then 1 else 2) \<le> (2::nat)" by simp
  show "log_extends (w_log w) (w_log (snd (f w)))" unfolding assms(3) by (rule engine.extends)
  show "w_tracker w = [] \<Longrightarrow> w_tracker (snd (f w)) = []"
    unfolding assms(3) by (rule engine.releases)
  show "known_table (w_inventory (snd (f w)))" if "w_tracker w = []" "known_table (w_inventory w)"
    using engine.keeps_ids [OF that(1), of env en "cmd w"] that(2) by (simp add: known_table_def assms(3))
  show "w_kernel (snd (f w)) = w_kernel w \<or> P"
    unfolding assms(3) using command_needs_admission [of env en "cmd w" w] assms(2) by blast
qed (rule assms(1))

lemma locked_operations [task_intros]:
  assumes "\<And>r. well_behaved P (k r)"
  shows "(permitted env en InstallDriver c \<Longrightarrow> P) \<Longrightarrow>
      well_behaved P (locked (\<lambda>w. install_driver env en iq c (inv_devices (w_inventory w)) w) k)"
    "(permitted env en RemoveDriver c \<Longrightarrow> P) \<Longrightarrow> well_behaved P (locked (remove_driver env en rq c) k)"
    "(permitted env en UpdateDriver c \<Longrightarrow> P) \<Longrightarrow> well_behaved P (locked (update_driver env en uq c) k)"
  using locked_command [where cmd = "\<lambda>w. CmdInstall iq c (inv_devices (w_inventory w))" and env = env
      and en = en and P = P, OF assms]
    locked_command [where cmd = "\<lambda>w. CmdRemove rq c" and env = env and en = en and P = P, OF assms]
    locked_command [where cmd = "\<lambda>w. CmdUpdate uq c" and env = env and en = en and P = P, OF assms]
  by (simp_all add: install_admitted_def remove_admitted_def update_admitted_def)

lemma locked_scan:
  assumes "\<And>r. well_behaved P (k r)" and "\<And>w. snd (f w) = snd (scan_world env w)"
  shows "well_behaved P (locked f k)"
proof (rule locked_well_behaved [where j = "\<lambda>_. 0"])
  fix w
  note f = scan_world_fields [of env w "fst (scan_world env w)" "snd (scan_world env w)", simplified]
  show "(0::nat) \<le> 2" by simp
  show "w_seq (snd (f w)) = w_seq w + of_nat 0" "log_extends (w_log w) (w_log (snd (f w)))"
    "w_kernel (snd (f w)) = w_kernel w \<or> P" using f assms(2) by simp_all
  show "w_tracker w = [] \<Longrightarrow> w_tracker (snd (f w)) = []" using f assms(2) by simp
  show "known_table (w_inventory (snd (f w)))"
    using scan_table [of env w] assms(2) by (simp add: known_table_def)
qed (rule assms(1))

lemma locked_match:
  assumes "\<And>r. well_behaved P (k r)"
  shows "well_behaved P (locked (\<lambda>w. ((), match_world env (snd (scan_world env w)))) k)"
proof (rule locked_well_behaved [where j = "\<lambda>_. 0"])
  fix w
  note f = scan_world_fields [of env w "fst (scan_world env w)" "snd (scan_world env w)", simplified]
  show "(0::nat) \<le> 2" by simp
  show "w_seq (snd ((), match_world env (snd (scan_world env w)))) = w_seq w + of_nat 0"
    "log_extends (w_log w) (w_log (snd ((), match_world env (snd (scan_world env w)))))"
    "w_kernel (snd ((), match_world env (snd (scan_world env w)))) = w_kernel w \<or> P"
    using f by simp_all
  show "w_tracker w = [] \<Longrightarrow> w_tracker (snd ((), match_world env (snd (scan_world env w)))) = []"
    using f by simp
  show "known_table (w_inventory (snd ((), match_world env (snd (scan_world env w)))))"
    using scan_table [of env w] by (simp add: known_table_def)
qed (rule assms)

lemma locked_files:
  assumes "\<And>r. well_behaved P (k r)" and "\<And>w. \<exists>g. snd (f w) = w\<lparr>w_fs := g\<rparr>"
  shows "well_behaved P (locked f k)"
proof (rule locked_well_behaved [where j = "\<lambda>_. 0"])
  fix w
  obtain g where g: "snd (f w) = w\<lparr>w_fs := g\<rparr>" using assms(2) by blast
  show "(0::nat) \<le> 2" by simp
  show "w_seq (snd (f w)) = w_seq w + of_nat 0" "log_extends (w_log w) (w_log (snd (f w)))"
    "w_kernel (snd (f w)) = w_kernel w \<or> P" by (simp_all add: g)
  show "w_tracker w = [] \<Longrightarrow> w_tracker (snd (f w)) = []" by (simp add: g)
  show "known_table (w_inventory w) \<Longrightarrow> known_table (w_inventory (snd (f w)))" by (simp add: g)
qed (rule assms(1))

text \<open>The arrivals that may reach the kernel: what the engine permits to the caller of a request
  that parses and is valid, and the outside.\<close>

definition engine_actions :: "driver_action set" where
  "engine_actions = {InstallDriver, RemoveDriver, UpdateDriver}"

fun may_touch :: "driverd_app \<Rightarrow> 'k driverd_env \<times> 'k driverd_event \<Rightarrow> bool" where
  "may_touch app (env, CallPrivileged p c) =
     (privileged_action p \<in> engine_actions \<and> accepts env p
      \<and> permitted (dn_exec env) (ap_engine app) (privileged_action p) c)"
| "may_touch app (env, Outside f k) = True"
| "may_touch app (env, _) = False"

lemma event_task_well_behaved:
  assumes touch: "may_touch app (env, ev) \<Longrightarrow> P"
  shows "well_behaved P (event_task app (env, ev))"
proof (cases ev)
  case (CallPrivileged p c)
  then show ?thesis
  proof (cases p)
    case ScanCall
    then show ?thesis
      using CallPrivileged
      by (auto simp: scan_task_def Let_def split_beta split: sum.split
          intro!: task_intros locked_scan [of P _ _ env])
  next
    case (InstallCall j)
    then show ?thesis
      using CallPrivileged touch
      by (auto simp: install_task_def Let_def engine_actions_def parses_iff split: sum.split
          intro!: task_intros)
  next
    case (RemoveCall j)
    then show ?thesis
      using CallPrivileged touch
      by (auto simp: remove_task_def Let_def engine_actions_def parses_iff split: sum.split
          intro!: task_intros)
  next
    case (UpdateCall j)
    then show ?thesis
      using CallPrivileged touch
      by (auto simp: update_task_def Let_def engine_actions_def parses_iff split: sum.split
          intro!: task_intros)
  next
    case RefreshCall
    then show ?thesis using CallPrivileged by (auto simp: refresh_task_def intro!: task_intros)
  next
    case ClearCall
    then show ?thesis
      using CallPrivileged
      by (auto simp: clear_cache_task_def split_beta intro!: task_intros locked_files)
  qed
next
  case TickPoll
  have "quiet P s (snd (poll_hardware_events env s))" for s
    by (auto simp: poll_hardware_events_def split_beta quiet_def intro: exI [of _ 0])
  then show ?thesis
    using TickPoll
    by (auto simp: poll_task_def intro!: well_behaved.atomic task_intros locked_match)
next
  case (Outside f k)
  then have P using touch by simp
  then show ?thesis
    using Outside
    by (auto simp: quiet_def intro!: well_behaved.atomic task_intros exI [of _ "0::nat"])
qed (auto simp: get_status_task_def list_drivers_task_def list_devices_task_def query_driver_task_def
    check_compatibility_task_def list_sources_task_def cache_status_task_def health_task_def Let_def
    intro!: task_intros)

section \<open>The invariant of the pool\<close>

text \<open>A number that a task has drawn and not yet sent.\<close>

fun held :: "'k task \<Rightarrow> u64 list" where
  "held (Send sg t) = [signal_seq sg]"
| "held _ = []"

fun ready :: "bool \<Rightarrow> 'k task \<Rightarrow> bool" where
  "ready P (Send sg t) = well_behaved P t"
| "ready P t = well_behaved P t"

lemma well_behaved_ready: "well_behaved P t \<Longrightarrow> ready P t \<and> held t = []"
  by (cases t) (auto elim: well_behaved_SendE)

text \<open>The numbers sent and held are distinct and below the counter, which is at most \<open>b\<close>: as
  long as \<open>b\<close> is a u64 this says the same of their 64-bit values.\<close>

definition numbered :: "nat \<Rightarrow> u64 list \<Rightarrow> 'k driverd_state \<Rightarrow> bool" where
  "numbered b hs s = (\<exists>ks js n. sent_numbers s = map of_nat ks
     \<and> mset hs = image_mset of_nat (mset js) \<and> distinct (ks @ js)
     \<and> list_all (\<lambda>k. k < n) (ks @ js) \<and> w_seq (dv_world s) = of_nat n \<and> n \<le> b)"

lemma numberedE:
  assumes "numbered b hs s"
  obtains ks js n where "sent_numbers s = map of_nat ks" "mset hs = image_mset of_nat (mset js)"
    "distinct (ks @ js)" "list_all (\<lambda>k. k < n) (ks @ js)" "w_seq (dv_world s) = of_nat n" "n \<le> b"
  using assms by (auto simp: numbered_def)

lemma numbered_distinct:
  assumes "numbered b hs s" and "b < 2 ^ 64"
  shows "distinct (sent_numbers s)" "\<forall>x\<in>set (sent_numbers s). x < w_seq (dv_world s)"
    "unat (w_seq (dv_world s)) \<le> b"
proof -
  obtain ks js n where k: "sent_numbers s = map of_nat ks" "distinct (ks @ js)"
    "list_all (\<lambda>k. k < n) (ks @ js)" and n: "w_seq (dv_world s) = of_nat n" "n \<le> b"
    by (rule numberedE [OF assms(1)])
  have below: "k < n" if "k \<in> set ks" for k using that k(3) by (auto simp: list_all_iff)
  have fits: "unat (of_nat k :: u64) = k" if "k \<le> n" for k
    using that n(2) assms(2) by (simp add: unat_of_nat take_bit_nat_eq_self)
  have "inj_on (of_nat :: nat \<Rightarrow> u64) (set ks)"
    by (rule inj_onI) (metis below fits less_imp_le)
  then show "distinct (sent_numbers s)" using k(2) by (simp add: k(1) distinct_map)
  show "\<forall>x\<in>set (sent_numbers s). x < w_seq (dv_world s)"
    using below fits by (fastforce simp: k(1) n(1) word_less_nat_alt)
  show "unat (w_seq (dv_world s)) \<le> b" using n fits [of n] by simp
qed

definition pool_inv :: "bool \<Rightarrow> nat \<Rightarrow> 'k driverd_state \<Rightarrow> 'k task list \<times> 'k driverd_state \<Rightarrow> bool" where
  "pool_inv P b s0 p = (list_all (ready P) (fst p)
     \<and> w_tracker (dv_world (snd p)) = [] \<and> known_table (w_inventory (dv_world (snd p)))
     \<and> log_extends (trail_of s0) (trail_of (snd p))
     \<and> (\<exists>later. dv_sent (snd p) = dv_sent s0 @ later)
     \<and> numbered b (concat (map held (fst p))) (snd p))"

lemma numbered_perm: "numbered b hs s \<Longrightarrow> mset hs = mset hs' \<Longrightarrow> numbered b hs' s"
  by (simp add: numbered_def)

lemma numbered_mono: "numbered b hs s \<Longrightarrow> b \<le> c \<Longrightarrow> numbered c hs s"
  unfolding numbered_def by (meson le_trans)

lemma numbered_quiet:
  assumes "numbered b hs s" and "quiet P s s'" shows "numbered (b + 2) hs s'"
proof -
  obtain ks js n where k: "sent_numbers s = map of_nat ks"
    "mset hs = image_mset of_nat (mset js)" "distinct (ks @ js)"
    "list_all (\<lambda>k. k < n) (ks @ js)" "w_seq (dv_world s) = of_nat n" "n \<le> b"
    by (rule numberedE [OF assms(1)])
  obtain j where j: "w_seq (dv_world s') = w_seq (dv_world s) + of_nat j" "dv_sent s' = dv_sent s" "j \<le> 2"
    using assms(2) by (auto simp: quiet_def)
  have "list_all (\<lambda>k. k < n + j) (ks @ js)"
    using k(4) unfolding list_all_iff by (meson trans_less_add1)
  then show ?thesis
    unfolding numbered_def sent_numbers_def using k [unfolded sent_numbers_def] j
    by (intro exI [of _ ks] exI [of _ js] exI [of _ "n + j"]) simp
qed

lemma numbered_draw:
  assumes "numbered b hs s"
  shows "numbered (b + 2) (fst (next_sequence (dv_world s)) # hs)
    (s\<lparr>dv_world := snd (next_sequence (dv_world s))\<rparr>)"
proof -
  obtain ks js n where k: "sent_numbers s = map of_nat ks"
    "mset hs = image_mset of_nat (mset js)" "distinct (ks @ js)"
    "list_all (\<lambda>k. k < n) (ks @ js)" "w_seq (dv_world s) = of_nat n" "n \<le> b"
    by (rule numberedE [OF assms])
  have "n \<notin> set (ks @ js)" "list_all (\<lambda>k. k < Suc n) (ks @ js)"
    using k(4) unfolding list_all_iff by (blast, fastforce)
  then show ?thesis
    unfolding numbered_def sent_numbers_def next_sequence_def using k [unfolded sent_numbers_def]
    by (intro exI [of _ ks] exI [of _ "n # js"] exI [of _ "Suc n"]) auto
qed

lemma numbered_send:
  assumes "numbered b (signal_seq sg # hs) s"
  shows "numbered b hs (s\<lparr>dv_sent := dv_sent s @ [sg]\<rparr>)"
proof -
  obtain ks js n where k: "sent_numbers s = map of_nat ks"
    "mset (signal_seq sg # hs) = image_mset of_nat (mset js)" "distinct (ks @ js)"
    "list_all (\<lambda>k. k < n) (ks @ js)" "w_seq (dv_world s) = of_nat n" "n \<le> b"
    by (rule numberedE [OF assms])
  from k(2) have "signal_seq sg \<in># image_mset of_nat (mset js)" by (metis set_mset_mset list.set_intros(1))
  then obtain j where j: "j \<in> set js" "signal_seq sg = of_nat j" by auto
  have "mset js = add_mset j (mset (remove1 j js))" using j(1) by simp
  then have "image_mset (of_nat :: nat \<Rightarrow> u64) (mset js) =
      add_mset (of_nat j) (image_mset of_nat (mset (remove1 j js)))"
    by (metis image_mset_add_mset)
  then have "mset hs = image_mset of_nat (mset (remove1 j js))" using k(2) j(2) by simp
  moreover have "distinct ((ks @ [j]) @ remove1 j js)" "list_all (\<lambda>k. k < n) ((ks @ [j]) @ remove1 j js)"
    using k(3,4) j(1) unfolding list_all_iff by (auto dest: notin_set_remove1)
  ultimately show ?thesis
    unfolding numbered_def sent_numbers_def using k [unfolded sent_numbers_def] j(2)
    by (intro exI [of _ "ks @ [j]"] exI [of _ "remove1 j js"] exI [of _ n]) simp
qed

lemma pool_inv_run:
  assumes inv: "pool_inv P b s0 (ts, s)" and i: "i < length ts"
  shows "pool_inv P (b + 2) s0 (ts[i := fst (task_step (ts ! i) s)], snd (task_step (ts ! i) s))"
    "kernel_of (snd (task_step (ts ! i) s)) = kernel_of s \<or> P"
proof -
  define xs ys where "xs = take i ts" "ys = drop (Suc i) ts"
  have ts: "ts = xs @ ts ! i # ys" "length xs = i"
    using i by (simp_all add: xs_ys_def id_take_nth_drop)
  let ?hs = "concat (map held xs) @ concat (map held ys)"
  have upd: "ts[i := t] = xs @ t # ys" for t using ts by (metis list_update_length)
  have r: "list_all (ready P) xs" "ready P (ts ! i)" "list_all (ready P) ys"
  proof -
    have "list_all (ready P) ts" using inv by (simp add: pool_inv_def)
    then have "list_all (ready P) (xs @ ts ! i # ys)" by (rule subst [OF ts(1)])
    then show "list_all (ready P) xs" "ready P (ts ! i)" "list_all (ready P) ys" by simp_all
  qed
  have n: "numbered b (held (ts ! i) @ ?hs) s"
  proof -
    have "numbered b (concat (map held ts)) s" using inv by (simp add: pool_inv_def)
    then have "numbered b (concat (map held (xs @ ts ! i # ys))) s" by (rule subst [OF ts(1)])
    then show ?thesis by (rule numbered_perm) simp
  qed
  have rest: "w_tracker (dv_world s) = []" "known_table (w_inventory (dv_world s))"
    "log_extends (trail_of s0) (trail_of s)" "\<exists>later. dv_sent s = dv_sent s0 @ later"
    using inv by (simp_all add: pool_inv_def)
  let ?t = "fst (task_step (ts ! i) s)" and ?s = "snd (task_step (ts ! i) s)"
  have step: "ready P ?t \<and> numbered (b + 2) (held ?t @ ?hs) ?s \<and> w_tracker (dv_world ?s) = []
      \<and> known_table (w_inventory (dv_world ?s)) \<and> log_extends (trail_of s0) (trail_of ?s)
      \<and> (\<exists>later. dv_sent ?s = dv_sent s0 @ later) \<and> (kernel_of ?s = kernel_of s \<or> P)"
  proof (cases "ts ! i")
    case (Finished x)
    then show ?thesis using r n rest numbered_mono by fastforce
  next
    case (Atomic f g)
    then have "quiet P s (f s)" "well_behaved P (g s)"
      using r(2) by (auto elim: well_behaved_AtomicE)
    then show ?thesis
      using Atomic n rest numbered_quiet [OF _ \<open>quiet P s (f s)\<close>, of b ?hs] well_behaved_ready
        log_extends_trans unfolding quiet_def by fastforce
  next
    case (Number h)
    then have "well_behaved P (Number h)" using r(2) by simp
    then obtain sg t where h: "h (fst (next_sequence (dv_world s))) = Send sg t"
      "signal_seq sg = fst (next_sequence (dv_world s))" "well_behaved P t"
      by (rule well_behaved_NumberE) blast
    then show ?thesis
      using Number n rest numbered_draw [of b ?hs s] by (auto simp: split_beta next_sequence_def)
  next
    case (Send sg t)
    then show ?thesis
      using r(2) n rest numbered_mono [OF numbered_send [of b sg ?hs s], of "b + 2"]
        well_behaved_ready [of P t] by auto
  qed
  have perm: "mset (held ?t @ ?hs) = mset (concat (map held (ts[i := ?t])))"
    by (simp add: upd)
  have "numbered (b + 2) (held ?t @ ?hs) ?s" using step by blast
  then have "numbered (b + 2) (concat (map held (ts[i := ?t]))) ?s" by (rule numbered_perm [OF _ perm])
  moreover have "list_all (ready P) (ts[i := ?t])" using step r by (simp add: upd)
  ultimately show "pool_inv P (b + 2) s0 (ts[i := ?t], ?s)" using step by (simp add: pool_inv_def)
  show "kernel_of ?s = kernel_of s \<or> P" using step by blast
qed

text \<open>What the moves of the outside alone make of the kernel.\<close>

fun kernel_after :: "'k move \<Rightarrow> 'k \<Rightarrow> 'k" where
  "kernel_after (Change f k) _ = k"
| "kernel_after _ k = k"

lemma pool_inv_step:
  assumes inv: "pool_inv P b s0 (ts, s)" and touch: "\<And>e. m = Arrive e \<Longrightarrow> may_touch app e \<Longrightarrow> P"
  shows "pool_inv P (b + 2) s0 (pool_step app m (ts, s))
    \<and> (kernel_of (snd (pool_step app m (ts, s))) = kernel_after m (kernel_of s) \<or> P)"
proof (cases m)
  case (Arrive e)
  then have "well_behaved P (event_task app (fst e, snd e))"
    using touch event_task_well_behaved [of app "fst e" "snd e" P] by simp
  from well_behaved_ready [OF this] show ?thesis
    using inv Arrive numbered_mono [of b _ s "b + 2"] by (simp add: pool_inv_def)
next
  case (Run i)
  then show ?thesis
    using inv pool_inv_run [OF inv, of i] numbered_mono [of b _ s "b + 2"]
    by (simp add: split_beta pool_inv_def)
next
  case (Change f k)
  moreover have "numbered (b + 2) (concat (map held ts)) s"
    using inv numbered_mono [of b _ s "b + 2"] by (simp add: pool_inv_def)
  ultimately show ?thesis using inv by (simp add: pool_inv_def numbered_def sent_numbers_def)
qed

lemma pool_inv_moves:
  "pool_inv P b s0 p \<Longrightarrow> (\<And>e. Arrive e \<in> set ms \<Longrightarrow> may_touch app e \<Longrightarrow> P) \<Longrightarrow>
     pool_inv P (b + 2 * length ms) s0 (pool_run app ms p)
   \<and> (kernel_of (snd (pool_run app ms p)) = fold kernel_after ms (kernel_of (snd p)) \<or> P)"
proof (induction ms arbitrary: b p)
  case (Cons m ms)
  obtain ts s where p: "p = (ts, s)" by (cases p)
  have inv: "pool_inv P b s0 (ts, s)" using Cons.prems(1) p by simp
  have st: "pool_inv P (b + 2) s0 (pool_step app m (ts, s))
      \<and> (kernel_of (snd (pool_step app m (ts, s))) = kernel_after m (kernel_of s) \<or> P)"
    by (rule pool_inv_step [OF inv]) (use Cons.prems(2) in auto)
  have "pool_inv P (b + 2 + 2 * length ms) s0 (pool_run app ms (pool_step app m (ts, s)))
      \<and> (kernel_of (snd (pool_run app ms (pool_step app m (ts, s))))
         = fold kernel_after ms (kernel_of (snd (pool_step app m (ts, s)))) \<or> P)"
    by (rule Cons.IH) (use st Cons.prems(2) in auto)
  then show ?case using st unfolding p by (auto simp: add_ac)
qed simp

lemma pool_inv_start:
  assumes "driverd_inv s s" shows "pool_inv P (3 * length (dv_sent s)) s ([], s)"
proof -
  obtain ks n where "sent_numbers s = map of_nat ks" "sorted_wrt (<) (ks @ [n])"
      "w_seq (dv_world s) = of_nat n" "n \<le> 3 * length (dv_sent s)"
    using assms by (auto simp: driverd_inv_def numbered_below_def)
  then have "numbered (3 * length (dv_sent s)) [] s"
    unfolding numbered_def
    by (intro exI [of _ ks] exI [of _ "[]"] exI [of _ n])
      (auto simp: sorted_wrt_append list_all_iff strict_sorted_iff)
  then show ?thesis using assms by (simp add: pool_inv_def driverd_inv_def)
qed

lemma pool_starts:
  assumes "fst (driverd_main bus env config f k) = Inr s0"
  shows "s0 = emit_health_changed env True ''Service started successfully'' (driverd_boot env config f k)"
    "length (dv_sent s0) = 1" "pool_inv P 3 s0 ([], s0)"
proof -
  show s0: "s0 = emit_health_changed env True ''Service started successfully''
      (driverd_boot env config f k)"
    using assms by (auto simp: driverd_main_eq split_beta split: if_splits)
  have "dv_sent (driverd_boot env config f k) = []" by (simp add: driverd_boot_def Let_def)
  then show len: "length (dv_sent s0) = 1" by (simp add: s0 emit_health_changed_def)
  have "driverd_inv (driverd_boot env config f k) s0"
    using inv_emits(2) [OF inv_boot] by (simp add: s0)
  then have "driverd_inv s0 s0" by (auto simp: driverd_inv_def)
  from pool_inv_start [OF this] show "pool_inv P 3 s0 ([], s0)" by (simp add: len)
qed

section \<open>Interleaved runs of the service\<close>

text \<open>C35: However the calls and ticks of a started service are cut and interleaved and whatever
  changes outside: between two pieces no operation is half done, the inventory lists nothing
  or the built-in drivers, and the trail and the signals only grow. Unless the moves are so
  many that the counter could have wrapped, no two signals carry the same u64 and all are
  below the counter, which has run at most twice per move. The order of the signals is that
  of their numbers only without overlapping calls.\<close>

theorem interleavings_safe:
  "case fst (driverd_main bus env config f k) of
     Inl code \<Rightarrow> \<not> list_all bus driverd_startup_steps
   | Inr s0 \<Rightarrow> (let s = snd (pool_run app ms ([], s0))
       in w_tracker (dv_world s) = []
        \<and> map de_id (inv_drivers (w_inventory (dv_world s))) \<in> {[], builtin_ids}
        \<and> (\<exists>later. w_log (dv_world s) = w_log (dv_world s0) @ later)
        \<and> (\<exists>later. dv_sent s = dv_sent s0 @ later)
        \<and> (3 + 2 * length ms < 2 ^ 64 \<longrightarrow>
             distinct (map (driverd_body_seq \<circ> dg_body) (dv_sent s))
             \<and> (\<forall>x\<in>set (map (driverd_body_seq \<circ> dg_body) (dv_sent s)). x < w_seq (dv_world s))
             \<and> unat (w_seq (dv_world s)) \<le> 3 + 2 * length ms))"
proof (cases "fst (driverd_main bus env config f k)")
  case (Inl code)
  then show ?thesis
    using run_startup_iff [of bus driverd_startup_steps]
    by (auto simp: driverd_main_eq split_beta list_all_iff split: if_splits)
next
  case (Inr s0)
  from pool_inv_moves [OF pool_starts(3) [OF Inr], of ms app True]
  have p: "pool_inv True (3 + 2 * length ms) s0 (pool_run app ms ([], s0))" by simp
  then have "numbered (3 + 2 * length ms) (concat (map held (fst (pool_run app ms ([], s0)))))
      (snd (pool_run app ms ([], s0)))" by (simp add: pool_inv_def)
  note num = numbered_distinct [OF this, unfolded sent_numbers_def]
  show ?thesis
    using p num unfolding Inr pool_inv_def known_table_def log_extends_def by (simp add: Let_def)
qed

lemma interleavings_safe_witness:
  "case fst (driverd_main (\<lambda>_. True) sample_driverd_env driver_config_default (sample_fs []) []) of
     Inl code \<Rightarrow> False
   | Inr s0 \<Rightarrow> (let s = snd (pool_run (sample_app False)
         [Arrive (sample_driverd_env, TickHealth), Arrive (sample_driverd_env, TickHealth),
          Run 0, Run 1, Run 1, Run 0] ([], s0))
       in length (dv_sent s) = 3 \<and> distinct (map (driverd_body_seq \<circ> dg_body) (dv_sent s)))"
proof -
  let ?ms = "[Arrive (sample_driverd_env, TickHealth), Arrive (sample_driverd_env, TickHealth),
    Run 0, Run 1, Run 1, Run 0]"
  have ok: "snd (run_startup (\<lambda>_. True) driverd_startup_steps)"
    by (simp add: run_startup_iff list_all_iff)
  then obtain s0 where m: "fst (driverd_main (\<lambda>_. True) sample_driverd_env driver_config_default
      (sample_fs []) []) = Inr s0"
    by (simp add: driverd_main_eq split_beta)
  have len: "length (dv_sent (snd (pool_run (sample_app False) ?ms ([], s0)))) = 3"
    using pool_starts(2) [OF m]
    by (simp add: health_task_def health_then_def emit_then_def split_beta)
  show ?thesis
    using interleavings_safe [where bus = "\<lambda>_. True" and env = sample_driverd_env
        and config = driver_config_default and f = "sample_fs []" and k = "[]"
        and app = "sample_app False" and ms = ?ms] len
    unfolding m by (simp add: Let_def)
qed

text \<open>A status call draws its number, a health tick overtakes it on the way to the bus.\<close>

lemma numbers_overtake:
  "map (driverd_body_seq \<circ> dg_body) (dv_sent (snd (pool_run app
     [Arrive (env, CallStatus c), Run 0, Run 0, Run 0, Run 0,
      Arrive (env, TickHealth), Run 1, Run 1, Run 0]
     ([], s\<lparr>dv_sent := []\<rparr>)))) = [w_seq (dv_world s) + 1, w_seq (dv_world s)]"
proof -
  let ?s = "s\<lparr>dv_sent := []\<rparr>"
  obtain b s1 where k: "check_caller env app ViewStatus c ?s = (b, s1)"
    by (cases "check_caller env app ViewStatus c ?s")
  have "b" using check_caller_facts(1) [OF k] by (simp add: read_only_permitted is_read_only_def)
  then show ?thesis
    using k check_caller_facts(2) [OF k]
    by (auto simp: get_status_task_def authorized_then_def reading_def audit_then_def event_then_def
        health_task_def health_then_def emit_then_def next_sequence_def app_audit_def Let_def)
qed

lemma kernel_boot: "kernel_of (driverd_boot env config f k) = k"
proof (cases "ic_auto_detect_on_start (dc_inventory config)")
  case True
  let ?w = "\<lparr>w_fs = f, w_kernel = k, w_seq = 0, w_tracker = [], w_inventory = inventory_new, w_log = []\<rparr>"
  note scan_world_fields [of env ?w "fst (scan_world env ?w)" "snd (scan_world env ?w)", simplified]
  then show ?thesis using True by (auto simp: driverd_boot_def Let_def split: prod.split sum.split)
qed (simp add: driverd_boot_def)

lemma engine_new_permits:
  "\<not> is_read_only a \<Longrightarrow>
     permitted env (ap_engine (driverd_app_new parse conn bypass config detected f)) a c \<longleftrightarrow>
       bypass \<or> xe_runtime env \<and> (\<exists>ch. conn (polkit_request_for a c) = Reply True ch)"
  by (auto simp: permitted_def driverd_app_new_def engine_new_def clone_audit_def is_authorized_def
      fst_authorize fst_check_authorization_sync call_polkit_check_True Let_def)

text \<open>C3: However calls, ticks and outside changes of a started process are interleaved, the
  kernel is exactly what the outside made of it, unless an installation, removal or update
  arrived that parsed and was valid, and the bypass variable was set at the start or PolKit
  answers yes to this action for this caller.\<close>

theorem interleaved_kernel_guarded:
  fixes env0 :: "'k driverd_env"
  shows "case driverd_process toml parse var conn bus detected env0 f k of
      Inl code \<Rightarrow> code = 1
    | Inr (app, s) \<Rightarrow>
        w_kernel (dv_world (snd (pool_run app ms ([], s)))) = fold kernel_after ms k
      \<or> (\<exists>env g j. Arrive (env, Outside g j) \<in> set ms)
      \<or> (\<exists>env p c. Arrive (env, CallPrivileged p c) \<in> set ms \<and> accepts env p
           \<and> privileged_action p \<in> engine_actions
           \<and> ((\<exists>v. var ''MISSION_ALLOW_UNAUTHORIZED'' = Some v) \<or> xe_runtime (dn_exec env)
                \<and> (\<exists>ch. conn (polkit_request_for (privileged_action p) c) = Reply True ch)))"
proof (cases "driverd_process toml parse var conn bus detected env0 f k")
  case (Inl code)
  then show ?thesis
    by (auto simp: driverd_process_def driverd_main_eq Let_def split_beta map_sum_def split: if_splits sum.splits)
next
  case (Inr r)
  then obtain app s where r: "r = (app, s)" by (cases r)
  let ?c = "driverd_config_at_start toml var f"
  have app: "app = driverd_app_new parse conn (allow_unauthorized var) ?c detected f"
    and main: "fst (driverd_main bus env0 ?c f k) = Inr s"
    using Inr [unfolded r] by (simp_all add: driverd_process_started)
  note s = pool_starts(1) [OF main]
  from pool_inv_moves [OF pool_starts(3) [OF main], of ms app "\<exists>e. Arrive e \<in> set ms \<and> may_touch app e"]
  have "kernel_of (snd (pool_run app ms ([], s))) = fold kernel_after ms (kernel_of s)
      \<or> (\<exists>e. Arrive e \<in> set ms \<and> may_touch app e)" by auto
  moreover have "(\<exists>g j. ev = Outside g j) \<or> (\<exists>p c. ev = CallPrivileged p c \<and> accepts env p
      \<and> privileged_action p \<in> engine_actions \<and> ((\<exists>v. var ''MISSION_ALLOW_UNAUTHORIZED'' = Some v)
        \<or> xe_runtime (dn_exec env) \<and> (\<exists>ch. conn (polkit_request_for (privileged_action p) c) = Reply True ch)))"
    if "may_touch app (env, ev)" for env ev
    using that by (cases ev) (auto simp: app engine_new_permits allow_unauthorized_def)
  ultimately show ?thesis using Inr r s by (simp add: kernel_boot) blast
qed

end
