(* ===== verification/Securityd_Properties.thy ===== *)
theory Securityd_Properties
  imports Securityd
begin

text \<open>
  The contract of the privileged methods of securityd, by interpretation of
  \<open>guarded_method\<close>, and the behaviour of whole runs of requests: who can succeed, how
  signals are numbered, and what a request does to the firewall.
\<close>

section \<open>The privileged methods as one interface\<close>

datatype sec_privileged = SetProfile string | AddRule string | ExportLog

fun sec_privileged_call :: "sec_env \<Rightarrow> sec_privileged \<Rightarrow> string \<Rightarrow> sec_state \<Rightarrow> reply \<times> sec_state" where
  "sec_privileged_call env (SetProfile j) = set_firewall_profile env j"
| "sec_privileged_call env (AddRule j) = add_firewall_rule env j"
| "sec_privileged_call env ExportLog = export_audit_log env"

fun sec_accepts :: "sec_env \<Rightarrow> sec_privileged \<Rightarrow> bool" where
  "sec_accepts env (SetProfile j) =
     (case sn_parse_profile env j of Inl _ \<Rightarrow> False | Inr q \<Rightarrow> is_ok (profile_change_validate q))"
| "sec_accepts env (AddRule j) =
     (case sn_parse_rule env j of Inl _ \<Rightarrow> False | Inr r \<Rightarrow> is_ok (firewall_rule_validate r))"
| "sec_accepts env ExportLog = True"

fun sec_action_of :: "sec_privileged \<Rightarrow> security_action" where
  "sec_action_of (SetProfile _) = ConfigureFirewall"
| "sec_action_of (AddRule _) = ConfigureFirewall"
| "sec_action_of ExportLog = ExportAuditLog"

definition sec_denial :: "sec_env \<Rightarrow> security_action \<Rightarrow> string \<Rightarrow> sec_event" where
  "sec_denial env a c = sec_event_new (sn_now env) SecPrivilege SevWarning ''authorization_check'' c
     (''Denied: '' @ security_action_description a @ '' for '' @ c)"

lemma sec_check_privileged:
  "\<not> sec_is_read_only a \<Longrightarrow> fst (sec_check env a c s) = sn_allow_unauthorized env"
  "\<not> sec_is_read_only a \<Longrightarrow> \<not> sn_allow_unauthorized env \<Longrightarrow>
     snd (sec_check env a c s) = s\<lparr>ss_log := ss_log s @ [sec_denial env a c]\<rparr>"
  by (simp_all add: sec_check_def sec_authorize_def is_authorized_def sec_audit_authorization_def
      sec_denial_def)

lemma sec_check_read_only: "sec_is_read_only a \<Longrightarrow> fst (sec_check env a c s)"
  by (simp add: sec_check_def sec_authorize_def is_authorized_def)

lemma sec_check_state [simp]:
  "ss_seq (snd (sec_check env a c s)) = ss_seq s" "ss_sent (snd (sec_check env a c s)) = ss_sent s"
  by (simp_all add: sec_check_def split_beta)

lemma sec_check_log: "\<exists>e. ss_log (snd (sec_check env a c s)) = ss_log s @ [e]"
  by (simp add: sec_check_def sec_authorize_def sec_audit_authorization_def split_beta)

lemma sec_audit_emit_log [simp]:
  "ss_log (sec_audit_emit env sev a c d s) =
     ss_log s @ [sec_event_new (sn_now env) SecSecurity sev a c d]"
  by (simp add: sec_audit_emit_def sec_audit_def emit_security_event_def sec_next_sequence_def
      sec_emit_def Let_def)

lemma not_read_only [simp]: "\<not> sec_is_read_only (sec_action_of p)"
  by (cases p) (simp_all add: sec_is_read_only_def)

text \<open>The refused branches of all three methods in one form.\<close>

lemma sec_privileged_malformed:
  "\<not> sec_accepts env p \<Longrightarrow> \<exists>m. sec_privileged_call env p c s = (Err (FdoInvalidArgs m), s)"
  by (cases p) (auto simp: set_firewall_profile_def add_firewall_rule_def split: sum.splits)

lemma sec_privileged_denied:
  assumes "sec_accepts env p" "\<not> sn_allow_unauthorized env"
  shows "\<exists>m. sec_privileged_call env p c s =
     (Err (FdoAccessDenied m), s\<lparr>ss_log := ss_log s @ [sec_denial env (sec_action_of p) c]\<rparr>)"
  using assms sec_check_privileged [OF not_read_only, of env p c s]
  by (cases p)
    (auto simp: set_firewall_profile_def add_firewall_rule_def export_audit_log_def split_beta
      split: sum.splits)

lemma sec_privileged_allowed:
  assumes "sec_accepts env p" "sn_allow_unauthorized env"
  shows "\<exists>a d. snd (sec_privileged_call env p c s) =
     sec_audit_emit env SevInfo a c d (snd (sec_check env (sec_action_of p) c s))"
  using assms sec_check_privileged(1) [OF not_read_only, of env p c s]
  by (cases p)
    (auto simp: set_firewall_profile_def add_firewall_rule_def export_audit_log_def split_beta
      split: sum.splits)

lemma sec_privileged_log: "\<exists>evs. ss_log (snd (sec_privileged_call env p c s)) = ss_log s @ evs"
proof (cases "sec_accepts env p")
  case True
  show ?thesis
  proof (cases "sn_allow_unauthorized env")
    case True
    with \<open>sec_accepts env p\<close> show ?thesis
      using sec_privileged_allowed [of env p c s] sec_check_log [of env "sec_action_of p" c s] by auto
  next
    case False
    with True show ?thesis using sec_privileged_denied [of env p c s] by auto
  qed
next
  case False
  then show ?thesis using sec_privileged_malformed [of env p c s] by auto
qed

interpretation sec: guarded_method "sec_privileged_call env" "sec_accepts env"
  "\<lambda>_ _. sn_allow_unauthorized env" "\<lambda>s. (ss_seq s, ss_sent s)" ss_log for env
proof (unfold_locales, goal_cases)
  case (1 a c s)
  then show ?case by (rule sec_privileged_malformed)
next
  case (2 a c s)
  then show ?case using sec_privileged_denied [of env a c s] by auto
next
  case (3 a c s)
  then show ?case using sec_privileged_denied [of env a c s] by auto
next
  case (4 a c s)
  then show ?case using sec_privileged_denied [of env a c s] by auto
next
  case (5 a c s)
  show ?case by (rule sec_privileged_log)
qed

lemma sec_calls_denied_log:
  "\<not> sn_allow_unauthorized env \<Longrightarrow>
     ss_log (snd (sec.calls env cs s)) =
       ss_log s @ map (\<lambda>(p, c). sec_denial env (sec_action_of p) c)
         (filter (\<lambda>(p, c). sec_accepts env p) cs)"
proof (induction cs arbitrary: s)
  case (Cons pc cs)
  obtain p c where pc: "pc = (p, c)" by (cases pc)
  show ?case
  proof (cases "sec_accepts env p")
    case True
    then show ?thesis
      using Cons pc sec_privileged_denied [of env p c s] by (auto simp: Let_def)
  next
    case False
    then show ?thesis using Cons pc sec_privileged_malformed [of env p c s] by (auto simp: Let_def)
  qed
qed simp

text \<open>C26: Without the development bypass no privileged request of any sequence succeeds, whoever
  calls and whatever was recorded before: nothing is signalled, and the trail grows by
  exactly one denial, at warning severity, for every request whose arguments were valid.\<close>

theorem securityd_fails_closed:
  assumes "\<not> sn_allow_unauthorized env"
  shows "(\<forall>r\<in>set (fst (sec.calls env cs s)). \<not> is_ok r)
     \<and> ss_sent (snd (sec.calls env cs s)) = ss_sent s
     \<and> ss_log (snd (sec.calls env cs s)) =
         ss_log s @ map (\<lambda>(p, c). sec_denial env (sec_action_of p) c)
           (filter (\<lambda>(p, c). sec_accepts env p) cs)"
  using sec.calls_refused [of cs env s] sec_calls_denied_log [of env cs s] assms by simp

definition sec_sample_env :: "bool \<Rightarrow> sec_env" where
  "sec_sample_env bypass = \<lparr>sn_config = security_config_default, sn_allow_unauthorized = bypass,
     sn_now = 7, sn_version = ''0.1.0'',
     sn_parse_profile = (\<lambda>j. if j = ''custom'' then Ok \<lparr>pc_profile = Custom, pc_reason = ''lan''\<rparr>
        else Err ''expected value''),
     sn_parse_rule = (\<lambda>j. if j = ''ssh'' then Ok ssh_rule else Err ''expected value''),
     sn_json_status = (\<lambda>s. Ok (st_service s)), sn_json_firewall = (\<lambda>s. Ok ''{}''),
     sn_json_result = (\<lambda>r. Ok (the (ar_error r)))\<rparr>"

lemma securityd_fails_closed_witness:
  "let calls = [(AddRule ''ssh'', '':1.9''), (SetProfile ''{'', '':1.9''), (ExportLog, '':1.4'')];
       s = snd (sec.calls (sec_sample_env False) calls \<lparr>ss_log = [], ss_seq = 3, ss_sent = []\<rparr>)
   in length (ss_log s) = 2 \<and> ss_sent s = []"
  using securityd_fails_closed [of "sec_sample_env False"
      "[(AddRule ''ssh'', '':1.9''), (SetProfile ''{'', '':1.9''), (ExportLog, '':1.4'')]"
      "\<lparr>ss_log = [], ss_seq = 3, ss_sent = []\<rparr>"]
  by (simp add: sec_sample_env_def ssh_rule_def firewall_rule_validate_def trim_def trim_end_def
      trim_start_def is_ws_def is_ok_def del: sec.calls.simps)


section \<open>Runs of requests\<close>

datatype sec_request =
    GetVersion | GetStatus string | GetFirewallStatus string | Privileged sec_privileged string
  | HealthTick

fun sec_step :: "sec_env \<Rightarrow> sec_request \<Rightarrow> sec_state \<Rightarrow> sec_state" where
  "sec_step env GetVersion s = snd (sec_get_version env s)"
| "sec_step env (GetStatus c) s = snd (sec_get_status env c s)"
| "sec_step env (GetFirewallStatus c) s = snd (get_firewall_status env c s)"
| "sec_step env (Privileged p c) s = snd (sec_privileged_call env p c s)"
| "sec_step env HealthTick s = sec_health_tick env s"

definition sec_run :: "sec_env \<Rightarrow> sec_request list \<Rightarrow> sec_state \<Rightarrow> sec_state" where
  "sec_run env rs s = fold (sec_step env) rs s"

fun body_seq :: "sec_signal_body \<Rightarrow> u64" where
  "body_seq (SecurityEventBody n _ _ _ _ _ _) = n"
| "body_seq (HealthChangedBody n _ _ _) = n"

text \<open>A state is well numbered after \<open>n\<close> when its signals carry \<open>n\<close>, \<open>n + 1\<close> and so on.\<close>

definition numbered_from :: "u64 \<Rightarrow> sec_state \<Rightarrow> bool" where
  "numbered_from n s \<longleftrightarrow>
     map (body_seq \<circ> sg_body) (ss_sent s) = map (\<lambda>i. n + of_nat i) [0..<length (ss_sent s)]
     \<and> ss_seq s = n + of_nat (length (ss_sent s))"

lemma numbered_emit:
  "numbered_from n s \<Longrightarrow> body_seq b = ss_seq s \<Longrightarrow>
     numbered_from n (sec_emit m b (s\<lparr>ss_seq := ss_seq s + 1\<rparr>))"
  by (simp add: numbered_from_def sec_emit_def)

lemma numbered_log [simp]: "numbered_from n (s\<lparr>ss_log := l\<rparr>) = numbered_from n s"
  by (simp add: numbered_from_def)

lemma numbered_check [simp]: "numbered_from n (snd (sec_check env a c s)) = numbered_from n s"
  by (simp add: numbered_from_def)

lemma numbered_audit_emit:
  "numbered_from n s \<Longrightarrow> numbered_from n (sec_audit_emit env sev a c d s)"
  by (simp add: sec_audit_emit_def sec_audit_def emit_security_event_def sec_next_sequence_def Let_def)
    (rule numbered_emit [of n "s\<lparr>ss_log := _\<rparr>", simplified], simp_all)

lemma numbered_health:
  "numbered_from n s \<Longrightarrow> numbered_from n (sec_emit_health_changed env h t s)"
  by (simp add: sec_emit_health_changed_def sec_next_sequence_def numbered_emit)

lemma numbered_step: "numbered_from n s \<Longrightarrow> numbered_from n (sec_step env r s)"
proof (cases r)
  case (Privileged p c)
  assume n: "numbered_from n s"
  show ?thesis
  proof (cases "sec_accepts env p \<and> sn_allow_unauthorized env")
    case True
    then show ?thesis
      using n Privileged sec_privileged_allowed [of env p c s] by (auto simp: numbered_audit_emit)
  next
    case False
    then have "ss_seq (sec_step env r s) = ss_seq s \<and> ss_sent (sec_step env r s) = ss_sent s"
      using Privileged sec.refused(2) [of env p c s] by simp
    then show ?thesis using n by (simp add: numbered_from_def)
  qed
qed (simp_all add: sec_get_version_def sec_get_status_def get_firewall_status_def sec_health_tick_def
      numbered_audit_emit numbered_health split_beta Let_def)

text \<open>C36: From start-up on, over every sequence of requests and health ticks, the signals sent carry
  the numbers 0, 1, 2 and so on without a gap, modulo 2 to the 64, health signals and security
  events counted together; the start-up itself sends exactly one, after its last step.\<close>

theorem signals_numbered:
  "case sec_main bus env of
     (Inl code, done_steps) \<Rightarrow> code = 1 \<and> (\<exists>t. t \<in> set startup_steps \<and> \<not> bus t)
   | (Inr s0, done_steps) \<Rightarrow> done_steps = startup_steps \<and> list_all bus startup_steps
       \<and> length (ss_sent s0) = 1
       \<and> (let s = sec_run env rs s0
          in map (body_seq \<circ> sg_body) (ss_sent s) = map of_nat [0..<length (ss_sent s)])"
proof -
  have startup: "snd (run_startup bus ts) = list_all bus ts \<and>
      (list_all bus ts \<longrightarrow> fst (run_startup bus ts) = ts)" for ts
    by (induction ts) (auto simp: split_beta)
  have run: "numbered_from n s \<Longrightarrow> numbered_from n (sec_run env rs s)" for n s
    unfolding sec_run_def by (induction rs arbitrary: s) (simp_all add: numbered_step)
  let ?s0 = "sec_emit_health_changed env True ''Service started successfully''
      \<lparr>ss_log = [], ss_seq = 0, ss_sent = []\<rparr>"
  have "numbered_from 0 ?s0"
    by (rule numbered_health) (simp add: numbered_from_def)
  then have "map (body_seq \<circ> sg_body) (ss_sent (sec_run env rs ?s0)) =
      map of_nat [0..<length (ss_sent (sec_run env rs ?s0))]"
    using run [of 0 ?s0] by (simp add: numbered_from_def)
  moreover have "length (ss_sent ?s0) = 1"
    by (simp add: sec_emit_health_changed_def sec_next_sequence_def sec_emit_def)
  ultimately show ?thesis
    using startup [of startup_steps]
    by (cases "list_all bus startup_steps") (auto simp: sec_main_def split_beta Let_def list_all_iff)
qed

text \<open>The firewall is not touched by anything a client can send: after any run of requests the
  status answers as before, with no rule counted and no backend, while adding a valid rule
  under the bypass is answered as one rule applied.\<close>

theorem firewall_requests_have_no_effect:
  "fst (get_firewall_status env c (sec_run env rs s)) = fst (get_firewall_status env c s)
   \<and> fst (get_firewall_status env c s) =
       map_err (\<lambda>e. FdoFailed (''firewall status serialization failed: '' @ e))
         (sn_json_firewall env
            \<lparr>fs_enabled = sc_firewall_enabled (sn_config env),
             fs_active_profile = sc_default_firewall_profile (sn_config env),
             fs_rule_count = 0, fs_backend_available = False\<rparr>)
   \<and> (if sec_accepts env (AddRule j) \<and> sn_allow_unauthorized env
      then \<exists>note. fst (add_firewall_rule env j c s) =
          map_err (\<lambda>e. FdoFailed (''result serialization failed: '' @ e))
            (sn_json_result env \<lparr>ar_success = True, ar_rules_applied = 1, ar_rules_failed = 0,
               ar_error = Some note\<rparr>)
      else \<not> is_ok (fst (add_firewall_rule env j c s)))"
proof -
  have status: "fst (get_firewall_status env c t) =
       map_err (\<lambda>e. FdoFailed (''firewall status serialization failed: '' @ e))
         (sn_json_firewall env
            \<lparr>fs_enabled = sc_firewall_enabled (sn_config env),
             fs_active_profile = sc_default_firewall_profile (sn_config env),
             fs_rule_count = 0, fs_backend_available = False\<rparr>)" for t
    using sec_check_read_only [of ViewFirewallStatus env c t]
    by (simp add: get_firewall_status_def sec_is_read_only_def split_beta Let_def)
  have refused: "\<not> is_ok (fst (add_firewall_rule env j c s))"
    if "\<not> (sec_accepts env (AddRule j) \<and> sn_allow_unauthorized env)"
    using sec.refused(1) [of env "AddRule j" c s] that by auto
  have "sn_allow_unauthorized env \<Longrightarrow> fst (sec_check env ConfigureFirewall c s)"
    using sec_check_privileged(1) [of ConfigureFirewall env c s] by (simp add: sec_is_read_only_def)
  then show ?thesis
    using status refused
    by (auto simp: add_firewall_rule_def is_ok_def split_beta split: sum.splits)
qed

end
