(* ===== verification/Core_Version.thy ===== *)
theory Core_Version
  imports Orderings_Rust Numbers
begin

text \<open>
  The semantic versions of the core library (version.rs): parsing with its errors,
  printing, and the comparison of semver 2.0. Build metadata takes part in equality and
  not in the order, and numeric identifiers compare by value, so the order is a total
  preorder whose ties are characterised here; parsing and printing are inverse exactly on
  the versions the parser can return.
\<close>

section \<open>Versions\<close>

datatype version_parse_error_kind =
    VEmpty | VMissingComponent | VInvalidMajor string | VInvalidMinor string
  | VInvalidPatch string | VInvalidPrerelease string | VTrailingInput string

record version_parse_error =
  ve_input :: string
  ve_kind :: version_parse_error_kind

definition show_version_parse_error :: "version_parse_error \<Rightarrow> string" where
  "show_version_parse_error e =
     (case ve_kind e of
        VEmpty \<Rightarrow> ''version string is empty''
      | VMissingComponent \<Rightarrow> ''version string is missing components: '' @ quoted (ve_input e)
      | VInvalidMajor m \<Rightarrow> ''invalid major version component: '' @ m @ '' in '' @ quoted (ve_input e)
      | VInvalidMinor m \<Rightarrow> ''invalid minor version component: '' @ m @ '' in '' @ quoted (ve_input e)
      | VInvalidPatch m \<Rightarrow> ''invalid patch version component: '' @ m @ '' in '' @ quoted (ve_input e)
      | VInvalidPrerelease s \<Rightarrow>
          ''invalid pre-release identifier '' @ quoted s @ '' in '' @ quoted (ve_input e)
      | VTrailingInput s \<Rightarrow>
          ''unexpected trailing input '' @ quoted s @ '' after version in '' @ quoted (ve_input e))"

record version =
  mv_major :: u64
  mv_minor :: u64
  mv_patch :: u64
  mv_pre :: "string list"
  mv_build :: "string list"

definition version_full ::
  "u64 \<Rightarrow> u64 \<Rightarrow> u64 \<Rightarrow> string list \<Rightarrow> string list \<Rightarrow> version" where
  "version_full a b c pre build =
     \<lparr>mv_major = a, mv_minor = b, mv_patch = c, mv_pre = pre, mv_build = build\<rparr>"

definition version_new :: "u64 \<Rightarrow> u64 \<Rightarrow> u64 \<Rightarrow> version" where
  "version_new a b c = version_full a b c [] []"

definition version_with_pre :: "u64 \<Rightarrow> u64 \<Rightarrow> u64 \<Rightarrow> string list \<Rightarrow> version" where
  "version_with_pre a b c pre = version_full a b c pre []"

definition version_with_build :: "u64 \<Rightarrow> u64 \<Rightarrow> u64 \<Rightarrow> string list \<Rightarrow> version" where
  "version_with_build a b c build = version_full a b c [] build"

definition is_stable :: "version \<Rightarrow> bool" where
  "is_stable v = (mv_pre v = [])"

text \<open>The part after a separator as identifiers; nothing or an empty part gives none.\<close>

definition split_tags :: "char \<Rightarrow> string \<Rightarrow> string \<times> string list" where
  "split_tags d s =
     (case split_once d s of
        Some (l, r) \<Rightarrow> if r = [] then (l, []) else (l, split_on CHR ''.'' r)
      | None \<Rightarrow> (s, []))"

definition parse_number ::
  "string \<Rightarrow> (string \<Rightarrow> version_parse_error_kind) \<Rightarrow> string \<Rightarrow> version_parse_error + u64" where
  "parse_number input mk s =
     map_err (\<lambda>e. \<lparr>ve_input = input, ve_kind = mk (show_parse_error e)\<rparr>) (parse_u64 s)"

definition version_parse :: "string \<Rightarrow> version_parse_error + version" where
  "version_parse input =
     (if input = [] then Err \<lparr>ve_input = input, ve_kind = VEmpty\<rparr>
      else
       (let (core, build) = split_tags CHR ''+'' input;
            (numeric, pre) = split_tags CHR ''-'' core;
            parts = split_on CHR ''.'' numeric
        in if length parts < 3 then Err \<lparr>ve_input = input, ve_kind = VMissingComponent\<rparr>
           else if length parts > 3 then
             Err \<lparr>ve_input = input, ve_kind = VTrailingInput (join ''.'' (drop 3 parts))\<rparr>
           else
             and_then (parse_number input VInvalidMajor (parts ! 0)) (\<lambda>major.
             and_then (parse_number input VInvalidMinor (parts ! 1)) (\<lambda>minor.
             and_then (parse_number input VInvalidPatch (parts ! 2)) (\<lambda>patch.
               Ok (version_full major minor patch pre build))))))"

definition show_version :: "version \<Rightarrow> string" where
  "show_version v =
     show_u64 (mv_major v) @ ''.'' @ show_u64 (mv_minor v) @ ''.'' @ show_u64 (mv_patch v)
     @ (if mv_pre v \<noteq> [] then ''-'' @ join ''.'' (mv_pre v) else '''')
     @ (if mv_build v \<noteq> [] then ''+'' @ join ''.'' (mv_build v) else '''')"

section \<open>The order\<close>

definition compare_pre_release_id :: "string \<Rightarrow> string \<Rightarrow> ordering" where
  "compare_pre_release_id a b =
     (case (parse_u64 a, parse_u64 b) of
        (Inr an, Inr bn) \<Rightarrow> cmp_lin an bn
      | (Inr _, Inl _) \<Rightarrow> Less
      | (Inl _, Inr _) \<Rightarrow> Greater
      | (Inl _, Inl _) \<Rightarrow> cmp_str a b)"

text \<open>The loop over the common length, then the lengths.\<close>

fun compare_ids :: "string list \<Rightarrow> string list \<Rightarrow> ordering" where
  "compare_ids (a # as) (b # bs) =
     (let r = compare_pre_release_id a b in if r \<noteq> Equal then r else compare_ids as bs)"
| "compare_ids _ _ = Equal"

definition compare_pre_release :: "string list \<Rightarrow> string list \<Rightarrow> ordering" where
  "compare_pre_release as bs =
     then_cmp (compare_ids as bs) (cmp_lin (length as) (length bs))"

definition version_cmp :: "version \<Rightarrow> version \<Rightarrow> ordering" where
  "version_cmp v w =
     then_cmp (cmp_lin (mv_major v) (mv_major w))
      (then_cmp (cmp_lin (mv_minor v) (mv_minor w))
        (then_cmp (cmp_lin (mv_patch v) (mv_patch w))
          (case (mv_pre v = [], mv_pre w = []) of
             (True, True) \<Rightarrow> Equal
           | (True, False) \<Rightarrow> Greater
           | (False, True) \<Rightarrow> Less
           | (False, False) \<Rightarrow> compare_pre_release (mv_pre v) (mv_pre w))))"

subsection \<open>It is a total preorder\<close>

text \<open>An identifier compares as the triple of its class, its value and its text.\<close>

definition id_number :: "string \<Rightarrow> u64 option" where
  "id_number a = (case parse_u64 a of Inl _ \<Rightarrow> None | Inr n \<Rightarrow> Some n)"

lemma compare_id_key:
  "compare_pre_release_id a b =
     then_cmp (cmp_lin (if id_number a = None then 1 else 0 :: nat) (if id_number b = None then 1 else 0))
       (then_cmp (cmp_option cmp_lin (id_number a) (id_number b))
         (cmp_str (if id_number a = None then a else []) (if id_number b = None then b else [])))"
  by (auto simp: compare_pre_release_id_def id_number_def cmp_lin_def then_cmp_def split: sum.splits)

lemma preorder_compare_id: "preorder_cmp compare_pre_release_id"
proof -
  have "preorder_cmp (\<lambda>a b.
     then_cmp (cmp_lin (if id_number a = None then 1 else 0 :: nat) (if id_number b = None then 1 else 0))
       (then_cmp (cmp_option cmp_lin (id_number a) (id_number b))
         (cmp_str (if id_number a = None then a else []) (if id_number b = None then b else []))))"
    by (intro preorder_cmp_then
        preorder_cmp_inv_image [OF nat_ord.preorder_cmp_axioms, of "\<lambda>a. if id_number a = None then 1 else 0"]
        preorder_cmp_inv_image [OF preorder_cmp_option [OF u64_ord.preorder_cmp_axioms], of id_number]
        preorder_cmp_inv_image [OF str_ord.preorder_cmp_axioms, of "\<lambda>a. if id_number a = None then a else []"])
  then show ?thesis by (simp add: compare_id_key [abs_def])
qed

interpretation pre_id: preorder_cmp compare_pre_release_id
  by (rule preorder_compare_id)

lemma compare_pre_release_list: "compare_pre_release as bs = cmp_list compare_pre_release_id as bs"
  unfolding compare_pre_release_def
  by (induction as bs rule: compare_ids.induct)
    (auto simp: then_cmp_def cmp_lin_def Let_def neq_Nil_conv elim: cmp_list.elims)

interpretation pre_ids: preorder_cmp compare_pre_release
  using preorder_cmp_list [OF preorder_compare_id] by (simp add: compare_pre_release_list [abs_def])

definition cmp_pre :: "string list \<Rightarrow> string list \<Rightarrow> ordering" where
  "cmp_pre p q = (case (p = [], q = []) of
       (True, True) \<Rightarrow> Equal | (True, False) \<Rightarrow> Greater | (False, True) \<Rightarrow> Less
     | (False, False) \<Rightarrow> compare_pre_release p q)"

lemma preorder_cmp_pre: "preorder_cmp cmp_pre"
proof (unfold_locales, goal_cases)
  case (1 y x)
  show ?case using pre_ids.cmp_sym [of y x] by (cases "x = []"; cases "y = []") (auto simp: cmp_pre_def)
next
  case (2 x y z)
  then show ?case
    using pre_ids.cmp_trans [of x y z]
    by (cases "x = []"; cases "y = []"; cases "z = []") (auto simp: cmp_pre_def)
qed

lemma preorder_version: "preorder_cmp version_cmp"
proof -
  have lin: "preorder_cmp (\<lambda>a b. cmp_lin (f a) (f b))" for f :: "version \<Rightarrow> u64"
    by (rule preorder_cmp_inv_image [OF u64_ord.preorder_cmp_axioms])
  have "preorder_cmp (\<lambda>(v :: version) w. then_cmp (cmp_lin (mv_major v) (mv_major w))
      (then_cmp (cmp_lin (mv_minor v) (mv_minor w))
        (then_cmp (cmp_lin (mv_patch v) (mv_patch w)) (cmp_pre (mv_pre v) (mv_pre w)))))"
    by (intro preorder_cmp_then lin preorder_cmp_inv_image [OF preorder_cmp_pre])
  then show ?thesis unfolding version_cmp_def [abs_def] cmp_pre_def .
qed

interpretation release: preorder_cmp version_cmp
  by (rule preorder_version)

text \<open>Two identifiers tie when they are equal or numbers of the same value.\<close>

definition same_id :: "string \<Rightarrow> string \<Rightarrow> bool" where
  "same_id a b = (a = b \<or> (id_number a \<noteq> None \<and> id_number a = id_number b))"

lemma compare_id_Equal: "compare_pre_release_id a b = Equal \<longleftrightarrow> same_id a b"
  by (auto simp: compare_pre_release_id_def same_id_def id_number_def cmp_lin_def split: sum.splits if_splits)

lemma cmp_pre_Equal: "cmp_pre p q = Equal \<longleftrightarrow> list_all2 same_id p q"
  by (cases "p = []"; cases "q = []")
    (auto simp: cmp_pre_def compare_pre_release_list cmp_list_Equal compare_id_Equal [abs_def])

lemma version_cmp_pre:
  "version_cmp v w = then_cmp (cmp_lin (mv_major v) (mv_major w))
      (then_cmp (cmp_lin (mv_minor v) (mv_minor w))
        (then_cmp (cmp_lin (mv_patch v) (mv_patch w)) (cmp_pre (mv_pre v) (mv_pre w))))"
  by (simp add: version_cmp_def cmp_pre_def)

lemma cmp_lin_eq_iff: "cmp_lin a b = Equal \<longleftrightarrow> a = b"
  by (auto simp: cmp_lin_def)

section \<open>The precedence of semver\<close>

text \<open>
  Clause 11 of semver 2.0, written as rules. Identifiers: numbers by value, numbers below texts,
  texts by their bytes. Lists: at the first place where they differ, or the longer one is
  higher when the shorter is its beginning. Versions: major, minor and patch in this order,
  then a pre-release below its release, then the pre-releases.
\<close>

definition below_bytes :: "string \<Rightarrow> string \<Rightarrow> bool" where
  "below_bytes a b = (\<exists>k\<le>length a. k < length b \<and> take k a = take k b
     \<and> (k = length a \<or> byte_of (a ! k) < byte_of (b ! k)))"

definition below_id :: "string \<Rightarrow> string \<Rightarrow> bool" where
  "below_id a b =
     (case (id_number a, id_number b) of
        (Some m, Some n) \<Rightarrow> m < n
      | (Some m, None) \<Rightarrow> True
      | (None, Some n) \<Rightarrow> False
      | (None, None) \<Rightarrow> below_bytes a b)"

definition below_ids :: "string list \<Rightarrow> string list \<Rightarrow> bool" where
  "below_ids p q = (\<exists>k\<le>length p. k < length q \<and> list_all2 same_id (take k p) (take k q)
     \<and> (k = length p \<or> below_id (p ! k) (q ! k)))"

definition below_version :: "version \<Rightarrow> version \<Rightarrow> bool" where
  "below_version v w =
     (mv_major v < mv_major w
      \<or> mv_major v = mv_major w \<and> mv_minor v < mv_minor w
      \<or> mv_major v = mv_major w \<and> mv_minor v = mv_minor w \<and> mv_patch v < mv_patch w
      \<or> mv_major v = mv_major w \<and> mv_minor v = mv_minor w \<and> mv_patch v = mv_patch w
        \<and> (mv_pre v \<noteq> [] \<and> (mv_pre w = [] \<or> below_ids (mv_pre v) (mv_pre w))))"

text \<open>The first place where two lists differ, as a recursion.\<close>

lemma first_difference:
  "(\<exists>k\<le>length (x # xs). k < length (y # ys) \<and> list_all2 eq (take k (x # xs)) (take k (y # ys))
     \<and> (k = length (x # xs) \<or> lt ((x # xs) ! k) ((y # ys) ! k)))
   \<longleftrightarrow> lt x y \<or> eq x y \<and> (\<exists>k\<le>length xs. k < length ys \<and> list_all2 eq (take k xs) (take k ys)
     \<and> (k = length xs \<or> lt (xs ! k) (ys ! k)))"
  (is "?L \<longleftrightarrow> ?R")
proof
  assume ?L
  then obtain k where k: "k \<le> Suc (length xs)" "k < Suc (length ys)"
    "list_all2 eq (take k (x # xs)) (take k (y # ys))"
    "k = Suc (length xs) \<or> lt ((x # xs) ! k) ((y # ys) ! k)" by auto
  then show ?R by (cases k) auto
next
  assume ?R
  then show ?L
  proof
    assume "lt x y"
    then show ?L by (intro exI [of _ "0::nat"]) simp
  next
    assume "eq x y \<and> (\<exists>k\<le>length xs. k < length ys \<and> list_all2 eq (take k xs) (take k ys)
      \<and> (k = length xs \<or> lt (xs ! k) (ys ! k)))"
    then obtain k where "eq x y" "k \<le> length xs" "k < length ys" "list_all2 eq (take k xs) (take k ys)"
      "k = length xs \<or> lt (xs ! k) (ys ! k)" by blast
    then show ?L by (intro exI [of _ "Suc k"]) simp
  qed
qed

lemma below_bytes_Cons:
  "below_bytes (a # as) (b # bs) \<longleftrightarrow> byte_of a < byte_of b \<or> a = b \<and> below_bytes as bs"
  using first_difference [of a as b bs "(=)" "\<lambda>a b. byte_of a < byte_of b"]
  by (simp add: below_bytes_def list.rel_eq)

lemma below_bytes_Nil [simp]: "below_bytes [] b \<longleftrightarrow> b \<noteq> []" "\<not> below_bytes a []"
  by (auto simp: below_bytes_def)

lemma cmp_str_Less: "cmp_str a b = Less \<longleftrightarrow> below_bytes a b"
  by (induction a b rule: cmp_str.induct) (auto simp: below_bytes_Cons byte_of_inj)

lemma compare_id_Less: "compare_pre_release_id a b = Less \<longleftrightarrow> below_id a b"
  by (simp add: compare_pre_release_id_def below_id_def id_number_def cmp_lin_def cmp_str_Less
      split: sum.split)

lemma below_ids_simps [simp]:
  "below_ids [] q \<longleftrightarrow> q \<noteq> []" "\<not> below_ids p []"
  "below_ids (a # p) (b # q) \<longleftrightarrow> below_id a b \<or> same_id a b \<and> below_ids p q"
  using first_difference [of a p b q same_id below_id] by (auto simp: below_ids_def)

lemma compare_pre_release_Less: "compare_pre_release p q = Less \<longleftrightarrow> below_ids p q"
  unfolding compare_pre_release_list
  by (induction compare_pre_release_id p q rule: cmp_list.induct)
    (auto simp: then_cmp_def compare_id_Less [symmetric] compare_id_Equal [symmetric])

lemma cmp_pre_Less: "cmp_pre p q = Less \<longleftrightarrow> p \<noteq> [] \<and> (q = [] \<or> below_ids p q)"
  by (cases "p = []"; cases "q = []") (auto simp: cmp_pre_def compare_pre_release_Less)

lemma version_cmp_Less: "version_cmp v w = Less \<longleftrightarrow> below_version v w"
  by (auto simp: version_cmp_pre below_version_def then_cmp_def cmp_lin_def cmp_pre_Less)

text \<open>C31: The comparison of versions is the precedence of semver 2.0: less exactly when the rules
  put the first below the second, greater exactly when they put the second below the first,
  and equal exactly when major, minor and patch agree and the pre-release identifiers agree up
  to leading zeros, whatever the build metadata. The precedence is transitive and irreflexive.\<close>

theorem version_precedence:
  "version_cmp v w =
     (if below_version v w then Less
      else if mv_major v = mv_major w \<and> mv_minor v = mv_minor w \<and> mv_patch v = mv_patch w
        \<and> list_all2 same_id (mv_pre v) (mv_pre w) then Equal
      else Greater)
   \<and> (version_cmp v w = Greater) = below_version w v
   \<and> (if below_version u v \<and> below_version v w then below_version u w else True)
   \<and> \<not> below_version v v"
proof -
  have tie: "(version_cmp v w = Equal) =
        (mv_major v = mv_major w \<and> mv_minor v = mv_minor w \<and> mv_patch v = mv_patch w
         \<and> list_all2 same_id (mv_pre v) (mv_pre w))"
    by (auto simp: version_cmp_pre then_cmp_def cmp_lin_eq_iff cmp_pre_Equal)
  have gt: "(version_cmp v w = Greater) = below_version w v"
    using release.cmp_sym [of w v] by (simp add: version_cmp_Less [symmetric])
  have tr: "below_version u w" if "below_version u v" "below_version v w"
  proof -
    have "version_cmp w v = Greater" "version_cmp u v \<noteq> Greater"
      using that release.cmp_sym [of w v] by (simp_all add: version_cmp_Less [symmetric])
    then have "version_cmp w u = Greater" using release.cmp_trans [of w u v] by blast
    then show ?thesis using release.cmp_sym [of w u] by (simp add: version_cmp_Less [symmetric])
  qed
  have "version_cmp v w = (if below_version v w then Less
      else if mv_major v = mv_major w \<and> mv_minor v = mv_minor w \<and> mv_patch v = mv_patch w
        \<and> list_all2 same_id (mv_pre v) (mv_pre w) then Equal else Greater)"
    using version_cmp_Less [of v w] tie by (cases "version_cmp v w") auto
  moreover have "\<not> below_version v v" by (simp add: version_cmp_Less [symmetric])
  ultimately show ?thesis using gt tr by simp
qed

text \<open>A number that does not fit 64 bits counts as a text, so two of them are compared by their
  digits and not by their values, which semver asks for.\<close>

lemma long_numbers_are_texts:
  "compare_pre_release_id ''100000000000000000000'' ''20000000000000000000'' = Less"
  by (simp add: compare_pre_release_id_def parse_eval)

section \<open>Parsing and printing\<close>

text \<open>The versions a parse can return: no identifier holds a separator that would cut it.\<close>

definition wf_version :: "version \<Rightarrow> bool" where
  "wf_version v =
     ((\<forall>p\<in>set (mv_pre v). CHR ''.'' \<notin> set p \<and> CHR ''+'' \<notin> set p) \<and> mv_pre v \<noteq> [[]]
      \<and> (\<forall>b\<in>set (mv_build v). CHR ''.'' \<notin> set b) \<and> mv_build v \<noteq> [[]])"

lemma split_on_eq_Nil1: "split_on d s = [[]] \<longleftrightarrow> s = []"
  by (cases s) (auto split: list.splits)

lemma split_tags_pieces:
  "split_tags d s = (l, ts) \<Longrightarrow> ts \<noteq> [[]] \<and> (\<forall>t\<in>set ts. CHR ''.'' \<notin> set t \<and> set t \<subseteq> set s) \<and> set l \<subseteq> set s"
proof -
  assume st: "split_tags d s = (l, ts)"
  show ?thesis
  proof (cases "split_once d s")
    case None
    then show ?thesis using st by (simp add: split_tags_def)
  next
    case (Some ab)
    obtain a b where ab: "ab = (a, b)" by (cases ab)
    then have s: "s = a @ d # b" using Some split_once_Some by blast
    have "set t \<subseteq> set b" if "t \<in> set (split_on CHR ''.'' b)" for t
      using set_in_join [OF that, of "[CHR ''.'']"] by (simp add: join_split_on)
    then show ?thesis
      using st Some ab s split_on_pieces [of _ "CHR ''.''" b]
      by (auto simp: split_tags_def split_on_eq_Nil1 split: if_splits)
  qed
qed


lemma and_then_parts:
  "version_parse s = Ok v \<Longrightarrow>
     \<exists>core numeric. split_tags CHR ''+'' s = (core, mv_build v) \<and> split_tags CHR ''-'' core = (numeric, mv_pre v)"
  by (cases "split_tags CHR ''+'' s"; cases "split_tags CHR ''-'' (fst (split_tags CHR ''+'' s))")
    (auto simp: version_parse_def version_full_def Let_def and_then_Ok_iff split: if_splits)

lemma split_once_left: "split_once d s = Some (l, r) \<Longrightarrow> d \<notin> set l"
  by (auto dest: split_once_Some)

lemma split_tags_left: "split_tags d s = (l, ts) \<Longrightarrow> d \<notin> set l"
  by (auto simp: split_tags_def split: option.splits prod.splits if_splits dest: split_once_Some)

lemma version_parse_wf: "version_parse s = Ok v \<Longrightarrow> wf_version v"
proof -
  assume "version_parse s = Ok v"
  then obtain core numeric where c: "split_tags CHR ''+'' s = (core, mv_build v)"
      and n: "split_tags CHR ''-'' core = (numeric, mv_pre v)"
    using and_then_parts by blast
  have "CHR ''+'' \<notin> set core" by (rule split_tags_left [OF c])
  then show ?thesis
    using split_tags_pieces [OF c] split_tags_pieces [OF n] by (auto simp: wf_version_def)
qed

lemma split_tags_absent: "d \<notin> set s \<Longrightarrow> split_tags d s = (s, [])"
  by (simp add: split_tags_def)

lemma join_eq_Nil: "join ''.'' ls = [] \<longleftrightarrow> ls = [] \<or> ls = [[]]"
  by (cases ls rule: list.exhaust; cases "tl ls") auto

lemma split_tags_join:
  assumes "d \<notin> set l" "ls \<noteq> []" "ls \<noteq> [[]]" "\<forall>t\<in>set ls. CHR ''.'' \<notin> set t"
  shows "split_tags d (l @ d # join ''.'' ls) = (l, ls)"
  using assms by (simp add: split_tags_def join_eq_Nil split_on_join)

lemma join_absent: "c \<noteq> CHR ''.'' \<Longrightarrow> (\<forall>l\<in>set ls. c \<notin> set l) \<Longrightarrow> c \<notin> set (join ''.'' ls)"
  by (induction "''.''" ls rule: join.induct) auto

lemma show_u64_no_plus [simp]: "CHR ''+'' \<notin> set (show_u64 w)"
  by (auto dest!: show_u64_chars dest: digit_not_sep)

lemma show_version_parse:
  assumes wf: "wf_version v" shows "version_parse (show_version v) = Ok v"
proof -
  let ?num = "show_u64 (mv_major v) @ ''.'' @ show_u64 (mv_minor v) @ ''.'' @ show_u64 (mv_patch v)"
  let ?core = "?num @ (if mv_pre v \<noteq> [] then ''-'' @ join ''.'' (mv_pre v) else [])"
  have nodash: "CHR ''-'' \<notin> set ?num" and noplus: "CHR ''+'' \<notin> set ?num" by simp_all
  have core_noplus: "CHR ''+'' \<notin> set ?core"
    using wf noplus join_absent [of "CHR ''+''" "mv_pre v"] by (auto simp: wf_version_def)
  have "show_version v = ?core @ (if mv_build v \<noteq> [] then CHR ''+'' # join ''.'' (mv_build v) else [])"
    by (simp add: show_version_def)
  then have b: "split_tags CHR ''+'' (show_version v) = (?core, mv_build v)"
    using split_tags_join [OF core_noplus, of "mv_build v"] split_tags_absent [OF core_noplus] wf
    by (auto simp: wf_version_def)
  have p: "split_tags CHR ''-'' ?core = (?num, mv_pre v)"
    using split_tags_join [OF nodash, of "mv_pre v"] split_tags_absent [OF nodash] wf
    by (auto simp: wf_version_def)
  have parts: "split_on CHR ''.'' ?num =
      [show_u64 (mv_major v), show_u64 (mv_minor v), show_u64 (mv_patch v)]"
    by (simp add: split_on_append split_on_none)
  have ne: "show_version v \<noteq> []" by (simp add: show_version_def)
  show ?thesis
    using ne by (simp only: version_parse_def b p prod.case Let_def parts if_False)
      (simp add: parse_number_def version_full_def)
qed

text \<open>C32: Parsing and printing are inverse exactly on the versions the parser returns: such a
  version prints to a text that parses back to it, and every version that survives
  printing and parsing is of that form.\<close>

theorem version_print_parse_iff:
  "(version_parse (show_version v) = Ok v) = wf_version v
   \<and> (case version_parse s of Inl e \<Rightarrow> ve_input e = s | Inr w \<Rightarrow> version_parse (show_version w) = Ok w)"
proof -
  have err: "ve_input e = s" if "version_parse s = Err e" for e
    using that
    by (auto simp: version_parse_def parse_number_def Let_def and_then_Err_iff map_err_def
        split: if_splits prod.splits sum.splits)
  show ?thesis
    using show_version_parse version_parse_wf err by (auto split: sum.split)
qed

text \<open>The strict parser never rejects a pre-release identifier, not even an empty one.\<close>

lemma prerelease_never_rejected:
  "version_parse s \<noteq> Err \<lparr>ve_input = s, ve_kind = VInvalidPrerelease p\<rparr>"
  by (auto simp: version_parse_def parse_number_def Let_def and_then_Err_iff map_err_def
      split: prod.splits sum.splits)

lemma order_ignores_build:
  "version_cmp (version_with_build 1 0 0 [''a'']) (version_new 1 0 0) = Equal
   \<and> version_with_build 1 0 0 [''a''] \<noteq> version_new 1 0 0"
  by (simp add: version_cmp_def version_with_build_def version_new_def version_full_def cmp_lin_def)

end
