(* ===== verification/Core_Paths.thy ===== *)
theory Core_Paths
  imports Fs
begin

text \<open>
  Directory resolution of the core library (paths.rs). The environment is a function from
  variable names to their values, if set and readable. Paths are split into the
  components of \<open>std::path\<close> on Unix, where no prefix component exists.
\<close>

section \<open>Components of a path\<close>

datatype path_component = RootDir | CurDir | ParentDir | Normal string

definition path_components :: "path \<Rightarrow> path_component list" where
  "path_components p =
     (let cs = split_on CHR ''/'' p
      in (if is_absolute p then [RootDir] else if hd cs = ''.'' then [CurDir] else [])
         @ map (\<lambda>c. if c = ''..'' then ParentDir else Normal c)
             (filter (\<lambda>c. c \<noteq> [] \<and> c \<noteq> ''.'') cs))"

section \<open>System directories\<close>

definition mission_root :: path where "mission_root = ''/mission''"
definition mission_config_dir :: path where "mission_config_dir = ''/etc/mission''"
definition mission_lib_dir :: path where "mission_lib_dir = ''/usr/lib/mission''"
definition env_mission_root :: string where "env_mission_root = ''MISSION_ROOT''"
definition env_mission_config :: string where "env_mission_config = ''MISSION_CONFIG_DIR''"

type_synonym environment = "string \<Rightarrow> string option"

definition env_override :: "environment \<Rightarrow> string \<Rightarrow> path \<Rightarrow> path" where
  "env_override env v fallback =
     (case env v of Some val \<Rightarrow> if val \<noteq> [] then val else fallback | None \<Rightarrow> fallback)"

definition validate_component :: "path \<Rightarrow> core_error + path" where
  "validate_component c =
     and_then (for_each (\<lambda>s. case s of
         ParentDir \<Rightarrow> Err (core_error_new EC_InvalidArgument
           (''path component contains '' @ quoted ''..'' @ '' traversal: '' @ c))
       | RootDir \<Rightarrow> Err (core_error_new EC_InvalidArgument (''path component is absolute: '' @ c))
       | _ \<Rightarrow> Ok ()) (path_components c))
     (\<lambda>_. Ok c)"

definition mission_dir :: "environment \<Rightarrow> path \<Rightarrow> core_error + path" where
  "mission_dir env component =
     and_then (validate_component component) (\<lambda>c.
       Ok (path_push (env_override env env_mission_root mission_root) c))"

definition package_cache :: "environment \<Rightarrow> core_error + path" where
  "package_cache env = mission_dir env ''packages''"

definition snapshots :: "environment \<Rightarrow> core_error + path" where
  "snapshots env = mission_dir env ''snapshots''"

definition update_cache :: "environment \<Rightarrow> core_error + path" where
  "update_cache env = mission_dir env ''updates''"

definition driver_store :: "environment \<Rightarrow> core_error + path" where
  "driver_store env = mission_dir env ''drivers''"

definition config_dir :: "environment \<Rightarrow> path" where
  "config_dir env = env_override env env_mission_config mission_config_dir"

definition lib_dir :: path where
  "lib_dir = mission_lib_dir"

section \<open>User directories\<close>

definition xdg_home :: "environment \<Rightarrow> string \<Rightarrow> string \<Rightarrow> path" where
  "xdg_home env v default_subpath =
     (if (\<exists>d. env v = Some d \<and> d \<noteq> []) then the (env v)
      else (case env ''HOME'' of
          Some home \<Rightarrow> path_push home default_subpath
        | None \<Rightarrow> ''/root/'' @ default_subpath))"

definition user_config_dir :: "environment \<Rightarrow> path" where
  "user_config_dir env = path_push (xdg_home env ''XDG_CONFIG_HOME'' ''.config'') ''mission''"

definition user_data_dir :: "environment \<Rightarrow> path" where
  "user_data_dir env = path_push (xdg_home env ''XDG_DATA_HOME'' ''.local/share'') ''mission''"

definition user_cache_dir :: "environment \<Rightarrow> path" where
  "user_cache_dir env = path_push (xdg_home env ''XDG_CACHE_HOME'' ''.cache'') ''mission''"

definition user_state_dir :: "environment \<Rightarrow> path" where
  "user_state_dir env = path_push (xdg_home env ''XDG_STATE_HOME'' ''.local/state'') ''mission''"

definition user_runtime_dir :: "environment \<Rightarrow> path" where
  "user_runtime_dir env =
     (case env ''XDG_RUNTIME_DIR'' of
        Some d \<Rightarrow> path_push d ''mission''
      | None \<Rightarrow> ''/tmp/mission/runtime'')"

definition temp_dir :: path where
  "temp_dir = ''/tmp/mission''"

section \<open>Confinement\<close>

lemma component_cases:
  "validate_component c = Ok c \<and> \<not> is_absolute c \<and> ParentDir \<notin> set (path_components c)
   \<or> (\<exists>e. validate_component c = Err e \<and> ce_code e = EC_InvalidArgument)
     \<and> (is_absolute c \<or> ParentDir \<in> set (path_components c))"
proof -
  let ?f = "\<lambda>s. case s of
         ParentDir \<Rightarrow> Err (core_error_new EC_InvalidArgument
           (''path component contains '' @ quoted ''..'' @ '' traversal: '' @ c))
       | RootDir \<Rightarrow> Err (core_error_new EC_InvalidArgument (''path component is absolute: '' @ c))
       | _ \<Rightarrow> Ok ()"
  have loop: "(for_each ?f ss = Ok () \<and> RootDir \<notin> set ss \<and> ParentDir \<notin> set ss)
     \<or> (\<exists>e. for_each ?f ss = Err e \<and> ce_code e = EC_InvalidArgument)
       \<and> (RootDir \<in> set ss \<or> ParentDir \<in> set ss)" for ss
    by (induction ss) (auto simp: core_error_new_def split: path_component.split)
  have "RootDir \<in> set (path_components c) \<longleftrightarrow> is_absolute c"
    by (auto simp: path_components_def Let_def)
  then show ?thesis
    using loop [of "path_components c"] by (auto simp: validate_component_def)
qed

lemma is_absolute_Cons: "is_absolute (c # cs) \<longleftrightarrow> c = CHR ''/''"
  by (simp add: is_absolute_def)

lemma hd_split_append: "a \<noteq> [] \<Longrightarrow> hd (split_on d (a @ d # b)) = hd (split_on d a)"
  by (simp add: split_on_append_pieces)

lemma split_on_ends: "split_on d (a @ [d]) = split_on d a @ [[]]"
  using split_on_append_pieces [of d a "[]"] by simp

text \<open>Joining appends components, whether or not the base ends with a slash.\<close>

lemma components_join:
  assumes "base \<noteq> []" "\<not> is_absolute c"
  shows "path_components (path_push base c) =
     path_components base @ filter (\<lambda>s. s \<noteq> CurDir) (path_components c)"
proof -
  let ?m = "\<lambda>cs. map (\<lambda>c. if c = ''..'' then ParentDir else Normal c)
             (filter (\<lambda>c. c \<noteq> [] \<and> c \<noteq> ''.'') cs)"
  have m_no_cur: "filter (\<lambda>s. s \<noteq> CurDir) (?m cs) = ?m cs" for cs
    by (induction cs) auto
  have c_comp: "filter (\<lambda>s. s \<noteq> CurDir) (path_components c) = ?m (split_on CHR ''/'' c)"
    using assms(2) m_no_cur by (simp add: path_components_def Let_def)
  obtain x xs where b: "base = x # xs" using assms(1) by (cases base) auto
  show ?thesis
  proof (cases "ends_with base ''/''")
    case True
    then obtain a where a: "base = a @ [CHR ''/'']" by (auto simp: ends_with_iff)
    have "split_on CHR ''/'' (base @ c) = split_on CHR ''/'' a @ split_on CHR ''/'' c"
      using split_on_append_pieces [of "CHR ''/''" a c] a by simp
    moreover have "hd (split_on CHR ''/'' (base @ c)) = hd (split_on CHR ''/'' base)"
      using a calculation split_on_ends [of "CHR ''/''" a] by simp
    moreover have "is_absolute (base @ c) = is_absolute base" by (simp add: b is_absolute_Cons)
    ultimately show ?thesis
      using True assms a c_comp split_on_ends [of "CHR ''/''" a]
      by (simp add: path_push_def path_join_def path_components_def Let_def)
  next
    case False
    have s: "split_on CHR ''/'' (base @ CHR ''/'' # c) = split_on CHR ''/'' base @ split_on CHR ''/'' c"
      by (rule split_on_append_pieces)
    moreover have "is_absolute (base @ CHR ''/'' # c) = is_absolute base" by (simp add: b is_absolute_Cons)
    ultimately show ?thesis
      using False assms c_comp
      by (simp add: path_push_def path_join_def path_components_def Let_def)
  qed
qed

text \<open>A path handed out for a component lies below the mission root: its components are those
  of the root followed by plain names only. Exactly the absolute components and those that
  climb with two dots are refused, as invalid arguments.\<close>

theorem mission_dir_confined:
  "case mission_dir env c of
     Inr p \<Rightarrow> \<exists>names. path_components p =
         path_components (env_override env env_mission_root mission_root) @ map Normal names
   | Inl e \<Rightarrow> ce_code e = EC_InvalidArgument
       \<and> (is_absolute c \<or> ParentDir \<in> set (path_components c))"
proof (cases "is_absolute c \<or> ParentDir \<in> set (path_components c)")
  case True
  then show ?thesis using component_cases [of c] by (auto simp: mission_dir_def)
next
  case False
  let ?root = "env_override env env_mission_root mission_root"
  have "?root \<noteq> []" by (auto simp: env_override_def mission_root_def split: option.splits)
  then have "path_components (path_push ?root c) =
      path_components ?root @ filter (\<lambda>s. s \<noteq> CurDir) (path_components c)"
    using False by (simp add: components_join)
  moreover have "\<exists>names. filter (\<lambda>s. s \<noteq> CurDir) (path_components c) = map Normal names"
  proof -
    have "\<forall>s\<in>set (filter (\<lambda>s. s \<noteq> CurDir) (path_components c)). \<exists>n. s = Normal n"
      using False by (auto simp: path_components_def Let_def split: if_splits)
    then show ?thesis by (metis ex_map_conv)
  qed
  ultimately show ?thesis using False component_cases [of c] by (auto simp: mission_dir_def)
qed

text \<open>An empty runtime variable gives a relative directory; the other user directories guard
  against it.\<close>

lemma runtime_dir_empty: "env ''XDG_RUNTIME_DIR'' = Some [] \<Longrightarrow> user_runtime_dir env = ''mission''"
  by (simp add: user_runtime_dir_def path_push_def is_absolute_def path_join_def)

lemma xdg_home_guard: "env v = Some [] \<Longrightarrow> xdg_home env v d = xdg_home (env(v := None)) v d"
  if "v \<noteq> ''HOME''"
  using that by (simp add: xdg_home_def)

end
