(* ===== verification/Core_Ipc.thy ===== *)
theory Core_Ipc
  imports Errors
begin

text \<open>
  The connection abstraction of the core library (ipc.rs): bus types, peers, time-outs,
  the connection configuration and the connection state machine, whose operations connect
  and disconnect without I/O. Durations are whole seconds. A debug assertion of the source
  is the argument \<open>debug\<close> of the operation that has it.
\<close>

section \<open>Buses, peers and time-outs\<close>

datatype bus_type = SystemBus | SessionBus

fun address_env_var :: "bus_type \<Rightarrow> string" where
  "address_env_var SystemBus = ''DBUS_SYSTEM_BUS_ADDRESS''"
| "address_env_var SessionBus = ''DBUS_SESSION_BUS_ADDRESS''"

fun default_address :: "bus_type \<Rightarrow> string" where
  "default_address SystemBus = ''unix:path=/var/run/dbus/system_bus_socket''"
| "default_address SessionBus = ''unix:path=/run/user/<uid>/bus''"

fun show_bus_type :: "bus_type \<Rightarrow> string" where
  "show_bus_type SystemBus = ''system''"
| "show_bus_type SessionBus = ''session''"

type_synonym peer_id = string

text \<open>\<open>None\<close> is the panic of the debug assertion.\<close>

definition peer_id_new :: "bool \<Rightarrow> string \<Rightarrow> peer_id option" where
  "peer_id_new debug i = (if debug \<and> CHR ''.'' \<notin> set i then None else Some i)"

datatype connection_state = Disconnected | Connecting | Connected | Failed | Reconnecting

definition is_ready :: "connection_state \<Rightarrow> bool" where
  "is_ready s = (s = Connected)"

definition is_failure :: "connection_state \<Rightarrow> bool" where
  "is_failure s = (s = Failed)"

fun show_connection_state :: "connection_state \<Rightarrow> string" where
  "show_connection_state Disconnected = ''disconnected''"
| "show_connection_state Connecting = ''connecting''"
| "show_connection_state Connected = ''connected''"
| "show_connection_state Failed = ''failed''"
| "show_connection_state Reconnecting = ''reconnecting''"

type_synonym timeout = u64

definition default_timeout :: timeout where "default_timeout = 30"
definition health_check_timeout :: timeout where "health_check_timeout = 5"
definition short_timeout :: timeout where "short_timeout = 2"

record connection_config =
  cn_bus_type :: bus_type
  cn_well_known_name :: "peer_id option"
  cn_timeout :: timeout
  cn_auto_reconnect :: bool

definition connection_config_new :: "bus_type \<Rightarrow> connection_config" where
  "connection_config_new b = \<lparr>cn_bus_type = b, cn_well_known_name = None,
     cn_timeout = default_timeout, cn_auto_reconnect = True\<rparr>"

definition with_name :: "connection_config \<Rightarrow> peer_id \<Rightarrow> connection_config" where
  "with_name c n = c\<lparr>cn_well_known_name := Some n\<rparr>"

definition with_timeout :: "connection_config \<Rightarrow> timeout \<Rightarrow> connection_config" where
  "with_timeout c t = c\<lparr>cn_timeout := t\<rparr>"

definition with_auto_reconnect :: "connection_config \<Rightarrow> bool \<Rightarrow> connection_config" where
  "with_auto_reconnect c b = c\<lparr>cn_auto_reconnect := b\<rparr>"

section \<open>The connection\<close>

record connection =
  co_config :: connection_config
  co_state :: connection_state

definition connection_new :: "connection_config \<Rightarrow> connection" where
  "connection_new c = \<lparr>co_config = c, co_state = Disconnected\<rparr>"

definition connection_session :: connection where
  "connection_session = connection_new (connection_config_new SessionBus)"

definition connection_system :: connection where
  "connection_system = connection_new (connection_config_new SystemBus)"

definition connect :: "connection \<Rightarrow> (core_error + unit) \<times> connection" where
  "connect c =
     (if co_state c \<in> {Disconnected, Failed} then
        (let c1 = c\<lparr>co_state := Connecting\<rparr>; c2 = c1\<lparr>co_state := Connected\<rparr> in (Ok (), c2))
      else (case co_state c of
          Connecting \<Rightarrow> (Err (core_error_new EC_Busy ''connection is already in progress''), c)
        | Connected \<Rightarrow> (Err (core_error_new EC_Busy ''already connected''), c)
        | _ \<Rightarrow> (Err (core_error_new EC_Busy ''currently reconnecting''), c)))"

definition disconnect :: "connection \<Rightarrow> (core_error + unit) \<times> connection" where
  "disconnect c = (Ok (), c\<lparr>co_state := Disconnected\<rparr>)"

definition is_connected :: "connection \<Rightarrow> bool" where
  "is_connected c = is_ready (co_state c)"

definition error_to_dbus_name :: "core_error \<Rightarrow> string" where
  "error_to_dbus_name e =
     (case ce_code e of
        EC_PermissionDenied \<Rightarrow> ''org.mission.Error.PermissionDenied''
      | EC_InvalidArgument \<Rightarrow> ''org.mission.Error.InvalidArgument''
      | EC_NotFound \<Rightarrow> ''org.mission.Error.NotFound''
      | EC_AlreadyExists \<Rightarrow> ''org.mission.Error.AlreadyExists''
      | EC_Busy \<Rightarrow> ''org.mission.Error.Busy''
      | EC_InternalError \<Rightarrow> ''org.mission.Error.InternalError''
      | EC_Timeout \<Rightarrow> ''org.mission.Error.Timeout''
      | EC_NotSupported \<Rightarrow> ''org.mission.Error.NotSupported''
      | EC_DiskFull \<Rightarrow> ''org.mission.Error.DiskFull''
      | EC_NetworkRequired \<Rightarrow> ''org.mission.Error.NetworkRequired''
      | EC_ConfigError \<Rightarrow> ''org.mission.Error.ConfigError''
      | EC_IoError \<Rightarrow> ''org.mission.Error.IoError''
      | EC_Cancelled \<Rightarrow> ''org.mission.Error.Cancelled'')"

text \<open>The default of \<open>IpcHandler::handle_call\<close>.\<close>

definition handle_call_default :: "string \<Rightarrow> string \<Rightarrow> string list \<Rightarrow> core_error + bytes" where
  "handle_call_default interface method args =
     Err (core_error_new EC_NotSupported
       (''method '' @ interface @ ''.'' @ method @ '' is not implemented''))"

section \<open>The state machine\<close>

inductive conn_step :: "connection \<Rightarrow> connection \<Rightarrow> bool" where
  "connect c = (r, c') \<Longrightarrow> conn_step c c'"
| "disconnect c = (r, c') \<Longrightarrow> conn_step c c'"

inductive_cases conn_stepE: "conn_step c c'"

inductive conn_reach :: "connection_config \<Rightarrow> connection \<Rightarrow> bool" for cfg where
  start: "conn_reach cfg (connection_new cfg)"
| step: "conn_reach cfg c \<Longrightarrow> conn_step c c' \<Longrightarrow> conn_reach cfg c'"

lemma conn_reach_inv:
  "conn_reach cfg c \<Longrightarrow> co_config c = cfg \<and> co_state c \<in> {Disconnected, Connected}"
  by (induction rule: conn_reach.induct)
    (auto simp: connection_new_def connect_def disconnect_def Let_def elim!: conn_stepE
      split: if_splits connection_state.splits)

text \<open>From a new connection only the states disconnected and connected are ever reached, the
  configuration never changes, and connecting succeeds exactly when disconnected; the
  failure and reconnection states, and so the automatic reconnection, are never used.\<close>

theorem connection_states:
  assumes "conn_reach cfg c"
  shows "co_config c = cfg \<and> co_state c \<in> {Disconnected, Connected}
     \<and> \<not> is_failure (co_state c)
     \<and> (if is_connected c
        then fst (connect c) = Err (core_error_new EC_Busy ''already connected'') \<and> snd (connect c) = c
        else fst (connect c) = Ok () \<and> is_connected (snd (connect c)))
     \<and> \<not> is_connected (snd (disconnect c))"
  using conn_reach_inv [OF assms]
  by (auto simp: is_failure_def is_connected_def is_ready_def connect_def disconnect_def Let_def)

lemma connection_states_witness:
  "let c = snd (connect connection_system) in conn_reach (connection_config_new SystemBus) c
     \<and> fst (connect c) = Err (core_error_new EC_Busy ''already connected'')"
proof -
  have r: "conn_reach (connection_config_new SystemBus) (snd (connect connection_system))"
    unfolding connection_system_def
    by (rule conn_reach.step [OF conn_reach.start conn_step.intros(1)]) (rule surjective_pairing)
  moreover have "is_connected (snd (connect connection_system))"
    by (simp add: connection_system_def connection_new_def connect_def is_connected_def is_ready_def Let_def)
  ultimately show ?thesis using connection_states [OF r] by (simp add: Let_def)
qed

lemma dbus_name_determines_code:
  "error_to_dbus_name e = error_to_dbus_name f \<longleftrightarrow> ce_code e = ce_code f"
  by (cases "ce_code e"; cases "ce_code f") (simp_all add: error_to_dbus_name_def)

end
