(* ===== verification/Core_Logging.thy ===== *)
theory Core_Logging
  imports Audit_Trail
begin

text \<open>
  The logging interface of the core library (logging.rs): levels, records, the stderr
  backend and the global logger. A backend is the function from a record to the line it
  emits; the output is the list of emitted lines. The mutex of the logger is poisoned
  exactly when a backend panicked under it, which is the flag of the state. Levels are the
  \<open>log_level\<close> the audit trail maps to.
\<close>

section \<open>Levels and records\<close>

fun level_as_str :: "log_level \<Rightarrow> string" where
  "level_as_str LError = ''ERROR''"
| "level_as_str LWarn = ''WARN''"
| "level_as_str LInfo = ''INFO''"
| "level_as_str LDebug = ''DEBUG''"
| "level_as_str LTrace = ''TRACE''"

definition parse_level :: "string \<Rightarrow> log_level option" where
  "parse_level s =
     (let l = to_lowercase s in
      if l = ''error'' then Some LError
      else if l = ''warn'' \<or> l = ''warning'' then Some LWarn
      else if l = ''info'' then Some LInfo
      else if l = ''debug'' then Some LDebug
      else if l = ''trace'' then Some LTrace
      else None)"

definition level_from_str :: "string \<Rightarrow> string + log_level" where
  "level_from_str s =
     (case parse_level s of Some l \<Rightarrow> Ok l | None \<Rightarrow> Err (''unknown log level: '' @ s))"

record log_record =
  lr_level :: log_level
  lr_message :: string
  lr_module :: string
  lr_fields :: "(string \<times> string) list"

definition log_record_new :: "log_level \<Rightarrow> string \<Rightarrow> string \<Rightarrow> log_record" where
  "log_record_new l m src = \<lparr>lr_level = l, lr_message = m, lr_module = src, lr_fields = []\<rparr>"

definition with_field :: "log_record \<Rightarrow> string \<Rightarrow> string \<Rightarrow> log_record" where
  "with_field r k v = r\<lparr>lr_fields := lr_fields r @ [(k, v)]\<rparr>"

text \<open>The line of the stderr backend.\<close>

definition stderr_line :: "log_record \<Rightarrow> string" where
  "stderr_line r =
     ''['' @ level_as_str (lr_level r) @ ''] '' @ lr_module r @ '': '' @ lr_message r
     @ (if lr_fields r = [] then ''''
        else '' {'' @ join '', '' (map (\<lambda>(k, v). k @ ''='' @ v) (lr_fields r)) @ ''}'')"

section \<open>The global logger\<close>

type_synonym log_backend = "log_record \<Rightarrow> string"

datatype logger_state = Uninitialized | Initialized log_backend log_level

record logger =
  lo_poisoned :: bool
  lo_state :: logger_state
  lo_output :: "string list"

definition logger_start :: logger where
  "logger_start = \<lparr>lo_poisoned = False, lo_state = Uninitialized, lo_output = []\<rparr>"

definition em_dash :: string where
  "em_dash = [CHR 0xE2, CHR 0x80, CHR 0x94]"

definition init_with :: "log_backend \<Rightarrow> log_level \<Rightarrow> bool \<Rightarrow> logger \<Rightarrow> (core_error + unit) \<times> logger" where
  "init_with backend level force g =
     (if lo_poisoned g then
        (Err (core_error_new EC_InternalError (''logger mutex poisoned '' @ em_dash @ '' this is a bug'')), g)
      else (case lo_state g of
          Uninitialized \<Rightarrow> (Ok (), g\<lparr>lo_state := Initialized backend level\<rparr>)
        | Initialized _ _ \<Rightarrow>
            if force then (Ok (), g\<lparr>lo_state := Initialized backend level\<rparr>)
            else (Err (core_error_new EC_Busy
                   ''logger is already initialized; use init_force to replace''), g)))"

definition log_init :: "log_backend \<Rightarrow> log_level \<Rightarrow> logger \<Rightarrow> (core_error + unit) \<times> logger" where
  "log_init backend level = init_with backend level False"

definition log_init_force :: "log_backend \<Rightarrow> log_level \<Rightarrow> logger \<Rightarrow> (core_error + unit) \<times> logger" where
  "log_init_force backend level = init_with backend level True"

definition log_emit :: "log_record \<Rightarrow> logger \<Rightarrow> logger" where
  "log_emit r g =
     (if lo_poisoned g then g
      else (case lo_state g of
          Uninitialized \<Rightarrow> g
        | Initialized backend filter_level \<Rightarrow>
            if level_rank (lr_level r) \<le> level_rank filter_level
            then g\<lparr>lo_output := lo_output g @ [backend r]\<rparr> else g))"

definition set_level :: "log_level \<Rightarrow> logger \<Rightarrow> (core_error + unit) \<times> logger" where
  "set_level level g =
     (if lo_poisoned g then
        (Err (core_error_new EC_InternalError (''logger mutex poisoned '' @ em_dash @ '' cannot set level'')), g)
      else (case lo_state g of
          Initialized backend _ \<Rightarrow> (Ok (), g\<lparr>lo_state := Initialized backend level\<rparr>)
        | Uninitialized \<Rightarrow>
            (Err (core_error_new EC_Busy (''logger is not initialized '' @ em_dash @ '' cannot set level'')), g)))"

definition is_initialized :: "logger \<Rightarrow> bool" where
  "is_initialized g =
     (\<not> lo_poisoned g \<and> (case lo_state g of Initialized _ _ \<Rightarrow> True | Uninitialized \<Rightarrow> False))"

section \<open>What is emitted\<close>

lemma parse_level_as_str: "parse_level (level_as_str l) = Some l"
  by (cases l) (simp_all add: parse_level_def to_lowercase_def to_lower_char_def byte_of_def
      char_of_def bit_0)

lemma emit_fold:
  "\<not> lo_poisoned g \<Longrightarrow> lo_state g = Initialized b lim \<Longrightarrow>
     fold log_emit rs g = g\<lparr>lo_output := lo_output g
       @ map b (filter (\<lambda>r. level_rank (lr_level r) \<le> level_rank lim) rs)\<rparr>"
  by (induction rs arbitrary: g) (simp_all add: log_emit_def)

lemma emit_fold_silent:
  "\<not> is_initialized g \<Longrightarrow> fold log_emit rs g = g"
proof (induction rs arbitrary: g)
  case (Cons r rs)
  then have "log_emit r g = g"
    by (auto simp: log_emit_def is_initialized_def split: logger_state.splits)
  then show ?case using Cons by simp
qed simp

text \<open>Before initialization every record is dropped. The first initialization wins: a second one
  without force is refused and changes nothing. After it exactly the records at least as
  severe as the threshold come out, in order, and lowering the threshold at run time applies
  to all later records.\<close>

theorem logger_emits:
  "fold log_emit rs logger_start = logger_start
   \<and> (let g = snd (log_init b lim logger_start)
      in fst (log_init b lim logger_start) = Ok ()
         \<and> snd (log_init b' lim' g) = g \<and> \<not> is_ok (fst (log_init b' lim' g))
         \<and> lo_output (fold log_emit rs g) =
             map b (filter (\<lambda>r. level_rank (lr_level r) \<le> level_rank lim) rs)
         \<and> lo_output (fold log_emit rs' (snd (set_level lim' (fold log_emit rs g)))) =
             map b (filter (\<lambda>r. level_rank (lr_level r) \<le> level_rank lim) rs
               @ filter (\<lambda>r. level_rank (lr_level r) \<le> level_rank lim') rs'))"
proof -
  have silent: "fold log_emit rs logger_start = logger_start"
    by (rule emit_fold_silent) (simp add: is_initialized_def logger_start_def)
  let ?g = "\<lparr>lo_poisoned = False, lo_state = Initialized b lim, lo_output = []\<rparr>"
  have g: "log_init b lim logger_start = (Ok (), ?g)"
    by (simp add: log_init_def init_with_def logger_start_def)
  have again: "snd (log_init b' lim' ?g) = ?g" "\<not> is_ok (fst (log_init b' lim' ?g))"
    by (simp_all add: log_init_def init_with_def)
  have lvl: "snd (set_level lim' \<lparr>lo_poisoned = False, lo_state = Initialized b lim, lo_output = out\<rparr>) =
      \<lparr>lo_poisoned = False, lo_state = Initialized b lim', lo_output = out\<rparr>" for out
    by (simp add: set_level_def)
  show ?thesis
    by (simp add: silent g again lvl emit_fold [of _ b lim] emit_fold [of _ b lim'])
qed

end
