(* ===== verification/Core_Sysinfo.thy ===== *)
theory Core_Sysinfo
  imports Core_Version Core_Config
begin

text \<open>
  System information of the core library (sysinfo.rs). Files are those of the store;
  running a command is the argument \<open>run\<close>, which gives the standard output of a successful
  run as text. Every reader is total: it falls back instead of failing, except for the
  memory query.
\<close>

definition strip_prefix :: "string \<Rightarrow> string \<Rightarrow> string option" where
  "strip_prefix s p = (if starts_with s p then Some (drop (length p) s) else None)"

type_synonym runner = "string \<Rightarrow> string list \<Rightarrow> string option"

record sys_env =
  sy_fs :: fs
  sy_run :: runner
  sy_arch :: string

definition read_file :: "sys_env \<Rightarrow> path \<Rightarrow> string option" where
  "read_file e p = (case fs_read_to_string (sy_fs e) p of Inr t \<Rightarrow> Some t | Inl _ \<Rightarrow> None)"

fun first_version :: "sys_env \<Rightarrow> path list \<Rightarrow> version" where
  "first_version e [] = version_new 0 1 0"
| "first_version e (p # ps) =
     (case read_file e p of
        Some contents \<Rightarrow>
          (case version_parse (trim contents) of Inr v \<Rightarrow> v | Inl _ \<Rightarrow> first_version e ps)
      | None \<Rightarrow> first_version e ps)"

definition read_version :: "sys_env \<Rightarrow> version" where
  "read_version e = first_version e
     [''/etc/mission/VERSION'', ''/usr/share/mission/VERSION'', ''/mission/VERSION'']"

definition read_uname :: "sys_env \<Rightarrow> string \<Rightarrow> string option" where
  "read_uname e flag = sy_run e ''uname'' [flag]"

definition or_else :: "'a option \<Rightarrow> 'a \<Rightarrow> 'a" where
  "or_else x d = (case x of Some v \<Rightarrow> v | None \<Rightarrow> d)"

definition read_kernel_release :: "sys_env \<Rightarrow> string" where
  "read_kernel_release e = or_else (read_uname e ''-r'') ''unknown''"

definition read_kernel_version :: "sys_env \<Rightarrow> string" where
  "read_kernel_version e = or_else (read_uname e ''-v'') ''unknown''"

definition read_hostname :: "sys_env \<Rightarrow> string" where
  "read_hostname e =
     (case read_file e ''/proc/sys/kernel/hostname'' of
        Some contents \<Rightarrow> trim contents
      | None \<Rightarrow> (case sy_run e ''hostname'' [] of Some h \<Rightarrow> trim h | None \<Rightarrow> ''localhost''))"

definition read_architecture :: "sys_env \<Rightarrow> string" where
  "read_architecture e = or_else (read_uname e ''-m'') (sy_arch e)"

definition trim_quotes :: "string \<Rightarrow> string" where
  "trim_quotes s =
     (let q = (\<lambda>c. c = CHR 0x22 \<or> c = CHR 0x27) in rev (dropWhile q (rev (dropWhile q s))))"

fun first_field :: "string \<Rightarrow> string list \<Rightarrow> string option" where
  "first_field prefix [] = None"
| "first_field prefix (l # ls) =
     (case strip_prefix (trim l) prefix of
        Some value \<Rightarrow> Some (trim_quotes value)
      | None \<Rightarrow> first_field prefix ls)"

fun os_release_in :: "sys_env \<Rightarrow> string \<Rightarrow> path list \<Rightarrow> string option" where
  "os_release_in e prefix [] = None"
| "os_release_in e prefix (p # ps) =
     (case read_file e p of
        Some contents \<Rightarrow>
          (case first_field prefix (text_lines contents) of
             Some v \<Rightarrow> Some v
           | None \<Rightarrow> os_release_in e prefix ps)
      | None \<Rightarrow> os_release_in e prefix ps)"

definition read_os_release_field :: "sys_env \<Rightarrow> string \<Rightarrow> string option" where
  "read_os_release_field e field =
     os_release_in e (field @ ''='') [''/etc/os-release'', ''/usr/lib/os-release'']"

record core_system_info =
  sf_os_version :: version
  sf_kernel_release :: string
  sf_kernel_version :: string
  sf_hostname :: string
  sf_architecture :: string
  sf_os_pretty_name :: string
  sf_os_id :: string
  sf_os_version_id :: string

definition gather :: "sys_env \<Rightarrow> core_system_info" where
  "gather e =
     \<lparr>sf_os_version = read_version e, sf_kernel_release = read_kernel_release e,
      sf_kernel_version = read_kernel_version e, sf_hostname = read_hostname e,
      sf_architecture = read_architecture e,
      sf_os_pretty_name = or_else (read_os_release_field e ''PRETTY_NAME'') ''Mission OS'',
      sf_os_id = or_else (read_os_release_field e ''ID'') ''mission-os'',
      sf_os_version_id = or_else (read_os_release_field e ''VERSION_ID'') ''0.1.0''\<rparr>"

text \<open>\<open>None\<close> is the overflow panic of a checked build. A count is a 64-bit \<open>usize\<close>.\<close>

definition checked_add1 :: "u64 \<Rightarrow> u64 option" where
  "checked_add1 n = (if unat n + 1 < 2 ^ 64 then Some (n + 1) else None)"

definition cpu_count :: "sys_env \<Rightarrow> u64 option" where
  "cpu_count e =
     (let fallback =
        (case read_file e ''/proc/cpuinfo'' of
           Some contents \<Rightarrow>
             (let n = length (filter (\<lambda>l. starts_with l ''processor'') (text_lines contents))
              in if 0 < n then Some (of_nat n) else Some 1)
         | None \<Rightarrow> Some 1)
      in case read_file e ''/sys/devices/system/cpu/online'' of
           Some contents \<Rightarrow>
             (case parse_u64 (last (split_on CHR ''-'' (last (split_on CHR '','' (trim contents))))) of
                Inr n \<Rightarrow> checked_add1 n
              | Inl _ \<Rightarrow> fallback)
         | None \<Rightarrow> fallback)"

definition checked_kib :: "u64 \<Rightarrow> u64 option" where
  "checked_kib n = (if unat n * 1024 < 2 ^ 64 then Some (n * 1024) else None)"

fun mem_total_in :: "string list \<Rightarrow> u64 option" where
  "mem_total_in [] = None"
| "mem_total_in (l # ls) =
     (case strip_prefix l ''MemTotal:'' of
        Some rest \<Rightarrow>
          (case split_whitespace rest of
             kb # _ \<Rightarrow> (case parse_u64 kb of Inr n \<Rightarrow> Some n | Inl _ \<Rightarrow> mem_total_in ls)
           | [] \<Rightarrow> mem_total_in ls)
      | None \<Rightarrow> mem_total_in ls)"

definition memory_total :: "sys_env \<Rightarrow> core_error + u64 option" where
  "memory_total e =
     (case fs_read_to_string (sy_fs e) ''/proc/meminfo'' of
        Inl (_, err) \<Rightarrow> Err (core_error_with_source EC_IoError ''failed to read /proc/meminfo'' err)
      | Inr contents \<Rightarrow>
          (case mem_total_in (text_lines contents) of
             Some kb \<Rightarrow> Ok (checked_kib kb)
           | None \<Rightarrow> Err (core_error_new EC_NotFound ''MemTotal not found in /proc/meminfo'')))"

section \<open>Facts\<close>

text \<open>The count of online processors is the highest number online plus one, not their number.\<close>

lemma online_count:
  "read_file e ''/sys/devices/system/cpu/online'' = Some s \<Longrightarrow>
   trim s = pre @ '','' @ show_u64 n \<Longrightarrow> cpu_count e = checked_add1 n"
proof -
  assume s: "read_file e ''/sys/devices/system/cpu/online'' = Some s" "trim s = pre @ '','' @ show_u64 n"
  have "CHR '','' \<notin> set (show_u64 n)"
    using show_u64_chars [of "CHR '',''" n] by (auto simp: is_ascii_digit_def byte_of_def)
  then show ?thesis
    using s by (simp add: cpu_count_def split_on_append_pieces split_on_none Let_def)
qed

text \<open>The output of \<open>uname\<close> keeps its newline, unlike the host name.\<close>

lemma kernel_release_untrimmed:
  "sy_run e ''uname'' [''-r''] = Some (r @ [CHR 0x0A]) \<Longrightarrow>
   sf_kernel_release (gather e) = r @ [CHR 0x0A]"
  by (simp add: gather_def read_kernel_release_def read_uname_def or_else_def)

end
