(* ===== verification/Audit_Sinks.thy ===== *)
theory Audit_Sinks
  imports Core_Logging Securityd
begin

text \<open>
  Where audit events end up (the backends of both audit.rs): the bootstrap backend prints
  every event, the other one hands it to the logger of the core library, whose threshold
  decides. The trail of the models is the list of recorded events; here it is related to the
  lines that come out. serde's writer is an argument, \<open>None\<close> when it fails.
\<close>

section \<open>Events as text\<close>

definition double_quoted :: "string \<Rightarrow> string" where
  "double_quoted s = [CHR 0x22] @ s @ [CHR 0x22]"

text \<open>The text written when serde fails: the action is not escaped.\<close>

definition json_failure :: "string \<Rightarrow> string" where
  "json_failure action = ''{'' @ double_quoted ''error'' @ '':''
     @ double_quoted ''serialization_failed'' @ '','' @ double_quoted ''action'' @ '':''
     @ double_quoted action @ ''}''"

definition event_to_json :: "(audit_event \<Rightarrow> string option) \<Rightarrow> audit_event \<Rightarrow> string" where
  "event_to_json to_string e =
     (case to_string e of Some s \<Rightarrow> s | None \<Rightarrow> json_failure (ev_action e))"

definition sec_event_to_json :: "(sec_event \<Rightarrow> string option) \<Rightarrow> sec_event \<Rightarrow> string" where
  "sec_event_to_json to_string e =
     (case to_string e of Some s \<Rightarrow> s | None \<Rightarrow> json_failure (sx_action e))"

section \<open>The backends\<close>

definition log_backend_record ::
  "(audit_event \<Rightarrow> string option) \<Rightarrow> audit_event \<Rightarrow> string list \<Rightarrow> string list" where
  "log_backend_record to_string e stderr = stderr @ [''[AUDIT] '' @ event_to_json to_string e]"

definition logging_backend_record ::
  "(audit_event \<Rightarrow> string option) \<Rightarrow> string \<Rightarrow> audit_event \<Rightarrow> logger \<Rightarrow> logger" where
  "logging_backend_record to_string location e g =
     (let json = event_to_json to_string e; level = audit_log_level (ev_severity e)
      in log_emit (log_record_new level (''[AUDIT] '' @ json) location) g)"

definition sec_log_backend_record ::
  "(sec_event \<Rightarrow> string option) \<Rightarrow> sec_event \<Rightarrow> string list \<Rightarrow> string list" where
  "sec_log_backend_record to_string e stderr =
     stderr @ [''[AUDIT] '' @ sec_event_to_json to_string e]"

definition sec_logging_backend_record ::
  "(sec_event \<Rightarrow> string option) \<Rightarrow> string \<Rightarrow> sec_event \<Rightarrow> logger \<Rightarrow> logger" where
  "sec_logging_backend_record to_string location e g =
     (let json = sec_event_to_json to_string e; level = audit_log_level (sx_severity e)
      in log_emit (log_record_new level (''[AUDIT] '' @ json) location) g)"

section \<open>What comes out\<close>

definition passes :: "log_level \<Rightarrow> event_severity \<Rightarrow> bool" where
  "passes lim sev = (level_rank (audit_log_level sev) \<le> level_rank lim)"

lemma fold_log_emit:
  assumes "\<And>e. f e = log_emit (mk e)"
  shows "fold f l g = fold log_emit (map mk l) g"
  using assms by (induction l arbitrary: g) simp_all

lemma initialized_start:
  "snd (log_init b lim logger_start) = \<lparr>lo_poisoned = False, lo_state = Initialized b lim, lo_output = []\<rparr>"
  by (simp add: log_init_def init_with_def logger_start_def)

lemma logger_start_silent: "fold log_emit rs logger_start = logger_start"
  by (rule emit_fold_silent) (simp add: is_initialized_def logger_start_def)

text \<open>The trail reaches the standard error completely and in order through the bootstrap
  backend. Through the logger nothing comes out before its initialization, and afterwards
  exactly the events the threshold lets pass, in order, each as one line.\<close>

theorem audit_sinks:
  "fold (log_backend_record ts) l stderr = stderr @ map (\<lambda>e. ''[AUDIT] '' @ event_to_json ts e) l
   \<and> fold (logging_backend_record ts loc) l logger_start = logger_start
   \<and> lo_output (fold (logging_backend_record ts loc) l (snd (log_init stderr_line lim logger_start))) =
       map (\<lambda>e. ''['' @ level_as_str (audit_log_level (ev_severity e)) @ ''] '' @ loc @ '': [AUDIT] ''
           @ event_to_json ts e)
         (filter (\<lambda>e. passes lim (ev_severity e)) l)"
proof -
  have f: "fold (logging_backend_record ts loc) l g = fold log_emit
      (map (\<lambda>e. log_record_new (audit_log_level (ev_severity e)) (''[AUDIT] '' @ event_to_json ts e) loc) l) g"
    for g by (rule fold_log_emit) (simp add: fun_eq_iff logging_backend_record_def Let_def)
  have "fold (log_backend_record ts) l stderr
      = stderr @ map (\<lambda>e. ''[AUDIT] '' @ event_to_json ts e) l"
    by (induction l arbitrary: stderr) (simp_all add: log_backend_record_def)
  then show ?thesis
    by (simp add: f logger_start_silent initialized_start emit_fold [of _ stderr_line lim] filter_map
        comp_def log_record_new_def stderr_line_def passes_def)
qed

text \<open>The same for securityd.\<close>

lemma sec_audit_sinks:
  "fold (sec_log_backend_record ts) l stderr =
     stderr @ map (\<lambda>e. ''[AUDIT] '' @ sec_event_to_json ts e) l"
  "fold (sec_logging_backend_record ts loc) l logger_start = logger_start"
  "lo_output (fold (sec_logging_backend_record ts loc) l (snd (log_init stderr_line lim logger_start))) =
     map (\<lambda>e. ''['' @ level_as_str (audit_log_level (sx_severity e)) @ ''] '' @ loc @ '': [AUDIT] ''
         @ sec_event_to_json ts e)
       (filter (\<lambda>e. passes lim (sx_severity e)) l)"
proof -
  have f: "fold (sec_logging_backend_record ts loc) l g = fold log_emit
      (map (\<lambda>e. log_record_new (audit_log_level (sx_severity e)) (''[AUDIT] '' @ sec_event_to_json ts e)
        loc) l) g"
    for g by (rule fold_log_emit) (simp add: fun_eq_iff sec_logging_backend_record_def Let_def)
  show "fold (sec_log_backend_record ts) l stderr =
      stderr @ map (\<lambda>e. ''[AUDIT] '' @ sec_event_to_json ts e) l"
    by (induction l arbitrary: stderr) (simp_all add: sec_log_backend_record_def)
  show "fold (sec_logging_backend_record ts loc) l logger_start = logger_start"
    "lo_output (fold (sec_logging_backend_record ts loc) l (snd (log_init stderr_line lim logger_start))) =
     map (\<lambda>e. ''['' @ level_as_str (audit_log_level (sx_severity e)) @ ''] '' @ loc @ '': [AUDIT] ''
         @ sec_event_to_json ts e)
       (filter (\<lambda>e. passes lim (sx_severity e)) l)"
    by (simp_all add: f logger_start_silent initialized_start emit_fold [of _ stderr_line lim]
        filter_map comp_def log_record_new_def stderr_line_def passes_def)
qed

text \<open>A threshold of warnings still lets every denial out but no grant; one of errors hides
  denials as well.\<close>

lemma passes_eval:
  "passes LError sev \<longleftrightarrow> SevError \<le> sev" "passes LWarn sev \<longleftrightarrow> SevWarning \<le> sev"
  "passes LInfo sev \<longleftrightarrow> SevInfo \<le> sev" "passes LDebug sev" "passes LTrace sev"
  by (cases sev; simp add: passes_def less_eq_event_severity_def)+

end
