(* ===== verification/Secure_Memory.thy ===== *)
theory Secure_Memory
  imports Crypto_Keys
begin

text \<open>
  Locked, self-erasing buffers (secure_memory.rs). The kernel's part is an argument: with
  its state 'k it answers \<open>mlock\<close> and \<open>munlock\<close> calls. A buffer is its address and its
  bytes, its flag, and every call that reaches the kernel is recorded with the bytes that
  lay in the buffer at that moment. Allocation gives an address and never fails.
\<close>

section \<open>The platform\<close>

record 'k mem_api =
  ma_supported :: bool
  ma_mlock :: "nat \<Rightarrow> nat \<Rightarrow> 'k \<Rightarrow> int \<times> 'k"
  ma_munlock :: "nat \<Rightarrow> nat \<Rightarrow> 'k \<Rightarrow> int \<times> 'k"

datatype mem_call = Mlock nat bytes int | Munlock nat bytes

record 'k memory =
  mm_kernel :: 'k
  mm_calls :: "mem_call list"

record secure_buffer =
  sb_ptr :: nat
  sb_data :: bytes
  sb_locked :: bool

text \<open>Off Unix the three functions are stubs.\<close>

definition try_lock :: "'k mem_api \<Rightarrow> nat \<Rightarrow> bytes \<Rightarrow> 'k memory \<Rightarrow> bool \<times> 'k memory" where
  "try_lock api ptr data m =
     (if \<not> ma_supported api then (False, m)
      else if data = [] then (True, m)
      else (let (ret, k) = ma_mlock api ptr (length data) (mm_kernel m)
            in (ret = 0, \<lparr>mm_kernel = k, mm_calls = mm_calls m @ [Mlock ptr data ret]\<rparr>)))"

definition try_unlock :: "'k mem_api \<Rightarrow> nat \<Rightarrow> bytes \<Rightarrow> 'k memory \<Rightarrow> 'k memory" where
  "try_unlock api ptr data m =
     (if \<not> ma_supported api then m
      else if data = [] then m
      else (let (ret, k) = ma_munlock api ptr (length data) (mm_kernel m)
            in \<lparr>mm_kernel = k, mm_calls = mm_calls m @ [Munlock ptr data]\<rparr>))"

definition is_locking_supported :: "'k mem_api \<Rightarrow> bool" where
  "is_locking_supported api = ma_supported api"

section \<open>The buffer\<close>

definition buffer_new :: "nat \<Rightarrow> nat \<Rightarrow> secure_buffer" where
  "buffer_new ptr n = \<lparr>sb_ptr = ptr, sb_data = replicate n 0, sb_locked = False\<rparr>"

definition buffer_lock ::
  "'k mem_api \<Rightarrow> secure_buffer \<Rightarrow> 'k memory \<Rightarrow> (crypto_error + unit) \<times> secure_buffer \<times> 'k memory" where
  "buffer_lock api b m =
     (if sb_locked b then (Err CeMemoryError, b, m)
      else if sb_data b = [] then (Ok (), b\<lparr>sb_locked := True\<rparr>, m)
      else (let (ok, m1) = try_lock api (sb_ptr b) (sb_data b) m
            in if ok then (Ok (), b\<lparr>sb_locked := True\<rparr>, m1) else (Err CeMemoryError, b, m1)))"

definition buffer_unlock ::
  "'k mem_api \<Rightarrow> secure_buffer \<Rightarrow> 'k memory \<Rightarrow> (crypto_error + unit) \<times> secure_buffer \<times> 'k memory" where
  "buffer_unlock api b m =
     (if \<not> sb_locked b then (Ok (), b, m)
      else (let m1 = (if sb_data b \<noteq> [] then try_unlock api (sb_ptr b) (sb_data b) m else m)
            in (Ok (), b\<lparr>sb_locked := False\<rparr>, m1)))"

text \<open>The destructor: erase, then unlock. It leaves the bytes that are freed.\<close>

definition buffer_drop :: "'k mem_api \<Rightarrow> secure_buffer \<Rightarrow> 'k memory \<Rightarrow> secure_buffer \<times> 'k memory" where
  "buffer_drop api b m =
     (let b1 = b\<lparr>sb_data := zeroize (sb_data b)\<rparr>
      in if sb_locked b1 then
           (b1\<lparr>sb_locked := False\<rparr>, try_unlock api (sb_ptr b1) (sb_data b1) m)
         else (b1, m))"

text \<open>A failed lock drops the new buffer.\<close>

definition buffer_new_locked ::
  "'k mem_api \<Rightarrow> nat \<Rightarrow> nat \<Rightarrow> 'k memory \<Rightarrow> (crypto_error + secure_buffer) \<times> 'k memory" where
  "buffer_new_locked api ptr n m =
     (case buffer_lock api (buffer_new ptr n) m of
        (Inr _, b, m1) \<Rightarrow> (Ok b, m1)
      | (Inl e, b, m1) \<Rightarrow> (Err e, snd (buffer_drop api b m1)))"

text \<open>\<open>as_mut_bytes\<close> hands out the slice: its length is fixed, its content is the caller's.\<close>

definition buffer_write :: "bytes \<Rightarrow> secure_buffer \<Rightarrow> secure_buffer" where
  "buffer_write bs b = b\<lparr>sb_data := take (length (sb_data b)) bs @ drop (length bs) (sb_data b)\<rparr>"

definition buffer_is_empty :: "secure_buffer \<Rightarrow> bool" where
  "buffer_is_empty b = (sb_data b = [])"

definition buffer_debug :: "secure_buffer \<Rightarrow> string" where
  "buffer_debug b = ''SecureBuffer { len: '' @ show_nat (length (sb_data b)) @ '', locked: ''
     @ (if sb_locked b then ''true'' else ''false'')
     @ '', data: '' @ [CHR 0x22] @ ''[REDACTED]'' @ [CHR 0x22] @ '' }''"

section \<open>The life of a buffer\<close>

datatype buffer_op = OpLock | OpUnlock | OpWrite bytes

fun buffer_step ::
  "'k mem_api \<Rightarrow> buffer_op \<Rightarrow> secure_buffer \<times> 'k memory \<Rightarrow> secure_buffer \<times> 'k memory" where
  "buffer_step api OpLock (b, m) = snd (buffer_lock api b m)"
| "buffer_step api OpUnlock (b, m) = snd (buffer_unlock api b m)"
| "buffer_step api (OpWrite bs) (b, m) = (buffer_write bs b, m)"

definition buffer_life ::
  "'k mem_api \<Rightarrow> nat \<Rightarrow> nat \<Rightarrow> buffer_op list \<Rightarrow> 'k memory \<Rightarrow> secure_buffer \<times> 'k memory" where
  "buffer_life api ptr n ops m =
     (let (b, m1) = fold (buffer_step api) ops (buffer_new ptr n, m) in buffer_drop api b m1)"

text \<open>The lock as the calls tell it: locked after the last successful \<open>mlock\<close> until \<open>munlock\<close>.\<close>

fun lock_of :: "mem_call list \<Rightarrow> bool" where
  "lock_of [] = False"
| "lock_of (c # cs) = (case c of
     Mlock _ _ r \<Rightarrow> r = 0 \<or> lock_of cs | Munlock _ _ \<Rightarrow> False)"

definition locked_after :: "mem_call list \<Rightarrow> bool" where
  "locked_after cs = lock_of (rev cs)"

lemma locked_after_simps [simp]:
  "locked_after [] = False"
  "locked_after (cs @ [Mlock p d r]) = (r = 0 \<or> locked_after cs)"
  "locked_after (cs @ [Munlock p d]) = False"
  by (simp_all add: locked_after_def)

definition buffer_inv :: "'k mem_api \<Rightarrow> nat \<Rightarrow> nat \<Rightarrow> secure_buffer \<times> 'k memory \<Rightarrow> bool" where
  "buffer_inv api ptr n bm = (sb_ptr (fst bm) = ptr \<and> length (sb_data (fst bm)) = n
     \<and> (if n \<noteq> 0 \<and> ma_supported api then sb_locked (fst bm) = locked_after (mm_calls (snd bm))
        else mm_calls (snd bm) = [] \<and> (if n \<noteq> 0 then \<not> sb_locked (fst bm) else True)))"

lemma buffer_step_inv: "buffer_inv api ptr n bm \<Longrightarrow> buffer_inv api ptr n (buffer_step api op bm)"
  by (cases bm; cases op)
    (auto simp: buffer_inv_def buffer_lock_def buffer_unlock_def buffer_write_def try_lock_def
      try_unlock_def Let_def split: prod.split if_splits)

lemma buffer_steps_inv:
  "buffer_inv api ptr n bm \<Longrightarrow> buffer_inv api ptr n (fold (buffer_step api) ops bm)"
  by (induction ops arbitrary: bm) (simp_all add: buffer_step_inv)

text \<open>C40: Whatever is written to a buffer and however it is locked and unlocked, what is freed in
  the end is all zero and nothing is left locked; if the buffer is still locked then, the
  unlocking comes last and sees only zeros. A lock is held by the kernel exactly when the
  flag says so.\<close>

theorem buffer_life_erased:
  "let (b, m) = fold (buffer_step api) ops (buffer_new ptr n, \<lparr>mm_kernel = k, mm_calls = []\<rparr>);
       (b', m') = buffer_life api ptr n ops \<lparr>mm_kernel = k, mm_calls = []\<rparr>
   in sb_data b' = replicate n 0 \<and> \<not> sb_locked b' \<and> \<not> locked_after (mm_calls m')
    \<and> mm_calls m' = mm_calls m @
        (if locked_after (mm_calls m) then [Munlock ptr (replicate n 0)] else [])"
proof -
  obtain b m where f: "fold (buffer_step api) ops (buffer_new ptr n, \<lparr>mm_kernel = k, mm_calls = []\<rparr>)
      = (b, m)" by (cases "fold (buffer_step api) ops (buffer_new ptr n, \<lparr>mm_kernel = k, mm_calls = []\<rparr>)")
  have "buffer_inv api ptr n (buffer_new ptr n, \<lparr>mm_kernel = k, mm_calls = []\<rparr>)"
    by (simp add: buffer_inv_def buffer_new_def)
  from buffer_steps_inv [OF this, of ops] f have i: "buffer_inv api ptr n (b, m)" by simp
  have d: "buffer_life api ptr n ops \<lparr>mm_kernel = k, mm_calls = []\<rparr> = buffer_drop api b m"
    by (simp add: buffer_life_def f)
  show ?thesis
    unfolding d f Let_def prod.case using i
    by (cases "sb_data b = []")
      (auto simp: buffer_drop_def zeroize_eq try_unlock_def buffer_inv_def Let_def
        split: prod.split if_splits)
qed

text \<open>A second lock is refused without a call, an unlocked buffer unlocks without one, and a
  buffer that cannot be locked at birth is not handed out.\<close>

lemma buffer_lock_twice: "sb_locked b \<Longrightarrow> buffer_lock api b m = (Err CeMemoryError, b, m)"
  by (simp add: buffer_lock_def)

lemma buffer_new_locked_Ok:
  "buffer_new_locked api ptr n m = (Ok b, m1) \<Longrightarrow>
     sb_locked b \<and> sb_data b = replicate n 0 \<and> (n = 0 \<or> ma_supported api)"
  by (auto simp: buffer_new_locked_def buffer_lock_def buffer_new_def try_lock_def Let_def
      split: prod.splits if_splits)

lemma buffer_debug_redacts:
  "length bs = length (sb_data b) \<Longrightarrow> buffer_debug (b\<lparr>sb_data := bs\<rparr>) = buffer_debug b"
  by (simp add: buffer_debug_def)

end
