(* ===== verification/Spec2Isabelle.thy ===== *)
theory Spec2Isabelle
  imports Prelude Numbers Orderings_Rust Errors Audit_Trail Authz Float64 Inventory Matching
    Matching_Score Conflict Hex Crypto Crypto_Keys Metadata Repository Manifest_Builder Source
    Selector Fs Fetch Download Cache Verification Package Kmod Execution Execution_Contract
    Execution_Properties Hwdetect Scanner Driverd_Config Dbus Driverd Driverd_Properties
    Driverd_Numbering Driverd_Polling Driverd_Kernel Driverd_Tasks Driverd_Interleaving Firewall Firewall_Policy Securityd
    Securityd_Properties Core_Version Core_Paths Core_Config Core_Ipc Core_Logging Core_Sysinfo
    Audit_Sinks Secure_Memory Processes
begin

text \<open>
  A model of the Rust code of Mission OS: two privileged system services, \<open>mission-driverd\<close>
  for hardware drivers and \<open>mission-securityd\<close> for the firewall, and the libraries
  \<open>mission-core\<close> and \<open>mission-crypto\<close> below them. All paths are under \<open>src/src/\<close>.

  \<^bold>\<open>The program.\<close> driverd answers D-Bus calls (\<open>services/driverd/src/dbus.rs\<close>). A call that
  changes something is parsed and validated, the authorizer (\<open>authz.rs\<close>) asks PolKit
  (\<open>polkit.rs\<close>), and the execution engine (\<open>execution.rs\<close>) authorizes it again, looks the
  driver up in the inventory (\<open>inventory.rs\<close>), checks conflicts (\<open>conflict.rs\<close>), verifies the
  package (\<open>verification.rs\<close>, \<open>package.rs\<close>) and loads or unloads the module (\<open>kmod.rs\<close>), with a
  rollback when that fails. The inventory is filled by a scanner over sysfs (\<open>hwdetect.rs\<close>)
  and matched against drivers (\<open>matching.rs\<close>). Packages come from sources (\<open>source.rs\<close>) described
  by signed manifests (\<open>repository.rs\<close>, \<open>metadata.rs\<close>), are selected (\<open>selector.rs\<close>), downloaded
  (\<open>fetch.rs\<close>, \<open>download.rs\<close>) and cached (\<open>cache.rs\<close>). Everything is audited (\<open>audit.rs\<close>) and
  signalled (\<open>signals.rs\<close>). securityd is built the same way around firewall rules and the
  nftables text made from them.

  \<^bold>\<open>The theories.\<close>
  \<^item> Shared: \<open>Prelude\<close> has the string and list functions of Rust's standard library,
    \<open>Numbers\<close> the decimal and hexadecimal texts of machine integers, \<open>Orderings_Rust\<close>
    comparison results, \<open>Float64\<close> the binary64 arithmetic of the scores, \<open>Hex\<close> the three hex
    decoders, \<open>Fs\<close> a file store with named failures.
  \<^item> \<open>Errors\<close> is \<open>libraries/core/src/error.rs\<close> and driverd's \<open>error.rs\<close>; \<open>Audit_Trail\<close>
    and \<open>Audit_Sinks\<close> are both \<open>audit.rs\<close>.
  \<^item> \<open>Authz\<close> is \<open>authz.rs\<close> and \<open>polkit.rs\<close>: the locale \<open>auth_decider\<close> states what an authorizer
    promises (read-only actions pass, every decision is logged, the log only grows) and is
    interpreted on the authorizer and on both PolKit checks.
  \<^item> \<open>Inventory\<close>, \<open>Matching\<close> with \<open>Matching_Score\<close>, \<open>Conflict\<close>, \<open>Hwdetect\<close> and
    \<open>Scanner\<close> are the files of these names, the scanner being the second half of \<open>inventory.rs\<close>.
  \<^item> \<open>Metadata\<close>, \<open>Repository\<close> with \<open>Manifest_Builder\<close>, \<open>Source\<close>, \<open>Selector\<close>, \<open>Fetch\<close>,
    \<open>Download\<close>, \<open>Cache\<close>, \<open>Verification\<close>, \<open>Package\<close> and \<open>Kmod\<close> are the files of these names.
  \<^item> \<open>Execution\<close> is the engine, \<open>Execution_Contract\<close> the locales \<open>driver_operation\<close> and
    \<open>committed_operation\<close> that its three operations share, with their interpretations, and
    \<open>Execution_Properties\<close> what follows for each operation and for runs.
  \<^item> \<open>Dbus\<close> has the answers and errors of D-Bus, the locale \<open>guarded_method\<close> of a method behind
    an authorization, and the start-up sequence; \<open>Driverd_Config\<close> and \<open>Driverd\<close> are
    \<open>config.rs\<close>, \<open>dbus.rs\<close>, \<open>signals.rs\<close> and \<open>main.rs\<close>. \<open>Driverd_Properties\<close> interprets the locale
    on the six privileged methods, \<open>Driverd_Numbering\<close> has the runs of the whole service,
    \<open>Driverd_Polling\<close> the hardware monitor inside it, \<open>Driverd_Kernel\<close> what reaches the kernel.
    \<open>Driverd_Tasks\<close> has the handlers and ticks as tasks, cut at their locks and awaits, and
    \<open>Driverd_Interleaving\<close> the pool of tasks whose pieces run in any order. \<open>Processes\<close> is
    what both main.rs files take from environment variables and the configuration file.
  \<^item> \<open>Firewall\<close> with \<open>Firewall_Policy\<close> are \<open>firewall.rs\<close> and \<open>nftables.rs\<close> of securityd,
    \<open>Securityd\<close> with \<open>Securityd_Properties\<close> the rest of it.
  \<^item> \<open>Core_Version\<close>, \<open>Core_Paths\<close>, \<open>Core_Config\<close>, \<open>Core_Ipc\<close>, \<open>Core_Logging\<close> and
    \<open>Core_Sysinfo\<close> are the files of \<open>libraries/core/src\<close>; \<open>Crypto\<close>, \<open>Crypto_Keys\<close> and
    \<open>Secure_Memory\<close> those of \<open>libraries/crypto/src\<close>.

  \<^bold>\<open>State and operations.\<close> A struct is a record whose fields keep the source's names behind a
  short prefix, an enum a datatype, a \<open>Result\<close> a sum with the error on the left (\<open>Ok\<close> and \<open>Err\<close>
  abbreviate its sides), a panic a value of \<open>may_panic\<close>. Integers have their width as words;
  sizes of lists are naturals. What a handler changes is threaded through: the world of the
  engine holds the files, the kernel, the sequence counter, the tracker, the inventory and
  the audit log; the state of driverd adds the monitor and the signals sent. A handler is one
  step of the sequential runs, with arbitrary changes of files and kernel between the steps
  (\<open>driverd_run\<close>, \<open>engine_run\<close>). In the code handlers overlap and only their pieces are atomic,
  so the pool of tasks (\<open>pool_run\<close>) starts them at any time and runs one piece per move: an
  authorization with its audit event, one recorded event, one section under the mutex of the
  inventory (an engine operation is one), one number from the counter, one signal given to the
  bus. A task that runs alone is its handler. What is still coarser than the code: a task has
  one reading of the clock, an authorization is one piece though it waits for PolKit and always
  gets its answer, the clearing of the cache is one piece, and the outside changes files only
  between pieces. The runs begin at the first \<open>HealthChanged\<close>, which follows the start-up
  (connect, scan, register, request the name) directly; a call that zbus serves between the
  registration and that signal is not among them.

  \<^bold>\<open>Interfaces.\<close> \<open>auth_decider\<close> (Authz), \<open>digest_store\<close> (Cache), \<open>source_lookup\<close> (Source),
  \<open>guarded_method\<close> (Dbus), \<open>driver_operation\<close> and \<open>committed_operation\<close> (Execution_Contract), and
  \<open>preorder_cmp\<close> with \<open>total_cmp\<close> (Orderings_Rust) for the comparison functions that sorting
  and ranking use. Each is interpreted on the model of the code that provides it.

  \<^bold>\<open>What the lemmas show.\<close> Authorization fails closed, at the level of a decision, of an engine
  operation, of a request and of a sequence of requests, and in this theory from a change of
  the kernel back to its cause. Operations complete exactly under stated conditions and
  otherwise restore the inventory. What is downloaded, cached, staged or accepted as a
  manifest has the digest or signature it must have. Parsers and printers are inverse where
  they should be, limits and windows hold, with wrap-around and saturation written out, loops
  end, and both services number their signals upwards from start-up over every run: securityd
  without a gap, driverd with gaps, the numbers being drawn by operations, too. For driverd
  this is stated of the 64-bit numbers under a bound on the length of the run below which the
  counter cannot wrap. When calls overlap, the numbers stay distinct under such a bound and
  every invariant but their order remains. Where the code does less than its comments say,
  the theorem states what it does.

  \<^bold>\<open>Arguments of the model.\<close> The hash functions and Ed25519, serde's readers and writers, TOML,
  the HTTP client, PolKit's answers, sysfs, the kernel's module calls, the entropy source,
  memory locking, the clock and the environment are arguments of the definitions that use
  them; a theorem that needs one of their laws names it as a hypothesis (\<open>ed25519_law\<close>,
  \<open>incremental_law\<close>, \<open>hashes_law\<close>) and has a witness with a concrete function.

  \<^bold>\<open>Bounds.\<close> No definition uses fuel: loops recurse over the data or have a measure, the bytes
  left in \<open>Fetch\<close> and the attempts left in the retry loop of \<open>Download\<close>. \<open>Float64\<close> represents a double as a
  multiple of \<open>2 ^ -58\<close>, enough for every constant of the scores, and rounds sums to 53 bits.

  \<^bold>\<open>Not modelled.\<close> Derived serde code and the JSON and TOML texts themselves, since only their
  readers and writers know them; the sleep between download attempts, which nothing observes
  (its length is modelled); the capture of source positions by the logging macros;
  the schedulers of tokio and zbus, for which any order of the pieces stands; overlapping calls
  of securityd, whose handlers only append to the trail and to the signals; accessors that only return a field; and the stubs for other platforms than
  Linux, except for memory locking. The shell scripts, build files and documents of the
  repository are not Rust code of the services.
\<close>

section \<open>From the bus to the kernel\<close>

text \<open>C2: When a step of the service as \<open>main\<close> builds it changes the kernel, and no outside change
  did, it handled an installation, removal or update that parsed and was valid; the bypass
  was on or PolKit, reached over the running connection, answered yes to this action for
  this caller; the inventory had the driver; and for an installation its package had a
  valid signature, unless its kind is not verified or the bypass, which also waives
  signatures, was on. No tick, query, scan or cache operation ever reaches the kernel.\<close>

theorem driverd_kernel_guarded:
  fixes s :: "'k driverd_state" and parse conn bypass config detected f
  defines "app \<equiv> driverd_app_new parse conn bypass config detected f"
  assumes "w_kernel (dv_world (driverd_step app (env, e) s)) \<noteq> w_kernel (dv_world s)"
  shows "(\<exists>g k. e = Outside g k) \<or> (\<exists>p caller. e = CallPrivileged p caller
    \<and> (bypass \<or> xe_runtime (dn_exec env)
         \<and> (\<exists>ch. conn (polkit_request_for (privileged_action p) caller) = Reply True ch))
    \<and> (case p of
         InstallCall j \<Rightarrow> \<exists>q d. dn_parse_install env j = Inr q \<and> install_request_validate q = Ok ()
           \<and> find_driver (w_inventory (dv_world s)) (ir_driver_name q) (ir_provider q) = Some d
           \<and> (bypass \<or> di_module_type (de_id d) \<in> {Userspace, DeviceTreeOverlay}
              \<or> sg_outcome (check_package (xe_crypto (dn_exec env)) (en_verifier (ap_engine app))
                  (w_fs (dv_world s)) (find_package_path (ap_engine app) (w_fs (dv_world s)) d)
                  (read_package_signature (ap_engine app) (w_fs (dv_world s)) d) None) = VValid)
       | RemoveCall j \<Rightarrow> \<exists>q d. dn_parse_remove env j = Inr q \<and> remove_request_validate q = Ok ()
           \<and> List.find (by_name (rr_driver_name q)) (inv_drivers (w_inventory (dv_world s))) = Some d
       | UpdateCall j \<Rightarrow> \<exists>q d. dn_parse_update env j = Inr q \<and> update_request_validate q = Ok ()
           \<and> List.find (by_name (ur_driver_name q)) (inv_drivers (w_inventory (dv_world s))) = Some d
       | _ \<Rightarrow> False))"
proof (cases "\<exists>g k. e = Outside g k")
  case False
  then obtain p c where e: "e = CallPrivileged p c"
    and k: "kernel_of (snd (privileged_call env app p c s)) \<noteq> kernel_of s"
    using step_kernel [OF assms(2)] by blast
  from privileged_kernel [OF k] obtain cmd d where
    p: "app_permits env app (privileged_action p) c" and
    a: "asks env p c (w_inventory (dv_world s)) cmd"
      "admitted (dn_exec env) (ap_engine app) cmd (dv_world s) d" by blast
  have "bypass \<or> xe_runtime (dn_exec env)
      \<and> (\<exists>ch. conn (polkit_request_for (privileged_action p) c) = Reply True ch)"
    using p app_new_permits [OF privileged_not_read_only] unfolding app_def by blast
  moreover have "en_allow_unsigned (ap_engine app) = bypass" by (simp add: app_def)
  ultimately show ?thesis
    using a e by (cases p) (auto simp: install_admitted_def remove_admitted_def update_admitted_def
        package_passes_def)
qed simp

lemma driverd_kernel_guarded_witness:
  "w_kernel (dv_world (driverd_step sample_main_app
      (sample_remove_env, CallPrivileged (RemoveCall ''{}'') '':1.7'') sample_state)) = []
   \<and> (\<exists>ch. answering_conn '':1.7'' (polkit_request_for RemoveDriver '':1.7'') = Reply True ch)"
proof -
  let ?step = "driverd_step sample_main_app
      (sample_remove_env, CallPrivileged (RemoveCall ''{}'') '':1.7'') sample_state"
  have x [simp]: "dn_exec sample_remove_env = sample_env"
    by (simp add: sample_remove_env_def sample_driverd_env_def)
  obtain b s1 where k: "check_caller sample_remove_env sample_main_app RemoveDriver '':1.7'' sample_state
      = (b, s1)"
    by (cases "check_caller sample_remove_env sample_main_app RemoveDriver '':1.7'' sample_state")
  have b
    unfolding check_caller_facts(1) [OF k]
    by (subst app_new_permits) (simp_all add: is_read_only_def sample_env_def)
  then have k: "check_caller sample_remove_env sample_main_app RemoveDriver '':1.7'' sample_state = (True, s1)"
    using k by simp
  have q: "dn_parse_remove sample_remove_env ''{}'' = Inr sample_remove"
    "remove_request_validate sample_remove = Ok ()"
    by (simp_all add: sample_remove_env_def sample_remove_def remove_request_validate_def parse_eval)
  note same = kernel_check [OF k]
  have t: "w_tracker (dv_world s1) = []" using check_caller_facts(2) [OF k] by auto
  obtain r w where w: "remove_driver sample_env (ap_engine sample_main_app) sample_remove '':1.7''
      (dv_world (audit_emit sample_remove_env DriverRemove ''driver_remove_requested'' '':1.7''
        (''Driver '' @ quoted (rr_driver_name sample_remove) @ '' removal requested'') s1)) = (r, w)"
    by (cases "remove_driver sample_env (ap_engine sample_main_app) sample_remove '':1.7''
      (dv_world (audit_emit sample_remove_env DriverRemove ''driver_remove_requested'' '':1.7''
        (''Driver '' @ quoted (rr_driver_name sample_remove) @ '' removal requested'') s1))")
  have "w_kernel w = []"
    using sample_main_removes [of "dv_world (audit_emit sample_remove_env DriverRemove
        ''driver_remove_requested'' '':1.7'' (''Driver '' @ quoted (rr_driver_name sample_remove)
        @ '' removal requested'') s1)"] w same t
    by (simp add: sample_state_def)
  then have s: "kernel_of ?step = []"
    using remove_allowed [OF q k refl, of r w] w by simp
  moreover have "kernel_of ?step \<noteq> kernel_of sample_state"
    unfolding s by (simp add: sample_state_def sample_world_def)
  note driverd_kernel_guarded [OF this]
  ultimately show ?thesis by auto
qed

end
